(* ===== verification/Js_Prelude.thy ===== *)
theory Js_Prelude
  imports Complex_Main "HOL-Library.Multiset" "HOL-Library.AList"
begin

section \<open>The parts of JavaScript the control plane relies on\<close>

text \<open>
  The shared vocabulary of the development: JavaScript strings, nullish values, insertion-ordered
  maps and sets, comparator sorts and double-precision integers, as far as the modelled TypeScript
  uses them.

  A string is a list of characters, one per UTF-16 code unit below 256. A value that may be
  \<^verbatim>\<open>null\<close> or \<^verbatim>\<open>undefined\<close> is an \<^typ>\<open>'a option\<close>; the two are told apart only where the code does.
  A \<^verbatim>\<open>Map\<close> is an association list with distinct keys in insertion order, a \<^verbatim>\<open>Set\<close> a distinct list in
  insertion order, and \<^verbatim>\<open>Array.prototype.sort\<close> is the stable sort the language prescribes.
\<close>

named_theorems phase_simps "unfoldings of the phase tables and phase predicates"
named_theorems doc_simps "unfoldings of the document transformers of a run"
named_theorems bridge_simps "unfoldings of the bridge validators"
named_theorems ledger_simps "unfoldings of the reservation ledger"

subsection \<open>Nullish values\<close>

definition coalesce :: "'a option \<Rightarrow> 'a \<Rightarrow> 'a" where
  "coalesce a b = (case a of None \<Rightarrow> b | Some x \<Rightarrow> x)"

definition coalesce_opt :: "'a option \<Rightarrow> 'a option \<Rightarrow> 'a option" where
  "coalesce_opt a b = (case a of None \<Rightarrow> b | Some x \<Rightarrow> Some x)"

lemma coalesce_simps [simp]:
  "coalesce None b = b" "coalesce (Some x) b = x"
  "coalesce_opt None c = c" "coalesce_opt (Some x) c = Some x"
  by (simp_all add: coalesce_def coalesce_opt_def)

text \<open>The operator \<^verbatim>\<open>||\<close> on strings: the empty string is falsy.\<close>

definition or_string :: "string \<Rightarrow> string \<Rightarrow> string" where
  "or_string a b = (if a = [] then b else a)"

definition or_null :: "string \<Rightarrow> string option" where
  "or_null a = (if a = [] then None else Some a)"

text \<open>A nullable string is truthy when it is present and not empty.\<close>

definition truthy :: "string option \<Rightarrow> bool" where
  "truthy a = (case a of None \<Rightarrow> False | Some s \<Rightarrow> s \<noteq> [])"

lemma or_string_simps [simp]:
  "or_string [] b = b" "a \<noteq> [] \<Longrightarrow> or_string a b = a" "or_string (c # s) b = c # s"
  by (simp_all add: or_string_def)

lemma or_string_eq_Nil [simp]: "or_string a b = [] \<longleftrightarrow> a = [] \<and> b = []"
  by (simp add: or_string_def)

lemma or_string_idem [simp]: "or_string (or_string a b) b = or_string a b"
  by (simp add: or_string_def)

lemma or_null_simps [simp]:
  "or_null [] = None" "a \<noteq> [] \<Longrightarrow> or_null a = Some a"
  by (simp_all add: or_null_def)

lemma or_null_Some_iff: "or_null a = Some b \<longleftrightarrow> b = a \<and> a \<noteq> []"
  by (auto simp: or_null_def)

lemma truthy_simps [simp]:
  "\<not> truthy None" "truthy (Some s) \<longleftrightarrow> s \<noteq> []"
  by (simp_all add: truthy_def)

lemma truthy_or_null [simp]: "truthy (or_null s) \<longleftrightarrow> s \<noteq> []"
  by (cases "s = []") simp_all

subsection \<open>Strings\<close>

text \<open>
  \<^verbatim>\<open>String.prototype.trim\<close> strips white space and line terminators: TAB, LF, VT, FF, CR, SP and the
  no-break space among the code units below 256.
\<close>

definition js_ws :: "char \<Rightarrow> bool" where
  "js_ws c \<longleftrightarrow> c \<in> {CHR 0x09, CHR 0x0A, CHR 0x0B, CHR 0x0C, CHR 0x0D, CHR 0x20, CHR 0xA0}"

definition js_trim :: "string \<Rightarrow> string" where
  "js_trim s = rev (dropWhile js_ws (rev (dropWhile js_ws s)))"

definition js_lower_char :: "char \<Rightarrow> char" where
  "js_lower_char c =
     (let n = of_char c :: nat in
      if 65 \<le> n \<and> n \<le> 90 \<or> 192 \<le> n \<and> n \<le> 222 \<and> n \<noteq> 215 then char_of (n + 32) else c)"

definition js_lower :: "string \<Rightarrow> string" where
  "js_lower s = map js_lower_char s"

lemma dropWhile_id: "(xs \<noteq> [] \<Longrightarrow> \<not> P (hd xs)) \<Longrightarrow> dropWhile P xs = xs"
  by (cases xs) auto

lemma hd_dropWhile_not: "dropWhile P xs \<noteq> [] \<Longrightarrow> \<not> P (hd (dropWhile P xs))"
  by (rule hd_dropWhile)

lemma js_trim_Nil [simp]: "js_trim [] = []"
  by (simp add: js_trim_def)

lemma js_trim_eq_Nil_iff: "js_trim s = [] \<longleftrightarrow> (\<forall>c \<in> set s. js_ws c)"
proof (cases "dropWhile js_ws s")
  case Nil
  then have "\<forall>c \<in> set s. js_ws c" by (simp only: dropWhile_eq_Nil_conv)
  moreover have "js_trim s = []" unfolding js_trim_def Nil by simp
  ultimately show ?thesis by simp
next
  case (Cons c cs)
  have "\<not> js_ws c" using hd_dropWhile_not [of js_ws s] Cons by simp
  moreover have "c \<in> set s" using Cons by (metis list.set_intros(1) set_dropWhileD)
  moreover have "dropWhile js_ws (rev (c # cs)) \<noteq> []"
    using calculation(1) by (auto simp: dropWhile_eq_Nil_conv)
  ultimately show ?thesis using Cons by (auto simp: js_trim_def)
qed

lemma js_trim_hd:
  assumes ne: "js_trim s \<noteq> []"
  shows "\<not> js_ws (hd (js_trim s))"
proof -
  let ?d = "dropWhile js_ws s"
  have d: "?d \<noteq> []"
  proof
    assume e: "?d = []"
    have "js_trim s = []" unfolding js_trim_def e by simp
    with ne show False ..
  qed
  have "?d = rev (takeWhile js_ws (rev ?d) @ dropWhile js_ws (rev ?d))"
    by (simp only: takeWhile_dropWhile_id rev_rev_ident)
  then have dec: "?d = js_trim s @ rev (takeWhile js_ws (rev ?d))"
    by (simp only: js_trim_def rev_append)
  have "hd ?d = hd (js_trim s)" using ne by (metis dec hd_append2)
  then show ?thesis using hd_dropWhile_not [OF d] by simp
qed

lemma js_trim_last: "js_trim s \<noteq> [] \<Longrightarrow> \<not> js_ws (last (js_trim s))"
  unfolding js_trim_def
  by (metis hd_dropWhile_not hd_rev rev_is_Nil_conv rev_rev_ident)

lemma js_trim_idem [simp]: "js_trim (js_trim s) = js_trim s"
proof (cases "js_trim s = []")
  case True
  then show ?thesis by simp
next
  case False
  have a: "dropWhile js_ws (js_trim s) = js_trim s"
    using js_trim_hd [OF False] by (rule dropWhile_id)
  have b: "dropWhile js_ws (rev (js_trim s)) = rev (js_trim s)"
    using js_trim_last [OF False] False by (intro dropWhile_id) (simp add: hd_rev)
  show ?thesis by (subst (1) js_trim_def) (simp add: a b)
qed

lemma js_trim_no_ws: "\<forall>c \<in> set s. \<not> js_ws c \<Longrightarrow> js_trim s = s"
proof -
  assume h: "\<forall>c \<in> set s. \<not> js_ws c"
  have "dropWhile js_ws s = s" using h by (intro dropWhile_id) auto
  moreover have "dropWhile js_ws (rev s) = rev s"
    using h by (intro dropWhile_id) (metis hd_in_set set_rev)
  ultimately show ?thesis by (simp add: js_trim_def)
qed

subsection \<open>Sets and maps in insertion order\<close>

text \<open>
  Spreading a \<^verbatim>\<open>Set\<close> built from an array keeps the first occurrence of every element; filtering an
  array by \<^verbatim>\<open>indexOf(x) === index\<close> keeps the same ones.
\<close>

definition js_set :: "'a list \<Rightarrow> 'a list" where
  "js_set xs = rev (remdups (rev xs))"

definition first_occurrences :: "'a list \<Rightarrow> 'a list" where
  "first_occurrences xs = map (nth xs) (filter (\<lambda>i. xs ! i \<notin> set (take i xs)) [0..<length xs])"

lemma set_js_set [simp]: "set (js_set xs) = set xs"
  by (simp add: js_set_def)

lemma distinct_js_set [simp]: "distinct (js_set xs)"
  by (simp add: js_set_def)

lemma js_set_snoc: "js_set (xs @ [x]) = (if x \<in> set xs then js_set xs else js_set xs @ [x])"
  by (simp add: js_set_def)

lemma js_set_distinct [simp]: "distinct xs \<Longrightarrow> js_set xs = xs"
  by (simp add: js_set_def distinct_remdups_id)

lemma js_set_Nil [simp]: "js_set [] = []"
  by (simp add: js_set_def)

lemma first_occurrences_eq_js_set: "first_occurrences xs = js_set xs"
proof (induction xs rule: rev_induct)
  case Nil
  then show ?case by (simp add: first_occurrences_def)
next
  case (snoc x xs)
  let ?old = "filter (\<lambda>i. xs ! i \<notin> set (take i xs)) [0..<length xs]"
  have f: "filter (\<lambda>i. (xs @ [x]) ! i \<notin> set (take i (xs @ [x]))) [0..<length xs] = ?old"
    by (rule filter_cong) (auto simp: nth_append)
  have m: "map (nth (xs @ [x])) ?old = map (nth xs) ?old"
    by (rule map_cong) (auto simp: nth_append)
  have "first_occurrences (xs @ [x]) =
        map (nth (xs @ [x])) ?old @ (if x \<in> set xs then [] else [x])"
    unfolding first_occurrences_def length_append_singleton upt_Suc_append [OF le0]
      filter_append map_append f by simp
  also have "\<dots> = first_occurrences xs @ (if x \<in> set xs then [] else [x])"
    unfolding m first_occurrences_def ..
  finally show ?case using snoc by (simp add: js_set_snoc)
qed

text \<open>
  \<^verbatim>\<open>Map.prototype.set\<close> overwrites in place or appends; this is \<^const>\<open>AList.update\<close>. Building a map
  from an array of entries sets them one after the other, so the last value of a key wins and the
  key stays where it was first inserted.
\<close>

definition js_map :: "('k \<times> 'v) list \<Rightarrow> ('k \<times> 'v) list" where
  "js_map kvs = fold (\<lambda>(k, v) m. AList.update k v m) kvs []"

lemma distinct_fold_update:
  "distinct (map fst m) \<Longrightarrow> distinct (map fst (fold (\<lambda>(k, v) m. AList.update k v m) kvs m))"
  by (induction kvs arbitrary: m) (auto simp: distinct_update)

lemma distinct_js_map [simp]: "distinct (map fst (js_map kvs))"
  by (simp add: js_map_def distinct_fold_update)

lemma map_of_fold_update:
  "map_of (fold (\<lambda>(k, v) m. AList.update k v m) kvs m) = map_of m ++ map_of (rev kvs)"
proof (induction kvs arbitrary: m)
  case (Cons kv kvs)
  then show ?case by (cases kv) (simp add: update_conv' fun_eq_iff map_add_def split: option.splits)
qed simp

lemma map_of_js_map: "map_of (js_map kvs) = map_of (rev kvs)"
  by (simp add: js_map_def map_of_fold_update)

lemma dom_js_map: "dom (map_of (js_map kvs)) = fst ` set kvs"
  by (simp add: map_of_js_map dom_map_of_conv_image_fst)

lemma fold_update_fresh:
  "distinct (map fst kvs) \<Longrightarrow> set (map fst kvs) \<inter> set (map fst m) = {} \<Longrightarrow>
   fold (\<lambda>(k, v) m. AList.update k v m) kvs m = m @ kvs"
proof (induction kvs arbitrary: m)
  case (Cons kv kvs)
  obtain k v where kv: "kv = (k, v)" by (cases kv)
  have "k \<notin> set (map fst m)" using Cons.prems kv by auto
  then have "AList.update k v m = m @ [(k, v)]"
    by (induction m) auto
  then show ?case using Cons kv by simp
qed simp

lemma js_map_distinct: "distinct (map fst kvs) \<Longrightarrow> js_map kvs = kvs"
  by (simp add: js_map_def fold_update_fresh)

lemma map_of_rev_distinct: "distinct (map fst kvs) \<Longrightarrow> map_of (rev kvs) = map_of kvs"
  by (metis js_map_distinct map_of_js_map)

subsection \<open>Sorting with a comparator\<close>

text \<open>
  \<^verbatim>\<open>Array.prototype.sort\<close> is stable, so a consistent comparator determines its result: the elements
  in comparator order, equal ones in their original order. A comparator returns a number; only its
  sign matters.
\<close>

fun js_insort :: "('a \<Rightarrow> 'a \<Rightarrow> int) \<Rightarrow> 'a \<Rightarrow> 'a list \<Rightarrow> 'a list" where
  "js_insort cmp x [] = [x]"
| "js_insort cmp x (y # ys) = (if cmp x y \<le> 0 then x # y # ys else y # js_insort cmp x ys)"

definition js_sort :: "('a \<Rightarrow> 'a \<Rightarrow> int) \<Rightarrow> 'a list \<Rightarrow> 'a list" where
  "js_sort cmp xs = foldr (js_insort cmp) xs []"

lemma mset_js_insort [simp]: "mset (js_insort cmp x xs) = add_mset x (mset xs)"
  by (induction xs) auto

lemma mset_js_sort [simp]: "mset (js_sort cmp xs) = mset xs"
  by (induction xs) (simp_all add: js_sort_def)

lemma set_js_sort [simp]: "set (js_sort cmp xs) = set xs"
  by (metis mset_js_sort set_mset_mset)

lemma length_js_sort [simp]: "length (js_sort cmp xs) = length xs"
  by (metis mset_js_sort size_mset)

lemma distinct_js_sort [simp]: "distinct (js_sort cmp xs) = distinct xs"
  by (metis mset_eq_imp_distinct_iff mset_js_sort)

lemma js_sort_eq_Nil [simp]: "js_sort cmp xs = [] \<longleftrightarrow> xs = []"
  by (metis length_0_conv length_js_sort)

lemma distinct_map_js_sort [simp]: "distinct (map f (js_sort cmp xs)) = distinct (map f xs)"
  by (metis mset_eq_imp_distinct_iff mset_js_sort mset_map)

text \<open>
  The contract of a comparator, as \<^verbatim>\<open>Array.prototype.sort\<close> asks for it. The client lemmas are what
  the callers of \<^verbatim>\<open>sort\<close> use: the result is ordered, its head is least, and sorting a sorted list
  changes nothing.
\<close>

locale consistent_comparator =
  fixes cmp :: "'a \<Rightarrow> 'a \<Rightarrow> int"
  assumes cmp_refl: "cmp x x = 0"
    and cmp_anti: "cmp x y < 0 \<longleftrightarrow> 0 < cmp y x"
    and cmp_trans: "cmp x y \<le> 0 \<Longrightarrow> cmp y z \<le> 0 \<Longrightarrow> cmp x z \<le> 0"
begin

lemma cmp_total: "cmp x y \<le> 0 \<or> cmp y x \<le> 0"
  using cmp_anti [of x y] cmp_anti [of y x] by linarith

lemma cmp_not_le: "\<not> cmp x y \<le> 0 \<Longrightarrow> cmp y x \<le> 0"
  using cmp_total by blast

lemma cmp_less_trans: "cmp x y < 0 \<Longrightarrow> cmp y z < 0 \<Longrightarrow> cmp x z < 0"
  using cmp_trans [of x y z] cmp_trans [of y z x] cmp_anti [of x y] cmp_anti [of x z] cmp_anti [of z x] by force

lemma sorted_insort:
  "sorted_wrt (\<lambda>x y. cmp x y \<le> 0) xs \<Longrightarrow> sorted_wrt (\<lambda>x y. cmp x y \<le> 0) (js_insort cmp x xs)"
proof (induction xs)
  case (Cons y ys)
  show ?case
  proof (cases "cmp x y \<le> 0")
    case True
    then show ?thesis using Cons.prems by (auto intro: cmp_trans)
  next
    case False
    then have "cmp y x \<le> 0" by (rule cmp_not_le)
    moreover have "set (js_insort cmp x ys) = insert x (set ys)"
      by (metis mset_js_insort set_mset_add_mset_insert set_mset_mset)
    ultimately show ?thesis using Cons False by auto
  qed
qed simp

lemma sorted_js_sort: "sorted_wrt (\<lambda>x y. cmp x y \<le> 0) (js_sort cmp xs)"
  by (induction xs) (simp_all add: js_sort_def sorted_insort)

lemma hd_js_sort_le: "xs \<noteq> [] \<Longrightarrow> y \<in> set xs \<Longrightarrow> cmp (hd (js_sort cmp xs)) y \<le> 0"
proof -
  assume ne: "xs \<noteq> []" and y: "y \<in> set xs"
  obtain z zs where z: "js_sort cmp xs = z # zs" using ne by (cases "js_sort cmp xs") auto
  have "y = z \<or> y \<in> set zs" using y set_js_sort [of cmp xs] unfolding z by auto
  then show ?thesis using sorted_js_sort [of xs] cmp_refl [of z] unfolding z by auto
qed

lemma js_sort_sorted: "sorted_wrt (\<lambda>x y. cmp x y \<le> 0) xs \<Longrightarrow> js_sort cmp xs = xs"
proof (induction xs)
  case (Cons x xs)
  then have "js_sort cmp xs = xs" by simp
  then have "js_sort cmp (x # xs) = js_insort cmp x xs" by (simp add: js_sort_def)
  then show ?case using Cons.prems by (cases xs) auto
qed (simp add: js_sort_def)

lemma js_sort_idem: "js_sort cmp (js_sort cmp xs) = js_sort cmp xs"
  by (rule js_sort_sorted) (rule sorted_js_sort)

lemma js_insort_filter_eq:
  "sorted_wrt (\<lambda>x y. cmp x y \<le> 0) xs \<Longrightarrow>
   filter (\<lambda>y. cmp y k = 0) (js_insort cmp x xs) = filter (\<lambda>y. cmp y k = 0) (x # xs)"
proof (induction xs)
  case (Cons y ys)
  have "cmp x y > 0 \<Longrightarrow> cmp x k = 0 \<Longrightarrow> cmp y k \<noteq> 0"
    using cmp_anti [of y k] cmp_trans [of x k y] by linarith
  then show ?case using Cons by auto
qed simp

lemma js_sort_stable: "filter (\<lambda>y. cmp y k = 0) (js_sort cmp xs) = filter (\<lambda>y. cmp y k = 0) xs"
proof (induction xs)
  case (Cons x xs)
  have "js_sort cmp (x # xs) = js_insort cmp x (js_sort cmp xs)" by (simp add: js_sort_def)
  then show ?case using Cons js_insort_filter_eq [OF sorted_js_sort, of k x xs] by simp
qed (simp add: js_sort_def)

end

text \<open>Comparing by a key, and the numeric comparator \<^verbatim>\<open>(left, right) => left - right\<close>.\<close>

definition by_key :: "('k \<Rightarrow> 'k \<Rightarrow> int) \<Rightarrow> ('a \<Rightarrow> 'k) \<Rightarrow> 'a \<Rightarrow> 'a \<Rightarrow> int" where
  "by_key cmp f x y = cmp (f x) (f y)"

definition numeric_compare :: "int \<Rightarrow> int \<Rightarrow> int" where
  "numeric_compare left right = left - right"

lemma consistent_by_key: "consistent_comparator cmp \<Longrightarrow> consistent_comparator (by_key cmp f)"
  unfolding consistent_comparator_def by_key_def by blast

interpretation numeric: consistent_comparator numeric_compare
  by unfold_locales (auto simp: numeric_compare_def)

text \<open>A comparator that falls through to a second one on a tie, as \<^verbatim>\<open>a - b || c\<close> does.\<close>

definition then_compare :: "('a \<Rightarrow> 'a \<Rightarrow> int) \<Rightarrow> ('a \<Rightarrow> 'a \<Rightarrow> int) \<Rightarrow> 'a \<Rightarrow> 'a \<Rightarrow> int" where
  "then_compare c d x y = (if c x y \<noteq> 0 then c x y else d x y)"

lemma consistent_then_compare:
  assumes "consistent_comparator c" and "consistent_comparator d"
  shows "consistent_comparator (then_compare c d)"
proof -
  note C = assms(1) [unfolded consistent_comparator_def]
  note D = assms(2) [unfolded consistent_comparator_def]
  show ?thesis
  proof
    show "then_compare c d x x = 0" for x using C D by (simp add: then_compare_def)
    show "then_compare c d x y < 0 \<longleftrightarrow> 0 < then_compare c d y x" for x y
      using C D by (smt (verit) then_compare_def)
    show "then_compare c d x z \<le> 0"
      if "then_compare c d x y \<le> 0" "then_compare c d y z \<le> 0" for x y z
      using that C D by (smt (verit) then_compare_def)
  qed
qed

end
