(* ===== verification/Js_Number.thy ===== *)
theory Js_Number
  imports Js_Prelude
begin

section \<open>Integers in double precision\<close>

text \<open>
  Every TypeScript \<^verbatim>\<open>number\<close> is an IEEE 754 double. An integer computation is exact up to
  \<open>2 ^ 53\<close> in magnitude and rounds to the nearest representable integer, ties to even, beyond.
  The model keeps integral numbers as \<^typ>\<open>int\<close> and writes the rounding of an addition out, so
  that the overflow checks of the reservation code are checks of the model too.
\<close>

definition MAX_SAFE_INTEGER :: int where
  "MAX_SAFE_INTEGER = 9007199254740991"

definition isSafeInteger :: "int \<Rightarrow> bool" where
  "isSafeInteger n \<longleftrightarrow> \<bar>n\<bar> \<le> MAX_SAFE_INTEGER"

text \<open>
  The spacing of doubles around an integer \<open>n \<ge> 0\<close> is \<open>2 ^ k\<close> with \<open>k\<close> the number of binary
  digits of \<open>n\<close> beyond 53.
\<close>

function excess_bits :: "int \<Rightarrow> nat" where
  "excess_bits n = (if n < 2 ^ 53 then 0 else Suc (excess_bits (n div 2)))"
  by auto
termination by (relation "measure nat") auto

declare excess_bits.simps [simp del]

definition round_abs :: "int \<Rightarrow> int" where
  "round_abs n =
     (let u = 2 ^ excess_bits n; q = n div u; r = n mod u in
      if 2 * r < u \<or> (2 * r = u \<and> even q) then q * u else (q + 1) * u)"

definition js_round :: "int \<Rightarrow> int" where
  "js_round z = sgn z * round_abs \<bar>z\<bar>"

definition js_add :: "int \<Rightarrow> int \<Rightarrow> int" where
  "js_add a b = js_round (a + b)"

definition js_sum :: "int list \<Rightarrow> int" where
  "js_sum xs = fold (\<lambda>x total. js_add total x) xs 0"

text \<open>
  Products of integers round like sums. The quotient of two positive integers is the rational quotient
  rounded to 53 binary digits, ties to even; it is far from the limits of the exponent.
\<close>

definition js_mul :: "int \<Rightarrow> int \<Rightarrow> int" where
  "js_mul a b = js_round (a * b)"

function bit_count :: "int \<Rightarrow> nat" where
  "bit_count n = (if n \<le> 0 then 0 else Suc (bit_count (n div 2)))"
  by auto
termination by (relation "measure nat") auto

declare bit_count.simps [simp del]

definition binary_exponent :: "rat \<Rightarrow> int" where
  "binary_exponent r =
     (if 1 \<le> r then int (bit_count \<lfloor>r\<rfloor>) - 1 else - int (bit_count (\<lceil>1 / r\<rceil> - 1)))"

definition round_half_even :: "rat \<Rightarrow> int" where
  "round_half_even r =
     (let q = \<lfloor>r\<rfloor>; d = r - of_int q in if d < 1 / 2 \<or> (d = 1 / 2 \<and> even q) then q else q + 1)"

definition js_quotient :: "int \<Rightarrow> int \<Rightarrow> rat" where
  "js_quotient a b =
     (let r = of_int a / of_int b; ulp = 2 powi (binary_exponent r - 52)
      in of_int (round_half_even (r / ulp)) * ulp)"

lemma round_half_even_nonneg: "0 \<le> r \<Longrightarrow> 0 \<le> round_half_even r"
  by (simp add: round_half_even_def Let_def)

lemma js_quotient_nonneg: "0 \<le> a \<Longrightarrow> 0 < b \<Longrightarrow> 0 \<le> js_quotient a b"
  by (simp add: js_quotient_def Let_def round_half_even_nonneg)

lemma excess_bits_small: "n < 2 ^ 53 \<Longrightarrow> excess_bits n = 0"
  by (simp add: excess_bits.simps)

lemma round_abs_small: "n < 2 ^ 53 \<Longrightarrow> round_abs n = n"
  by (simp add: round_abs_def excess_bits_small)

lemma excess_bits_lower: "2 ^ 53 \<le> n \<Longrightarrow> 2 ^ 52 * 2 ^ excess_bits n \<le> n"
proof (induction n rule: excess_bits.induct)
  case (1 n)
  then have step: "excess_bits n = Suc (excess_bits (n div 2))"
    by (subst excess_bits.simps) simp
  show ?case
  proof (cases "n div 2 < 2 ^ 53")
    case True
    then have "excess_bits n = 1" using step by (simp add: excess_bits_small)
    then show ?thesis using "1.prems" by simp
  next
    case False
    then have "2 ^ 52 * 2 ^ excess_bits (n div 2) \<le> n div 2" using 1 by simp
    then have "2 * (2 ^ 52 * 2 ^ excess_bits (n div 2)) \<le> n" by linarith
    then show ?thesis using step by (simp add: mult.left_commute)
  qed
qed

lemma excess_bits_pos: "2 ^ 53 \<le> n \<Longrightarrow> 1 \<le> excess_bits n"
  by (subst excess_bits.simps) simp

lemma round_abs_nonneg: "0 \<le> n \<Longrightarrow> 0 \<le> round_abs n"
  by (simp add: round_abs_def Let_def pos_imp_zdiv_nonneg_iff)

lemma round_abs_large:
  assumes "2 ^ 53 \<le> n"
  shows "2 ^ 53 \<le> round_abs n"
proof -
  let ?u = "2 ^ excess_bits n :: int"
  have "2 ^ 52 \<le> n div ?u"
    using excess_bits_lower [OF assms] by (simp add: zdiv_mono1 [of "2 ^ 52 * ?u" n ?u, simplified])
  then have "2 ^ 52 * ?u \<le> n div ?u * ?u" by (rule mult_right_mono) simp
  also have "\<dots> \<le> round_abs n" by (simp add: round_abs_def Let_def)
  finally have "2 ^ 52 * ?u \<le> round_abs n" .
  moreover have "(2::int) ^ 1 \<le> ?u"
    using excess_bits_pos [OF assms] by (intro power_increasing) simp_all
  ultimately show ?thesis by simp
qed

lemma js_round_small: "\<bar>z\<bar> < 2 ^ 53 \<Longrightarrow> js_round z = z"
  by (simp add: js_round_def round_abs_small sgn_if)

lemma js_round_large: "2 ^ 53 \<le> z \<Longrightarrow> 2 ^ 53 \<le> js_round z"
  using round_abs_large [of z] by (simp add: js_round_def sgn_if)

lemma isSafeInteger_iff: "isSafeInteger n \<longleftrightarrow> \<bar>n\<bar> < 2 ^ 53"
  by (simp add: isSafeInteger_def MAX_SAFE_INTEGER_def) linarith

lemma js_add_safe: "isSafeInteger (a + b) \<Longrightarrow> js_add a b = a + b"
  by (simp add: js_add_def isSafeInteger_iff js_round_small)

lemma js_add_unsafe: "0 \<le> a + b \<Longrightarrow> \<not> isSafeInteger (a + b) \<Longrightarrow> \<not> isSafeInteger (js_add a b)"
  using js_round_large [of "a + b"] by (simp add: js_add_def isSafeInteger_iff)

text \<open>
  Adding numbers that are not negative one by one is exact as long as the true sum is safe, and once the true sum
  is not safe the computed one is not safe either: a final \<^verbatim>\<open>Number.isSafeInteger\<close> test decides
  whether the computed sum is the true one.
\<close>

lemma fold_js_add_unsafe:
  "\<forall>x \<in> set xs. 0 \<le> x \<Longrightarrow> 2 ^ 53 \<le> acc \<Longrightarrow> 2 ^ 53 \<le> fold (\<lambda>x total. js_add total x) xs acc"
proof (induction xs arbitrary: acc)
  case (Cons x xs)
  have "2 ^ 53 \<le> acc + x" using Cons.prems by simp
  then have "2 ^ 53 \<le> js_add acc x" unfolding js_add_def by (rule js_round_large)
  then show ?case using Cons by simp
qed simp

lemma fold_js_add_nonneg:
  "\<forall>x \<in> set xs. 0 \<le> x \<Longrightarrow> 0 \<le> acc \<Longrightarrow> isSafeInteger acc \<Longrightarrow>
   (if isSafeInteger (acc + sum_list xs)
    then fold (\<lambda>x total. js_add total x) xs acc = acc + sum_list xs
    else 2 ^ 53 \<le> fold (\<lambda>x total. js_add total x) xs acc)"
proof (induction xs arbitrary: acc)
  case (Cons x xs)
  have pos: "0 \<le> x" and tl: "\<forall>y \<in> set xs. 0 \<le> y" using Cons.prems by auto
  have nn: "0 \<le> sum_list xs" using tl by (induction xs) auto
  show ?case
  proof (cases "isSafeInteger (acc + x)")
    case True
    then have e: "js_add acc x = acc + x" by (rule js_add_safe)
    show ?thesis using Cons.IH [OF tl _ True] Cons.prems pos by (simp add: e add.assoc split: if_splits)
  next
    case False
    then have big: "2 ^ 53 \<le> acc + x" using Cons.prems pos by (simp add: isSafeInteger_iff)
    then have "2 ^ 53 \<le> fold (\<lambda>x total. js_add total x) xs (js_add acc x)"
      using tl js_round_large [OF big] by (intro fold_js_add_unsafe) (simp_all only: js_add_def)
    then show ?thesis using big nn by (simp add: isSafeInteger_iff)
  qed
qed simp

lemma js_sum_nonneg:
  assumes "\<forall>x \<in> set xs. 0 \<le> x"
  shows "if isSafeInteger (sum_list xs) then js_sum xs = sum_list xs else 2 ^ 53 \<le> js_sum xs"
  using fold_js_add_nonneg [OF assms, of 0]
  by (auto simp: js_sum_def isSafeInteger_def MAX_SAFE_INTEGER_def split: if_splits)

lemma js_sum_pos:
  assumes "\<forall>x \<in> set xs. 0 < x"
  shows "isSafeInteger (js_sum xs) \<longleftrightarrow> isSafeInteger (sum_list xs)"
    and "isSafeInteger (sum_list xs) \<Longrightarrow> js_sum xs = sum_list xs"
proof -
  have "\<forall>x \<in> set xs. 0 \<le> x" using assms by auto
  from js_sum_nonneg [OF this]
  show "isSafeInteger (js_sum xs) \<longleftrightarrow> isSafeInteger (sum_list xs)"
    and "isSafeInteger (sum_list xs) \<Longrightarrow> js_sum xs = sum_list xs"
    by (auto simp: isSafeInteger_iff split: if_splits)
qed

lemma js_round_nonpos: "z \<le> 0 \<Longrightarrow> js_round z \<le> 0"
  by (simp add: js_round_def sgn_if round_abs_nonneg)

lemma js_add_nonneg:
  assumes "0 \<le> a" and "0 \<le> b"
  shows "if isSafeInteger (a + b) then js_add a b = a + b else 2 ^ 53 \<le> js_add a b"
  using assms js_round_large [of "a + b"] by (auto simp: js_add_safe) (simp add: js_add_def isSafeInteger_iff)

text \<open>Subtracting a total that may have overflowed from a safe capacity and cutting at zero is exact.\<close>

lemma js_headroom:
  assumes "isSafeInteger s" and "0 \<le> e"
  shows "max 0 (js_add s (- e)) = max 0 (s - e)"
proof (cases "e \<le> s")
  case True
  then have "isSafeInteger (s + - e)" using assms by (simp add: isSafeInteger_iff)
  then show ?thesis by (simp add: js_add_safe)
next
  case False
  then show ?thesis using js_round_nonpos [of "s - e"] by (simp add: js_add_def)
qed

lemma js_add_ge_0: "0 \<le> a \<Longrightarrow> 0 \<le> b \<Longrightarrow> 0 \<le> js_add a b"
  using js_add_nonneg [of a b] by (auto split: if_splits)

lemma js_sum_ge_0: "\<forall>x \<in> set xs. 0 \<le> x \<Longrightarrow> 0 \<le> js_sum xs"
  using js_sum_nonneg [of xs] sum_list_nonneg [of xs] by (auto split: if_splits)

lemma js_sum_exact: "\<forall>x \<in> set xs. 0 \<le> x \<Longrightarrow> js_sum xs < 2 ^ 53 \<Longrightarrow> js_sum xs = sum_list xs"
  using js_sum_nonneg [of xs] by (auto split: if_splits)

lemma js_add_exact: "0 \<le> a \<Longrightarrow> 0 \<le> b \<Longrightarrow> js_add a b < 2 ^ 53 \<Longrightarrow> js_add a b = a + b"
  using js_add_nonneg [of a b] by (auto split: if_splits)

end
