(* ===== verification/Json.thy ===== *)
theory Json
  imports Js_Number
begin

section \<open>JSON values\<close>

text \<open>
  The values \<^verbatim>\<open>JSON.parse\<close> returns. A number is a finite double, kept as a rational, or an infinity:
  a literal such as \<^verbatim>\<open>1e999\<close> parses to \<^verbatim>\<open>Infinity\<close>. An object is the list of its own properties in
  insertion order with distinct keys. The type \<open>jsvalue\<close> below adds \<^verbatim>\<open>undefined\<close>, the
  value of a missing property.
\<close>

datatype json =
    JNull
  | JBool bool
  | JNum rat
  | JInf bool
  | JStr string
  | JArr "json list"
  | JObj "(string \<times> json) list"

type_synonym jsvalue = "json option"

abbreviation JInt :: "int \<Rightarrow> json" where
  "JInt n \<equiv> JNum (of_int n)"

text \<open>Reading a property of an object; a missing property is \<^verbatim>\<open>undefined\<close>.\<close>

fun get_prop :: "jsvalue \<Rightarrow> string \<Rightarrow> jsvalue" where
  "get_prop (Some (JObj kvs)) k = map_of kvs k"
| "get_prop _ k = None"

fun isRecord :: "jsvalue \<Rightarrow> bool" where
  "isRecord (Some (JObj _)) = True"
| "isRecord _ = False"

fun isArray :: "jsvalue \<Rightarrow> bool" where
  "isArray (Some (JArr _)) = True"
| "isArray _ = False"

fun elements :: "jsvalue \<Rightarrow> json list" where
  "elements (Some (JArr xs)) = xs"
| "elements _ = []"

fun isBoolean :: "jsvalue \<Rightarrow> bool" where
  "isBoolean (Some (JBool _)) = True"
| "isBoolean _ = False"

fun isString :: "jsvalue \<Rightarrow> bool" where
  "isString (Some (JStr _)) = True"
| "isString _ = False"

definition isNullish :: "jsvalue \<Rightarrow> bool" where
  "isNullish v \<longleftrightarrow> v = None \<or> v = Some JNull"

fun readString :: "jsvalue \<Rightarrow> string option" where
  "readString (Some (JStr s)) = or_null (js_trim s)"
| "readString _ = None"

text \<open>The integer a value holds, if \<^verbatim>\<open>Number.isInteger\<close> accepts it.\<close>

definition integral :: "rat \<Rightarrow> bool" where
  "integral r \<longleftrightarrow> of_int \<lfloor>r\<rfloor> = r"

fun readInteger :: "jsvalue \<Rightarrow> int option" where
  "readInteger (Some (JNum r)) = (if integral r then Some \<lfloor>r\<rfloor> else None)"
| "readInteger _ = None"

definition isInteger :: "jsvalue \<Rightarrow> bool" where
  "isInteger v \<longleftrightarrow> readInteger v \<noteq> None"

definition isSafeIntegerValue :: "jsvalue \<Rightarrow> bool" where
  "isSafeIntegerValue v \<longleftrightarrow> (\<exists>n \<in> set_option (readInteger v). isSafeInteger n)"

definition isNonNegativeInteger :: "jsvalue \<Rightarrow> bool" where
  "isNonNegativeInteger v \<longleftrightarrow> (\<exists>n \<in> set_option (readInteger v). 0 \<le> n)"

definition isPositiveInteger :: "jsvalue \<Rightarrow> bool" where
  "isPositiveInteger v \<longleftrightarrow> (\<exists>n \<in> set_option (readInteger v). 0 < n)"

lemma isRecord_iff: "isRecord v \<longleftrightarrow> (\<exists>kvs. v = Some (JObj kvs))"
  by (cases v rule: isRecord.cases) auto

lemma isArray_iff: "isArray v \<longleftrightarrow> (\<exists>xs. v = Some (JArr xs))"
  by (cases v rule: isArray.cases) auto

lemma isBoolean_iff: "isBoolean v \<longleftrightarrow> (\<exists>b. v = Some (JBool b))"
  by (cases v rule: isBoolean.cases) auto

lemma isString_iff: "isString v \<longleftrightarrow> (\<exists>s. v = Some (JStr s))"
  by (cases v rule: isString.cases) auto

lemma integral_of_int [simp]: "integral (of_int n)"
  by (simp add: integral_def)

lemma integral_numeral [simp]: "integral 0" "integral 1" "integral (numeral k)"
  by (simp_all add: integral_def)

lemma readString_Some_iff:
  "readString v = Some t \<longleftrightarrow> (\<exists>s. v = Some (JStr s) \<and> t = js_trim s \<and> t \<noteq> [])"
  by (cases v rule: readString.cases) (auto simp: or_null_Some_iff)

lemma readString_trimmed: "readString v = Some t \<Longrightarrow> js_trim t = t \<and> t \<noteq> []"
  by (auto simp: readString_Some_iff)

lemma readInteger_Some_iff: "readInteger v = Some n \<longleftrightarrow> v = Some (JInt n)"
  by (cases v rule: readInteger.cases) (auto simp: integral_def)

lemma readInteger_JInt [simp]: "readInteger (Some (JInt n)) = Some n"
  by (simp add: readInteger_Some_iff)

lemma readInteger_numeral [simp]:
  "readInteger (Some (JNum 0)) = Some 0" "readInteger (Some (JNum 1)) = Some 1"
  "readInteger (Some (JNum (numeral k))) = Some (numeral k)"
  by simp_all

lemma isPositiveInteger_iff: "isPositiveInteger v \<longleftrightarrow> (\<exists>n > 0. v = Some (JInt n))"
  by (auto simp: isPositiveInteger_def readInteger_Some_iff)

lemma isNonNegativeInteger_iff: "isNonNegativeInteger v \<longleftrightarrow> (\<exists>n \<ge> 0. v = Some (JInt n))"
  by (auto simp: isNonNegativeInteger_def readInteger_Some_iff)

lemma isInteger_iff: "isInteger v \<longleftrightarrow> (\<exists>n. v = Some (JInt n))"
  by (auto simp: isInteger_def readInteger_Some_iff)

lemma isSafeIntegerValue_iff:
  "isSafeIntegerValue v \<longleftrightarrow> (\<exists>n. v = Some (JInt n) \<and> isSafeInteger n)"
  by (auto simp: isSafeIntegerValue_def readInteger_Some_iff)

lemma get_prop_isRecord: "get_prop v k = Some x \<Longrightarrow> isRecord v"
  by (cases v rule: isRecord.cases) auto

text \<open>
  Spreading an object and setting one property: the property keeps its place if it is there already,
  and is appended otherwise.
\<close>

fun set_prop :: "json \<Rightarrow> string \<Rightarrow> json \<Rightarrow> json" where
  "set_prop (JObj kvs) k v = JObj (AList.update k v kvs)"
| "set_prop j k v = j"

lemma get_set_prop:
  "get_prop (Some (set_prop (JObj kvs) k v)) k' = (if k' = k then Some v else get_prop (Some (JObj kvs)) k')"
  by (simp add: update_conv')

subsection \<open>Quoting strings\<close>

text \<open>
  The text \<^verbatim>\<open>JSON.stringify\<close> gives for a string: quotes, backslashes and control characters are escaped,
  so that the text determines the string and where it ends.
\<close>

definition hexDigit :: "nat \<Rightarrow> char" where
  "hexDigit n = (if n < 10 then char_of (48 + n) else char_of (87 + n))"

definition quoteChar :: "char \<Rightarrow> string" where
  "quoteChar c =
     (if c = CHR 0x22 then [CHR 0x5C, CHR 0x22]
      else if c = CHR 0x5C then [CHR 0x5C, CHR 0x5C]
      else if c = CHR 0x08 then [CHR 0x5C, CHR ''b'']
      else if c = CHR 0x0C then [CHR 0x5C, CHR ''f'']
      else if c = CHR 0x0A then [CHR 0x5C, CHR ''n'']
      else if c = CHR 0x0D then [CHR 0x5C, CHR ''r'']
      else if c = CHR 0x09 then [CHR 0x5C, CHR ''t'']
      else if (of_char c :: nat) < 32
      then [CHR 0x5C, CHR ''u'', CHR ''0'', CHR ''0'', hexDigit (of_char c div 16), hexDigit (of_char c mod 16)]
      else [c])"

definition jsonQuote :: "string \<Rightarrow> string" where
  "jsonQuote s = [CHR 0x22] @ concat (map quoteChar s) @ [CHR 0x22]"

definition hexValue :: "char \<Rightarrow> nat" where
  "hexValue c = (if (of_char c :: nat) < 58 then of_char c - 48 else of_char c - 87)"

text \<open>The character a quoted text starts with.\<close>

definition unquoteHead :: "string \<Rightarrow> char" where
  "unquoteHead s =
     (if s ! 0 \<noteq> CHR 0x5C then s ! 0
      else if s ! 1 = CHR ''u'' then char_of (16 * hexValue (s ! 4) + hexValue (s ! 5))
      else if s ! 1 = CHR ''b'' then CHR 0x08
      else if s ! 1 = CHR ''f'' then CHR 0x0C
      else if s ! 1 = CHR ''n'' then CHR 0x0A
      else if s ! 1 = CHR ''r'' then CHR 0x0D
      else if s ! 1 = CHR ''t'' then CHR 0x09
      else s ! 1)"

lemma hexValue_hexDigit: "n < 16 \<Longrightarrow> hexValue (hexDigit n) = n"
  by (cases "n < 10") (simp_all add: hexValue_def hexDigit_def)

lemma unquote_quoteChar: "unquoteHead (quoteChar c @ u) = c"
proof (cases "c \<in> {CHR 0x22, CHR 0x5C, CHR 0x08, CHR 0x0C, CHR 0x0A, CHR 0x0D, CHR 0x09}")
  case True
  then show ?thesis
    by (elim insertE emptyE) (simp_all add: unquoteHead_def quoteChar_def)
next
  case plain: False
  show ?thesis
  proof (cases "(of_char c :: nat) < 32")
    case True
    then have q: "quoteChar c = [CHR 0x5C, CHR ''u'', CHR ''0'', CHR ''0'',
        hexDigit (of_char c div 16), hexDigit (of_char c mod 16)]"
      using plain by (simp add: quoteChar_def)
    have "char_of (16 * (of_char c div 16) + of_char c mod 16 :: nat) = c"
      by (simp add: mult_div_mod_eq)
    moreover have "(of_char c :: nat) div 16 < 16" "(of_char c :: nat) mod 16 < 16" using True by simp_all
    ultimately show ?thesis
      by (simp add: unquoteHead_def q hexValue_hexDigit)
  next
    case False
    then have "quoteChar c = [c]" using plain by (simp add: quoteChar_def)
    then show ?thesis using plain by (simp add: unquoteHead_def)
  qed
qed

lemma quoteChar_cancel:
  assumes "quoteChar c @ u = quoteChar d @ v"
  shows "c = d \<and> u = v"
  using assms unquote_quoteChar [of c u] unquote_quoteChar [of d v] by auto

lemma quoteChar_start: "quoteChar c @ u \<noteq> CHR 0x22 # v"
  by (simp add: quoteChar_def)

lemma jsonQuote_cancel: "jsonQuote s @ t = jsonQuote s' @ t' \<longleftrightarrow> s = s' \<and> t = t'"
proof
  assume "jsonQuote s @ t = jsonQuote s' @ t'"
  then have "concat (map quoteChar s) @ CHR 0x22 # t = concat (map quoteChar s') @ CHR 0x22 # t'"
    by (simp add: jsonQuote_def)
  then show "s = s' \<and> t = t'"
  proof (induction s arbitrary: s')
    case Nil
    then show ?case
      using quoteChar_start [of "hd s'" "concat (map quoteChar (tl s')) @ CHR 0x22 # t'" t]
      by (cases s') auto
  next
    case (Cons c s)
    show ?case
    proof (cases s')
      case Nil
      then show ?thesis
        using Cons.prems quoteChar_start [of c "concat (map quoteChar s) @ CHR 0x22 # t" t'] by simp
    next
      case c': (Cons d r)
      then have "quoteChar c @ (concat (map quoteChar s) @ CHR 0x22 # t) =
          quoteChar d @ (concat (map quoteChar r) @ CHR 0x22 # t')"
        using Cons.prems by simp
      from quoteChar_cancel [OF this] show ?thesis using Cons.IH [of r] c' by simp
    qed
  qed
qed simp

end
