(* ===== verification/Js_Text.thy ===== *)
theory Js_Text
  imports Js_Number
begin

section \<open>Numbers as text\<close>

text \<open>
  \<^verbatim>\<open>Number.prototype.toString(radix)\<close> and template literals on non-negative integers, and
  \<^verbatim>\<open>String.prototype.padStart\<close>. Reading the digits back is the specification the printers are
  checked against.
\<close>

definition digit_char :: "nat \<Rightarrow> char" where
  "digit_char d = (if d < 10 then char_of (48 + d) else char_of (87 + d))"

definition char_digit :: "char \<Rightarrow> nat" where
  "char_digit c = (let n = of_char c in if n < 58 then n - 48 else n - 87)"

fun radix_string :: "nat \<Rightarrow> nat \<Rightarrow> string" where
  "radix_string b n =
     (if b < 2 \<or> n < b then [digit_char n] else radix_string b (n div b) @ [digit_char (n mod b)])"

declare radix_string.simps [simp del]

definition decimal :: "nat \<Rightarrow> string" where
  "decimal n = radix_string 10 n"

definition padStart :: "string \<Rightarrow> nat \<Rightarrow> char \<Rightarrow> string" where
  "padStart s len c = replicate (len - length s) c @ s"

definition read_radix :: "nat \<Rightarrow> string \<Rightarrow> nat" where
  "read_radix b s = foldl (\<lambda>acc c. acc * b + char_digit c) 0 s"

lemma char_digit_digit_char: "d < 16 \<Longrightarrow> char_digit (digit_char d) = d"
  by (simp add: char_digit_def digit_char_def Let_def)

lemma read_radix_append: "read_radix b (s @ [c]) = read_radix b s * b + char_digit c"
  by (simp add: read_radix_def)

lemma read_radix_string:
  "2 \<le> b \<Longrightarrow> b \<le> 16 \<Longrightarrow> read_radix b (radix_string b n) = n"
proof (induction b n rule: radix_string.induct)
  case (1 b n)
  show ?case
  proof (cases "n < b")
    case True
    then have "radix_string b n = [digit_char n]" by (subst radix_string.simps) simp
    then show ?thesis using True "1.prems" by (simp add: read_radix_def char_digit_digit_char)
  next
    case False
    then have "radix_string b n = radix_string b (n div b) @ [digit_char (n mod b)]"
      using "1.prems" by (subst radix_string.simps) simp
    moreover have "n mod b < b" using "1.prems" by simp
    then have "n mod b < 16" using "1.prems" by linarith
    moreover have "read_radix b (radix_string b (n div b)) = n div b"
      using "1.IH" "1.prems" False by simp
    ultimately show ?thesis
      by (simp add: read_radix_append char_digit_digit_char)
  qed
qed

lemma read_radix_zeros: "read_radix b (replicate k (CHR ''0'') @ s) = read_radix b s"
  by (induction k) (simp_all add: read_radix_def char_digit_def)

lemma read_radix_padStart: "read_radix b (padStart s len (CHR ''0'')) = read_radix b s"
  by (simp add: padStart_def read_radix_zeros)

lemma length_padStart: "length (padStart s len c) = max len (length s)"
  by (simp add: padStart_def)

lemma padStart_exact: "length s \<le> len \<Longrightarrow> length (padStart s len c) = len"
  by (simp add: length_padStart)

lemma radix_string_ne [simp]: "radix_string b n \<noteq> []"
  by (subst radix_string.simps) simp

lemma set_radix_string:
  "2 \<le> b \<Longrightarrow> c \<in> set (radix_string b n) \<Longrightarrow> \<exists>d < b. c = digit_char d"
proof (induction b n rule: radix_string.induct)
  case (1 b n)
  show ?case
  proof (cases "n < b")
    case True
    then have "radix_string b n = [digit_char n]" by (subst radix_string.simps) simp
    then show ?thesis using "1.prems" True by auto
  next
    case False
    then have "radix_string b n = radix_string b (n div b) @ [digit_char (n mod b)]"
      using "1.prems" by (subst radix_string.simps) simp
    then have "c \<in> set (radix_string b (n div b)) \<or> c = digit_char (n mod b)"
      using "1.prems" by auto
    moreover have "n mod b < b" using "1.prems"(1) by simp
    moreover have "c \<in> set (radix_string b (n div b)) \<Longrightarrow> ?thesis"
      using "1.IH" "1.prems"(1) False by simp
    ultimately show ?thesis by blast
  qed
qed

lemma length_radix_string: "2 \<le> b \<Longrightarrow> n < b ^ Suc k \<Longrightarrow> length (radix_string b n) \<le> Suc k"
proof (induction k arbitrary: n)
  case 0
  then show ?case by (subst radix_string.simps) simp
next
  case (Suc k)
  have "n div b < b ^ Suc k"
    using Suc.prems by (simp add: less_mult_imp_div_less mult.commute)
  then have "length (radix_string b (n div b)) \<le> Suc k" using Suc by simp
  then show ?case by (subst radix_string.simps) simp
qed

lemma read_decimal: "read_radix 10 (decimal n) = n"
  by (simp add: decimal_def read_radix_string)

lemma decimal_inj: "decimal m = decimal n \<Longrightarrow> m = n"
  by (metis read_decimal)

subsection \<open>Comparing strings by code units\<close>

text \<open>The order of \<^verbatim>\<open><\<close> on strings, as a comparator.\<close>

fun code_unit_compare :: "string \<Rightarrow> string \<Rightarrow> int" where
  "code_unit_compare [] [] = 0"
| "code_unit_compare [] (d # t) = - 1"
| "code_unit_compare (c # s) [] = 1"
| "code_unit_compare (c # s) (d # t) =
     (if c = d then code_unit_compare s t else int (of_char c) - int (of_char d))"

lemma of_char_eq_int: "int (of_char c) = int (of_char d) \<longleftrightarrow> c = d"
  by simp

interpretation code_unit: consistent_comparator code_unit_compare
proof
  show "code_unit_compare x x = 0" for x
    by (induction x) simp_all
  show "code_unit_compare x y < 0 \<longleftrightarrow> 0 < code_unit_compare y x" for x y
    by (induction x y rule: code_unit_compare.induct) auto
  show "code_unit_compare x z \<le> 0"
    if "code_unit_compare x y \<le> 0" "code_unit_compare y z \<le> 0" for x y z
    using that
  proof (induction x y arbitrary: z rule: code_unit_compare.induct)
    case (4 c s d t)
    then show ?case
    proof (cases z)
      case (Cons e u)
      have "int (of_char c) = int (of_char d) \<longleftrightarrow> c = d" "int (of_char d) = int (of_char e) \<longleftrightarrow> d = e"
        "int (of_char c) = int (of_char e) \<longleftrightarrow> c = e"
        by (simp_all only: of_char_eq_int)
      then show ?thesis using 4 Cons by (auto split: if_splits)
    qed auto
  next
    case (2 d t)
    then show ?case by (cases z) auto
  next
    case 1
    then show ?case by (cases z) auto
  qed auto
qed

end
