(* ===== verification/Bridge_V8.thy ===== *)
theory Bridge_V8
  imports Json Js_Text
begin

section \<open>The bridge protocol parser\<close>

text \<open>
  The validators that turn a frame of the host bridge into a message:
  \<^verbatim>\<open>src/apps/web/src/control-plane/bridge-v8.ts\<close>, with the slug check of
  \<^verbatim>\<open>src/apps/web/src/control-plane/image-registry/shared.ts\<close> and the version constants of
  \<^verbatim>\<open>src/apps/web/src/generated/constants.ts\<close>.

  The parser starts from the value \<^verbatim>\<open>JSON.parse\<close> returned (\<^const>\<open>None\<close> for a syntax error) and
  returns the accepted message, nothing, or the \<^verbatim>\<open>TypeError\<close> a property access on
  \<^verbatim>\<open>undefined\<close> raises: no caller of the parser catches it.
\<close>

subsection \<open>Constants\<close>

definition BRIDGE_PROTOCOL_VERSION :: int where "BRIDGE_PROTOCOL_VERSION = 8"

definition HOST_DESIRED_STATE_SCHEMA_VERSION :: int where "HOST_DESIRED_STATE_SCHEMA_VERSION = 6"

definition HOST_STATE_REPORT_SCHEMA_VERSION :: int where "HOST_STATE_REPORT_SCHEMA_VERSION = 7"

definition BUILD_REPORT_SCHEMA_VERSION :: int where "BUILD_REPORT_SCHEMA_VERSION = 1"

definition VM_REPORT_SCHEMA_VERSION :: int where "VM_REPORT_SCHEMA_VERSION = 6"

definition MESSAGE_TYPES :: "string list" where
  "MESSAGE_TYPES =
     [''client_hello'', ''server_hello'', ''desired_state'', ''state_report'', ''vm_report'',
      ''build_report'', ''sync_request'']"

definition HOST_ROLES :: "string list" where
  "HOST_ROLES = [''agent'', ''builder'']"

definition IMAGE_ARCHITECTURES :: "string list" where
  "IMAGE_ARCHITECTURES = [''x86_64'', ''aarch64'']"

definition DESIRED_VM_PHASES :: "string list" where
  "DESIRED_VM_PHASES = [''running'', ''absent'']"

definition IMAGE_CACHE_PHASES :: "string list" where
  "IMAGE_CACHE_PHASES = [''missing'', ''queued'', ''downloading'', ''ready'', ''failed'']"

definition VM_PHASES :: "string list" where
  "VM_PHASES =
     [''pending'', ''pulling_image'', ''creating_disks'', ''booting'', ''running'', ''ready'',
      ''solved'', ''stopping'', ''stopped'', ''failed'', ''absent'']"

definition PROBE_PHASES :: "string list" where
  "PROBE_PHASES = [''boot'', ''scenario'']"

definition VM_PROBE_STATUSES :: "string list" where
  "VM_PROBE_STATUSES = [''unknown'', ''pass'', ''fail'']"

definition VM_TERMINAL_STATES :: "string list" where
  "VM_TERMINAL_STATES = [''pending'', ''ready'', ''failed'']"

definition VM_ARCHIVE_PHASES :: "string list" where
  "VM_ARCHIVE_PHASES = [''none'', ''pending'', ''uploading'', ''complete'', ''failed'']"

definition BUILD_PHASES :: "string list" where
  "BUILD_PHASES =
     [''queued'', ''fetching_sources'', ''building_base'', ''building'', ''publishing'',
      ''uploading_logs'', ''succeeded'', ''failed'']"

definition SYNC_REQUEST_REASONS :: "string list" where
  "SYNC_REQUEST_REASONS = [''connect'', ''reconnect'', ''desired_version_lag'', ''operator_requested'']"

subsection \<open>Value checks\<close>

definition between :: "char \<Rightarrow> char \<Rightarrow> char \<Rightarrow> bool" where
  "between lo hi c \<longleftrightarrow> (of_char lo :: nat) \<le> of_char c \<and> (of_char c :: nat) \<le> of_char hi"

text \<open>A present string that is one of the literals after trimming.\<close>

definition readsOneOf :: "string list \<Rightarrow> jsvalue \<Rightarrow> bool" where
  "readsOneOf literals v = (case readString v of None \<Rightarrow> False | Some s \<Rightarrow> s \<in> set literals)"

definition optionally :: "(jsvalue \<Rightarrow> bool) \<Rightarrow> jsvalue \<Rightarrow> bool" where
  "optionally check v \<longleftrightarrow> isNullish v \<or> check v"

definition SHA256_HEX_RE :: "string \<Rightarrow> bool" where
  "SHA256_HEX_RE text \<longleftrightarrow>
     length text = 64 \<and>
     list_all (\<lambda>c. between CHR ''a'' CHR ''f'' c \<or> between CHR ''A'' CHR ''F'' c \<or>
                   between CHR ''0'' CHR ''9'' c) text"

definition isSha256Hex :: "jsvalue \<Rightarrow> bool" where
  "isSha256Hex v = (case readString v of None \<Rightarrow> False | Some text \<Rightarrow> SHA256_HEX_RE text)"

definition isOptionalSha256Hex :: "jsvalue \<Rightarrow> bool" where
  "isOptionalSha256Hex v = optionally isSha256Hex v"

definition isPresentString :: "jsvalue \<Rightarrow> bool" where
  "isPresentString v \<longleftrightarrow> readString v \<noteq> None"

definition isOptionalString :: "jsvalue \<Rightarrow> bool" where
  "isOptionalString v = optionally isPresentString v"

definition isOptionalNumber :: "jsvalue \<Rightarrow> bool" where
  "isOptionalNumber v = optionally isNonNegativeInteger v"

definition isOptionalInteger :: "jsvalue \<Rightarrow> bool" where
  "isOptionalInteger v = optionally isInteger v"

definition isOptionalNonNegativeInteger :: "jsvalue \<Rightarrow> bool" where
  "isOptionalNonNegativeInteger v = optionally isNonNegativeInteger v"

definition isStringArray :: "jsvalue \<Rightarrow> bool" where
  "isStringArray v \<longleftrightarrow> isArray v \<and> list_all (\<lambda>item. isString (Some item)) (elements v)"

fun isNonNegativeNumber :: "jsvalue \<Rightarrow> bool" where
  "isNonNegativeNumber (Some (JNum r)) = (0 \<le> r)"
| "isNonNegativeNumber _ = False"

definition isOptionalNonNegativeNumber :: "jsvalue \<Rightarrow> bool" where
  "isOptionalNonNegativeNumber v = optionally isNonNegativeNumber v"

definition isSafeBundleRev :: "string \<Rightarrow> bool" where
  "isSafeBundleRev val \<longleftrightarrow>
     val \<noteq> ''.'' \<and> val \<noteq> ''..'' \<and> 1 \<le> length val \<and> length val \<le> 128 \<and>
     list_all (\<lambda>c. between CHR ''A'' CHR ''Z'' c \<or> between CHR ''a'' CHR ''z'' c \<or>
                   between CHR ''0'' CHR ''9'' c \<or> c \<in> {CHR ''.'', CHR ''_'', CHR ''-''}) val"

fun isSafeSlug :: "jsvalue \<Rightarrow> bool" where
  "isSafeSlug (Some (JStr s)) = isSafeBundleRev s"
| "isSafeSlug _ = False"

definition isArrayOf :: "(jsvalue \<Rightarrow> bool) \<Rightarrow> jsvalue \<Rightarrow> bool" where
  "isArrayOf check v \<longleftrightarrow> isArray v \<and> list_all (\<lambda>item. check (Some item)) (elements v)"

subsection \<open>Desired-state payloads\<close>

definition isExecutionIdentity :: "jsvalue \<Rightarrow> bool" where
  "isExecutionIdentity v \<longleftrightarrow>
     isPresentString (get_prop v ''owner_user_id'') \<and>
     isPresentString (get_prop v ''runtime_execution_id'') \<and>
     isSafeIntegerValue (get_prop v ''generation'') \<and> isPositiveInteger (get_prop v ''generation'')"

definition isImageKeyPayload :: "jsvalue \<Rightarrow> bool" where
  "isImageKeyPayload v \<longleftrightarrow>
     isRecord v \<and> isPresentString (get_prop v ''scenario'') \<and> isPresentString (get_prop v ''vm'') \<and>
     readsOneOf IMAGE_ARCHITECTURES (get_prop v ''arch'')"

definition isOptionalImageKeyPayload :: "jsvalue \<Rightarrow> bool" where
  "isOptionalImageKeyPayload v = optionally isImageKeyPayload v"

definition isVmResourcesPayload :: "jsvalue \<Rightarrow> bool" where
  "isVmResourcesPayload v \<longleftrightarrow>
     isRecord v \<and> isPositiveInteger (get_prop v ''cpu_millis'') \<and>
     isNonNegativeInteger (get_prop v ''memory_mib'') \<and> isNonNegativeInteger (get_prop v ''disk_mib'')"

definition isDesiredCachedImagePayload :: "jsvalue \<Rightarrow> bool" where
  "isDesiredCachedImagePayload v \<longleftrightarrow>
     isRecord v \<and> isImageKeyPayload (get_prop v ''image_key'') \<and> isSha256Hex (get_prop v ''image_id'')"

definition isDesiredBuildPayload :: "jsvalue \<Rightarrow> bool" where
  "isDesiredBuildPayload v \<longleftrightarrow>
     isRecord v \<and> isPresentString (get_prop v ''build_id'') \<and>
     isPresentString (get_prop v ''scenario_id'') \<and>
     readsOneOf IMAGE_ARCHITECTURES (get_prop v ''arch'') \<and> isPresentString (get_prop v ''rev'') \<and>
     isSha256Hex (get_prop v ''content_hash'') \<and> isPresentString (get_prop v ''bundle_ref'')"

definition isDesiredSourceCompilePayload :: "jsvalue \<Rightarrow> bool" where
  "isDesiredSourceCompilePayload v \<longleftrightarrow>
     isRecord v \<and> isSafeSlug (get_prop v ''compile_id'') \<and>
     isNonNegativeInteger (get_prop v ''attempt'') \<and>
     (\<exists>n \<in> set_option (readInteger (get_prop v ''attempt'')). n \<le> 4294967295) \<and>
     isSafeSlug (get_prop v ''rev'') \<and> isBoolean (get_prop v ''validate_only'') \<and>
     get_prop v ''arch'' \<in> set (map (\<lambda>a. Some (JStr a)) IMAGE_ARCHITECTURES)"

definition isGuestToolsPayload :: "jsvalue \<Rightarrow> bool" where
  "isGuestToolsPayload v \<longleftrightarrow>
     isRecord v \<and> isSha256Hex (get_prop v ''tools_disk_sha256'') \<and>
     get_prop v ''tools_disk_size_bytes'' = Some (JInt (64 * 1024 * 1024)) \<and>
     isSha256Hex (get_prop v ''kino_sha256'') \<and> get_prop v ''bootstrap_abi'' = Some (JInt 2)"

definition isDesiredVmPayload :: "jsvalue \<Rightarrow> bool" where
  "isDesiredVmPayload v \<longleftrightarrow>
     isRecord v \<and> isExecutionIdentity v \<and> isPresentString (get_prop v ''run_id'') \<and>
     isPresentString (get_prop v ''vm_name'') \<and>
     readsOneOf DESIRED_VM_PHASES (get_prop v ''desired_phase'') \<and>
     isPresentString (get_prop v ''vm_id'') \<and> isImageKeyPayload (get_prop v ''image_key'') \<and>
     isSha256Hex (get_prop v ''image_id'') \<and> isGuestToolsPayload (get_prop v ''guest_tools'') \<and>
     isVmResourcesPayload (get_prop v ''resources'') \<and>
     isStringArray (get_prop v ''ssh_authorized_keys_openssh'') \<and>
     isInteger (get_prop v ''lease_expires_at_unix_ms'')"

subsection \<open>Report payloads\<close>

definition isVmGuestToolsPayload :: "jsvalue \<Rightarrow> bool" where
  "isVmGuestToolsPayload v \<longleftrightarrow>
     isRecord v \<and> isSha256Hex (get_prop v ''tools_disk_sha256'') \<and>
     isSha256Hex (get_prop v ''kino_sha256'') \<and> get_prop v ''bootstrap_abi'' = Some (JInt 2) \<and>
     isBoolean (get_prop v ''verified'')"

definition isOptionalVmGuestToolsPayload :: "jsvalue \<Rightarrow> bool" where
  "isOptionalVmGuestToolsPayload v = optionally isVmGuestToolsPayload v"

definition isHostCapacityPayload :: "jsvalue \<Rightarrow> bool" where
  "isHostCapacityPayload v \<longleftrightarrow>
     isRecord v \<and> isNonNegativeInteger (get_prop v ''total_cpu_millis'') \<and>
     isNonNegativeInteger (get_prop v ''reserved_cpu_millis'') \<and>
     isNonNegativeInteger (get_prop v ''schedulable_cpu_millis'') \<and>
     isNonNegativeInteger (get_prop v ''committed_cpu_millis'') \<and>
     isNonNegativeInteger (get_prop v ''memory_total_mib'') \<and>
     isNonNegativeInteger (get_prop v ''memory_available_mib'') \<and>
     isPresentString (get_prop v ''disk_probe_path'') \<and>
     isNonNegativeInteger (get_prop v ''disk_total_mib'') \<and>
     isNonNegativeInteger (get_prop v ''disk_available_mib'') \<and>
     isOptionalNonNegativeNumber (get_prop v ''load_avg_1m'') \<and>
     isOptionalNonNegativeNumber (get_prop v ''load_avg_5m'') \<and>
     isOptionalNonNegativeNumber (get_prop v ''load_avg_15m'') \<and>
     isOptionalString (get_prop v ''primary_ipv4'') \<and> isOptionalString (get_prop v ''primary_ipv6'')"

definition requiredFlags :: "string list" where
  "requiredFlags =
     [''supports_kvm'', ''supports_vsock'', ''supports_reflink'', ''supports_nftables'',
      ''supports_jailer_v2'', ''supports_template_backed_launch'', ''fast_template_store'',
      ''supports_hard_cpu_quota'', ''supports_landlock'', ''supports_cgroup_v2'']"

definition optionalFlags :: "string list" where
  "optionalFlags =
     [''supports_run_cli_v1'', ''supports_run_cli_completion_v1'', ''supports_raw_chunks_v1'',
      ''supports_scenario_guest_tools_v1'', ''supports_jailer_v3'']"

definition isHostCapabilitiesPayload :: "jsvalue \<Rightarrow> bool" where
  "isHostCapabilitiesPayload v \<longleftrightarrow>
     isRecord v \<and> readsOneOf IMAGE_ARCHITECTURES (get_prop v ''arch'') \<and>
     (get_prop v ''cloud_hypervisor_sha256'' = Some JNull \<or>
      isSha256Hex (get_prop v ''cloud_hypervisor_sha256'')) \<and>
     list_all (\<lambda>flag. isBoolean (get_prop v flag)) requiredFlags \<and>
     list_all (\<lambda>flag. get_prop v flag = None \<or> isBoolean (get_prop v flag)) optionalFlags"

definition isCachedImageStatePayload :: "jsvalue \<Rightarrow> bool" where
  "isCachedImageStatePayload v \<longleftrightarrow>
     isRecord v \<and> isImageKeyPayload (get_prop v ''image_key'') \<and>
     isSha256Hex (get_prop v ''image_id'') \<and> readsOneOf IMAGE_CACHE_PHASES (get_prop v ''phase'') \<and>
     isOptionalNonNegativeInteger (get_prop v ''bytes_on_disk'') \<and>
     isOptionalString (get_prop v ''error'') \<and> isInteger (get_prop v ''updated_at_unix_ms'')"

definition isVmNetworkStatePayload :: "jsvalue \<Rightarrow> bool" where
  "isVmNetworkStatePayload v \<longleftrightarrow>
     isRecord v \<and> isPresentString (get_prop v ''bridge_name'') \<and>
     isPresentString (get_prop v ''guest_ip'') \<and> isPresentString (get_prop v ''guest_cidr'') \<and>
     isPresentString (get_prop v ''gateway'') \<and>
     isOptionalNonNegativeInteger (get_prop v ''ssh_host_port'')"

definition isOptionalVmNetworkStatePayload :: "jsvalue \<Rightarrow> bool" where
  "isOptionalVmNetworkStatePayload v = optionally isVmNetworkStatePayload v"

definition isVmTerminalTargetPayload :: "jsvalue \<Rightarrow> bool" where
  "isVmTerminalTargetPayload v \<longleftrightarrow>
     isRecord v \<and> isPresentString (get_prop v ''host'') \<and> isPositiveInteger (get_prop v ''port'') \<and>
     isPresentString (get_prop v ''username'') \<and> isInteger (get_prop v ''checked_at_unix_ms'')"

definition isVmTerminalStatePayload :: "jsvalue \<Rightarrow> bool" where
  "isVmTerminalStatePayload v =
     (if \<not> isRecord v then False
      else if \<not> readsOneOf VM_TERMINAL_STATES (get_prop v ''state'') \<or>
              \<not> isOptionalString (get_prop v ''reason'') \<or>
              \<not> isInteger (get_prop v ''observed_at_unix_ms'') then False
      else if readString (get_prop v ''state'') = Some ''ready''
      then isVmTerminalTargetPayload (get_prop v ''target'')
      else isNullish (get_prop v ''target''))"

definition isVmRuntimeConstraintsPayload :: "jsvalue \<Rightarrow> bool" where
  "isVmRuntimeConstraintsPayload v \<longleftrightarrow>
     isRecord v \<and> isPresentString (get_prop v ''generation'') \<and>
     isPositiveInteger (get_prop v ''cpu_millis'') \<and>
     (isNullish (get_prop v ''quota_verified_at_unix_ms'') \<or>
      isPositiveInteger (get_prop v ''quota_verified_at_unix_ms''))"

definition isOptionalVmRuntimeConstraintsPayload :: "jsvalue \<Rightarrow> bool" where
  "isOptionalVmRuntimeConstraintsPayload v = optionally isVmRuntimeConstraintsPayload v"

definition hasRequiredRuntimeConstraints :: "jsvalue \<Rightarrow> string \<Rightarrow> bool" where
  "hasRequiredRuntimeConstraints v phase =
     (if phase \<in> {''ready'', ''solved''} then
        isVmRuntimeConstraintsPayload v \<and> isRecord v \<and>
        isPositiveInteger (get_prop v ''quota_verified_at_unix_ms'')
      else if phase \<in> {''booting'', ''running''} then isVmRuntimeConstraintsPayload v
      else isOptionalVmRuntimeConstraintsPayload v)"

definition isVmResourceStatePayload :: "jsvalue \<Rightarrow> bool" where
  "isVmResourceStatePayload v \<longleftrightarrow>
     isRecord v \<and> isPositiveInteger (get_prop v ''cpu_millis'') \<and>
     isPositiveInteger (get_prop v ''cpu_quota_us'') \<and>
     isPositiveInteger (get_prop v ''cpu_period_us'') \<and>
     isNonNegativeInteger (get_prop v ''cpu_usage_usec'') \<and>
     isNonNegativeInteger (get_prop v ''cpu_user_usec'') \<and>
     isNonNegativeInteger (get_prop v ''cpu_system_usec'') \<and>
     isNonNegativeInteger (get_prop v ''cpu_nr_periods'') \<and>
     isNonNegativeInteger (get_prop v ''cpu_nr_throttled'') \<and>
     isNonNegativeInteger (get_prop v ''cpu_throttled_usec'')"

definition isOptionalVmResourceStatePayload :: "jsvalue \<Rightarrow> bool" where
  "isOptionalVmResourceStatePayload v = optionally isVmResourceStatePayload v"

definition isVmSandboxStatePayload :: "jsvalue \<Rightarrow> bool" where
  "isVmSandboxStatePayload v \<longleftrightarrow>
     isRecord v \<and> isBoolean (get_prop v ''healthy'') \<and> isPresentString (get_prop v ''generation'') \<and>
     isPresentString (get_prop v ''systemd_unit'') \<and> isPresentString (get_prop v ''cgroup_path'') \<and>
     isBoolean (get_prop v ''seccomp_enabled'') \<and> isBoolean (get_prop v ''landlock_enabled'') \<and>
     isBoolean (get_prop v ''no_new_privs'')"

definition isOptionalVmSandboxStatePayload :: "jsvalue \<Rightarrow> bool" where
  "isOptionalVmSandboxStatePayload v = optionally isVmSandboxStatePayload v"

definition isVmProbeSnapshotPayload :: "jsvalue \<Rightarrow> bool" where
  "isVmProbeSnapshotPayload v \<longleftrightarrow>
     isRecord v \<and> isPresentString (get_prop v ''id'') \<and>
     readsOneOf PROBE_PHASES (get_prop v ''phase'') \<and>
     readsOneOf VM_PROBE_STATUSES (get_prop v ''status'') \<and>
     isInteger (get_prop v ''checked_at_unix_ms'') \<and> isOptionalString (get_prop v ''message'')"

definition isVmArchiveStatePayload :: "jsvalue \<Rightarrow> bool" where
  "isVmArchiveStatePayload v \<longleftrightarrow>
     isRecord v \<and> readsOneOf VM_ARCHIVE_PHASES (get_prop v ''phase'') \<and>
     isNonNegativeInteger (get_prop v ''artifact_count'') \<and> isOptionalString (get_prop v ''error'')"

definition isOptionalVmArchiveStatePayload :: "jsvalue \<Rightarrow> bool" where
  "isOptionalVmArchiveStatePayload v = optionally isVmArchiveStatePayload v"

text \<open>The checks the two kinds of VM report share, in the order of the code.\<close>

definition isVmCommonPayload :: "jsvalue \<Rightarrow> bool" where
  "isVmCommonPayload v \<longleftrightarrow>
     isExecutionIdentity v \<and> isPresentString (get_prop v ''run_id'') \<and>
     isPresentString (get_prop v ''vm_name'') \<and>
     isOptionalNonNegativeInteger (get_prop v ''desired_version'') \<and>
     (case readString (get_prop v ''phase'') of
        None \<Rightarrow> False
      | Some phase \<Rightarrow>
          phase \<in> set VM_PHASES \<and>
          hasRequiredRuntimeConstraints (get_prop v ''runtime_constraints'') phase) \<and>
     isOptionalVmGuestToolsPayload (get_prop v ''guest_tools'') \<and>
     isOptionalVmNetworkStatePayload (get_prop v ''network'') \<and>
     isVmTerminalStatePayload (get_prop v ''terminal'') \<and>
     isOptionalVmResourceStatePayload (get_prop v ''resource_state'') \<and>
     isOptionalVmSandboxStatePayload (get_prop v ''sandbox'') \<and>
     isStringArray (get_prop v ''ssh_host_keys_openssh'') \<and>
     isArrayOf isVmProbeSnapshotPayload (get_prop v ''probes'') \<and>
     isOptionalVmArchiveStatePayload (get_prop v ''archive'') \<and>
     isOptionalString (get_prop v ''error'')"

definition isVmActualStatePayload :: "jsvalue \<Rightarrow> bool" where
  "isVmActualStatePayload v \<longleftrightarrow>
     isRecord v \<and> isVmCommonPayload v \<and> isOptionalImageKeyPayload (get_prop v ''image_key'') \<and>
     isOptionalSha256Hex (get_prop v ''image_id'') \<and> isInteger (get_prop v ''updated_at_unix_ms'')"

definition isVmReportPayload :: "jsvalue \<Rightarrow> string \<Rightarrow> bool" where
  "isVmReportPayload v hostId \<longleftrightarrow>
     isRecord v \<and> get_prop v ''schema_version'' = Some (JInt VM_REPORT_SCHEMA_VERSION) \<and>
     get_prop v ''host_id'' = Some (JStr hostId) \<and> isVmCommonPayload v \<and>
     isInteger (get_prop v ''observed_at_unix_ms'')"

definition isBuildReportPayload :: "jsvalue \<Rightarrow> string \<Rightarrow> bool" where
  "isBuildReportPayload v hostId \<longleftrightarrow>
     isRecord v \<and> get_prop v ''schema_version'' = Some (JInt BUILD_REPORT_SCHEMA_VERSION) \<and>
     get_prop v ''host_id'' = Some (JStr hostId) \<and> isPresentString (get_prop v ''build_id'') \<and>
     isPresentString (get_prop v ''scenario_id'') \<and> isSha256Hex (get_prop v ''content_hash'') \<and>
     isInteger (get_prop v ''observed_at_unix_ms'') \<and>
     readsOneOf BUILD_PHASES (get_prop v ''phase'') \<and> isOptionalString (get_prop v ''current_vm'') \<and>
     isOptionalInteger (get_prop v ''started_at_unix_ms'') \<and>
     isOptionalInteger (get_prop v ''finished_at_unix_ms'') \<and>
     isNonNegativeInteger (get_prop v ''attempt'') \<and> isOptionalString (get_prop v ''error'')"

subsection \<open>Messages\<close>

definition hasV7Envelope :: "jsvalue \<Rightarrow> bool" where
  "hasV7Envelope v \<longleftrightarrow>
     get_prop v ''protocol_version'' = Some (JInt BRIDGE_PROTOCOL_VERSION) \<and>
     isString (get_prop v ''host_id'') \<and> isPresentString (get_prop v ''host_id'')"

definition isClientHello :: "jsvalue \<Rightarrow> bool" where
  "isClientHello v \<longleftrightarrow>
     isRecord v \<and> isPresentString (get_prop v ''agent_version'') \<and>
     readsOneOf HOST_ROLES (get_prop v ''role'') \<and>
     isHostCapabilitiesPayload (get_prop v ''capabilities'') \<and>
     isOptionalNumber (get_prop v ''last_applied_desired_version'')"

definition isServerHello :: "jsvalue \<Rightarrow> bool" where
  "isServerHello v \<longleftrightarrow>
     isRecord v \<and> isPresentString (get_prop v ''session_id'') \<and>
     isNonNegativeInteger (get_prop v ''desired_version'')"

definition ownedDesiredVm :: "jsvalue \<Rightarrow> jsvalue \<Rightarrow> bool" where
  "ownedDesiredVm desiredState vm \<longleftrightarrow>
     isDesiredVmPayload vm \<and>
     (get_prop desiredState ''scope'' \<noteq> Some (JStr ''personal'') \<or>
      get_prop vm ''owner_user_id'' = get_prop desiredState ''owner_user_id'')"

definition isDesiredState :: "jsvalue \<Rightarrow> bool" where
  "isDesiredState v =
     (case readString (get_prop v ''host_id'') of
        None \<Rightarrow> False
      | Some hostId \<Rightarrow>
          (let desiredState = get_prop v ''desired_state'' in
           isRecord v \<and> isRecord desiredState \<and>
           get_prop desiredState ''schema_version'' =
             Some (JInt HOST_DESIRED_STATE_SCHEMA_VERSION) \<and>
           get_prop desiredState ''host_id'' = Some (JStr hostId) \<and>
           get_prop desiredState ''scope'' \<in>
             {Some (JStr ''personal''), Some (JStr ''platform''), Some (JStr ''organization'')} \<and>
           isPresentString (get_prop desiredState ''owner_user_id'') \<and>
           isNonNegativeInteger (get_prop desiredState ''version'') \<and>
           isInteger (get_prop desiredState ''generated_at_unix_ms'') \<and>
           isArrayOf isDesiredCachedImagePayload (get_prop desiredState ''cached_images'') \<and>
           isArrayOf (ownedDesiredVm desiredState) (get_prop desiredState ''vms'') \<and>
           distinct (map (\<lambda>vm. get_prop (Some vm) ''vm_name'')
             (elements (get_prop desiredState ''vms''))) \<and>
           isArrayOf isDesiredBuildPayload (get_prop desiredState ''builds'') \<and>
           (get_prop desiredState ''source_compiles'' = None \<or>
            isArrayOf isDesiredSourceCompilePayload (get_prop desiredState ''source_compiles''))))"

definition isStateReport :: "jsvalue \<Rightarrow> bool" where
  "isStateReport v =
     (case readString (get_prop v ''host_id'') of
        None \<Rightarrow> False
      | Some hostId \<Rightarrow>
          (let report = get_prop v ''report'' in
           isRecord v \<and> isRecord report \<and>
           get_prop report ''schema_version'' = Some (JInt HOST_STATE_REPORT_SCHEMA_VERSION) \<and>
           isBoolean (get_prop report ''relay_connected'') \<and>
           get_prop report ''host_id'' = Some (JStr hostId) \<and>
           isInteger (get_prop report ''observed_at_unix_ms'') \<and>
           isNonNegativeInteger (get_prop report ''applied_desired_version'') \<and>
           isHostCapacityPayload (get_prop report ''capacity'') \<and>
           isHostCapabilitiesPayload (get_prop report ''capabilities'') \<and>
           isArrayOf isCachedImageStatePayload (get_prop report ''cached_images'') \<and>
           isArrayOf isVmActualStatePayload (get_prop report ''vms'') \<and>
           isArrayOf (\<lambda>build. isBuildReportPayload build hostId) (get_prop report ''builds'')))"

definition isVmReport :: "jsvalue \<Rightarrow> bool" where
  "isVmReport v =
     (case readString (get_prop v ''host_id'') of
        None \<Rightarrow> False
      | Some hostId \<Rightarrow> isRecord v \<and> isVmReportPayload (get_prop v ''report'') hostId)"

definition isBuildReport :: "jsvalue \<Rightarrow> bool" where
  "isBuildReport v =
     (case readString (get_prop v ''host_id'') of
        None \<Rightarrow> False
      | Some hostId \<Rightarrow> isRecord v \<and> isBuildReportPayload (get_prop v ''report'') hostId)"

definition isSyncRequest :: "jsvalue \<Rightarrow> bool" where
  "isSyncRequest v \<longleftrightarrow> isRecord v \<and> readsOneOf SYNC_REQUEST_REASONS (get_prop v ''reason'')"

subsection \<open>Capability defaults\<close>

datatype BridgeError = TypeError

text \<open>Reading a property raises on \<^verbatim>\<open>undefined\<close> and \<^verbatim>\<open>null\<close>; other values only lack the property.\<close>

definition access :: "jsvalue \<Rightarrow> string \<Rightarrow> BridgeError + jsvalue" where
  "access v k = (if isNullish v then Inl TypeError else Inr (get_prop v k))"

text \<open>The own enumerable properties an object spread copies.\<close>

fun ownProperties :: "jsvalue \<Rightarrow> (string \<times> json) list" where
  "ownProperties (Some (JObj kvs)) = kvs"
| "ownProperties (Some (JArr xs)) = zip (map decimal [0..<length xs]) xs"
| "ownProperties (Some (JStr s)) = zip (map decimal [0..<length s]) (map (\<lambda>c. JStr [c]) s)"
| "ownProperties _ = []"

definition defaultFlag :: "jsvalue \<Rightarrow> string \<Rightarrow> json" where
  "defaultFlag capabilities flag =
     (let v = get_prop capabilities flag in if isNullish v then JBool False else the v)"

definition withFlags :: "jsvalue \<Rightarrow> json" where
  "withFlags capabilities =
     fold (\<lambda>flag obj. set_prop obj flag (defaultFlag capabilities flag)) optionalFlags
       (JObj (ownProperties capabilities))"

definition hasAllFlags :: "jsvalue \<Rightarrow> bool" where
  "hasAllFlags capabilities \<longleftrightarrow> list_all (\<lambda>flag. get_prop capabilities flag \<noteq> None) optionalFlags"

definition withCapabilityDefaults :: "json \<Rightarrow> BridgeError + json" where
  "withCapabilityDefaults msg =
     (let v = Some msg in
      if get_prop v ''type'' = Some (JStr ''client_hello'') then
        (let capabilities = get_prop v ''capabilities'' in
         if isNullish capabilities then Inl TypeError
         else if hasAllFlags capabilities then Inr msg
         else Inr (set_prop msg ''capabilities'' (withFlags capabilities)))
      else
        (case access (get_prop v ''report'') ''capabilities'' of
           Inl e \<Rightarrow> Inl e
         | Inr capabilities \<Rightarrow>
             (if isNullish capabilities then Inl TypeError
              else if hasAllFlags capabilities then Inr msg
              else
                Inr (set_prop msg ''report''
                  (set_prop (JObj (ownProperties (get_prop v ''report''))) ''capabilities''
                    (withFlags capabilities))))))"

subsection \<open>The parser\<close>

definition acceptIf :: "bool \<Rightarrow> json \<Rightarrow> BridgeError + json option" where
  "acceptIf ok msg = Inr (if ok then Some msg else None)"

text \<open>The switch over the message type.\<close>

definition dispatchMessage :: "string \<Rightarrow> json \<Rightarrow> BridgeError + json option" where
  "dispatchMessage type msg =
     (if type = ''client_hello'' then
        (if isClientHello (Some msg)
         then map_sum id Some (withCapabilityDefaults msg) else Inr None)
      else if type = ''server_hello'' then acceptIf (isServerHello (Some msg)) msg
      else if type = ''desired_state'' then acceptIf (isDesiredState (Some msg)) msg
      else if type = ''state_report'' then
        (if isStateReport (Some msg)
         then map_sum id Some (withCapabilityDefaults msg) else Inr None)
      else if type = ''vm_report'' then acceptIf (isVmReport (Some msg)) msg
      else if type = ''build_report'' then acceptIf (isBuildReport (Some msg)) msg
      else acceptIf (isSyncRequest (Some msg)) msg)"

definition parseBridgeMessageV8 :: "json option \<Rightarrow> BridgeError + json option" where
  "parseBridgeMessageV8 parsed =
     (case parsed of
        None \<Rightarrow> Inr None
      | Some msg \<Rightarrow>
          (if \<not> isRecord (Some msg) then Inr None
           else
             (case readString (get_prop (Some msg) ''type'') of
                None \<Rightarrow> Inr None
              | Some type \<Rightarrow>
                  (if type \<notin> set MESSAGE_TYPES then Inr None
                   else if \<not> hasV7Envelope (Some msg) then Inr None
                   else dispatchMessage type msg))))"

subsection \<open>Specification vocabulary\<close>

text \<open>The VM entries an accepted report message carries.\<close>

definition reportedVms :: "json \<Rightarrow> jsvalue set" where
  "reportedVms m =
     (if readString (get_prop (Some m) ''type'') = Some ''vm_report'' then {get_prop (Some m) ''report''}
      else if readString (get_prop (Some m) ''type'') = Some ''state_report''
      then Some ` set (elements (get_prop (get_prop (Some m) ''report'') ''vms''))
      else {})"

text \<open>Concrete frames for the instances below.\<close>

definition sampleHello :: "string \<Rightarrow> json" where
  "sampleHello type =
     JObj [(''type'', JStr type), (''protocol_version'', JInt 8), (''host_id'', JStr ''h1''),
           (''agent_version'', JStr ''1.0''), (''role'', JStr ''agent''),
           (''capabilities'',
            JObj ([(''arch'', JStr ''x86_64''), (''cloud_hypervisor_sha256'', JNull)] @
                  map (\<lambda>flag. (flag, JBool True)) requiredFlags))]"

definition sampleVmReport :: json where
  "sampleVmReport =
     JObj [(''type'', JStr ''vm_report''), (''protocol_version'', JInt 8), (''host_id'', JStr ''h1''),
           (''report'',
            JObj [(''schema_version'', JInt 6), (''host_id'', JStr ''h1''),
                  (''owner_user_id'', JStr ''u''), (''runtime_execution_id'', JStr ''e''),
                  (''generation'', JInt 1), (''run_id'', JStr ''r''), (''vm_name'', JStr ''v''),
                  (''phase'', JStr ''ready''), (''observed_at_unix_ms'', JInt 10),
                  (''terminal'', JObj [(''state'', JStr ''pending''), (''observed_at_unix_ms'', JInt 9)]),
                  (''runtime_constraints'',
                   JObj [(''generation'', JStr ''g''), (''cpu_millis'', JInt 1000),
                         (''quota_verified_at_unix_ms'', JInt 5)]),
                  (''ssh_host_keys_openssh'', JArr []), (''probes'', JArr [])])]"

definition sampleDesired :: json where
  "sampleDesired =
     JObj [(''type'', JStr ''desired_state''), (''protocol_version'', JInt 8), (''host_id'', JStr ''h1''),
           (''desired_state'',
            JObj [(''schema_version'', JInt 6), (''host_id'', JStr ''h1''), (''scope'', JStr ''personal''),
                  (''owner_user_id'', JStr ''u''), (''version'', JInt 0), (''generated_at_unix_ms'', JInt 0),
                  (''cached_images'', JArr []), (''vms'', JArr []), (''builds'', JArr [])])]"

subsection \<open>Lemmas: capability defaults\<close>

lemma fold_set_prop:
  "\<exists>kvs'. fold (\<lambda>flag obj. set_prop obj flag (f flag)) fs (JObj kvs) = JObj kvs' \<and>
     (\<forall>k. map_of kvs' k = (if k \<in> set fs then Some (f k) else map_of kvs k))"
proof (induction fs arbitrary: kvs)
  case (Cons x fs)
  from Cons [of "AList.update x (f x) kvs"] show ?case by (auto simp: update_conv')
qed simp

lemma withFlags_props:
  assumes "isRecord c"
  shows "isRecord (Some (withFlags c))"
    "get_prop (Some (withFlags c)) k =
       (if k \<in> set optionalFlags then Some (defaultFlag c k) else get_prop c k)"
proof -
  obtain kvs where c: "c = Some (JObj kvs)" using assms by (auto simp: isRecord_iff)
  obtain kvs' where k: "withFlags c = JObj kvs'"
    "\<forall>k. map_of kvs' k = (if k \<in> set optionalFlags then Some (defaultFlag c k) else map_of kvs k)"
    using fold_set_prop [of "defaultFlag c" optionalFlags kvs] by (auto simp: withFlags_def c)
  show "isRecord (Some (withFlags c))" by (simp add: k)
  show "get_prop (Some (withFlags c)) k =
       (if k \<in> set optionalFlags then Some (defaultFlag c k) else get_prop c k)"
    unfolding k(1) by (simp add: k(2)) (simp add: c)
qed

lemma withFlags_all [simp]: "isRecord c \<Longrightarrow> hasAllFlags (Some (withFlags c))"
  by (auto simp: hasAllFlags_def withFlags_props list_all_iff)

lemma not_optional: "''arch'' \<notin> set optionalFlags" "''cloud_hypervisor_sha256'' \<notin> set optionalFlags"
  "set requiredFlags \<inter> set optionalFlags = {}"
  by (simp_all add: optionalFlags_def requiredFlags_def)

lemma defaultFlag_boolean:
  assumes "isHostCapabilitiesPayload c" "flag \<in> set optionalFlags"
  shows "isBoolean (Some (defaultFlag c flag))"
proof -
  have "get_prop c flag = None \<or> isBoolean (get_prop c flag)"
    using assms by (auto simp: isHostCapabilitiesPayload_def list_all_iff)
  then show ?thesis by (auto simp: defaultFlag_def isNullish_def isBoolean_iff)
qed

lemma withFlags_valid:
  assumes "isHostCapabilitiesPayload c"
  shows "isHostCapabilitiesPayload (Some (withFlags c))"
proof -
  have r: "isRecord c" using assms by (simp add: isHostCapabilitiesPayload_def)
  have req: "get_prop (Some (withFlags c)) flag = get_prop c flag" if "flag \<in> set requiredFlags" for flag
    using that not_optional(3) r by (auto simp: withFlags_props)
  have opt: "isBoolean (get_prop (Some (withFlags c)) flag)" if "flag \<in> set optionalFlags" for flag
    using that r defaultFlag_boolean [OF assms that] by (simp add: withFlags_props)
  show ?thesis
    using assms r req opt
    by (simp add: isHostCapabilitiesPayload_def withFlags_props not_optional list_all_iff)
qed

lemma get_prop_set:
  assumes "isRecord (Some msg)"
  shows "isRecord (Some (set_prop msg k v))"
    "get_prop (Some (set_prop msg k v)) k' = (if k' = k then Some v else get_prop (Some msg) k')"
  using assms by (auto simp: isRecord_iff update_conv')

lemma access_Inr: "access v k = Inr c \<longleftrightarrow> \<not> isNullish v \<and> c = get_prop v k"
  by (auto simp: access_def)

lemma capabilities_not_nullish: "isHostCapabilitiesPayload c \<Longrightarrow> \<not> isNullish c"
  by (auto simp: isHostCapabilitiesPayload_def isNullish_def isRecord_iff)

lemma own_record: "isRecord v \<Longrightarrow> Some (JObj (ownProperties v)) = v"
  by (auto simp: isRecord_iff)

lemma get_prop_record: "get_prop v k \<noteq> None \<Longrightarrow> isRecord v"
  by (cases v rule: isRecord.cases) auto

text \<open>What the defaulting step does to a message whose capabilities were validated.\<close>

lemma defaults_hello:
  assumes "isRecord (Some msg)" "get_prop (Some msg) ''type'' = Some (JStr ''client_hello'')"
    and "isHostCapabilitiesPayload (get_prop (Some msg) ''capabilities'')"
  shows "withCapabilityDefaults msg =
    Inr (if hasAllFlags (get_prop (Some msg) ''capabilities'') then msg
         else set_prop msg ''capabilities'' (withFlags (get_prop (Some msg) ''capabilities'')))"
  using assms capabilities_not_nullish [OF assms(3)] by (simp add: withCapabilityDefaults_def Let_def)

lemma defaults_report:
  assumes "get_prop (Some msg) ''type'' \<noteq> Some (JStr ''client_hello'')"
    and "isRecord (get_prop (Some msg) ''report'')"
    and "\<not> isNullish (get_prop (get_prop (Some msg) ''report'') ''capabilities'')"
  shows "withCapabilityDefaults msg =
    (let report = get_prop (Some msg) ''report''; c = get_prop report ''capabilities'' in
     Inr (if hasAllFlags c then msg
          else set_prop msg ''report'' (set_prop (the report) ''capabilities'' (withFlags c))))"
proof -
  obtain kvs where "get_prop (Some msg) ''report'' = Some (JObj kvs)"
    using assms(2) by (auto simp: isRecord_iff)
  then show ?thesis
    using assms by (simp add: withCapabilityDefaults_def Let_def access_def isNullish_def)
qed

lemma defaults_report_cases:
  assumes "withCapabilityDefaults msg = Inr m"
    and "get_prop (Some msg) ''type'' \<noteq> Some (JStr ''client_hello'')"
  shows "isRecord (get_prop (Some msg) ''report'')"
    "\<not> isNullish (get_prop (get_prop (Some msg) ''report'') ''capabilities'')"
proof -
  show n: "\<not> isNullish (get_prop (get_prop (Some msg) ''report'') ''capabilities'')"
    using assms by (auto simp: withCapabilityDefaults_def Let_def access_def split: if_splits)
  then have "get_prop (get_prop (Some msg) ''report'') ''capabilities'' \<noteq> None"
    by (auto simp: isNullish_def)
  then show "isRecord (get_prop (Some msg) ''report'')" by (rule get_prop_record)
qed

text \<open>
  A message and the message the parser returns agree but for the capabilities, and those agree but for
  the defaulted flags.
\<close>

lemma withFlags_record: "isRecord (Some (withFlags c))"
  using fold_set_prop [of "defaultFlag c" optionalFlags "ownProperties c"]
  by (auto simp: withFlags_def)

lemma withFlags_all': "hasAllFlags (Some (withFlags c))"
proof -
  obtain kvs' where "withFlags c = JObj kvs'"
    "\<forall>k. map_of kvs' k = (if k \<in> set optionalFlags then Some (defaultFlag c k) else map_of (ownProperties c) k)"
    using fold_set_prop [of "defaultFlag c" optionalFlags "ownProperties c"] by (auto simp: withFlags_def)
  then show ?thesis by (simp add: hasAllFlags_def list_all_iff)
qed

lemma hasAll_not_nullish: "hasAllFlags c \<Longrightarrow> \<not> isNullish c"
  by (cases c) (auto simp: hasAllFlags_def optionalFlags_def isNullish_def)

lemma withFlags_not_null [simp]: "withFlags c \<noteq> JNull"
  using withFlags_record [of c] by (auto simp: isRecord_iff)

lemma defaults_idem:
  assumes "isRecord (Some msg)" "withCapabilityDefaults msg = Inr m"
  shows "withCapabilityDefaults m = Inr m"
proof (cases "get_prop (Some msg) ''type'' = Some (JStr ''client_hello'')")
  case True
  let ?c = "get_prop (Some msg) ''capabilities''"
  have "m = (if hasAllFlags ?c then msg else set_prop msg ''capabilities'' (withFlags ?c))"
    using assms True by (auto simp: withCapabilityDefaults_def Let_def split: if_splits)
  then show ?thesis
    using assms True withFlags_all' [of ?c]
    by (auto simp: withCapabilityDefaults_def Let_def get_prop_set isNullish_def split: if_splits)
next
  case False
  note r = defaults_report_cases [OF assms(2) False]
  let ?r = "get_prop (Some msg) ''report''"
  let ?c = "get_prop ?r ''capabilities''"
  obtain kvs where kvs: "?r = Some (JObj kvs)" using r(1) by (auto simp: isRecord_iff)
  show ?thesis
  proof (cases "hasAllFlags ?c")
    case True
    then have "m = msg" using assms(2) defaults_report [OF False r] by (simp add: Let_def)
    then show ?thesis using assms(2) by simp
  next
    case nall: False
    let ?r' = "set_prop (JObj kvs) ''capabilities'' (withFlags ?c)"
    have m: "m = set_prop msg ''report'' ?r'"
      using assms(2) defaults_report [OF False r] nall kvs by (simp add: Let_def)
    have "withCapabilityDefaults m =
      (let report = get_prop (Some m) ''report''; c = get_prop report ''capabilities'' in
       Inr (if hasAllFlags c then m
            else set_prop m ''report'' (set_prop (the report) ''capabilities'' (withFlags c))))"
      by (rule defaults_report)
         (use assms(1) False in \<open>simp_all add: m get_prop_set update_conv' isNullish_def\<close>)
    then show ?thesis
      using assms(1) withFlags_all' [of ?c] by (simp add: m Let_def get_prop_set update_conv')
  qed
qed


lemma defaults_props:
  assumes "isRecord (Some msg)" "withCapabilityDefaults msg = Inr m"
  shows "isRecord (Some m)" "k \<noteq> ''capabilities'' \<Longrightarrow> k \<noteq> ''report'' \<Longrightarrow> get_prop (Some m) k = get_prop (Some msg) k"
proof -
  have "m = msg \<or> (\<exists>v. m = set_prop msg ''capabilities'' v) \<or> (\<exists>v. m = set_prop msg ''report'' v)"
    using assms(2) by (auto simp: withCapabilityDefaults_def Let_def split: if_splits sum.splits)
  then show "isRecord (Some m)" "k \<noteq> ''capabilities'' \<Longrightarrow> k \<noteq> ''report'' \<Longrightarrow> get_prop (Some m) k = get_prop (Some msg) k"
    using assms(1) by (auto simp: get_prop_set)
qed

lemma hello_defaults_valid:
  assumes hello: "isClientHello (Some msg)" and d: "withCapabilityDefaults msg = Inr m"
  shows "isClientHello (Some m)"
proof -
  have r: "isRecord (Some msg)" and c: "isHostCapabilitiesPayload (get_prop (Some msg) ''capabilities'')"
    using hello by (auto simp: isClientHello_def)
  note p = defaults_props [OF r d]
  have "isHostCapabilitiesPayload (get_prop (Some m) ''capabilities'')"
  proof (cases "get_prop (Some msg) ''type'' = Some (JStr ''client_hello'')")
    case True
    from defaults_hello [OF r True c] d show ?thesis
      using withFlags_valid [OF c] c r by (auto simp: get_prop_set split: if_splits)
  next
    case False
    from defaults_report [OF False defaults_report_cases [OF d False]] d
    have "m = msg \<or> (\<exists>v. m = set_prop msg ''report'' v)" by (auto simp: Let_def split: if_splits)
    then show ?thesis using c r by (auto simp: get_prop_set)
  qed
  then show ?thesis using hello p by (simp add: isClientHello_def)
qed

lemma report_defaults_valid:
  assumes rep: "isStateReport (Some msg)" and d: "withCapabilityDefaults msg = Inr m"
    and ty: "get_prop (Some msg) ''type'' \<noteq> Some (JStr ''client_hello'')"
  shows "isStateReport (Some m)"
proof -
  let ?r = "get_prop (Some msg) ''report''"
  obtain host where host: "readString (get_prop (Some msg) ''host_id'') = Some host"
    and r: "isRecord (Some msg)" "isRecord ?r" and c: "isHostCapabilitiesPayload (get_prop ?r ''capabilities'')"
    using rep by (auto simp: isStateReport_def Let_def split: option.splits)
  note p = defaults_props [OF r(1) d]
  obtain kvs where kvs: "?r = Some (JObj kvs)" using r(2) by (auto simp: isRecord_iff)
  have rc: "isRecord (get_prop ?r ''capabilities'')" using c by (simp add: isHostCapabilitiesPayload_def)
  have e: "m = msg \<or> m = set_prop msg ''report'' (set_prop (JObj kvs) ''capabilities'' (withFlags (get_prop ?r ''capabilities'')))"
    using defaults_report [OF ty defaults_report_cases [OF d ty]] d kvs by (auto simp: Let_def split: if_splits)
  then show ?thesis
  proof
    assume "m = set_prop msg ''report'' (set_prop (JObj kvs) ''capabilities'' (withFlags (get_prop ?r ''capabilities'')))"
    then have "get_prop (Some m) ''report'' = Some (set_prop (JObj kvs) ''capabilities'' (withFlags (get_prop ?r ''capabilities'')))"
      using r(1) by (simp add: get_prop_set)
    then show ?thesis
      using rep p host kvs withFlags_valid [OF c]
      by (simp add: isStateReport_def Let_def update_conv')
  qed (use rep in simp)
qed

lemma envelope_props:
  assumes "isRecord (Some msg)" "withCapabilityDefaults msg = Inr m"
  shows "hasV7Envelope (Some m) = hasV7Envelope (Some msg)"
  by (simp add: hasV7Envelope_def defaults_props [OF assms])

text \<open>The accepted messages, one case per message type.\<close>

lemma parse_accepted:
  assumes "parseBridgeMessageV8 parsed = Inr (Some m)"
  obtains msg type where "parsed = Some msg" "isRecord (Some msg)"
    "readString (get_prop (Some msg) ''type'') = Some type" "hasV7Envelope (Some msg)"
    "type \<in> set MESSAGE_TYPES" "dispatchMessage type msg = Inr (Some m)"
proof (cases parsed)
  case None
  then show ?thesis using assms by (simp add: parseBridgeMessageV8_def)
next
  case (Some msg)
  show ?thesis
  proof (cases "readString (get_prop (Some msg) ''type'')")
    case None
    then show ?thesis using assms Some by (simp add: parseBridgeMessageV8_def split: if_splits)
  next
    case t: (Some type)
    then show ?thesis
      using assms Some that [of msg type] by (simp add: parseBridgeMessageV8_def split: if_splits)
  qed
qed

lemma map_sum_Some: "map_sum id Some x = Inr (Some m) \<longleftrightarrow> x = Inr m"
  by (cases x) simp_all

lemma acceptIf_Some: "acceptIf ok msg = Inr (Some m) \<longleftrightarrow> ok \<and> m = msg"
  by (auto simp: acceptIf_def)

lemma dispatch_accepted:
  "dispatchMessage type msg = Inr (Some m) \<longleftrightarrow>
     (if type = ''client_hello'' then isClientHello (Some msg) \<and> withCapabilityDefaults msg = Inr m
      else if type = ''server_hello'' then isServerHello (Some msg) \<and> m = msg
      else if type = ''desired_state'' then isDesiredState (Some msg) \<and> m = msg
      else if type = ''state_report'' then isStateReport (Some msg) \<and> withCapabilityDefaults msg = Inr m
      else if type = ''vm_report'' then isVmReport (Some msg) \<and> m = msg
      else if type = ''build_report'' then isBuildReport (Some msg) \<and> m = msg
      else isSyncRequest (Some msg) \<and> m = msg)"
  unfolding dispatchMessage_def by (simp add: map_sum_Some acceptIf_Some)

lemma parse_cases:
  assumes "parseBridgeMessageV8 parsed = Inr (Some m)"
  obtains (same) msg type where "parsed = Some msg" "isRecord (Some msg)" "m = msg"
      "readString (get_prop (Some msg) ''type'') = Some type" "hasV7Envelope (Some msg)"
      "type = ''server_hello'' \<and> isServerHello (Some msg) \<or> type = ''desired_state'' \<and> isDesiredState (Some msg) \<or>
       type = ''vm_report'' \<and> isVmReport (Some msg) \<or> type = ''build_report'' \<and> isBuildReport (Some msg) \<or>
       type = ''sync_request'' \<and> isSyncRequest (Some msg)"
  | (hello) msg where "parsed = Some msg" "isRecord (Some msg)"
      "readString (get_prop (Some msg) ''type'') = Some ''client_hello''" "hasV7Envelope (Some msg)"
      "isClientHello (Some msg)" "withCapabilityDefaults msg = Inr m"
  | (report) msg where "parsed = Some msg" "isRecord (Some msg)"
      "readString (get_prop (Some msg) ''type'') = Some ''state_report''" "hasV7Envelope (Some msg)"
      "isStateReport (Some msg)" "withCapabilityDefaults msg = Inr m"
proof -
  from parse_accepted [OF assms] obtain msg type where p: "parsed = Some msg" "isRecord (Some msg)"
    "readString (get_prop (Some msg) ''type'') = Some type" "hasV7Envelope (Some msg)" "type \<in> set MESSAGE_TYPES"
    and disp: "dispatchMessage type msg = Inr (Some m)" .
  note disp' = disp [unfolded dispatch_accepted]
  show ?thesis
  proof (cases "type = ''client_hello''")
    case True
    then show ?thesis using hello [OF p(1,2) p(3) [unfolded True] p(4)] disp' by simp
  next
    case h: False
    show ?thesis
    proof (cases "type = ''state_report''")
      case True
      then show ?thesis using report [OF p(1,2) p(3) [unfolded True] p(4)] disp' by simp
    next
      case False
      have "m = msg \<and> (type = ''server_hello'' \<and> isServerHello (Some msg) \<or> type = ''desired_state'' \<and> isDesiredState (Some msg) \<or>
       type = ''vm_report'' \<and> isVmReport (Some msg) \<or> type = ''build_report'' \<and> isBuildReport (Some msg) \<or>
       type = ''sync_request'' \<and> isSyncRequest (Some msg))"
        using disp' h False p(5) unfolding MESSAGE_TYPES_def by (simp split: if_splits)
      then show ?thesis using same [OF p(1,2) _ p(3,4)] by blast
    qed
  qed
qed

subsection \<open>Lemmas: accepted messages\<close>

lemma parse_intro:
  assumes "isRecord (Some msg)" "readString (get_prop (Some msg) ''type'') = Some type"
    "hasV7Envelope (Some msg)" "type \<in> set MESSAGE_TYPES"
  shows "parseBridgeMessageV8 (Some msg) = dispatchMessage type msg"
  using assms by (simp add: parseBridgeMessageV8_def)

lemma parse_again:
  assumes "parseBridgeMessageV8 parsed = Inr (Some m)"
  shows "parseBridgeMessageV8 (Some m) = Inr (Some m)"
  using assms
proof (cases rule: parse_cases)
  case (same msg type)
  then show ?thesis using assms by simp
next
  case (hello msg)
  note p = defaults_props [OF hello(2,6)]
  have "dispatchMessage ''client_hello'' m = Inr (Some m)"
    using hello_defaults_valid [OF hello(5,6)] defaults_idem [OF hello(2,6)]
    by (simp add: dispatch_accepted)
  moreover have "parseBridgeMessageV8 (Some m) = dispatchMessage ''client_hello'' m"
    by (rule parse_intro)
       (use p hello envelope_props [OF hello(2,6)] in \<open>simp_all add: MESSAGE_TYPES_def\<close>)
  ultimately show ?thesis by simp
next
  case (report msg)
  note p = defaults_props [OF report(2,6)]
  have ty: "get_prop (Some msg) ''type'' \<noteq> Some (JStr ''client_hello'')"
  proof
    assume "get_prop (Some msg) ''type'' = Some (JStr ''client_hello'')"
    then show False using report(3) by (auto simp: readString_Some_iff js_trim_no_ws js_ws_def)
  qed
  have "dispatchMessage ''state_report'' m = Inr (Some m)"
    using report_defaults_valid [OF report(5,6) ty] defaults_idem [OF report(2,6)]
    by (simp add: dispatch_accepted)
  moreover have "parseBridgeMessageV8 (Some m) = dispatchMessage ''state_report'' m"
    by (rule parse_intro)
       (use p report envelope_props [OF report(2,6)] in \<open>simp_all add: MESSAGE_TYPES_def\<close>)
  ultimately show ?thesis by simp
qed

lemma defaults_throw:
  assumes "isClientHello (Some msg)"
  shows "withCapabilityDefaults msg = Inl e \<longleftrightarrow>
    get_prop (Some msg) ''type'' \<noteq> Some (JStr ''client_hello'') \<and>
    (isNullish (get_prop (Some msg) ''report'') \<or>
     isNullish (get_prop (get_prop (Some msg) ''report'') ''capabilities''))"
  using assms capabilities_not_nullish [of "get_prop (Some msg) ''capabilities''"]
  by (cases e) (auto simp: withCapabilityDefaults_def Let_def access_def isClientHello_def split: if_splits)

lemma defaults_report_ok:
  assumes "isStateReport (Some msg)" "get_prop (Some msg) ''type'' \<noteq> Some (JStr ''client_hello'')"
  shows "withCapabilityDefaults msg \<noteq> Inl e"
proof -
  have "isRecord (get_prop (Some msg) ''report'')"
    "isHostCapabilitiesPayload (get_prop (get_prop (Some msg) ''report'') ''capabilities'')"
    using assms by (auto simp: isStateReport_def Let_def split: option.splits)
  then show ?thesis
    using defaults_report [OF assms(2)] capabilities_not_nullish by (simp add: Let_def)
qed

lemma readString_exact: "v = Some (JStr ''client_hello'') \<Longrightarrow> readString v = Some ''client_hello''"
  by (simp add: js_trim_no_ws js_ws_def)

lemma map_sum_Inl: "map_sum id Some x = Inl e \<longleftrightarrow> x = Inl e"
  by (cases x) simp_all

lemma acceptIf_Inl: "acceptIf ok msg \<noteq> Inl e"
  by (simp add: acceptIf_def)

lemma dispatch_Inl:
  "dispatchMessage type msg = Inl e \<longleftrightarrow>
     type = ''client_hello'' \<and> isClientHello (Some msg) \<and> withCapabilityDefaults msg = Inl e \<or>
     type = ''state_report'' \<and> isStateReport (Some msg) \<and> withCapabilityDefaults msg = Inl e"
  by (cases "type = ''client_hello''"; cases "type = ''state_report''")
     (simp_all add: dispatchMessage_def map_sum_Inl acceptIf_Inl)

lemma parse_throws:
  "parseBridgeMessageV8 (Some msg) = Inl e \<longleftrightarrow>
     isRecord (Some msg) \<and> readString (get_prop (Some msg) ''type'') = Some ''client_hello'' \<and>
     hasV7Envelope (Some msg) \<and> isClientHello (Some msg) \<and>
     get_prop (Some msg) ''type'' \<noteq> Some (JStr ''client_hello'') \<and>
     (isNullish (get_prop (Some msg) ''report'') \<or>
      isNullish (get_prop (get_prop (Some msg) ''report'') ''capabilities''))"
  (is "_ \<longleftrightarrow> ?r")
proof
  assume ?r
  then show "parseBridgeMessageV8 (Some msg) = Inl e"
    by (subst parse_intro [of msg "''client_hello''"])
       (auto simp: MESSAGE_TYPES_def dispatch_Inl defaults_throw)
next
  assume l: "parseBridgeMessageV8 (Some msg) = Inl e"
  then obtain type where t: "isRecord (Some msg)" "readString (get_prop (Some msg) ''type'') = Some type"
    "hasV7Envelope (Some msg)" "dispatchMessage type msg = Inl e"
    by (cases "readString (get_prop (Some msg) ''type'')")
       (auto simp: parseBridgeMessageV8_def split: if_splits)
  have "type = ''client_hello''"
  proof (rule ccontr)
    assume n: "type \<noteq> ''client_hello''"
    then have "isStateReport (Some msg)" "withCapabilityDefaults msg = Inl e"
      using t(4) by (auto simp: dispatch_Inl)
    moreover have "get_prop (Some msg) ''type'' \<noteq> Some (JStr ''client_hello'')"
      using n t(2) readString_exact by auto
    ultimately show False using defaults_report_ok by blast
  qed
  then show ?r using t by (auto simp: dispatch_Inl defaults_throw)
qed

lemma vm_common_parts:
  assumes "isVmCommonPayload v"
  obtains phase where "isExecutionIdentity v" "isVmTerminalStatePayload (get_prop v ''terminal'')"
    "readString (get_prop v ''phase'') = Some phase"
    "hasRequiredRuntimeConstraints (get_prop v ''runtime_constraints'') phase"
  using assms unfolding isVmCommonPayload_def by (cases "readString (get_prop v ''phase'')") simp_all

lemma unready_no_target:
  "isVmTerminalStatePayload t \<Longrightarrow> readString (get_prop t ''state'') \<noteq> Some ''ready'' \<Longrightarrow>
   isNullish (get_prop t ''target'')"
  unfolding isVmTerminalStatePayload_def by (simp split: if_splits)

lemma ready_quota:
  "hasRequiredRuntimeConstraints c phase \<Longrightarrow> phase \<in> {''ready'', ''solved''} \<Longrightarrow>
   isPositiveInteger (get_prop c ''quota_verified_at_unix_ms'') \<and> isPresentString (get_prop c ''generation'')"
  unfolding hasRequiredRuntimeConstraints_def isVmRuntimeConstraintsPayload_def by (simp split: if_splits)

lemma identity_generation:
  "isExecutionIdentity v \<Longrightarrow> \<exists>n. 0 < n \<and> isSafeInteger n \<and> get_prop v ''generation'' = Some (JInt n)"
  by (auto simp: isExecutionIdentity_def isPositiveInteger_iff isSafeIntegerValue_iff)

lemma accepted_valid:
  assumes "parseBridgeMessageV8 parsed = Inr (Some m)"
  shows "isRecord (Some m)" "hasV7Envelope (Some m)"
    "readString (get_prop (Some m) ''type'') = Some ''vm_report'' \<Longrightarrow> isVmReport (Some m)"
    "readString (get_prop (Some m) ''type'') = Some ''state_report'' \<Longrightarrow> isStateReport (Some m)"
    "readString (get_prop (Some m) ''type'') = Some ''desired_state'' \<Longrightarrow> isDesiredState (Some m)"
    "readString (get_prop (Some m) ''type'') = Some ''client_hello'' \<Longrightarrow> isClientHello (Some m)"
proof -
  from parse_accepted [OF parse_again [OF assms]] obtain type where t: "isRecord (Some m)"
    "hasV7Envelope (Some m)" "readString (get_prop (Some m) ''type'') = Some type"
    "dispatchMessage type m = Inr (Some m)"
    by auto
  show "isRecord (Some m)" "hasV7Envelope (Some m)" by (fact t)+
  show "isVmReport (Some m)" if "readString (get_prop (Some m) ''type'') = Some ''vm_report''"
  proof -
    have "type = ''vm_report''" using t(3) that by simp
    then show ?thesis using t(4) by (simp add: dispatch_accepted)
  qed
  show "isStateReport (Some m)" if "readString (get_prop (Some m) ''type'') = Some ''state_report''"
  proof -
    have "type = ''state_report''" using t(3) that by simp
    then show ?thesis using t(4) by (simp add: dispatch_accepted)
  qed
  show "isDesiredState (Some m)" if "readString (get_prop (Some m) ''type'') = Some ''desired_state''"
  proof -
    have "type = ''desired_state''" using t(3) that by simp
    then show ?thesis using t(4) by (simp add: dispatch_accepted)
  qed
  show "isClientHello (Some m)" if "readString (get_prop (Some m) ''type'') = Some ''client_hello''"
  proof -
    have "type = ''client_hello''" using t(3) that by simp
    then show ?thesis using t(4) by (simp add: dispatch_accepted)
  qed
qed

lemma samples_accepted:
  "parseBridgeMessageV8 (Some (sampleHello ''client_hello'')) \<noteq> Inr None"
  "parseBridgeMessageV8 (Some sampleVmReport) = Inr (Some sampleVmReport)"
  "parseBridgeMessageV8 (Some sampleDesired) = Inr (Some sampleDesired)"
  "parseBridgeMessageV8 (Some (sampleHello '' client_hello '')) = Inl TypeError"
  by code_simp+

text \<open>
  The message type is trimmed before the switch but compared as it stands in the defaulting step, so a
  padded \<^verbatim>\<open>client_hello\<close> takes the branch of a state report and the parser raises.
\<close>

lemma padded_hello_throws:
  "parseBridgeMessageV8 (Some (sampleHello '' client_hello '')) = Inl TypeError"
  by (fact samples_accepted(4))

subsection \<open>Properties\<close>



text \<open>
  C36. The parser raises exactly on a valid hello whose type is padded with white space and which has no
  report with capabilities to fall through to; every other value is accepted or rejected.
\<close>

theorem parse_throws_iff:
  "parseBridgeMessageV8 (Some msg) = Inl e \<longleftrightarrow>
     isRecord (Some msg) \<and> readString (get_prop (Some msg) ''type'') = Some ''client_hello'' \<and>
     hasV7Envelope (Some msg) \<and> isClientHello (Some msg) \<and>
     get_prop (Some msg) ''type'' \<noteq> Some (JStr ''client_hello'') \<and>
     (isNullish (get_prop (Some msg) ''report'') \<or>
      isNullish (get_prop (get_prop (Some msg) ''report'') ''capabilities''))"
  by (rule parse_throws)

text \<open>
  C32. Every VM an accepted report speaks of carries the evidence the control plane relies on: a terminal
  that is not ready brings no endpoint, a ready or solved VM names its boot and a verified quota, the
  execution generation is a positive safe integer, and the report is of the host in the envelope.
\<close>

theorem accepted_vm_evidence:
  assumes "parseBridgeMessageV8 parsed = Inr (Some m)" and "v \<in> reportedVms m"
  shows "(readString (get_prop (get_prop v ''terminal'') ''state'') \<noteq> Some ''ready'' \<longrightarrow>
        isNullish (get_prop (get_prop v ''terminal'') ''target'')) \<and>
    (readString (get_prop v ''phase'') \<in> {Some ''ready'', Some ''solved''} \<longrightarrow>
        isPositiveInteger (get_prop (get_prop v ''runtime_constraints'') ''quota_verified_at_unix_ms'') \<and>
        isPresentString (get_prop (get_prop v ''runtime_constraints'') ''generation'')) \<and>
    (\<exists>n > 0. isSafeInteger n \<and> get_prop v ''generation'' = Some (JInt n)) \<and>
    (\<exists>h. readString (get_prop (Some m) ''host_id'') = Some h \<and>
        get_prop (get_prop (Some m) ''report'') ''host_id'' = Some (JStr h))"
proof -
  note a = accepted_valid [OF assms(1)]
  have "isVmCommonPayload v \<and> (\<exists>h. readString (get_prop (Some m) ''host_id'') = Some h \<and>
      get_prop (get_prop (Some m) ''report'') ''host_id'' = Some (JStr h))"
  proof (cases "readString (get_prop (Some m) ''type'') = Some ''vm_report''")
    case True
    then show ?thesis
      using a(3) [OF True] assms(2)
      by (auto simp: isVmReport_def isVmReportPayload_def reportedVms_def split: option.splits)
  next
    case False
    then have t: "readString (get_prop (Some m) ''type'') = Some ''state_report''"
      using assms(2) by (simp add: reportedVms_def split: if_splits)
    then show ?thesis
      using a(4) [OF t] assms(2) False
      by (auto simp: isStateReport_def Let_def reportedVms_def isArrayOf_def list_all_iff
          isVmActualStatePayload_def split: option.splits)
  qed
  then obtain phase where "isExecutionIdentity v" "isVmTerminalStatePayload (get_prop v ''terminal'')"
    "readString (get_prop v ''phase'') = Some phase"
    "hasRequiredRuntimeConstraints (get_prop v ''runtime_constraints'') phase"
    and h: "\<exists>h. readString (get_prop (Some m) ''host_id'') = Some h \<and>
      get_prop (get_prop (Some m) ''report'') ''host_id'' = Some (JStr h)"
    by (auto elim: vm_common_parts)
  then show ?thesis
    using unready_no_target ready_quota identity_generation by fastforce
qed

theorem accepted_vm_evidence_witness:
  "isPositiveInteger (get_prop (get_prop (get_prop (Some sampleVmReport) ''report'')
     ''runtime_constraints'') ''quota_verified_at_unix_ms'')"
proof -
  have "get_prop (Some sampleVmReport) ''report'' \<in> reportedVms sampleVmReport"
    and "readString (get_prop (get_prop (Some sampleVmReport) ''report'') ''phase'') = Some ''ready''"
    by code_simp+
  then show ?thesis
    using accepted_vm_evidence [OF samples_accepted(2)] by blast
qed

text \<open>
  An accepted desired state is addressed to the host of the envelope, names every VM at most once,
  and on a personal host every VM belongs to the host's owner; every VM has a positive CPU request, a
  positive safe generation and the pinned guest tools.
\<close>

theorem accepted_desired_state:
  assumes "parseBridgeMessageV8 parsed = Inr (Some m)"
    and "readString (get_prop (Some m) ''type'') = Some ''desired_state''"
  shows "let ds = get_prop (Some m) ''desired_state''; vms = elements (get_prop ds ''vms'') in
     (\<exists>h. readString (get_prop (Some m) ''host_id'') = Some h \<and> get_prop ds ''host_id'' = Some (JStr h)) \<and>
     distinct (map (\<lambda>vm. get_prop (Some vm) ''vm_name'') vms) \<and>
     (\<forall>vm \<in> set vms.
        (get_prop ds ''scope'' = Some (JStr ''personal'') \<longrightarrow>
           get_prop (Some vm) ''owner_user_id'' = get_prop ds ''owner_user_id'') \<and>
        isPositiveInteger (get_prop (get_prop (Some vm) ''resources'') ''cpu_millis'') \<and>
        (\<exists>n > 0. isSafeInteger n \<and> get_prop (Some vm) ''generation'' = Some (JInt n)) \<and>
        isGuestToolsPayload (get_prop (Some vm) ''guest_tools''))"
proof -
  let ?ds = "get_prop (Some m) ''desired_state''"
  obtain h where "readString (get_prop (Some m) ''host_id'') = Some h" "get_prop ?ds ''host_id'' = Some (JStr h)"
    and vms: "isArrayOf (ownedDesiredVm ?ds) (get_prop ?ds ''vms'')"
    "distinct (map (\<lambda>vm. get_prop (Some vm) ''vm_name'') (elements (get_prop ?ds ''vms'')))"
    using accepted_valid(5) [OF assms] by (auto simp: isDesiredState_def Let_def split: option.splits)
  moreover have "ownedDesiredVm ?ds (Some vm)" if "vm \<in> set (elements (get_prop ?ds ''vms''))" for vm
    using vms(1) that by (simp add: isArrayOf_def list_all_iff)
  ultimately show ?thesis
    by (simp add: Let_def ownedDesiredVm_def isDesiredVmPayload_def isVmResourcesPayload_def
        identity_generation)
qed

text \<open>
  Defaulting fills in exactly the missing optional flags: the returned hello has a boolean for every
  optional flag, keeps every flag and property it had, and defaults a missing flag to false.
\<close>

theorem hello_defaults:
  assumes "parseBridgeMessageV8 (Some msg) = Inr (Some m)"
    and "get_prop (Some msg) ''type'' = Some (JStr ''client_hello'')"
  shows "let c = get_prop (Some msg) ''capabilities''; c' = get_prop (Some m) ''capabilities'' in
     (\<forall>flag \<in> set optionalFlags. isBoolean (get_prop c' flag) \<and>
        get_prop c' flag = Some (coalesce (get_prop c flag) (JBool False))) \<and>
     (\<forall>k. k \<notin> set optionalFlags \<longrightarrow> get_prop c' k = get_prop c k) \<and>
     (\<forall>k. k \<noteq> ''capabilities'' \<longrightarrow> get_prop (Some m) k = get_prop (Some msg) k)"
proof -
  let ?c = "get_prop (Some msg) ''capabilities''"
  from parse_accepted [OF assms(1)] obtain msg' type where p: "Some msg = Some msg'"
    "isRecord (Some msg')" "readString (get_prop (Some msg') ''type'') = Some type"
    "dispatchMessage type msg' = Inr (Some m)" .
  have "type = ''client_hello''" using p(1,3) readString_exact [OF assms(2)] by simp
  then have v: "isRecord (Some msg)" "isClientHello (Some msg)" "withCapabilityDefaults msg = Inr m"
    using p by (simp_all add: dispatch_accepted)
  then have c: "isHostCapabilitiesPayload ?c" by (simp add: isClientHello_def)
  then have rc: "isRecord ?c" by (simp add: isHostCapabilitiesPayload_def)
  have opt: "get_prop ?c flag = None \<or> isBoolean (get_prop ?c flag)" if "flag \<in> set optionalFlags" for flag
    using c that by (auto simp: isHostCapabilitiesPayload_def list_all_iff)
  have m: "m = (if hasAllFlags ?c then msg else set_prop msg ''capabilities'' (withFlags ?c))"
    using defaults_hello [OF v(1) assms(2) c] v(3) by simp
  have d: "defaultFlag ?c flag = coalesce (get_prop ?c flag) (JBool False)" if "flag \<in> set optionalFlags" for flag
    using opt [OF that] by (auto simp: defaultFlag_def isNullish_def isBoolean_iff)
  show ?thesis
  proof (cases "hasAllFlags ?c")
    case True
    then show ?thesis using opt by (fastforce simp: m hasAllFlags_def list_all_iff Let_def)
  next
    case False
    then show ?thesis
      using v(1) rc defaultFlag_boolean [OF c] by (simp add: m get_prop_set withFlags_props Let_def d)
  qed
qed

end
