(* ===== verification/Cpu_Capacity.thy ===== *)
theory Cpu_Capacity
  imports Bridge_V8
begin

section \<open>Host capacity\<close>

text \<open>
  What a host has left for new runs: the CPU arithmetic of
  \<^verbatim>\<open>src/apps/web/src/control-plane/host-cpu-reservations.ts\<close> on a host report and the reservation rows, and
  the three-resource version of \<^verbatim>\<open>src/apps/web/src/lib/runtime-capacity.ts\<close>. Reports are JSON values as
  stored; sums are computed in double precision, so the overflow cases are part of the model.
\<close>

subsection \<open>Reading a report\<close>

definition readNonNegativeInteger :: "jsvalue \<Rightarrow> int option" where
  "readNonNegativeInteger v =
     (case readInteger v of
        None \<Rightarrow> None
      | Some n \<Rightarrow> if isSafeInteger n \<and> 0 \<le> n then Some n else None)"

definition readPositiveInteger :: "jsvalue \<Rightarrow> int option" where
  "readPositiveInteger v =
     (case readNonNegativeInteger v of
        None \<Rightarrow> None
      | Some n \<Rightarrow> if 0 < n then Some n else None)"

definition strictFlags :: "string list" where
  "strictFlags =
     [''supports_kvm'', ''supports_vsock'', ''supports_reflink'', ''supports_nftables'',
      ''supports_jailer_v3'', ''supports_template_backed_launch'', ''fast_template_store'',
      ''supports_hard_cpu_quota'', ''supports_landlock'', ''supports_cgroup_v2'']"

fun isLowerSha256 :: "jsvalue \<Rightarrow> bool" where
  "isLowerSha256 (Some (JStr s)) =
     (length s = 64 \<and>
      list_all (\<lambda>c. between CHR ''a'' CHR ''f'' c \<or> between CHR ''0'' CHR ''9'' c) s)"
| "isLowerSha256 _ = False"

record StrictCpuCapacity =
  sc_schedulableCpuMillis :: int
  sc_reportedCommittedCpuMillis :: int

definition strictCpuCapacity :: "jsvalue \<Rightarrow> StrictCpuCapacity option" where
  "strictCpuCapacity report =
     (let capacity = get_prop report ''capacity'';
          capabilities = get_prop report ''capabilities''
      in if \<not> isRecord report \<or>
            get_prop report ''schema_version'' \<noteq> Some (JInt HOST_STATE_REPORT_SCHEMA_VERSION)
         then None
         else if \<not> isRecord capacity \<or> \<not> isRecord capabilities \<or>
            \<not> list_all (\<lambda>flag. get_prop capabilities flag = Some (JBool True)) strictFlags \<or>
            \<not> isLowerSha256 (get_prop capabilities ''cloud_hypervisor_sha256'')
         then None
         else
           (case (readNonNegativeInteger (get_prop capacity ''schedulable_cpu_millis''),
                  readNonNegativeInteger (get_prop capacity ''committed_cpu_millis''),
                  readNonNegativeInteger (get_prop capacity ''total_cpu_millis''),
                  readNonNegativeInteger (get_prop capacity ''reserved_cpu_millis'')) of
              (Some schedulable, Some committed, Some totalMillis, Some reserved) \<Rightarrow>
                (if totalMillis < js_add reserved schedulable \<or> schedulable < committed then None
                 else Some \<lparr>sc_schedulableCpuMillis = schedulable,
                            sc_reportedCommittedCpuMillis = committed\<rparr>)
            | _ \<Rightarrow> None))"

subsection \<open>CPU reservations of a host\<close>

datatype ReservationState = RS_pending | RS_committed

record CapacityRow =
  cw_runId :: string
  cw_cpuMillis :: int
  cw_state :: ReservationState

datatype CpuReservationError = ReservationInvalid | ReservationOverflows

definition cpuReservationForVms :: "int list \<Rightarrow> CpuReservationError + int" where
  "cpuReservationForVms cpuMillisByVm =
     (if cpuMillisByVm = [] \<or> list_ex (\<lambda>c. \<not> isSafeInteger c \<or> c \<le> 0) cpuMillisByVm
      then Inl ReservationInvalid
      else
        (let cpuMillis = js_sum cpuMillisByVm in
         if \<not> isSafeInteger cpuMillis then Inl ReservationOverflows else Inr cpuMillis))"

definition sumCpuMillis :: "CapacityRow list \<Rightarrow> int" where
  "sumCpuMillis rows = js_sum (map cw_cpuMillis rows)"

text \<open>The CPU a reported VM really has: the attested quota, else the measured one.\<close>

definition vmCpuMillis :: "jsvalue \<Rightarrow> int option" where
  "vmCpuMillis vm =
     (let runtimeConstraints = get_prop vm ''runtime_constraints'';
          resourceState = get_prop vm ''resource_state'';
          attestedEffective =
            (if isRecord runtimeConstraints
             then readPositiveInteger (get_prop runtimeConstraints ''cpu_millis'') else None);
          quotaUs = (if isRecord resourceState
                     then readPositiveInteger (get_prop resourceState ''cpu_quota_us'') else None);
          periodUs = (if isRecord resourceState
                      then readPositiveInteger (get_prop resourceState ''cpu_period_us'') else None);
          quotaEffective =
            (case (quotaUs, periodUs) of
               (Some quota, Some period) \<Rightarrow> Some \<lceil>js_quotient (js_mul quota 1000) period\<rceil>
             | _ \<Rightarrow> None)
      in case coalesce_opt attestedEffective quotaEffective of
           None \<Rightarrow> None
         | Some cpuMillis \<Rightarrow> if isSafeInteger cpuMillis then Some cpuMillis else None)"

text \<open>A reported VM that counts for a reserved run.\<close>

definition countedRun :: "string list \<Rightarrow> json \<Rightarrow> string option" where
  "countedRun runIds vm =
     (case get_prop (Some vm) ''run_id'' of
        Some (JStr runId) \<Rightarrow>
          if runId \<in> set runIds \<and> get_prop (Some vm) ''phase'' \<noteq> Some (JStr ''absent'')
          then Some runId else None
      | _ \<Rightarrow> None)"

definition addReported ::
  "string list \<Rightarrow> json \<Rightarrow> (string \<times> int) list \<Rightarrow> (string \<times> int) list" where
  "addReported runIds vm byRun =
     (case (countedRun runIds vm, vmCpuMillis (Some vm)) of
        (Some runId, Some cpuMillis) \<Rightarrow>
          AList.update runId (js_add (coalesce (map_of byRun runId) 0) cpuMillis) byRun
      | _ \<Rightarrow> byRun)"

definition reportedCpuMillisByRun :: "jsvalue \<Rightarrow> string list \<Rightarrow> (string \<times> int) list" where
  "reportedCpuMillisByRun report runIds =
     (if \<not> isRecord report \<or> \<not> isArray (get_prop report ''vms'') \<or> runIds = [] then []
      else fold (addReported runIds) (elements (get_prop report ''vms'')) [])"

record HostCpuReservationCapacity =
  cap_schedulableCpuMillis :: int
  cap_reportedCommittedCpuMillis :: int
  cap_controlPlanePendingCpuMillis :: int
  cap_controlPlaneCommittedCpuMillis :: int
  cap_effectiveCommittedCpuMillis :: int
  cap_availableCpuMillis :: int

definition hostCpuReservationCapacityFromSnapshot ::
  "jsvalue \<Rightarrow> CapacityRow list \<Rightarrow> HostCpuReservationCapacity option" where
  "hostCpuReservationCapacityFromSnapshot report reservations =
     (case strictCpuCapacity report of
        None \<Rightarrow> None
      | Some reported \<Rightarrow>
          (let byRun = reportedCpuMillisByRun report (js_set (map cw_runId reservations));
               reportedReserved = js_sum (map snd byRun);
               reportedUnreserved =
                 max 0 (js_add (sc_reportedCommittedCpuMillis reported) (- reportedReserved));
               effective =
                 js_add
                   (js_sum (map (\<lambda>r. max (cw_cpuMillis r) (coalesce (map_of byRun (cw_runId r)) 0))
                              reservations))
                   reportedUnreserved
           in Some \<lparr>
                cap_schedulableCpuMillis = sc_schedulableCpuMillis reported,
                cap_reportedCommittedCpuMillis = sc_reportedCommittedCpuMillis reported,
                cap_controlPlanePendingCpuMillis =
                  sumCpuMillis (filter (\<lambda>r. cw_state r = RS_pending) reservations),
                cap_controlPlaneCommittedCpuMillis =
                  sumCpuMillis (filter (\<lambda>r. cw_state r = RS_committed) reservations),
                cap_effectiveCommittedCpuMillis = effective,
                cap_availableCpuMillis =
                  max 0 (js_add (sc_schedulableCpuMillis reported) (- effective))\<rparr>))"

subsection \<open>Memory, disk and CPU together\<close>

record RuntimeResourceDemand =
  rd_cpuMillis :: int
  rd_memoryMib :: int
  rd_worstCaseDiskMib :: int

record ReservationSnapshot =
  rz_execution_id :: string
  rz_host_id :: string
  rz_cpu_millis :: int
  rz_memory_mib :: int
  rz_worst_case_disk_mib :: int
  rz_state :: ReservationState
  rz_expires_at :: "int option"

record ReservedVmSnapshot =
  rw_execution_id :: string
  rw_runtime_vm_name :: string
  rw_cpu_millis :: int
  rw_memory_mib :: int

definition vmIdentityKey :: "string \<Rightarrow> string \<Rightarrow> string" where
  "vmIdentityKey executionId vmName = executionId @ [CHR 0x00] @ vmName"

definition safePositive :: "jsvalue \<Rightarrow> int option" where
  "safePositive v =
     (case readInteger v of
        None \<Rightarrow> None
      | Some n \<Rightarrow> if isSafeInteger n \<and> 0 < n then Some n else None)"

definition reportedEffectiveCpuMillis :: "jsvalue \<Rightarrow> int option" where
  "reportedEffectiveCpuMillis vm =
     coalesce_opt (safePositive (get_prop (get_prop vm ''runtime_constraints'') ''cpu_millis''))
       (safePositive (get_prop (get_prop vm ''resource_state'') ''cpu_millis''))"

definition stringProp :: "jsvalue \<Rightarrow> string \<Rightarrow> string" where
  "stringProp v k = (case get_prop v k of Some (JStr s) \<Rightarrow> s | _ \<Rightarrow> [])"

definition integerProp :: "jsvalue \<Rightarrow> string \<Rightarrow> int" where
  "integerProp v k = coalesce (readInteger (get_prop v k)) 0"

definition addReportedExecution ::
  "string list \<Rightarrow> string list \<Rightarrow> json \<Rightarrow> (string \<times> int) list \<Rightarrow> (string \<times> int) list" where
  "addReportedExecution executionIds identities vm byExecution =
     (let runId = stringProp (Some vm) ''run_id'' in
      if runId \<notin> set executionIds \<or>
         vmIdentityKey runId (stringProp (Some vm) ''vm_name'') \<notin> set identities
      then byExecution
      else
        (case reportedEffectiveCpuMillis (Some vm) of
           None \<Rightarrow> byExecution
         | Some cpuMillis \<Rightarrow>
             AList.update runId (js_add (coalesce (map_of byExecution runId) 0) cpuMillis) byExecution))"

definition availableRuntimeHostResources ::
  "string \<Rightarrow> jsvalue \<Rightarrow> ReservationSnapshot list \<Rightarrow> ReservedVmSnapshot list \<Rightarrow>
   RuntimeResourceDemand option" where
  "availableRuntimeHostResources hostId report allReservations allReservedVms =
     (case strictCpuCapacity report of
        None \<Rightarrow> None
      | Some cpuCapacity \<Rightarrow>
          (let reservations = filter (\<lambda>r. rz_host_id r = hostId) allReservations;
               executionIds = map rz_execution_id reservations;
               reservedVms = filter (\<lambda>vm. rw_execution_id vm \<in> set executionIds) allReservedVms;
               identities =
                 map (\<lambda>vm. vmIdentityKey (rw_execution_id vm) (rw_runtime_vm_name vm)) reservedVms;
               byExecution =
                 fold (addReportedExecution executionIds identities)
                   (elements (get_prop report ''vms'')) [];
               cpuTopUpMillis =
                 js_sum (map (\<lambda>r. max 0 (js_add (rz_cpu_millis r)
                     (- coalesce (map_of byExecution (rz_execution_id r)) 0))) reservations);
               reservedMemoryMib = js_sum (map rz_memory_mib reservations);
               worstCaseDiskMib = js_sum (map rz_worst_case_disk_mib reservations);
               capacity = get_prop report ''capacity''
           in Some \<lparr>
                rd_cpuMillis =
                  max 0 (js_add
                    (js_add (sc_schedulableCpuMillis cpuCapacity)
                       (- sc_reportedCommittedCpuMillis cpuCapacity))
                    (- cpuTopUpMillis)),
                rd_memoryMib =
                  max 0 (js_add (integerProp capacity ''memory_available_mib'') (- reservedMemoryMib)),
                rd_worstCaseDiskMib =
                  max 0 (js_add (integerProp capacity ''disk_available_mib'') (- worstCaseDiskMib))\<rparr>))"

definition runtimeResourcesFit :: "RuntimeResourceDemand \<Rightarrow> RuntimeResourceDemand \<Rightarrow> bool" where
  "runtimeResourcesFit required available \<longleftrightarrow>
     rd_cpuMillis required \<le> rd_cpuMillis available \<and>
     rd_memoryMib required \<le> rd_memoryMib available \<and>
     rd_worstCaseDiskMib required \<le> rd_worstCaseDiskMib available"

text \<open>
  The rows a snapshot selects: live reservations of the given hosts, and the VMs they cover. A reservation
  is keyed by its execution, so the join of the query has every VM at most once.
\<close>

definition liveReservation :: "int \<Rightarrow> string list \<Rightarrow> ReservationSnapshot \<Rightarrow> bool" where
  "liveReservation now hostIds r \<longleftrightarrow>
     (rz_state r = RS_committed \<or> (case rz_expires_at r of None \<Rightarrow> True | Some e \<Rightarrow> now < e)) \<and>
     rz_host_id r \<in> set hostIds"

definition loadActiveRuntimeResourceSnapshot ::
  "int \<Rightarrow> string list \<Rightarrow> ReservationSnapshot list \<Rightarrow> ReservedVmSnapshot list \<Rightarrow>
   ReservationSnapshot list \<times> ReservedVmSnapshot list" where
  "loadActiveRuntimeResourceSnapshot now hostIds unreleased vms =
     (if hostIds = [] then ([], [])
      else
        (let live = filter (liveReservation now hostIds) unreleased
         in (live, filter (\<lambda>vm. rw_execution_id vm \<in> set (map rz_execution_id live)) vms)))"

subsection \<open>Specification vocabulary\<close>

text \<open>The totals reported per run are for reserved runs, one each, and not negative.\<close>

definition reportedOk :: "string list \<Rightarrow> (string \<times> int) list \<Rightarrow> bool" where
  "reportedOk runIds byRun \<longleftrightarrow>
     distinct (map fst byRun) \<and> fst ` set byRun \<subseteq> set runIds \<and> (\<forall>kv \<in> set byRun. 0 \<le> snd kv)"

text \<open>The reservations of a host for executions its report does not mention.\<close>

definition unreported :: "string \<Rightarrow> jsvalue \<Rightarrow> ReservationSnapshot list \<Rightarrow> ReservationSnapshot list" where
  "unreported hostId report reservations =
     filter (\<lambda>r. rz_host_id r = hostId \<and>
       rz_execution_id r \<notin> set (map (\<lambda>vm. stringProp (Some vm) ''run_id'') (elements (get_prop report ''vms''))))
     reservations"

text \<open>A host with 4000 schedulable CPU, 1000 of it committed to its one VM.\<close>

definition sampleReport :: json where
  "sampleReport =
     JObj [(''schema_version'', JInt 7),
           (''capacity'',
            JObj [(''total_cpu_millis'', JInt 5000), (''reserved_cpu_millis'', JInt 1000),
                  (''schedulable_cpu_millis'', JInt 4000), (''committed_cpu_millis'', JInt 1000),
                  (''memory_available_mib'', JInt 8192), (''disk_available_mib'', JInt 20000)]),
           (''capabilities'',
            JObj ((''cloud_hypervisor_sha256'', JStr (replicate 64 CHR ''a'')) #
                  map (\<lambda>flag. (flag, JBool True)) strictFlags)),
           (''vms'',
            JArr [JObj [(''run_id'', JStr ''r1''), (''vm_name'', JStr ''r1-web''), (''phase'', JStr ''ready''),
                        (''resource_state'',
                         JObj [(''cpu_quota_us'', JInt 100000), (''cpu_period_us'', JInt 100000)])]])]"

subsection \<open>Lemmas\<close>

lemma readNonNegativeInteger_Some:
  "readNonNegativeInteger v = Some n \<Longrightarrow> isSafeInteger n \<and> 0 \<le> n"
  by (auto simp: readNonNegativeInteger_def split: option.splits if_splits)

lemma strict_bounds:
  assumes "strictCpuCapacity report = Some c"
  shows "isSafeInteger (sc_schedulableCpuMillis c)" "0 \<le> sc_reportedCommittedCpuMillis c"
    "sc_reportedCommittedCpuMillis c \<le> sc_schedulableCpuMillis c"
  using assms
  by (auto simp: strictCpuCapacity_def Let_def split: if_splits option.splits dest!: readNonNegativeInteger_Some)

lemma vmCpuMillis_nonneg: "vmCpuMillis vm = Some n \<Longrightarrow> 0 \<le> n"
proof -
  have q: "0 \<le> \<lceil>js_quotient (js_mul a 1000) b\<rceil>" if "0 < a" "0 < b" for a b
  proof -
    have "0 \<le> js_mul a 1000" using that by (simp add: js_mul_def js_round_def round_abs_nonneg)
    then show ?thesis using js_quotient_nonneg [of "js_mul a 1000" b] that by linarith
  qed
  have p: "0 < m" if "readPositiveInteger v = Some m" for v m
    using that by (auto simp: readPositiveInteger_def split: option.splits if_splits)
  assume "vmCpuMillis vm = Some n"
  then show ?thesis
    by (auto simp: vmCpuMillis_def Let_def coalesce_opt_def split: option.splits if_splits prod.splits
        dest!: p intro: q less_imp_le)
qed

lemma map_of_nonneg: "\<forall>kv \<in> set byRun. 0 \<le> snd kv \<Longrightarrow> (0::int) \<le> coalesce (map_of byRun k) 0"
  by (cases "map_of byRun k") (force simp: coalesce_def dest: map_of_SomeD)+

lemma set_update_subset: "set (AList.update k v al) \<subseteq> insert (k, v) (set al)"
  by (induction al) auto

lemma update_reportedOk:
  assumes "reportedOk runIds byRun" and "runId \<in> set runIds" and "0 \<le> v"
  shows "reportedOk runIds (AList.update runId v byRun)"
  using assms set_update_subset [of runId v byRun]
  by (fastforce simp: reportedOk_def distinct_update)

lemma addReported_ok:
  assumes "reportedOk runIds byRun"
  shows "reportedOk runIds (addReported runIds vm byRun)"
proof (cases "countedRun runIds vm")
  case (Some runId)
  then have "runId \<in> set runIds"
    by (auto simp: countedRun_def split: option.splits json.splits if_splits)
  then show ?thesis
    using Some assms map_of_nonneg [of byRun runId] vmCpuMillis_nonneg [of "Some vm"]
    by (auto simp: addReported_def split: option.split intro!: update_reportedOk js_add_ge_0)
       (simp add: reportedOk_def)
qed (simp add: addReported_def assms)

lemma reported_ok: "reportedOk runIds (reportedCpuMillisByRun report runIds)"
proof -
  have "reportedOk runIds (fold (addReported runIds) vms byRun)" if "reportedOk runIds byRun" for vms byRun
    using that by (induction vms arbitrary: byRun) (auto intro: addReported_ok)
  from this [of "[]"] show ?thesis
    by (cases "\<not> isRecord report \<or> \<not> isArray (get_prop report ''vms'') \<or> runIds = []")
       (auto simp: reportedCpuMillisByRun_def reportedOk_def [of _ "[]"])
qed

lemma sum_set_le_sum_list: "(\<And>x. 0 \<le> (f x :: int)) \<Longrightarrow> sum f (set xs) \<le> sum_list (map f xs)"
proof (induction xs)
  case (Cons x xs)
  then have "sum f (set (x # xs)) \<le> f x + sum f (set xs)"
    by (cases "x \<in> set xs") (auto simp: insert_absorb)
  then show ?case using Cons by auto
qed simp

text \<open>The total over the reported runs is at most the total over the reservations.\<close>

lemma reported_le_reserved:
  assumes "reportedOk runIds byRun" and "set runIds = set (map f rows)"
  shows "sum_list (map snd byRun) \<le> sum_list (map (\<lambda>r. coalesce (map_of byRun (f r)) 0) rows)"
proof -
  let ?g = "\<lambda>k. coalesce (map_of byRun k) 0"
  have d: "distinct (map fst byRun)" and sub: "fst ` set byRun \<subseteq> set (map f rows)"
    and nn: "\<And>k. 0 \<le> ?g k"
    using assms map_of_nonneg [of byRun] by (simp_all add: reportedOk_def)
  have "map snd byRun = map ?g (map fst byRun)"
    using d by (auto simp: coalesce_def)
  then have "sum_list (map snd byRun) = sum_list (map ?g (map fst byRun))" by (simp only:)
  also have "\<dots> = sum ?g (fst ` set byRun)"
    using d by (subst sum_list_distinct_conv_sum_set) simp_all
  also have "sum ?g (fst ` set byRun) \<le> sum ?g (set (map f rows))"
    by (rule sum_mono2) (use sub nn in auto)
  also have "\<dots> \<le> sum_list (map ?g (map f rows))"
    by (rule sum_set_le_sum_list [OF nn])
  finally show ?thesis by (simp add: comp_def)
qed

text \<open>
  The computed commitment of a host covers, as exact integers, the reservations and the CPU the host
  reports as committed, unless it has left the range of exact numbers altogether.
\<close>

lemma effective_covers:
  assumes rows: "\<forall>r \<in> set reservations. 0 \<le> cw_cpuMillis r" and "0 \<le> committed"
    and "isSafeInteger committed"
    and byRun: "byRun = reportedCpuMillisByRun report (js_set (map cw_runId reservations))"
    and vals: "vals = map (\<lambda>r. max (cw_cpuMillis r) (coalesce (map_of byRun (cw_runId r)) 0)) reservations"
    and eff: "eff = js_add (js_sum vals) (max 0 (js_add committed (- js_sum (map snd byRun))))"
    and "eff < 2 ^ 53"
  shows "sum_list (map cw_cpuMillis reservations) \<le> eff" "committed \<le> eff"
proof -
  have ok: "reportedOk (js_set (map cw_runId reservations)) byRun" by (simp only: byRun reported_ok)
  then have snds: "\<forall>x \<in> set (map snd byRun). 0 \<le> x" by (auto simp: reportedOk_def)
  have nn: "\<forall>x \<in> set vals. 0 \<le> x" using rows by (auto simp: vals)
  have e1: "eff = js_sum vals + max 0 (js_add committed (- js_sum (map snd byRun)))"
    unfolding eff by (rule js_add_exact) (use js_sum_ge_0 [OF nn] assms(7) eff in auto)
  then have "js_sum vals < 2 ^ 53" using assms(7) by linarith
  then have s: "js_sum vals = sum_list vals" by (rule js_sum_exact [OF nn])
  have h: "max 0 (js_add committed (- js_sum (map snd byRun))) = max 0 (committed - js_sum (map snd byRun))"
    by (rule js_headroom [OF assms(3) js_sum_ge_0 [OF snds]])
  have "sum_list (map cw_cpuMillis reservations) \<le> sum_list vals"
    unfolding vals by (rule sum_list_mono) simp
  then show "sum_list (map cw_cpuMillis reservations) \<le> eff" using e1 s by linarith
  have "sum_list (map snd byRun) \<le> sum_list (map (\<lambda>r. coalesce (map_of byRun (cw_runId r)) 0) reservations)"
    by (rule reported_le_reserved [OF ok]) simp
  also have "\<dots> \<le> sum_list vals" unfolding vals by (rule sum_list_mono) simp
  finally have rep: "sum_list (map snd byRun) \<le> sum_list vals" .
  then have "isSafeInteger (sum_list (map snd byRun))"
    using \<open>js_sum vals < 2 ^ 53\<close> s sum_list_nonneg [of "map snd byRun"] snds by (simp add: isSafeInteger_iff)
  then have "js_sum (map snd byRun) = sum_list (map snd byRun)"
    using js_sum_nonneg [OF snds] by simp
  then show "committed \<le> eff" using e1 s h rep by linarith
qed

lemma capacity_available:
  assumes "\<forall>r \<in> set reservations. 0 \<le> cw_cpuMillis r"
    and "hostCpuReservationCapacityFromSnapshot report reservations = Some c"
  shows "0 < cap_availableCpuMillis c \<Longrightarrow>
      sum_list (map cw_cpuMillis reservations) + cap_availableCpuMillis c \<le> cap_schedulableCpuMillis c \<and>
      cap_reportedCommittedCpuMillis c + cap_availableCpuMillis c \<le> cap_schedulableCpuMillis c"
    "0 \<le> cap_availableCpuMillis c" "cap_availableCpuMillis c \<le> cap_schedulableCpuMillis c"
proof -
  from assms(2) obtain strict where strict: "strictCpuCapacity report = Some strict"
    by (auto simp: hostCpuReservationCapacityFromSnapshot_def split: option.splits)
  note b = strict_bounds [OF strict]
  define byRun where "byRun = reportedCpuMillisByRun report (js_set (map cw_runId reservations))"
  define vals where
    "vals = map (\<lambda>r. max (cw_cpuMillis r) (coalesce (map_of byRun (cw_runId r)) 0)) reservations"
  define eff where
    "eff = js_add (js_sum vals)
       (max 0 (js_add (sc_reportedCommittedCpuMillis strict) (- js_sum (map snd byRun))))"
  have c: "cap_schedulableCpuMillis c = sc_schedulableCpuMillis strict"
    "cap_reportedCommittedCpuMillis c = sc_reportedCommittedCpuMillis strict"
    "cap_availableCpuMillis c = max 0 (js_add (sc_schedulableCpuMillis strict) (- eff))"
    using assms(2) by (auto simp: hostCpuReservationCapacityFromSnapshot_def strict Let_def eff_def vals_def byRun_def)
  have "\<forall>x \<in> set vals. 0 \<le> x" using assms(1) by (auto simp: vals_def)
  then have e0: "0 \<le> eff" unfolding eff_def by (intro js_add_ge_0 js_sum_ge_0) simp_all
  have av: "cap_availableCpuMillis c = max 0 (sc_schedulableCpuMillis strict - eff)"
    using js_headroom [OF b(1) e0] c(3) by simp
  then show "0 \<le> cap_availableCpuMillis c" "cap_availableCpuMillis c \<le> cap_schedulableCpuMillis c"
    using e0 b c(1) by auto
  have safe: "isSafeInteger (sc_reportedCommittedCpuMillis strict)"
    using b by (simp add: isSafeInteger_iff)
  show "sum_list (map cw_cpuMillis reservations) + cap_availableCpuMillis c \<le> cap_schedulableCpuMillis c \<and>
      cap_reportedCommittedCpuMillis c + cap_availableCpuMillis c \<le> cap_schedulableCpuMillis c"
    if "0 < cap_availableCpuMillis c"
  proof -
    have "eff < sc_schedulableCpuMillis strict" using that av by simp
    moreover from this have "eff < 2 ^ 53" using b(1) by (simp add: isSafeInteger_iff)
    ultimately show ?thesis
      using effective_covers [OF assms(1) b(2) safe byRun_def vals_def eff_def] av c(1,2) by simp
  qed
qed

lemma cpuReservation_Inr:
  "cpuReservationForVms xs = Inr n \<longleftrightarrow>
     xs \<noteq> [] \<and> (\<forall>x \<in> set xs. 0 < x) \<and> isSafeInteger (sum_list xs) \<and> n = sum_list xs"
proof -
  have elems: "isSafeInteger x" if "\<forall>x \<in> set xs. 0 < x" "isSafeInteger (sum_list xs)" "x \<in> set xs" for x
  proof -
    have "x \<le> sum_list xs" by (rule member_le_sum_list) (use that in \<open>auto intro: less_imp_le\<close>)
    then show ?thesis using that by (auto simp: isSafeInteger_iff)
  qed
  show ?thesis
  proof (cases "\<forall>x \<in> set xs. 0 < x")
    case True
    then show ?thesis
      using js_sum_pos [OF True] elems
      by (auto simp: cpuReservationForVms_def list_ex_iff Let_def)
  qed (auto simp: cpuReservationForVms_def list_ex_iff)
qed

lemma execution_keys:
  "map_of (fold (addReportedExecution ids keys) vms al) k \<noteq> None \<Longrightarrow>
   k \<in> set (map (\<lambda>vm. stringProp (Some vm) ''run_id'') vms) \<or> map_of al k \<noteq> None"
proof (induction vms arbitrary: al)
  case (Cons vm vms)
  have "map_of (addReportedExecution ids keys vm al) k \<noteq> None \<Longrightarrow>
      k = stringProp (Some vm) ''run_id'' \<or> map_of al k \<noteq> None"
    by (auto simp: addReportedExecution_def Let_def update_conv' split: if_splits option.splits)
  then show ?case using Cons by auto
qed simp

lemma filter_sum_le:
  "(\<forall>x \<in> set xs. P x \<longrightarrow> f x \<le> g x) \<Longrightarrow> (\<And>x. 0 \<le> (g x :: int)) \<Longrightarrow>
   sum_list (map f (filter P xs)) \<le> sum_list (map g xs)"
  by (induction xs) (auto intro: add_mono add_increasing)

lemma charge_le:
  fixes q :: int
  shows "t + q \<le> s + - c \<Longrightarrow> u \<le> t \<Longrightarrow> c + u + q \<le> s"
  by linarith

lemma headroom_fits:
  assumes "\<forall>x \<in> set xs. 0 \<le> x" and "isSafeInteger capacity"
    and "0 < required" and "required \<le> max 0 (js_add capacity (- js_sum xs))"
  shows "sum_list xs + required \<le> capacity"
proof -
  have "max 0 (js_add capacity (- js_sum xs)) = max 0 (capacity - js_sum xs)"
    by (rule js_headroom [OF assms(2) js_sum_ge_0 [OF assms(1)]])
  then have "required \<le> capacity - js_sum xs" using assms(3,4) by simp
  moreover from this have "js_sum xs < 2 ^ 53" using assms(2,3) by (simp add: isSafeInteger_iff)
  ultimately show ?thesis using js_sum_exact [OF assms(1)] by simp
qed

lemma fit_no_overcommit_lemma:
  assumes rows: "\<forall>r \<in> set reservations. 0 < rz_cpu_millis r \<and> isSafeInteger (rz_cpu_millis r) \<and>
      0 \<le> rz_memory_mib r \<and> 0 \<le> rz_worst_case_disk_mib r"
    and "availableRuntimeHostResources hostId report reservations vms = Some avail"
    and "strictCpuCapacity report = Some capacity"
    and "isSafeInteger (integerProp (get_prop report ''capacity'') ''memory_available_mib'')"
    and "isSafeInteger (integerProp (get_prop report ''capacity'') ''disk_available_mib'')"
    and "runtimeResourcesFit required avail"
    and pos: "0 < rd_cpuMillis required" "0 < rd_memoryMib required" "0 < rd_worstCaseDiskMib required"
  shows "sum_list (map rz_memory_mib (filter (\<lambda>r. rz_host_id r = hostId) reservations)) + rd_memoryMib required
      \<le> integerProp (get_prop report ''capacity'') ''memory_available_mib''"
    "sum_list (map rz_worst_case_disk_mib (filter (\<lambda>r. rz_host_id r = hostId) reservations)) +
       rd_worstCaseDiskMib required \<le> integerProp (get_prop report ''capacity'') ''disk_available_mib''"
    "sc_reportedCommittedCpuMillis capacity + sum_list (map rz_cpu_millis (unreported hostId report reservations)) +
       rd_cpuMillis required \<le> sc_schedulableCpuMillis capacity"
proof -
  let ?mine = "filter (\<lambda>r. rz_host_id r = hostId) reservations"
  let ?vms = "elements (get_prop report ''vms'')"
  let ?capacity = "get_prop report ''capacity''"
  define ids where "ids = map rz_execution_id ?mine"
  define keys where "keys = map (\<lambda>vm. vmIdentityKey (rw_execution_id vm) (rw_runtime_vm_name vm))
      (filter (\<lambda>vm. rw_execution_id vm \<in> set ids) vms)"
  have a: "avail = \<lparr>
      rd_cpuMillis = max 0 (js_add (js_add (sc_schedulableCpuMillis capacity)
          (- sc_reportedCommittedCpuMillis capacity))
          (- js_sum (map (\<lambda>r. max 0 (js_add (rz_cpu_millis r)
              (- coalesce (map_of (fold (addReportedExecution ids keys) ?vms []) (rz_execution_id r)) 0))) ?mine))),
      rd_memoryMib = max 0 (js_add (integerProp ?capacity ''memory_available_mib'')
          (- js_sum (map rz_memory_mib ?mine))),
      rd_worstCaseDiskMib = max 0 (js_add (integerProp ?capacity ''disk_available_mib'')
          (- js_sum (map rz_worst_case_disk_mib ?mine)))\<rparr>"
    using assms(2) unfolding availableRuntimeHostResources_def assms(3) option.case Let_def
      ids_def [symmetric] keys_def [symmetric] option.inject by (rule sym)
  have fit: "rd_memoryMib required \<le> max 0 (js_add (integerProp ?capacity ''memory_available_mib'')
          (- js_sum (map rz_memory_mib ?mine)))"
    "rd_worstCaseDiskMib required \<le> max 0 (js_add (integerProp ?capacity ''disk_available_mib'')
          (- js_sum (map rz_worst_case_disk_mib ?mine)))"
    "rd_cpuMillis required \<le> max 0 (js_add (js_add (sc_schedulableCpuMillis capacity)
          (- sc_reportedCommittedCpuMillis capacity))
          (- js_sum (map (\<lambda>r. max 0 (js_add (rz_cpu_millis r)
              (- coalesce (map_of (fold (addReportedExecution ids keys) ?vms []) (rz_execution_id r)) 0))) ?mine)))"
    using assms(6) unfolding runtimeResourcesFit_def a RuntimeResourceDemand.simps by blast+
  have mem: "\<forall>x \<in> set (map rz_memory_mib ?mine). 0 \<le> x"
    and disk: "\<forall>x \<in> set (map rz_worst_case_disk_mib ?mine). 0 \<le> x"
    using rows by auto
  show "sum_list (map rz_memory_mib ?mine) + rd_memoryMib required
      \<le> integerProp ?capacity ''memory_available_mib''"
    by (rule headroom_fits [OF mem assms(4) pos(2) fit(1)])
  show "sum_list (map rz_worst_case_disk_mib ?mine) + rd_worstCaseDiskMib required
      \<le> integerProp ?capacity ''disk_available_mib''"
    by (rule headroom_fits [OF disk assms(5) pos(3) fit(2)])
  let ?by = "fold (addReportedExecution ids keys) ?vms []"
  let ?top = "\<lambda>r. max 0 (js_add (rz_cpu_millis r) (- coalesce (map_of ?by (rz_execution_id r)) 0))"
  note b = strict_bounds [OF assms(3)]
  have safe: "isSafeInteger (sc_schedulableCpuMillis capacity + - sc_reportedCommittedCpuMillis capacity)"
    using b by (simp add: isSafeInteger_iff)
  have nn: "\<forall>x \<in> set (map ?top ?mine). 0 \<le> x" by simp
  have "sum_list (map ?top ?mine) + rd_cpuMillis required
      \<le> sc_schedulableCpuMillis capacity + - sc_reportedCommittedCpuMillis capacity"
    by (rule headroom_fits [OF nn safe pos(1) fit(3) [unfolded js_add_safe [OF safe]]])
  moreover have "sum_list (map rz_cpu_millis (unreported hostId report reservations)) \<le> sum_list (map ?top ?mine)"
  proof -
    let ?P = "\<lambda>r. rz_execution_id r \<notin> set (map (\<lambda>vm. stringProp (Some vm) ''run_id'') ?vms)"
    have none: "map_of ?by k = None" if "k \<notin> set (map (\<lambda>vm. stringProp (Some vm) ''run_id'') ?vms)" for k
      using execution_keys [of ids keys ?vms "[]" k] that by auto
    have "rz_cpu_millis r \<le> ?top r" if "r \<in> set ?mine" "?P r" for r
    proof -
      have "isSafeInteger (rz_cpu_millis r + - 0)" using rows that(1) by simp
      then have "?top r = max 0 (rz_cpu_millis r)"
        by (simp only: none [OF that(2)] coalesce_def option.case js_add_safe minus_zero add_0_right)
      then show ?thesis by simp
    qed
    then have "sum_list (map rz_cpu_millis (filter ?P ?mine)) \<le> sum_list (map ?top ?mine)"
      by (intro filter_sum_le) simp_all
    moreover have "unreported hostId report reservations = filter ?P ?mine"
      unfolding unreported_def filter_filter by (rule filter_cong) auto
    ultimately show ?thesis by (simp only:)
  qed
  ultimately show "sc_reportedCommittedCpuMillis capacity +
      sum_list (map rz_cpu_millis (unreported hostId report reservations)) +
       rd_cpuMillis required \<le> sc_schedulableCpuMillis capacity" by (rule charge_le)
qed

subsection \<open>Properties\<close>

text \<open>
  C7. A host is never overcommitted by its CPU capacity: whatever is offered to new runs fits beside the
  sum of all reservations and beside everything the host reports as committed, as exact integers, even
  when the totals leave the range of exact doubles; the offer is never negative and never more than the
  schedulable CPU.
\<close>

theorem capacity_no_overcommit:
  assumes "\<forall>r \<in> set reservations. 0 \<le> cw_cpuMillis r"
    and "hostCpuReservationCapacityFromSnapshot report reservations = Some c"
  shows "0 \<le> cap_availableCpuMillis c \<and> cap_availableCpuMillis c \<le> cap_schedulableCpuMillis c \<and>
    (0 < cap_availableCpuMillis c \<longrightarrow>
      sum_list (map cw_cpuMillis reservations) + cap_availableCpuMillis c \<le> cap_schedulableCpuMillis c \<and>
      cap_reportedCommittedCpuMillis c + cap_availableCpuMillis c \<le> cap_schedulableCpuMillis c)"
  using capacity_available [OF assms] by blast

theorem capacity_no_overcommit_witness:
  "\<exists>c. hostCpuReservationCapacityFromSnapshot (Some sampleReport)
      [\<lparr>cw_runId = ''r1'', cw_cpuMillis = 1000, cw_state = RS_committed\<rparr>,
       \<lparr>cw_runId = ''r2'', cw_cpuMillis = 500, cw_state = RS_pending\<rparr>] = Some c \<and>
    cap_availableCpuMillis c = 2500 \<and> 1500 + cap_availableCpuMillis c \<le> cap_schedulableCpuMillis c"
proof -
  let ?rows = "[\<lparr>cw_runId = ''r1'', cw_cpuMillis = 1000, cw_state = RS_committed\<rparr>,
       \<lparr>cw_runId = ''r2'', cw_cpuMillis = 500, cw_state = RS_pending\<rparr>]"
  have some: "map_option cap_availableCpuMillis
      (hostCpuReservationCapacityFromSnapshot (Some sampleReport) ?rows) = Some 2500"
    by code_simp
  then obtain c where c: "hostCpuReservationCapacityFromSnapshot (Some sampleReport) ?rows = Some c"
    "cap_availableCpuMillis c = 2500" by auto
  then show ?thesis using capacity_no_overcommit [OF _ c(1)] by simp
qed



text \<open>
  The CPU a scenario reserves is exact: the sum is returned precisely when there is a VM, every VM asks
  for a positive amount and the true total is a safe integer; every other request is refused, overflow
  included.
\<close>

theorem cpu_reservation_exact:
  "cpuReservationForVms xs =
     (if xs \<noteq> [] \<and> (\<forall>x \<in> set xs. 0 < x) \<and> isSafeInteger (sum_list xs) then Inr (sum_list xs)
      else if xs = [] \<or> (\<exists>x \<in> set xs. \<not> isSafeInteger x \<or> x \<le> 0) then Inl ReservationInvalid
      else Inl ReservationOverflows)"
proof (cases "cpuReservationForVms xs")
  case (Inl e)
  then have "\<not> (xs \<noteq> [] \<and> (\<forall>x \<in> set xs. 0 < x) \<and> isSafeInteger (sum_list xs))"
    using cpuReservation_Inr [of xs "sum_list xs"] by auto
  then show ?thesis using Inl by (auto simp: cpuReservationForVms_def list_ex_iff Let_def split: if_splits)
next
  case (Inr n)
  then show ?thesis using cpuReservation_Inr [of xs n] by simp
qed

end
