(* ===== verification/Run_State.thy ===== *)
theory Run_State
  imports Json Js_Text
begin

section \<open>The run state document\<close>

text \<open>
  The document a scenario run is stored as, with one entry per VM, and the projections every write
  goes through: \<^verbatim>\<open>src/apps/web/src/lib/run-state.ts\<close>, and the probe vocabulary of
  \<^verbatim>\<open>src/apps/web/src/lib/verification-copy.ts\<close>.

  The document types are records with the fields of the TypeScript interfaces under a short prefix.
  \<^verbatim>\<open>null\<close> and \<^verbatim>\<open>undefined\<close> are both \<^const>\<open>None\<close>: no function of the file tells them apart in
  these fields. Stored documents may carry properties the interface no longer has; they are the
  association list \<open>vm_extra\<close>.
\<close>

subsection \<open>Verification vocabulary\<close>

record VerificationObjectiveCopy =
  vo_probeName :: string
  vo_title :: "string option"

definition passed_statuses :: "string list" where
  "passed_statuses = [''pass'', ''passed'', ''passing'', ''ready'', ''ok'', ''success'', ''succeeded'']"

definition isVerificationPassed :: "string option \<Rightarrow> bool" where
  "isVerificationPassed status =
     (case status of
        None \<Rightarrow> False
      | Some s \<Rightarrow> js_lower (js_trim s) \<in> set passed_statuses)"

definition verificationStatusLabel :: "string \<Rightarrow> string" where
  "verificationStatusLabel status =
     (if isVerificationPassed (Some status) then ''Verified'' else ''Needs repair'')"

definition repairObjectiveTitle :: "VerificationObjectiveCopy option \<Rightarrow> nat \<Rightarrow> string" where
  "repairObjectiveTitle objective index =
     or_string
       (case objective of
          None \<Rightarrow> []
        | Some obj \<Rightarrow> (case vo_title obj of None \<Rightarrow> [] | Some t \<Rightarrow> js_trim t))
       (''Repair objective '' @ decimal (index + 1))"

definition uniqueIds :: "string list \<Rightarrow> string list" where
  "uniqueIds values = js_set (filter (\<lambda>value. js_trim value \<noteq> []) values)"

text \<open>The labels are a \<^verbatim>\<open>Record\<close> filled key by key, so a later key overwrites an earlier one.\<close>

fun bootLabels :: "nat \<Rightarrow> string list \<Rightarrow> (string \<times> string) list \<Rightarrow> (string \<times> string) list" where
  "bootLabels index [] labels = labels"
| "bootLabels index (probeId # ids) labels =
     bootLabels (Suc index) ids
       (AList.update probeId (''Startup check '' @ decimal (index + 1)) labels)"

fun scenarioLabels ::
  "VerificationObjectiveCopy list \<Rightarrow> (string \<times> nat) list \<Rightarrow> nat \<Rightarrow> string list \<Rightarrow>
   (string \<times> string) list \<Rightarrow> (string \<times> string) list" where
  "scenarioLabels objectives objectiveIndexes unmatchedCount [] labels = labels"
| "scenarioLabels objectives objectiveIndexes unmatchedCount (probeId # ids) labels =
     (case map_of objectiveIndexes probeId of
        Some objectiveIndex \<Rightarrow>
          scenarioLabels objectives objectiveIndexes unmatchedCount ids
            (AList.update probeId
              (repairObjectiveTitle (Some (objectives ! objectiveIndex)) objectiveIndex) labels)
      | None \<Rightarrow>
          scenarioLabels objectives objectiveIndexes (unmatchedCount + 1) ids
            (AList.update probeId
              (''Repair objective '' @ decimal (length objectives + unmatchedCount + 1)) labels))"

definition buildVerificationLabelMap ::
  "string list \<Rightarrow> string list \<Rightarrow> VerificationObjectiveCopy list \<Rightarrow> (string \<times> string) list" where
  "buildVerificationLabelMap bootProbeIds scenarioProbeIds objectives =
     (let labels = bootLabels 0 (uniqueIds bootProbeIds) [];
          objectiveIndexes = js_map (zip (map vo_probeName objectives) [0..<length objectives])
      in scenarioLabels objectives objectiveIndexes 0 (uniqueIds scenarioProbeIds) labels)"

subsection \<open>Phases\<close>

datatype RunPhase =
    RP_queued
  | RP_provisioning
  | RP_active_partial
  | RP_active_full
  | RP_solved
  | RP_teardown_requested
  | RP_tearing_down
  | RP_archiving
  | RP_completed
  | RP_failed

datatype VmPhase =
    VP_queued
  | VP_launching
  | VP_booting
  | VP_ready
  | VP_solved
  | VP_destroying
  | VP_archived
  | VP_completed
  | VP_failed

datatype TerminalPhase = TP_pending | TP_ready | TP_failed

datatype ProbePhase = PP_boot | PP_scenario

fun RUN_PHASE_ORDER :: "RunPhase \<Rightarrow> nat" where
  "RUN_PHASE_ORDER RP_queued = 0"
| "RUN_PHASE_ORDER RP_provisioning = 1"
| "RUN_PHASE_ORDER RP_active_partial = 2"
| "RUN_PHASE_ORDER RP_active_full = 3"
| "RUN_PHASE_ORDER RP_solved = 4"
| "RUN_PHASE_ORDER RP_teardown_requested = 5"
| "RUN_PHASE_ORDER RP_tearing_down = 6"
| "RUN_PHASE_ORDER RP_archiving = 7"
| "RUN_PHASE_ORDER RP_completed = 8"
| "RUN_PHASE_ORDER RP_failed = 8"

fun VM_PHASE_ORDER :: "VmPhase \<Rightarrow> nat" where
  "VM_PHASE_ORDER VP_queued = 0"
| "VM_PHASE_ORDER VP_launching = 1"
| "VM_PHASE_ORDER VP_booting = 2"
| "VM_PHASE_ORDER VP_ready = 3"
| "VM_PHASE_ORDER VP_solved = 4"
| "VM_PHASE_ORDER VP_destroying = 5"
| "VM_PHASE_ORDER VP_archived = 6"
| "VM_PHASE_ORDER VP_completed = 7"
| "VM_PHASE_ORDER VP_failed = 7"

definition canAdvanceRunPhase :: "RunPhase \<Rightarrow> RunPhase \<Rightarrow> bool" where
  "canAdvanceRunPhase current nxt \<longleftrightarrow> RUN_PHASE_ORDER current \<le> RUN_PHASE_ORDER nxt"

definition canAdvanceVmPhase :: "VmPhase \<Rightarrow> VmPhase \<Rightarrow> bool" where
  "canAdvanceVmPhase current nxt \<longleftrightarrow> VM_PHASE_ORDER current \<le> VM_PHASE_ORDER nxt"

definition runPhaseAcceptsTerminalSessions :: "RunPhase \<Rightarrow> bool" where
  "runPhaseAcceptsTerminalSessions phase \<longleftrightarrow>
     phase \<in> {RP_active_partial, RP_active_full, RP_solved}"

definition runPhaseAcceptsBrowserTerminalSessions :: "RunPhase \<Rightarrow> bool" where
  "runPhaseAcceptsBrowserTerminalSessions phase \<longleftrightarrow>
     phase = RP_provisioning \<or> runPhaseAcceptsTerminalSessions phase"

subsection \<open>Documents\<close>

record ScenarioProbeStatus =
  sp_id :: string
  sp_label :: string
  sp_kind :: string
  sp_phase :: ProbePhase
  sp_status :: string
  sp_error :: "string option"
  sp_value :: json

record ScenarioReplayArtifact =
  ra_id :: string
  ra_hostId :: string
  ra_runId :: string
  ra_vmId :: string
  ra_kind :: string
  ra_filename :: string
  ra_contentType :: string
  ra_sizeBytes :: int

record SessionTimelineEntry =
  st_index :: int
  st_startTimestampMs :: int
  st_durationMs :: int
  st_exitCode :: "int option"
  st_castFilename :: string
  st_castArtifactId :: "string option"
  st_transcriptTruncated :: bool

record TerminalTarget =
  tt_host :: "string option"
  tt_port :: int
  tt_username :: string
  tt_hostKeyOpenssh :: "string option"
  tt_checkedAt :: "int option"

record RuntimeConstraintsEvidence =
  rc_generation :: string
  rc_cpuMillis :: int
  rc_quotaVerifiedAt :: "int option"

datatype ImageArchitecture = X86_64 | Aarch64

record ImageKey =
  ik_scenario :: string
  ik_vm :: string
  ik_arch :: ImageArchitecture

record VmResources =
  vr_cpuMillis :: int
  vr_memoryMib :: int
  vr_diskMib :: int

datatype ProvisioningStatus = PS_pending | PS_provisioning | PS_queued | PS_failed

record RunVmProvisioningSpec =
  pr_image :: "string option"
  pr_imageKey :: "ImageKey option"
  pr_imageSha256 :: "string option"
  pr_resources :: "VmResources option"
  pr_leaseDurationSeconds :: "int option"
  pr_groupName :: "string option"
  pr_groupId :: "string option"
  pr_setupKeyId :: "string option"
  pr_status :: ProvisioningStatus
  pr_error :: "string option"

record ScenarioLaunchProbeDescriptor =
  pd_id :: string
  pd_label :: string
  pd_kind :: string
  pd_phase :: ProbePhase

record ScenarioLaunchSummary =
  ls_scenarioVmName :: string
  ls_hostname :: string
  ls_probePhaseMap :: "(string \<times> ProbePhase) list"
  ls_probeDescriptors :: "ScenarioLaunchProbeDescriptor list"

record VmResourceState =
  rs_cpu_millis :: int
  rs_cpu_quota_us :: int
  rs_cpu_period_us :: int
  rs_cpu_usage_usec :: int
  rs_cpu_user_usec :: int
  rs_cpu_system_usec :: int
  rs_cpu_nr_periods :: int
  rs_cpu_nr_throttled :: int
  rs_cpu_throttled_usec :: int

record RunVmStateDocument =
  vm_id :: string
  vm_ordinal :: int
  vm_scenarioVmId :: string
  vm_scenarioVmName :: string
  vm_runtimeVmName :: string
  vm_hostname :: string
  vm_phase :: VmPhase
  vm_phaseTitle :: string
  vm_phaseDetail :: string
  vm_progressPercent :: int
  vm_terminalPhase :: TerminalPhase
  vm_terminalReason :: "string option"
  vm_terminalObservedAt :: "int option"
  vm_canOpenTerminal :: bool
  vm_bootProbes :: "ScenarioProbeStatus list"
  vm_scenarioProbes :: "ScenarioProbeStatus list"
  vm_replayArtifacts :: "ScenarioReplayArtifact list"
  vm_sessionTimeline :: "SessionTimelineEntry list option"
  vm_hasRecording :: "bool option"
  vm_terminalTarget :: TerminalTarget
  vm_runtimeConstraints :: "RuntimeConstraintsEvidence option"
  vm_resourceState :: "VmResourceState option"
  vm_retiredRuntimeGenerations :: "string list option"
  vm_guestIp :: "string option"
  vm_launchSummary :: ScenarioLaunchSummary
  vm_runtimeState :: "string option"
  vm_runtimeObservedAt :: "int option"
  vm_vmCreatedAt :: "int option"
  vm_provisioning :: RunVmProvisioningSpec
  vm_extra :: "(string \<times> json) list"

record CandidateRunSourceIdentity =
  cs_revision :: string
  cs_buildId :: string

record RunStateDocument =
  run_phase :: RunPhase
  run_phaseTitle :: string
  run_phaseDetail :: string
  run_progressPercent :: int
  run_terminalPhase :: TerminalPhase
  run_canOpenTerminal :: bool
  run_canDestroy :: bool
  run_bootProbes :: "ScenarioProbeStatus list"
  run_scenarioProbes :: "ScenarioProbeStatus list"
  run_replayArtifacts :: "ScenarioReplayArtifact list"
  run_terminalTarget :: TerminalTarget
  run_vms :: "RunVmStateDocument list"
  run_candidateSource :: "CandidateRunSourceIdentity option"

subsection \<open>Projections\<close>

definition redactProbeResults :: "ScenarioProbeStatus list \<Rightarrow> ScenarioProbeStatus list" where
  "redactProbeResults probes = map (\<lambda>probe. probe\<lparr>sp_error := None, sp_value := JNull\<rparr>) probes"

definition defaultTerminalTarget :: TerminalTarget where
  "defaultTerminalTarget =
     \<lparr>tt_host = None, tt_port = 22, tt_username = ''ubuntu'', tt_hostKeyOpenssh = None,
      tt_checkedAt = None\<rparr>"

definition hasTerminalEndpoint :: "TerminalTarget \<Rightarrow> bool" where
  "hasTerminalEndpoint target \<longleftrightarrow> truthy (tt_host target) \<and> 0 < tt_port target"

definition buildInitialProbe :: "ScenarioLaunchProbeDescriptor \<Rightarrow> ScenarioProbeStatus" where
  "buildInitialProbe inp =
     \<lparr>sp_id = pd_id inp, sp_label = pd_label inp, sp_kind = pd_kind inp, sp_phase = pd_phase inp,
      sp_status = ''pending'', sp_error = None, sp_value = JNull\<rparr>"

record PhaseDescriptor =
  de_title :: string
  de_detail :: string
  de_progressPercent :: int

fun describeVmPhase :: "VmPhase \<Rightarrow> RunVmStateDocument \<Rightarrow> PhaseDescriptor" where
  "describeVmPhase VP_queued vm =
     \<lparr>de_title = ''Queued'',
      de_detail = or_string (vm_phaseDetail vm) ''Waiting for host delivery.'',
      de_progressPercent = 5\<rparr>"
| "describeVmPhase VP_launching vm =
     \<lparr>de_title = ''Launching'',
      de_detail = or_string (vm_phaseDetail vm) ''The launch request is in flight to the host.'',
      de_progressPercent = 20\<rparr>"
| "describeVmPhase VP_booting vm =
     \<lparr>de_title = ''Booting'',
      de_detail = or_string (vm_phaseDetail vm)
        ''Waiting for the VM to boot and initial probes to pass.'',
      de_progressPercent = 40\<rparr>"
| "describeVmPhase VP_ready vm =
     \<lparr>de_title = ''Ready'',
      de_detail = or_string (vm_phaseDetail vm)
        (if hasTerminalEndpoint (vm_terminalTarget vm)
         then ''The VM is ready for shell access.''
         else ''The VM is running and waiting for a shell target.''),
      de_progressPercent = 65\<rparr>"
| "describeVmPhase VP_solved vm =
     \<lparr>de_title = ''Solved'',
      de_detail = or_string (vm_phaseDetail vm) ''All scenario probes are passing for this VM.'',
      de_progressPercent = 80\<rparr>"
| "describeVmPhase VP_destroying vm =
     \<lparr>de_title = ''Destroying'',
      de_detail = or_string (vm_phaseDetail vm) ''The host is tearing this VM down.'',
      de_progressPercent = 88\<rparr>"
| "describeVmPhase VP_archived vm =
     \<lparr>de_title = ''Archived'',
      de_detail = or_string (vm_phaseDetail vm)
        ''Local teardown finished. Final artifacts are archiving.'',
      de_progressPercent = 96\<rparr>"
| "describeVmPhase VP_completed vm =
     \<lparr>de_title = ''Completed'',
      de_detail = or_string (vm_phaseDetail vm) ''This VM is fully finished.'',
      de_progressPercent = 100\<rparr>"
| "describeVmPhase VP_failed vm =
     \<lparr>de_title = ''Failed'',
      de_detail = or_string (vm_phaseDetail vm) ''The VM failed to complete.'',
      de_progressPercent = 100\<rparr>"

text \<open>The properties older documents carried and every projection deletes.\<close>

definition legacyVmProperties :: "string list" where
  "legacyVmProperties =
     [''bootEvidence'', ''workerDesiredDispatchAt'', ''workerDesiredDispatchVersion'',
      ''workerTerminalReportReceivedAt'', ''workerTerminalProjectionAckAt'',
      ''workerTerminalReceiptToProjectionAckMs'', ''workerTerminalProjectionGeneration'',
      ''workerTerminalDesiredVersion'']"

definition clearedTarget :: "TerminalTarget \<Rightarrow> TerminalTarget" where
  "clearedTarget target =
     \<lparr>tt_host = None, tt_port = 22, tt_username = tt_username target, tt_hostKeyOpenssh = None,
      tt_checkedAt = None\<rparr>"

definition decorateVmState :: "RunVmStateDocument \<Rightarrow> RunVmStateDocument" where
  "decorateVmState vm =
     (let sanitizedVm =
            vm\<lparr>vm_extra := filter (\<lambda>(k, _). k \<notin> set legacyVmProperties) (vm_extra vm)\<rparr>;
          terminalTarget =
            (if vm_terminalPhase sanitizedVm = TP_ready then vm_terminalTarget sanitizedVm
             else clearedTarget (vm_terminalTarget sanitizedVm));
          descriptor =
            describeVmPhase (vm_phase sanitizedVm) (sanitizedVm\<lparr>vm_terminalTarget := terminalTarget\<rparr>)
      in sanitizedVm\<lparr>
           vm_phaseTitle := de_title descriptor,
           vm_phaseDetail := de_detail descriptor,
           vm_progressPercent := de_progressPercent descriptor,
           vm_terminalTarget := terminalTarget,
           vm_canOpenTerminal :=
             (vm_terminalPhase sanitizedVm = TP_ready \<and> hasTerminalEndpoint terminalTarget)\<rparr>)"

definition all_vms :: "(VmPhase \<Rightarrow> bool) \<Rightarrow> RunVmStateDocument list \<Rightarrow> bool" where
  "all_vms P vms \<longleftrightarrow> (\<forall>vm \<in> set vms. P (vm_phase vm))"

definition some_vm :: "(VmPhase \<Rightarrow> bool) \<Rightarrow> RunVmStateDocument list \<Rightarrow> bool" where
  "some_vm P vms \<longleftrightarrow> (\<exists>vm \<in> set vms. P (vm_phase vm))"

definition deriveRunPhase :: "RunVmStateDocument list \<Rightarrow> RunPhase \<Rightarrow> RunPhase" where
  "deriveRunPhase vms current =
     (if vms = [] then current
      else if current = RP_completed \<or> current = RP_failed then current
      else if some_vm (\<lambda>p. p = VP_failed) vms then RP_failed
      else if all_vms (\<lambda>p. p = VP_completed \<or> p = VP_failed) vms then RP_completed
      else if RUN_PHASE_ORDER RP_teardown_requested \<le> RUN_PHASE_ORDER current then
        (if some_vm (\<lambda>p. p = VP_destroying) vms then RP_tearing_down
         else if some_vm (\<lambda>p. p = VP_archived \<or> p = VP_completed) vms then RP_archiving
         else RP_teardown_requested)
      else if all_vms (\<lambda>p. p = VP_solved) vms then RP_solved
      else if all_vms (\<lambda>p. p = VP_ready \<or> p = VP_solved) vms then RP_active_full
      else if some_vm (\<lambda>p. p = VP_ready \<or> p = VP_solved) vms then RP_active_partial
      else if current = RP_provisioning \<and>
              some_vm (\<lambda>p. p = VP_queued \<or> p = VP_launching \<or> p = VP_booting) vms
        then RP_provisioning
      else if some_vm (\<lambda>p. p = VP_booting) vms then RP_provisioning
      else if some_vm (\<lambda>p. p = VP_launching) vms then RP_provisioning
      else RP_queued)"

text \<open>\<^verbatim>\<open>failedVm?.terminalReason || failedVm?.provisioning.error || failedVm?.phaseDetail || ...\<close>\<close>

definition failureDetail :: "RunVmStateDocument option \<Rightarrow> string" where
  "failureDetail failedVm =
     (case failedVm of
        None \<Rightarrow> ''The run hit a terminal failure.''
      | Some vm \<Rightarrow>
          or_string (coalesce (vm_terminalReason vm) [])
            (or_string (coalesce (pr_error (vm_provisioning vm)) [])
              (or_string (vm_phaseDetail vm) ''The run hit a terminal failure.'')))"

fun describeRunPhase ::
  "RunPhase \<Rightarrow> RunVmStateDocument list \<Rightarrow> string \<Rightarrow> PhaseDescriptor" where
  "describeRunPhase RP_queued vms currentDetail =
     \<lparr>de_title = ''Queued'', de_detail = ''Waiting to hand the run to a host.'',
      de_progressPercent = 5\<rparr>"
| "describeRunPhase RP_provisioning vms currentDetail =
     \<lparr>de_title = ''Provisioning'',
      de_detail = ''Launching the run VMs and waiting for them to boot.'',
      de_progressPercent = 30\<rparr>"
| "describeRunPhase RP_active_partial vms currentDetail =
     \<lparr>de_title = ''Partially ready'',
      de_detail = ''At least one VM is usable. Other required VMs are still catching up.'',
      de_progressPercent = 55\<rparr>"
| "describeRunPhase RP_active_full vms currentDetail =
     \<lparr>de_title = ''Active'', de_detail = ''All required VMs are ready.'', de_progressPercent = 70\<rparr>"
| "describeRunPhase RP_solved vms currentDetail =
     \<lparr>de_title = ''Solved'', de_detail = ''All required VMs are passing their scenario probes.'',
      de_progressPercent = 85\<rparr>"
| "describeRunPhase RP_teardown_requested vms currentDetail =
     \<lparr>de_title = ''Teardown requested'',
      de_detail = or_string currentDetail ''Waiting for the host to acknowledge teardown.'',
      de_progressPercent = 90\<rparr>"
| "describeRunPhase RP_tearing_down vms currentDetail =
     \<lparr>de_title = ''Tearing down'', de_detail = ''Destroying VMs and collecting final artifacts.'',
      de_progressPercent = 94\<rparr>"
| "describeRunPhase RP_archiving vms currentDetail =
     \<lparr>de_title = ''Archiving'', de_detail = ''Final run artifacts are uploading.'',
      de_progressPercent = 97\<rparr>"
| "describeRunPhase RP_completed vms currentDetail =
     \<lparr>de_title = ''Completed'', de_detail = ''The run has finished cleanly.'',
      de_progressPercent = 100\<rparr>"
| "describeRunPhase RP_failed vms currentDetail =
     \<lparr>de_title = ''Failed'',
      de_detail = failureDetail (find (\<lambda>vm. vm_phase vm = VP_failed) vms),
      de_progressPercent = 100\<rparr>"

definition terminalVm :: "RunVmStateDocument list \<Rightarrow> RunVmStateDocument option" where
  "terminalVm vms =
     coalesce_opt
       (find (\<lambda>vm. hasTerminalEndpoint (vm_terminalTarget vm) \<and> vm_terminalPhase vm = TP_ready) vms)
       (case vms of [] \<Rightarrow> None | vm # _ \<Rightarrow> Some vm)"

definition runTerminalPhase :: "RunVmStateDocument list \<Rightarrow> TerminalPhase" where
  "runTerminalPhase vms =
     (if \<exists>vm \<in> set vms. vm_terminalPhase vm = TP_ready then TP_ready
      else if \<exists>vm \<in> set vms. vm_terminalPhase vm = TP_failed then TP_failed
      else TP_pending)"

definition recomputeRunState :: "RunStateDocument \<Rightarrow> RunStateDocument" where
  "recomputeRunState current =
     (let vms = map decorateVmState (run_vms current);
          phase = deriveRunPhase vms (run_phase current);
          descriptor = describeRunPhase phase vms (run_phaseDetail current)
      in \<lparr>run_phase = phase,
          run_phaseTitle = de_title descriptor,
          run_phaseDetail = de_detail descriptor,
          run_progressPercent = de_progressPercent descriptor,
          run_terminalPhase = runTerminalPhase vms,
          run_canOpenTerminal = (\<exists>vm \<in> set vms. vm_canOpenTerminal vm),
          run_canDestroy = (phase \<notin> {RP_archiving, RP_completed}),
          run_bootProbes = concat (map vm_bootProbes vms),
          run_scenarioProbes = concat (map vm_scenarioProbes vms),
          run_replayArtifacts = concat (map vm_replayArtifacts vms),
          run_terminalTarget =
            (case terminalVm vms of None \<Rightarrow> defaultTerminalTarget | Some vm \<Rightarrow> vm_terminalTarget vm),
          run_vms = vms,
          run_candidateSource = run_candidateSource current\<rparr>)"

subsection \<open>Initial documents\<close>

record RunVmSeed =
  se_id :: string
  se_ordinal :: int
  se_scenarioVmId :: string
  se_scenarioVmName :: string
  se_runtimeVmName :: string
  se_hostname :: string
  se_launchSummary :: ScenarioLaunchSummary

definition initialProvisioning :: RunVmProvisioningSpec where
  "initialProvisioning =
     \<lparr>pr_image = None, pr_imageKey = None, pr_imageSha256 = None, pr_resources = None,
      pr_leaseDurationSeconds = None, pr_groupName = None, pr_groupId = None, pr_setupKeyId = None,
      pr_status = PS_pending, pr_error = None\<rparr>"

definition initialProbes :: "ProbePhase \<Rightarrow> ScenarioLaunchSummary \<Rightarrow> ScenarioProbeStatus list" where
  "initialProbes phase summary =
     map buildInitialProbe (filter (\<lambda>probe. pd_phase probe = phase) (ls_probeDescriptors summary))"

definition buildInitialVmState :: "RunVmSeed \<Rightarrow> RunVmStateDocument" where
  "buildInitialVmState inp =
     decorateVmState
       \<lparr>vm_id = se_id inp,
        vm_ordinal = se_ordinal inp,
        vm_scenarioVmId = se_scenarioVmId inp,
        vm_scenarioVmName = se_scenarioVmName inp,
        vm_runtimeVmName = se_runtimeVmName inp,
        vm_hostname = se_hostname inp,
        vm_phase = VP_queued,
        vm_phaseTitle = [],
        vm_phaseDetail = [],
        vm_progressPercent = 0,
        vm_terminalPhase = TP_pending,
        vm_terminalReason = None,
        vm_terminalObservedAt = None,
        vm_canOpenTerminal = False,
        vm_bootProbes = initialProbes PP_boot (se_launchSummary inp),
        vm_scenarioProbes = initialProbes PP_scenario (se_launchSummary inp),
        vm_replayArtifacts = [],
        vm_sessionTimeline = None,
        vm_hasRecording = None,
        vm_terminalTarget = defaultTerminalTarget,
        vm_runtimeConstraints = None,
        vm_resourceState = None,
        vm_retiredRuntimeGenerations = None,
        vm_guestIp = None,
        vm_launchSummary = se_launchSummary inp,
        vm_runtimeState = None,
        vm_runtimeObservedAt = None,
        vm_vmCreatedAt = None,
        vm_provisioning = initialProvisioning,
        vm_extra = []\<rparr>"

definition buildInitialRunState :: "RunVmSeed list \<Rightarrow> RunStateDocument" where
  "buildInitialRunState seeds =
     recomputeRunState
       \<lparr>run_phase = RP_queued,
        run_phaseTitle = ''Queued'',
        run_phaseDetail = ''Waiting for host delivery.'',
        run_progressPercent = 0,
        run_terminalPhase = TP_pending,
        run_canOpenTerminal = False,
        run_canDestroy = True,
        run_bootProbes = [],
        run_scenarioProbes = [],
        run_replayArtifacts = [],
        run_terminalTarget = defaultTerminalTarget,
        run_vms = map buildInitialVmState seeds,
        run_candidateSource = None\<rparr>"

subsection \<open>Probe snapshots\<close>

text \<open>
  One probe of a snapshot. For \<^verbatim>\<open>error\<close> and \<^verbatim>\<open>value\<close> the code asks whether the property is there at
  all: the outer option is its presence, the inner one its nullish value.
\<close>

record ProbeUpdate =
  up_id :: "string option"
  up_kind :: "string option"
  up_status :: "string option"
  up_error :: "string option option"
  up_value :: "jsvalue option"

definition probeUpdates :: "ProbeUpdate list \<Rightarrow> (string \<times> ProbeUpdate) list" where
  "probeUpdates probes =
     js_map (concat (map (\<lambda>probe.
       case up_id probe of
         None \<Rightarrow> []
       | Some i \<Rightarrow> if i = [] then [] else [(i, probe)]) probes))"

definition trimmed_or :: "string option \<Rightarrow> string \<Rightarrow> string" where
  "trimmed_or s d = or_string (case s of None \<Rightarrow> [] | Some t \<Rightarrow> js_trim t) d"

definition mergeProbe ::
  "bool \<Rightarrow> (string \<times> ProbeUpdate) list \<Rightarrow> ScenarioProbeStatus \<Rightarrow> ScenarioProbeStatus" where
  "mergeProbe stickyPass updates probe =
     (case map_of updates (sp_id probe) of
        None \<Rightarrow> probe
      | Some nxt \<Rightarrow>
          (let nextStatus = trimmed_or (up_status nxt) (sp_status probe) in
           if stickyPass \<and> isVerificationPassed (Some (sp_status probe)) \<and>
              \<not> isVerificationPassed (Some nextStatus)
           then probe
           else probe\<lparr>
             sp_kind := trimmed_or (up_kind nxt) (sp_kind probe),
             sp_status := nextStatus,
             sp_error :=
               (case up_error nxt of
                  None \<Rightarrow> sp_error probe
                | Some None \<Rightarrow> None
                | Some (Some e) \<Rightarrow> or_null (js_trim e)),
             sp_value :=
               (case up_value nxt of
                  None \<Rightarrow> sp_value probe
                | Some v \<Rightarrow> coalesce v JNull)\<rparr>))"

definition applyProbeSnapshotToVm ::
  "RunVmStateDocument \<Rightarrow> ProbeUpdate list \<Rightarrow> RunVmStateDocument" where
  "applyProbeSnapshotToVm vm probes =
     (let updates = probeUpdates probes in
      decorateVmState
        (vm\<lparr>vm_bootProbes := map (mergeProbe True updates) (vm_bootProbes vm),
            vm_scenarioProbes := map (mergeProbe False updates) (vm_scenarioProbes vm)\<rparr>))"

subsection \<open>Specification vocabulary\<close>

text \<open>The number of ids before \<open>k\<close> that no objective is declared for.\<close>

fun unmatchedBefore :: "(string \<times> nat) list \<Rightarrow> string list \<Rightarrow> string \<Rightarrow> nat" where
  "unmatchedBefore ix [] k = 0"
| "unmatchedBefore ix (i # ids) k =
     (if i = k then 0
      else (if map_of ix i = None then 1 else 0) + unmatchedBefore ix ids k)"

definition scenarioLabel ::
  "VerificationObjectiveCopy list \<Rightarrow> (string \<times> nat) list \<Rightarrow> nat \<Rightarrow> string list \<Rightarrow> string \<Rightarrow> string" where
  "scenarioLabel objectives ix n ids k =
     (case map_of ix k of
        Some j \<Rightarrow> repairObjectiveTitle (Some (objectives ! j)) j
      | None \<Rightarrow> ''Repair objective '' @ decimal (length objectives + (n + unmatchedBefore ix ids k) + 1))"

text \<open>
  The edits a run document sees over its life: each writes a new list of VM documents and projects
  the run from them again.
\<close>

definition projectVms :: "RunVmStateDocument list \<Rightarrow> RunStateDocument \<Rightarrow> RunStateDocument" where
  "projectVms vms d = recomputeRunState (d\<lparr>run_vms := vms\<rparr>)"

text \<open>A run of one VM with one boot and one scenario probe, for the concrete instances below.\<close>

definition sampleSeed :: RunVmSeed where
  "sampleSeed =
     \<lparr>se_id = ''vm-1'', se_ordinal = 0, se_scenarioVmId = ''web'', se_scenarioVmName = ''web'',
      se_runtimeVmName = ''run-1-web'', se_hostname = ''web'',
      se_launchSummary =
        \<lparr>ls_scenarioVmName = ''web'', ls_hostname = ''web'',
         ls_probePhaseMap = [(''boot'', PP_boot), (''fixed'', PP_scenario)],
         ls_probeDescriptors =
           [\<lparr>pd_id = ''boot'', pd_label = ''Startup check 1'', pd_kind = ''command'', pd_phase = PP_boot\<rparr>,
            \<lparr>pd_id = ''fixed'', pd_label = ''Repair objective 1'', pd_kind = ''http'',
             pd_phase = PP_scenario\<rparr>]\<rparr>\<rparr>"

subsection \<open>Labels\<close>

lemma map_of_bootLabels_dom:
  "dom (map_of (bootLabels n ids labels)) = set ids \<union> dom (map_of labels)"
  by (induction n ids labels rule: bootLabels.induct) (auto simp: update_conv')

lemma map_of_scenarioLabels:
  "distinct ids \<Longrightarrow>
   map_of (scenarioLabels objectives ix n ids labels) k =
     (if k \<in> set ids then Some (scenarioLabel objectives ix n ids k) else map_of labels k)"
proof (induction objectives ix n ids labels rule: scenarioLabels.induct)
  case (2 objectives ix n i ids labels)
  then show ?case
    by (cases "map_of ix i") (auto simp: scenarioLabel_def update_conv' split: option.splits)
qed simp

lemma unmatchedBefore_inj:
  assumes "k \<in> set ids" "l \<in> set ids" "map_of ix k = None" "map_of ix l = None" "k \<noteq> l"
  shows "unmatchedBefore ix ids k \<noteq> unmatchedBefore ix ids l"
  using assms by (induction ids) auto

lemma map_of_objectiveIndexes:
  assumes "map_of (js_map (zip ns [0..<length ns])) k = Some j"
  shows "j < length ns" "ns ! j = k"
proof -
  have "(k, j) \<in> set (zip ns [0..<length ns])"
    using map_of_SomeD [OF assms [unfolded map_of_js_map]] by simp
  then show "j < length ns" "ns ! j = k"
    by (auto simp: in_set_zip)
qed

lemma set_js_set_filter: "set (uniqueIds ids) = {i \<in> set ids. js_trim i \<noteq> []}" "distinct (uniqueIds ids)"
  by (auto simp: uniqueIds_def)

lemma label_untitled:
  assumes "\<forall>ob \<in> set objectives. js_trim (coalesce (vo_title ob) []) = []"
    and ix: "ix = js_map (zip (map vo_probeName objectives) [0..<length objectives])"
  shows "scenarioLabel objectives ix 0 ids k =
    ''Repair objective '' @ decimal (1 + (case map_of ix k of Some j \<Rightarrow> j
       | None \<Rightarrow> length objectives + unmatchedBefore ix ids k))"
proof (cases "map_of ix k")
  case (Some j)
  then have "objectives ! j \<in> set objectives"
    using map_of_objectiveIndexes [of "map vo_probeName objectives" k j] ix by simp
  with assms(1) have "js_trim (coalesce (vo_title (objectives ! j)) []) = []" by blast
  then show ?thesis
    using Some by (cases "vo_title (objectives ! j)")
      (auto simp: scenarioLabel_def repairObjectiveTitle_def or_string_def)
qed (simp add: scenarioLabel_def)

lemma label_map_dom:
  "dom (map_of (buildVerificationLabelMap boot scen objectives)) = set (uniqueIds boot) \<union> set (uniqueIds scen)"
  by (auto simp: buildVerificationLabelMap_def Let_def map_of_scenarioLabels set_js_set_filter
      map_of_bootLabels_dom dom_def split: if_splits)
     (use map_of_bootLabels_dom [of 0 "uniqueIds boot" "[]"] in \<open>auto simp: dom_def set_js_set_filter\<close>)

lemma label_map_inj:
  assumes "\<forall>ob \<in> set objectives. js_trim (coalesce (vo_title ob) []) = []"
  shows "inj_on (map_of (buildVerificationLabelMap boot scen objectives)) (set (uniqueIds scen))"
proof (rule inj_onI)
  fix k l
  let ?ix = "js_map (zip (map vo_probeName objectives) [0..<length objectives])"
  assume k: "k \<in> set (uniqueIds scen)" and l: "l \<in> set (uniqueIds scen)"
    and "map_of (buildVerificationLabelMap boot scen objectives) k =
         map_of (buildVerificationLabelMap boot scen objectives) l"
  then have "scenarioLabel objectives ?ix 0 (uniqueIds scen) k = scenarioLabel objectives ?ix 0 (uniqueIds scen) l"
    by (simp add: buildVerificationLabelMap_def Let_def map_of_scenarioLabels set_js_set_filter)
  then have eq: "(case map_of ?ix k of Some j \<Rightarrow> j | None \<Rightarrow> length objectives + unmatchedBefore ?ix (uniqueIds scen) k)
    = (case map_of ?ix l of Some j \<Rightarrow> j | None \<Rightarrow> length objectives + unmatchedBefore ?ix (uniqueIds scen) l)"
    by (simp add: label_untitled [OF assms refl]) (drule decimal_inj, simp)
  show "k = l"
  proof (cases "map_of ?ix k")
    case None
    then show ?thesis
      using eq map_of_objectiveIndexes(1) [of "map vo_probeName objectives" l]
        unmatchedBefore_inj [OF k l None] by (cases "map_of ?ix l") fastforce+
  next
    case (Some j)
    note kj = map_of_objectiveIndexes [of "map vo_probeName objectives" k j]
    show ?thesis
    proof (cases "map_of ?ix l")
      case None
      then show ?thesis using eq Some kj(1) by simp
    next
      case l: (Some i)
      then show ?thesis
        using eq Some kj(2) map_of_objectiveIndexes(2) [of "map vo_probeName objectives" l i] by simp
    qed
  qed
qed

subsection \<open>Projection of one VM\<close>

lemma decorate_frame [simp]:
  "vm_id (decorateVmState vm) = vm_id vm"
  "vm_ordinal (decorateVmState vm) = vm_ordinal vm"
  "vm_runtimeVmName (decorateVmState vm) = vm_runtimeVmName vm"
  "vm_phase (decorateVmState vm) = vm_phase vm"
  "vm_terminalPhase (decorateVmState vm) = vm_terminalPhase vm"
  "vm_terminalReason (decorateVmState vm) = vm_terminalReason vm"
  "vm_terminalObservedAt (decorateVmState vm) = vm_terminalObservedAt vm"
  "vm_bootProbes (decorateVmState vm) = vm_bootProbes vm"
  "vm_scenarioProbes (decorateVmState vm) = vm_scenarioProbes vm"
  "vm_replayArtifacts (decorateVmState vm) = vm_replayArtifacts vm"
  "vm_runtimeConstraints (decorateVmState vm) = vm_runtimeConstraints vm"
  "vm_resourceState (decorateVmState vm) = vm_resourceState vm"
  "vm_retiredRuntimeGenerations (decorateVmState vm) = vm_retiredRuntimeGenerations vm"
  "vm_runtimeObservedAt (decorateVmState vm) = vm_runtimeObservedAt vm"
  "vm_vmCreatedAt (decorateVmState vm) = vm_vmCreatedAt vm"
  "vm_provisioning (decorateVmState vm) = vm_provisioning vm"
  by (simp_all add: decorateVmState_def Let_def)

lemma decorate_terminalTarget:
  "vm_terminalTarget (decorateVmState vm) =
     (if vm_terminalPhase vm = TP_ready then vm_terminalTarget vm
      else clearedTarget (vm_terminalTarget vm))"
  by (simp add: decorateVmState_def Let_def)

lemma decorate_canOpenTerminal:
  "vm_canOpenTerminal (decorateVmState vm) \<longleftrightarrow>
     vm_terminalPhase vm = TP_ready \<and> hasTerminalEndpoint (vm_terminalTarget vm)"
  by (simp add: decorateVmState_def Let_def)

lemma cleared_no_endpoint [simp]: "\<not> hasTerminalEndpoint (clearedTarget t)"
  by (simp add: hasTerminalEndpoint_def clearedTarget_def)

lemma cleared_idem [simp]: "clearedTarget (clearedTarget t) = clearedTarget t"
  by (simp add: clearedTarget_def)

lemma default_no_endpoint [simp]: "\<not> hasTerminalEndpoint defaultTerminalTarget"
  by (simp add: hasTerminalEndpoint_def defaultTerminalTarget_def)

lemma describe_detail_ne: "de_detail (describeVmPhase p vm) \<noteq> []"
  by (cases p) simp_all

lemma describe_title_progress:
  "de_title (describeVmPhase p vm) = de_title (describeVmPhase p vm')"
  "de_progressPercent (describeVmPhase p vm) = de_progressPercent (describeVmPhase p vm')"
  by (cases p; simp)+

lemma describe_keeps_detail:
  "vm_phaseDetail vm \<noteq> [] \<Longrightarrow> de_detail (describeVmPhase p vm) = vm_phaseDetail vm"
  by (cases p) simp_all

lemma decorateVmState_idem [simp]: "decorateVmState (decorateVmState vm) = decorateVmState vm"
proof -
  let ?t = "\<lambda>v. if vm_terminalPhase v = TP_ready then vm_terminalTarget v
                else clearedTarget (vm_terminalTarget v)"
  let ?w = "decorateVmState vm"
  let ?s = "vm\<lparr>vm_extra := filter (\<lambda>(k, _). k \<notin> set legacyVmProperties) (vm_extra vm),
               vm_terminalTarget := ?t vm\<rparr>"
  have d: "vm_phaseDetail ?w = de_detail (describeVmPhase (vm_phase vm) ?s)"
    by (simp add: decorateVmState_def Let_def)
  then have ne: "vm_phaseDetail ?w \<noteq> []" by (simp add: describe_detail_ne)
  show ?thesis
    by (rule RunVmStateDocument.equality; (simp add: decorateVmState_def [of ?w] Let_def)?)
       (simp_all add: decorate_terminalTarget decorate_canOpenTerminal describe_keeps_detail ne,
        simp_all add: decorateVmState_def Let_def describe_title_progress
          decorate_terminalTarget)
qed

subsection \<open>Projection of the run\<close>

lemma derive_terminal [simp]:
  "deriveRunPhase vms RP_completed = RP_completed" "deriveRunPhase vms RP_failed = RP_failed"
  by (simp_all add: deriveRunPhase_def)

lemma derive_idem [simp]: "deriveRunPhase vms (deriveRunPhase vms p) = deriveRunPhase vms p"
proof (cases "deriveRunPhase vms p")
  case RP_queued
  then show ?thesis
    by (cases p) (auto simp: deriveRunPhase_def split: if_splits)
qed (simp_all add: deriveRunPhase_def split: if_splits)

lemma derive_after_teardown:
  assumes "RUN_PHASE_ORDER RP_teardown_requested \<le> RUN_PHASE_ORDER p"
  shows "RUN_PHASE_ORDER RP_teardown_requested \<le> RUN_PHASE_ORDER (deriveRunPhase vms p)"
  using assms by (simp add: deriveRunPhase_def)

lemma describeRun_stable:
  "de_detail (describeRunPhase p vms (de_detail (describeRunPhase p vms d))) = de_detail (describeRunPhase p vms d)"
  by (cases p) (simp_all add: or_string_def)

lemma describeRun_title_progress:
  "de_title (describeRunPhase p vms d) = de_title (describeRunPhase p vms d')"
  "de_progressPercent (describeRunPhase p vms d) = de_progressPercent (describeRunPhase p vms d')"
  by (cases p; simp)+

lemma map_decorate_idem [simp]: "map (decorateVmState \<circ> decorateVmState) vms = map decorateVmState vms"
  by simp

lemma recompute_idem: "recomputeRunState (recomputeRunState d) = recomputeRunState d"
  by (simp add: recomputeRunState_def Let_def describeRun_stable
      describeRun_title_progress [where d = "de_detail x" and d' = "run_phaseDetail d" for x])

lemma recompute_fields:
  "run_vms (recomputeRunState d) = map decorateVmState (run_vms d)"
  "run_phase (recomputeRunState d) = deriveRunPhase (map decorateVmState (run_vms d)) (run_phase d)"
  "run_candidateSource (recomputeRunState d) = run_candidateSource d"
  by (simp_all add: recomputeRunState_def Let_def)

lemma all_vms_decorate [simp]: "all_vms P (map decorateVmState vms) = all_vms P vms"
  by (simp add: all_vms_def)

lemma some_vm_decorate [simp]: "some_vm P (map decorateVmState vms) = some_vm P vms"
  by (simp add: some_vm_def)

lemma derive_decorate [simp]: "deriveRunPhase (map decorateVmState vms) p = deriveRunPhase vms p"
  by (simp add: deriveRunPhase_def)

lemma terminal_target_open:
  "hasTerminalEndpoint (case terminalVm (map decorateVmState vms) of
       None \<Rightarrow> defaultTerminalTarget | Some vm \<Rightarrow> vm_terminalTarget vm) \<longleftrightarrow>
   (\<exists>vm \<in> set vms. vm_canOpenTerminal (decorateVmState vm))"
  (is "?l \<longleftrightarrow> ?r")
proof (cases "find (\<lambda>vm. hasTerminalEndpoint (vm_terminalTarget vm) \<and> vm_terminalPhase vm = TP_ready)
    (map decorateVmState vms)")
  case None
  then have "\<not> ?r"
    by (auto simp: find_None_iff decorate_terminalTarget decorate_canOpenTerminal)
  moreover have "\<not> ?l"
    using None by (cases vms) (auto simp: terminalVm_def coalesce_opt_def decorate_terminalTarget)
  ultimately show ?thesis by simp
next
  case (Some vm)
  then have v: "vm \<in> decorateVmState ` set vms" "hasTerminalEndpoint (vm_terminalTarget vm)"
      "vm_terminalPhase vm = TP_ready"
    by (auto simp: find_Some_iff)
  then show ?thesis
    using Some by (force simp: terminalVm_def coalesce_opt_def decorate_canOpenTerminal decorate_terminalTarget)
qed

lemma recompute_canOpen:
  "run_canOpenTerminal (recomputeRunState d) \<longleftrightarrow> hasTerminalEndpoint (run_terminalTarget (recomputeRunState d))"
  by (simp add: recomputeRunState_def Let_def terminal_target_open)

lemma sticky_probe:
  assumes "isVerificationPassed (Some (sp_status p))"
  shows "isVerificationPassed (Some (sp_status (mergeProbe True us p)))"
  using assms by (auto simp: mergeProbe_def Let_def split: option.splits)

lemma mergeProbe_frame [simp]:
  "sp_id (mergeProbe s us p) = sp_id p" "sp_label (mergeProbe s us p) = sp_label p"
  by (auto simp: mergeProbe_def Let_def split: option.splits)

lemma mergeProbe_unmentioned:
  "sp_id p \<notin> fst ` set us \<Longrightarrow> mergeProbe s us p = p"
  by (simp add: mergeProbe_def map_of_eq_None_iff [THEN iffD2])

lemma fold_sticky:
  "isVerificationPassed (Some (sp_status p)) \<Longrightarrow>
   isVerificationPassed (Some (sp_status (fold (mergeProbe True) uss p)))"
  by (induction uss arbitrary: p) (simp_all add: sticky_probe)

lemma projectVms_phase: "run_phase (projectVms vms d) = deriveRunPhase vms (run_phase d)"
  by (simp add: projectVms_def recompute_fields)

lemma fold_project_teardown:
  "RUN_PHASE_ORDER RP_teardown_requested \<le> RUN_PHASE_ORDER (run_phase d) \<Longrightarrow>
   RUN_PHASE_ORDER RP_teardown_requested \<le> RUN_PHASE_ORDER (run_phase (fold projectVms vmss d))"
  by (induction vmss arbitrary: d) (simp_all only: fold_simps id_apply comp_apply projectVms_phase derive_after_teardown)

lemma fold_project_terminal:
  "run_phase d \<in> {RP_completed, RP_failed} \<Longrightarrow> run_phase (fold projectVms vmss d) = run_phase d"
proof (induction vmss arbitrary: d)
  case (Cons vms vmss)
  then have "run_phase (projectVms vms d) = run_phase d"
    by (auto simp: projectVms_phase)
  with Cons show ?case by simp
qed simp

lemma derive_active:
  assumes "vms \<noteq> []" and "RUN_PHASE_ORDER p < RUN_PHASE_ORDER RP_teardown_requested"
  shows "deriveRunPhase vms p =
     (if some_vm (\<lambda>q. q = VP_failed) vms then RP_failed
      else if all_vms (\<lambda>q. q = VP_completed) vms then RP_completed
      else if all_vms (\<lambda>q. q = VP_solved) vms then RP_solved
      else if all_vms (\<lambda>q. q = VP_ready \<or> q = VP_solved) vms then RP_active_full
      else if some_vm (\<lambda>q. q = VP_ready \<or> q = VP_solved) vms then RP_active_partial
      else if some_vm (\<lambda>q. q = VP_launching \<or> q = VP_booting) vms \<or>
              p = RP_provisioning \<and> some_vm (\<lambda>q. q = VP_queued) vms then RP_provisioning
      else RP_queued)"
proof -
  have p: "p \<noteq> RP_completed" "p \<noteq> RP_failed"
    "\<not> RUN_PHASE_ORDER RP_teardown_requested \<le> RUN_PHASE_ORDER p"
    using assms(2) by auto
  have c: "\<not> some_vm (\<lambda>q. q = VP_failed) vms \<Longrightarrow>
      all_vms (\<lambda>q. q = VP_completed \<or> q = VP_failed) vms = all_vms (\<lambda>q. q = VP_completed) vms"
    by (auto simp: some_vm_def all_vms_def)
  have d: "some_vm (\<lambda>q. A q \<or> B q) vms \<longleftrightarrow> some_vm A vms \<or> some_vm B vms" for A B
    by (auto simp: some_vm_def)
  show ?thesis
    using assms(1) p c by (auto simp: deriveRunPhase_def d)
qed

lemma derive_active_iff:
  assumes "vms \<noteq> []" and "RUN_PHASE_ORDER p < RUN_PHASE_ORDER RP_teardown_requested"
  shows "deriveRunPhase vms p = RP_failed \<longleftrightarrow> some_vm (\<lambda>q. q = VP_failed) vms"
    and "deriveRunPhase vms p = RP_completed \<longleftrightarrow> all_vms (\<lambda>q. q = VP_completed) vms"
    and "deriveRunPhase vms p = RP_solved \<longleftrightarrow> all_vms (\<lambda>q. q = VP_solved) vms"
    and "deriveRunPhase vms p \<in> {RP_active_full, RP_solved} \<longleftrightarrow>
          all_vms (\<lambda>q. q = VP_ready \<or> q = VP_solved) vms"
    and "runPhaseAcceptsTerminalSessions (deriveRunPhase vms p) \<longleftrightarrow>
          some_vm (\<lambda>q. q = VP_ready \<or> q = VP_solved) vms \<and> \<not> some_vm (\<lambda>q. q = VP_failed) vms"
proof -
  have e: "all_vms (\<lambda>q. q = VP_completed) vms \<Longrightarrow> \<not> some_vm (\<lambda>q. q = VP_failed) vms"
    "all_vms (\<lambda>q. q = VP_solved) vms \<Longrightarrow> all_vms (\<lambda>q. q = VP_ready \<or> q = VP_solved) vms"
    "all_vms (\<lambda>q. q = VP_ready \<or> q = VP_solved) vms \<Longrightarrow> some_vm (\<lambda>q. q = VP_ready \<or> q = VP_solved) vms"
    "all_vms (\<lambda>q. q = VP_ready \<or> q = VP_solved) vms \<Longrightarrow> \<not> some_vm (\<lambda>q. q = VP_failed) vms"
    "all_vms (\<lambda>q. q = VP_completed) vms \<Longrightarrow> \<not> some_vm (\<lambda>q. q = VP_ready \<or> q = VP_solved) vms"
    using assms(1) by (cases vms; force simp: all_vms_def some_vm_def)+
  note derive = derive_active [OF assms]
  show "deriveRunPhase vms p = RP_failed \<longleftrightarrow> some_vm (\<lambda>q. q = VP_failed) vms"
    "deriveRunPhase vms p = RP_completed \<longleftrightarrow> all_vms (\<lambda>q. q = VP_completed) vms"
    "deriveRunPhase vms p = RP_solved \<longleftrightarrow> all_vms (\<lambda>q. q = VP_solved) vms"
    "deriveRunPhase vms p \<in> {RP_active_full, RP_solved} \<longleftrightarrow>
          all_vms (\<lambda>q. q = VP_ready \<or> q = VP_solved) vms"
    "runPhaseAcceptsTerminalSessions (deriveRunPhase vms p) \<longleftrightarrow>
          some_vm (\<lambda>q. q = VP_ready \<or> q = VP_solved) vms \<and> \<not> some_vm (\<lambda>q. q = VP_failed) vms"
    unfolding derive runPhaseAcceptsTerminalSessions_def using e by (simp; blast)+
qed

subsection \<open>Probe snapshots over time\<close>

lemma applyProbe_probes:
  "vm_bootProbes (applyProbeSnapshotToVm vm s) = map (mergeProbe True (probeUpdates s)) (vm_bootProbes vm)"
  "vm_scenarioProbes (applyProbeSnapshotToVm vm s) = map (mergeProbe False (probeUpdates s)) (vm_scenarioProbes vm)"
  by (simp_all add: applyProbeSnapshotToVm_def Let_def)

lemma fold_snapshots_boot:
  "vm_bootProbes (fold (\<lambda>s vm. applyProbeSnapshotToVm vm s) ss vm) =
     map (fold (mergeProbe True) (map probeUpdates ss)) (vm_bootProbes vm)"
  by (induction ss arbitrary: vm) (simp_all add: applyProbe_probes)

lemma fold_mergeProbe_frame:
  "sp_id (fold (mergeProbe b) uss p) = sp_id p" "sp_label (fold (mergeProbe b) uss p) = sp_label p"
  by (induction uss arbitrary: p) simp_all

subsection \<open>Properties\<close>


text \<open>
  C4. A projected document never exposes a terminal that is not ready: a VM whose terminal is pending
  or failed has no host, no host key and no open button, the VM-level flag is true exactly for a ready
  terminal with an endpoint, and the run-level flag is true exactly when the run's own target has an
  endpoint.
\<close>

theorem terminal_exposed_only_when_ready:
  "(\<forall>vm \<in> set (run_vms (recomputeRunState d)).
      (vm_canOpenTerminal vm \<longleftrightarrow> vm_terminalPhase vm = TP_ready \<and> hasTerminalEndpoint (vm_terminalTarget vm)) \<and>
      (vm_terminalPhase vm \<noteq> TP_ready \<longrightarrow>
         tt_host (vm_terminalTarget vm) = None \<and> tt_hostKeyOpenssh (vm_terminalTarget vm) = None)) \<and>
   (run_canOpenTerminal (recomputeRunState d) \<longleftrightarrow>
      hasTerminalEndpoint (run_terminalTarget (recomputeRunState d))) \<and>
   (run_canOpenTerminal (recomputeRunState d) \<longrightarrow> run_terminalPhase (recomputeRunState d) = TP_ready)"
  using recompute_canOpen [of d]
  by (auto simp: recompute_fields decorate_canOpenTerminal decorate_terminalTarget)
     (auto simp: recomputeRunState_def Let_def clearedTarget_def runTerminalPhase_def
       decorate_canOpenTerminal)

theorem terminal_exposed_only_when_ready_witness:
  "\<not> run_canOpenTerminal (recomputeRunState (buildInitialRunState [sampleSeed])) \<and>
   run_vms (buildInitialRunState [sampleSeed]) \<noteq> []"
proof -
  have "run_terminalPhase (recomputeRunState (buildInitialRunState [sampleSeed])) \<noteq> TP_ready"
    and "run_vms (buildInitialRunState [sampleSeed]) \<noteq> []"
    by code_simp+
  then show ?thesis
    using terminal_exposed_only_when_ready [of "buildInitialRunState [sampleSeed]"] by blast
qed

text \<open>
  C6. Teardown is irreversible: once a run is in \<^verbatim>\<open>teardown_requested\<close> or later, no sequence of VM edits
  and projections brings it back to an active phase or to one that accepts terminal sessions, and a
  completed or failed run keeps its phase.
\<close>

theorem teardown_irreversible:
  assumes "RUN_PHASE_ORDER RP_teardown_requested \<le> RUN_PHASE_ORDER (run_phase d)"
  shows "\<not> runPhaseAcceptsBrowserTerminalSessions (run_phase (fold projectVms vmss d)) \<and>
    run_phase (fold projectVms vmss d) \<notin>
      {RP_queued, RP_provisioning, RP_active_partial, RP_active_full, RP_solved} \<and>
    (run_phase d \<in> {RP_completed, RP_failed} \<longrightarrow> run_phase (fold projectVms vmss d) = run_phase d)"
  using fold_project_teardown [OF assms, of vmss] fold_project_terminal [of d vmss]
  by (auto simp: runPhaseAcceptsTerminalSessions_def runPhaseAcceptsBrowserTerminalSessions_def)

theorem teardown_irreversible_witness:
  "let d = (buildInitialRunState [sampleSeed])\<lparr>run_phase := RP_tearing_down\<rparr> in
     RUN_PHASE_ORDER RP_teardown_requested \<le> RUN_PHASE_ORDER (run_phase d) \<and>
     run_phase (fold projectVms [run_vms d, run_vms d] d) \<noteq> RP_queued"
  using teardown_irreversible
    [of "(buildInitialRunState [sampleSeed])\<lparr>run_phase := RP_tearing_down\<rparr>"
        "[run_vms (buildInitialRunState [sampleSeed]), run_vms (buildInitialRunState [sampleSeed])]"]
  by (simp add: Let_def)

text \<open>
  C27. What the derived phase means before teardown, for a run with VMs: failed exactly when a VM
  failed, completed when every VM is, solved when every VM is, active or solved when every VM is ready
  or solved, and open to terminal sessions exactly when some VM is usable and none failed.
\<close>

theorem derived_phase_meaning:
  assumes "run_vms d \<noteq> []"
    and "RUN_PHASE_ORDER (run_phase d) < RUN_PHASE_ORDER RP_teardown_requested"
  shows "(run_phase (recomputeRunState d) = RP_failed \<longleftrightarrow>
        some_vm (\<lambda>p. p = VP_failed) (run_vms d)) \<and>
    (run_phase (recomputeRunState d) = RP_completed \<longleftrightarrow>
        all_vms (\<lambda>p. p = VP_completed) (run_vms d)) \<and>
    (run_phase (recomputeRunState d) = RP_solved \<longleftrightarrow>
        all_vms (\<lambda>p. p = VP_solved) (run_vms d)) \<and>
    (run_phase (recomputeRunState d) \<in> {RP_active_full, RP_solved} \<longleftrightarrow>
        all_vms (\<lambda>p. p = VP_ready \<or> p = VP_solved) (run_vms d)) \<and>
    (runPhaseAcceptsTerminalSessions (run_phase (recomputeRunState d)) \<longleftrightarrow>
        some_vm (\<lambda>p. p = VP_ready \<or> p = VP_solved) (run_vms d) \<and>
        \<not> some_vm (\<lambda>p. p = VP_failed) (run_vms d))"
  using derive_active_iff [OF assms] by (simp only: recompute_fields derive_decorate)

theorem derived_phase_meaning_witness:
  "run_phase (buildInitialRunState [sampleSeed]) = RP_queued \<and>
   run_phase (recomputeRunState (buildInitialRunState [sampleSeed])) \<noteq> RP_solved"
proof -
  have "run_vms (buildInitialRunState [sampleSeed]) \<noteq> []"
    and "run_phase (buildInitialRunState [sampleSeed]) = RP_queued"
    and "\<not> all_vms (\<lambda>p. p = VP_solved) (run_vms (buildInitialRunState [sampleSeed]))"
    by code_simp+
  then show ?thesis
    using derived_phase_meaning [of "buildInitialRunState [sampleSeed]"] by simp
qed

text \<open>
  A boot probe that passed stays passed through any sequence of probe snapshots, and snapshots
  never add, drop, reorder or relabel the boot probes of a VM.
\<close>

theorem boot_pass_sticky:
  assumes "i < length (vm_bootProbes vm)"
    and "isVerificationPassed (Some (sp_status (vm_bootProbes vm ! i)))"
  shows "let vm' = fold (\<lambda>s v. applyProbeSnapshotToVm v s) snapshots vm in
     map sp_id (vm_bootProbes vm') = map sp_id (vm_bootProbes vm) \<and>
     map sp_label (vm_bootProbes vm') = map sp_label (vm_bootProbes vm) \<and>
     isVerificationPassed (Some (sp_status (vm_bootProbes vm' ! i)))"
  using assms by (simp add: fold_snapshots_boot fold_mergeProbe_frame fold_sticky comp_def Let_def)

text \<open>
  The label map names exactly the probes it was given, and when the scenario's objectives carry no
  titles the generated names tell the scenario probes apart.
\<close>

theorem label_map_correct:
  "dom (map_of (buildVerificationLabelMap boot scen objectives)) =
     {i \<in> set boot \<union> set scen. js_trim i \<noteq> []} \<and>
   ((\<forall>ob \<in> set objectives. js_trim (coalesce (vo_title ob) []) = []) \<longrightarrow>
      inj_on (map_of (buildVerificationLabelMap boot scen objectives)) {i \<in> set scen. js_trim i \<noteq> []})"
  using label_map_inj [of objectives boot scen]
  by (auto simp: label_map_dom set_js_set_filter)

end
