(* ===== verification/Bridge_Types.thy ===== *)
theory Bridge_Types
  imports Run_State
begin

section \<open>The types of the host bridge\<close>

text \<open>
  The messages and documents the control plane and the host agents exchange, as generated in
  \<^verbatim>\<open>src/apps/web/src/generated/bridge.ts\<close>. String-literal unions are datatypes with a function that
  gives the literal back where the code stores it, interfaces are records under a short prefix, and an
  optional or nullable field is an option. Times, counters and sizes are the integers the validators of
  the bridge accept; only the load averages are fractions.
\<close>

subsection \<open>Desired state\<close>

datatype SyncRequestReason = SR_connect | SR_reconnect | SR_desired_version_lag | SR_operator_requested

datatype HostRoleV1 = HR_agent | HR_builder

datatype HostScope = HS_personal | HS_platform | HS_organization

record DesiredCachedImageV1 =
  ci_image_key :: ImageKey
  ci_image_id :: string

record DesiredBuildV1 =
  db_build_id :: string
  db_scenario_id :: string
  db_arch :: ImageArchitecture
  db_rev :: string
  db_content_hash :: string
  db_bundle_ref :: string

record DesiredSourceCompileV1 =
  sc_compile_id :: string
  sc_attempt :: int
  sc_rev :: string
  sc_validate_only :: bool
  sc_arch :: ImageArchitecture

datatype DesiredVmPhase = DP_running | DP_absent

record DesiredGuestToolsV1 =
  gt_tools_disk_sha256 :: string
  gt_tools_disk_size_bytes :: int
  gt_kino_sha256 :: string
  gt_bootstrap_abi :: int

record VmResourcesV3 =
  rv_cpu_millis :: int
  rv_memory_mib :: int
  rv_disk_mib :: int

record DesiredVmV2 =
  dv_vm_id :: string
  dv_owner_user_id :: string
  dv_runtime_execution_id :: string
  dv_generation :: int
  dv_run_id :: string
  dv_vm_name :: string
  dv_desired_phase :: DesiredVmPhase
  dv_image_key :: ImageKey
  dv_image_id :: string
  dv_guest_tools :: DesiredGuestToolsV1
  dv_resources :: VmResourcesV3
  dv_ssh_authorized_keys_openssh :: "string list"
  dv_lease_expires_at_unix_ms :: int

record HostDesiredStateV2 =
  ds_scope :: HostScope
  ds_owner_user_id :: string
  ds_schema_version :: int
  ds_host_id :: string
  ds_version :: int
  ds_generated_at_unix_ms :: int
  ds_cached_images :: "DesiredCachedImageV1 list"
  ds_cached_guest_tools :: "DesiredGuestToolsV1 list option"
  ds_vms :: "DesiredVmV2 list"
  ds_builds :: "DesiredBuildV1 list"
  ds_source_compiles :: "DesiredSourceCompileV1 list option"

subsection \<open>Host capacity and capabilities\<close>

record HostCapacityV2 =
  hc_total_cpu_millis :: int
  hc_reserved_cpu_millis :: int
  hc_schedulable_cpu_millis :: int
  hc_committed_cpu_millis :: int
  hc_memory_total_mib :: int
  hc_memory_available_mib :: int
  hc_disk_probe_path :: string
  hc_disk_total_mib :: int
  hc_disk_available_mib :: int
  hc_load_avg_1m :: "rat option"
  hc_load_avg_5m :: "rat option"
  hc_load_avg_15m :: "rat option"
  hc_primary_ipv4 :: "string option"
  hc_primary_ipv6 :: "string option"

record HostCapabilitiesV2 =
  cap_arch :: ImageArchitecture
  cap_cloud_hypervisor_sha256 :: "string option"
  cap_supports_kvm :: bool
  cap_supports_vsock :: bool
  cap_supports_reflink :: bool
  cap_supports_nftables :: bool
  cap_supports_jailer_v2 :: bool
  cap_supports_template_backed_launch :: bool
  cap_fast_template_store :: bool
  cap_supports_hard_cpu_quota :: bool
  cap_supports_landlock :: bool
  cap_supports_cgroup_v2 :: bool
  cap_supports_raw_chunks_v1 :: "bool option"
  cap_supports_scenario_guest_tools_v1 :: "bool option"
  cap_supports_jailer_v3 :: "bool option"
  cap_supports_run_cli_v1 :: "bool option"
  cap_supports_run_cli_completion_v1 :: "bool option"
  cap_source_compile_platform :: "string option"

subsection \<open>Reports\<close>

datatype ImageCachePhase = IC_missing | IC_queued | IC_downloading | IC_ready | IC_failed

record CachedImageStateV1 =
  cis_image_key :: ImageKey
  cis_image_id :: string
  cis_phase :: ImageCachePhase
  cis_bytes_on_disk :: "int option"
  cis_error :: "string option"
  cis_updated_at_unix_ms :: int

record CachedGuestToolsStateV1 =
  cgs_guest_tools :: DesiredGuestToolsV1
  cgs_phase :: ImageCachePhase
  cgs_bytes_on_disk :: "int option"
  cgs_error :: "string option"
  cgs_updated_at_unix_ms :: int

text \<open>The phase of a VM as the host reports it, the bridge's \<^verbatim>\<open>VmPhase\<close>.\<close>

datatype BridgeVmPhase =
    BV_pending
  | BV_pulling_image
  | BV_creating_disks
  | BV_booting
  | BV_running
  | BV_ready
  | BV_solved
  | BV_stopping
  | BV_stopped
  | BV_failed
  | BV_absent

fun bridgeVmPhaseName :: "BridgeVmPhase \<Rightarrow> string" where
  "bridgeVmPhaseName BV_pending = ''pending''"
| "bridgeVmPhaseName BV_pulling_image = ''pulling_image''"
| "bridgeVmPhaseName BV_creating_disks = ''creating_disks''"
| "bridgeVmPhaseName BV_booting = ''booting''"
| "bridgeVmPhaseName BV_running = ''running''"
| "bridgeVmPhaseName BV_ready = ''ready''"
| "bridgeVmPhaseName BV_solved = ''solved''"
| "bridgeVmPhaseName BV_stopping = ''stopping''"
| "bridgeVmPhaseName BV_stopped = ''stopped''"
| "bridgeVmPhaseName BV_failed = ''failed''"
| "bridgeVmPhaseName BV_absent = ''absent''"

record VmGuestToolsStateV1 =
  gts_tools_disk_sha256 :: string
  gts_kino_sha256 :: string
  gts_bootstrap_abi :: int
  gts_verified :: bool

record VmNetworkStateV1 =
  net_bridge_name :: string
  net_guest_ip :: string
  net_guest_cidr :: string
  net_gateway :: string
  net_ssh_host :: "string option"
  net_ssh_host_port :: "int option"

datatype VmTerminalStateKindV1 = TK_pending | TK_ready | TK_failed

record VmTerminalTargetV1 =
  tg_host :: string
  tg_port :: int
  tg_username :: string
  tg_checked_at_unix_ms :: int

record VmTerminalStateV1 =
  ts_state :: VmTerminalStateKindV1
  ts_target :: "VmTerminalTargetV1 option"
  ts_reason :: "string option"
  ts_observed_at_unix_ms :: int

record VmRuntimeConstraintsV2 =
  rcv_generation :: string
  rcv_cpu_millis :: int
  rcv_quota_verified_at_unix_ms :: "int option"

record VmSandboxStateV1 =
  sb_healthy :: bool
  sb_generation :: string
  sb_systemd_unit :: string
  sb_cgroup_path :: string
  sb_seccomp_enabled :: bool
  sb_landlock_enabled :: bool
  sb_no_new_privs :: bool

datatype VmProbeStatus = VS_unknown | VS_pass | VS_fail

fun vmProbeStatusName :: "VmProbeStatus \<Rightarrow> string" where
  "vmProbeStatusName VS_unknown = ''unknown''"
| "vmProbeStatusName VS_pass = ''pass''"
| "vmProbeStatusName VS_fail = ''fail''"

record VmProbeSnapshotV1 =
  ps_id :: string
  ps_phase :: ProbePhase
  ps_status :: VmProbeStatus
  ps_checked_at_unix_ms :: int
  ps_message :: "string option"
  ps_value :: jsvalue

datatype VmArchivePhase = VA_none | VA_pending | VA_uploading | VA_complete | VA_failed

record VmArchiveStateV1 =
  va_phase :: VmArchivePhase
  va_artifact_count :: int
  va_error :: "string option"

record VmActualStateV2 =
  av_owner_user_id :: string
  av_runtime_execution_id :: string
  av_generation :: int
  av_run_id :: string
  av_vm_name :: string
  av_desired_version :: "int option"
  av_phase :: BridgeVmPhase
  av_image_key :: "ImageKey option"
  av_image_id :: "string option"
  av_guest_tools :: "VmGuestToolsStateV1 option"
  av_network :: "VmNetworkStateV1 option"
  av_terminal :: VmTerminalStateV1
  av_runtime_constraints :: "VmRuntimeConstraintsV2 option"
  av_resource_state :: "VmResourceState option"
  av_sandbox :: "VmSandboxStateV1 option"
  av_ssh_host_keys_openssh :: "string list"
  av_probes :: "VmProbeSnapshotV1 list"
  av_archive :: "VmArchiveStateV1 option"
  av_error :: "string option"
  av_updated_at_unix_ms :: int

record VmReportV2 =
  vmr_owner_user_id :: string
  vmr_runtime_execution_id :: string
  vmr_generation :: int
  vmr_schema_version :: int
  vmr_host_id :: string
  vmr_run_id :: string
  vmr_vm_name :: string
  vmr_desired_version :: "int option"
  vmr_observed_at_unix_ms :: int
  vmr_phase :: BridgeVmPhase
  vmr_guest_tools :: "VmGuestToolsStateV1 option"
  vmr_network :: "VmNetworkStateV1 option"
  vmr_terminal :: VmTerminalStateV1
  vmr_runtime_constraints :: "VmRuntimeConstraintsV2 option"
  vmr_resource_state :: "VmResourceState option"
  vmr_sandbox :: "VmSandboxStateV1 option"
  vmr_ssh_host_keys_openssh :: "string list"
  vmr_probes :: "VmProbeSnapshotV1 list"
  vmr_archive :: "VmArchiveStateV1 option"
  vmr_error :: "string option"

datatype BuildPhase =
    BP_queued
  | BP_fetching_sources
  | BP_building_base
  | BP_building
  | BP_publishing
  | BP_uploading_logs
  | BP_succeeded
  | BP_failed

record BuildReportV1 =
  br_schema_version :: int
  br_host_id :: string
  br_build_id :: string
  br_scenario_id :: string
  br_content_hash :: string
  br_observed_at_unix_ms :: int
  br_phase :: BuildPhase
  br_current_vm :: "string option"
  br_started_at_unix_ms :: "int option"
  br_finished_at_unix_ms :: "int option"
  br_attempt :: int
  br_error :: "string option"

record HostStateReportV2 =
  hsr_relay_connected :: bool
  hsr_schema_version :: int
  hsr_host_id :: string
  hsr_observed_at_unix_ms :: int
  hsr_applied_desired_version :: int
  hsr_capacity :: HostCapacityV2
  hsr_capabilities :: HostCapabilitiesV2
  hsr_cached_images :: "CachedImageStateV1 list"
  hsr_cached_guest_tools :: "CachedGuestToolsStateV1 list option"
  hsr_vms :: "VmActualStateV2 list"
  hsr_builds :: "BuildReportV1 list"

lemma bridgeVmPhaseName_inj: "bridgeVmPhaseName p = bridgeVmPhaseName q \<Longrightarrow> p = q"
  by (cases p; cases q) simp_all

lemma bridgeVmPhaseName_trimmed: "js_trim (bridgeVmPhaseName p) = bridgeVmPhaseName p"
  by (cases p) (simp_all add: js_trim_no_ws js_ws_def)

end
