(* ===== verification/Run_Lifecycle.thy ===== *)
theory Run_Lifecycle
  imports Bridge_Types
begin

section \<open>VM reports and the run they update\<close>

text \<open>
  How the reports of a host move the VMs of a run: \<^verbatim>\<open>src/apps/web/src/lib/run-lifecycle.ts\<close>. A report is
  dropped when it is not for the VM, is older than the last one, or names a retired boot of the VM
  (a runtime generation); otherwise it updates the probes, the quota evidence, the terminal and the
  phase, in that order.
\<close>

subsection \<open>Phases\<close>

fun bridgeVmPhaseToRunVmPhase :: "BridgeVmPhase \<Rightarrow> VmPhase" where
  "bridgeVmPhaseToRunVmPhase BV_pending = VP_queued"
| "bridgeVmPhaseToRunVmPhase BV_pulling_image = VP_launching"
| "bridgeVmPhaseToRunVmPhase BV_creating_disks = VP_launching"
| "bridgeVmPhaseToRunVmPhase BV_booting = VP_booting"
| "bridgeVmPhaseToRunVmPhase BV_running = VP_booting"
| "bridgeVmPhaseToRunVmPhase BV_ready = VP_ready"
| "bridgeVmPhaseToRunVmPhase BV_solved = VP_solved"
| "bridgeVmPhaseToRunVmPhase BV_stopping = VP_destroying"
| "bridgeVmPhaseToRunVmPhase BV_stopped = VP_archived"
| "bridgeVmPhaseToRunVmPhase BV_absent = VP_completed"
| "bridgeVmPhaseToRunVmPhase BV_failed = VP_failed"

fun describeReportPhase :: "BridgeVmPhase \<Rightarrow> RunVmStateDocument \<Rightarrow> string" where
  "describeReportPhase BV_pending vm =
     or_string (vm_phaseDetail vm) ''Waiting for host reconciliation.''"
| "describeReportPhase BV_pulling_image vm = ''Host is preparing the scenario image.''"
| "describeReportPhase BV_creating_disks vm = ''Host is creating VM disks.''"
| "describeReportPhase BV_booting vm =
     ''Host reports the VM is running and boot probes are pending.''"
| "describeReportPhase BV_running vm =
     ''Host reports the VM is running and boot probes are pending.''"
| "describeReportPhase BV_ready vm = ''Host reports the VM is ready.''"
| "describeReportPhase BV_solved vm = ''Host reports all scenario probes are passing.''"
| "describeReportPhase BV_stopping vm = ''Host is stopping the VM.''"
| "describeReportPhase BV_stopped vm = ''VM stopped. Waiting for final archival.''"
| "describeReportPhase BV_absent vm = ''Host confirms the VM is absent.''"
| "describeReportPhase BV_failed vm = ''Host reports the VM failed.''"

definition probesPassing :: "ScenarioProbeStatus list \<Rightarrow> bool" where
  "probesPassing probes \<longleftrightarrow> (\<forall>probe \<in> set probes. isVerificationPassed (Some (sp_status probe)))"

definition bootProbesPassing :: "RunVmStateDocument \<Rightarrow> bool" where
  "bootProbesPassing vm \<longleftrightarrow> vm_bootProbes vm = [] \<or> probesPassing (vm_bootProbes vm)"

definition scenarioProbesPassing :: "RunVmStateDocument \<Rightarrow> bool" where
  "scenarioProbesPassing vm \<longleftrightarrow> vm_scenarioProbes vm \<noteq> [] \<and> probesPassing (vm_scenarioProbes vm)"

text \<open>The three assignments of \<^verbatim>\<open>phase\<close> and \<^verbatim>\<open>detail\<close>, in order.\<close>

definition reportedPhase ::
  "RunVmStateDocument \<Rightarrow> BridgeVmPhase option \<Rightarrow> VmPhase \<times> string" where
  "reportedPhase vm reportPhase =
     (case reportPhase of
        None \<Rightarrow> (vm_phase vm, vm_phaseDetail vm)
      | Some rp \<Rightarrow>
          (if canAdvanceVmPhase (vm_phase vm) (bridgeVmPhaseToRunVmPhase rp)
           then (bridgeVmPhaseToRunVmPhase rp, describeReportPhase rp vm)
           else (vm_phase vm, vm_phaseDetail vm)))"

definition collectionErrorPhase :: "string option \<Rightarrow> VmPhase \<times> string \<Rightarrow> VmPhase \<times> string" where
  "collectionErrorPhase collectionError pd =
     (case collectionError of
        None \<Rightarrow> pd
      | Some e \<Rightarrow>
          (if e \<noteq> [] \<and> canAdvanceVmPhase (fst pd) VP_booting then (VP_booting, e) else pd))"

definition probePhase :: "RunVmStateDocument \<Rightarrow> VmPhase \<times> string \<Rightarrow> VmPhase \<times> string" where
  "probePhase vm pd =
     (if scenarioProbesPassing vm \<and> canAdvanceVmPhase (fst pd) VP_solved
      then (VP_solved, ''All scenario probes are passing.'')
      else if bootProbesPassing vm \<and> canAdvanceVmPhase (fst pd) VP_ready
      then (VP_ready,
            if hasTerminalEndpoint (vm_terminalTarget vm)
            then ''Boot probes passed. Shell target is ready.''
            else ''Boot probes passed. Waiting for shell target.'')
      else if canAdvanceVmPhase (fst pd) VP_booting
      then (if fst pd = VP_queued \<or> fst pd = VP_launching then VP_booting else fst pd, snd pd)
      else pd)"

definition deriveVmPhase ::
  "RunVmStateDocument \<Rightarrow> BridgeVmPhase option \<Rightarrow> string option \<Rightarrow> VmPhase \<times> string" where
  "deriveVmPhase vm reportPhase collectionError =
     probePhase vm (collectionErrorPhase collectionError (reportedPhase vm reportPhase))"

subsection \<open>Identity\<close>

definition matchesVmReportIdentity :: "string \<Rightarrow> string \<Rightarrow> string \<Rightarrow> string \<Rightarrow> bool" where
  "matchesVmReportIdentity runId runtimeVmName reportRunId reportVmName \<longleftrightarrow>
     runId = reportRunId \<and> runtimeVmName = reportVmName"

definition matchesInventoryVmIdentity :: "jsvalue \<Rightarrow> string \<Rightarrow> string \<Rightarrow> bool" where
  "matchesInventoryVmIdentity val runId runtimeVmName =
     (if \<not> isRecord val then False
      else
        (case (readString (get_prop val ''run_id''), readString (get_prop val ''vm_name'')) of
           (Some reportRunId, Some reportVmName) \<Rightarrow>
             matchesVmReportIdentity runId runtimeVmName reportRunId reportVmName
         | _ \<Rightarrow> False))"

subsection \<open>Runtime evidence\<close>

definition mergeRuntimeConstraints ::
  "RuntimeConstraintsEvidence option \<Rightarrow> VmRuntimeConstraintsV2 option \<Rightarrow>
   RuntimeConstraintsEvidence option" where
  "mergeRuntimeConstraints current reported =
     (case reported of
        None \<Rightarrow> current
      | Some rep \<Rightarrow>
          (let generation = js_trim (rcv_generation rep);
               sameGeneration =
                 (case current of
                    None \<Rightarrow> True
                  | Some c \<Rightarrow> rc_generation c = [] \<or> rc_generation c = generation)
           in if sameGeneration \<and>
                 (case current of
                    None \<Rightarrow> False
                  | Some c \<Rightarrow> rc_quotaVerifiedAt c \<noteq> None \<and> rc_cpuMillis c = rcv_cpu_millis rep) \<and>
                 rcv_quota_verified_at_unix_ms rep = None
              then current
              else Some \<lparr>rc_generation = generation, rc_cpuMillis = rcv_cpu_millis rep,
                         rc_quotaVerifiedAt = rcv_quota_verified_at_unix_ms rep\<rparr>))"

definition resetProbes :: "ScenarioProbeStatus list \<Rightarrow> ScenarioProbeStatus list" where
  "resetProbes probes =
     map (\<lambda>probe. probe\<lparr>sp_status := ''pending'', sp_error := None, sp_value := JNull\<rparr>) probes"

definition clearedTerminalTarget :: "RunVmStateDocument \<Rightarrow> TerminalTarget" where
  "clearedTerminalTarget current =
     \<lparr>tt_host = None, tt_port = 22, tt_username = tt_username (vm_terminalTarget current),
      tt_hostKeyOpenssh = None, tt_checkedAt = None\<rparr>"

definition retireGeneration :: "RunVmStateDocument \<Rightarrow> string list" where
  "retireGeneration current =
     first_occurrences
       (coalesce (vm_retiredRuntimeGenerations current) [] @
        (case vm_runtimeConstraints current of
           None \<Rightarrow> []
         | Some c \<Rightarrow> if rc_generation c \<noteq> [] then [rc_generation c] else []))"

definition resetVmForRuntimeGeneration :: "RunVmStateDocument \<Rightarrow> RunVmStateDocument" where
  "resetVmForRuntimeGeneration current =
     current\<lparr>
       vm_retiredRuntimeGenerations := Some (retireGeneration current),
       vm_phase := VP_booting,
       vm_phaseDetail := ''A new VM generation is waiting for fresh readiness evidence.'',
       vm_terminalPhase := TP_pending,
       vm_terminalReason := Some ''Waiting for the new VM generation to seal its CPU quota.'',
       vm_terminalObservedAt := None,
       vm_terminalTarget := clearedTerminalTarget current,
       vm_runtimeConstraints := None,
       vm_resourceState := None,
       vm_bootProbes := resetProbes (vm_bootProbes current),
       vm_scenarioProbes := resetProbes (vm_scenarioProbes current)\<rparr>"

subsection \<open>Terminal readiness\<close>

record TerminalProjection =
  tp_phase :: TerminalPhase
  tp_reason :: "string option"
  tp_observedAt :: "int option"
  tp_target :: TerminalTarget

definition currentTerminalProjection :: "RunVmStateDocument \<Rightarrow> TerminalProjection" where
  "currentTerminalProjection current =
     \<lparr>tp_phase = vm_terminalPhase current,
      tp_reason = vm_terminalReason current,
      tp_observedAt = vm_terminalObservedAt current,
      tp_target =
        (if vm_terminalPhase current = TP_ready then vm_terminalTarget current
         else clearedTerminalTarget current)\<rparr>"

text \<open>The stored quota evidence is for the VM's own CPU request, verified before the observation.\<close>

definition quotaReady ::
  "int option \<Rightarrow> RuntimeConstraintsEvidence option \<Rightarrow> int \<Rightarrow> bool" where
  "quotaReady expectedCpuMillis runtimeConstraints observedAt =
     (case (expectedCpuMillis, runtimeConstraints) of
        (Some cpu, Some rc) \<Rightarrow>
          0 < cpu \<and> js_trim (rc_generation rc) \<noteq> [] \<and> rc_cpuMillis rc = cpu \<and>
          (case rc_quotaVerifiedAt rc of
             None \<Rightarrow> False
           | Some q \<Rightarrow> 0 < q \<and> q \<le> observedAt)
      | _ \<Rightarrow> False)"

definition firstHostKey :: "string list \<Rightarrow> string option" where
  "firstHostKey keys = map_option js_trim (find (\<lambda>key. js_trim key \<noteq> []) keys)"

text \<open>The target of an explicit, complete readiness claim; \<^const>\<open>None\<close> when \<^verbatim>\<open>explicitReady\<close> is false.\<close>

definition explicitReadyTarget ::
  "VmTerminalStateV1 \<Rightarrow> RuntimeConstraintsEvidence option \<Rightarrow> string list \<Rightarrow> int option \<Rightarrow>
   TerminalTarget option" where
  "explicitReadyTarget reported runtimeConstraints sshHostKeysOpenssh expectedCpuMillis =
     (case (if ts_state reported = TK_ready then ts_target reported else None,
            firstHostKey sshHostKeysOpenssh,
            case runtimeConstraints of None \<Rightarrow> None | Some rc \<Rightarrow> rc_quotaVerifiedAt rc) of
        (Some target, Some hostKeyOpenssh, Some verifiedAt) \<Rightarrow>
          (if js_trim (tg_host target) \<noteq> [] \<and> 0 < tg_port target \<and>
              js_trim (tg_username target) \<noteq> [] \<and>
              quotaReady expectedCpuMillis runtimeConstraints (ts_observed_at_unix_ms reported) \<and>
              verifiedAt \<le> tg_checked_at_unix_ms target
           then Some \<lparr>tt_host = Some (js_trim (tg_host target)), tt_port = tg_port target,
                      tt_username = js_trim (tg_username target),
                      tt_hostKeyOpenssh = Some hostKeyOpenssh,
                      tt_checkedAt = Some (tg_checked_at_unix_ms target)\<rparr>
           else None)
      | _ \<Rightarrow> None)"

definition projectTerminalReadiness ::
  "VmTerminalStateV1 option \<Rightarrow> RuntimeConstraintsEvidence option \<Rightarrow> string list \<Rightarrow>
   RunVmStateDocument \<Rightarrow> BridgeVmPhase \<Rightarrow> TerminalProjection" where
  "projectTerminalReadiness reported runtimeConstraints sshHostKeysOpenssh current reportPhase =
     (case reported of
        None \<Rightarrow> currentTerminalProjection current
      | Some rep \<Rightarrow>
          (if ts_state rep = TK_failed \<or> reportPhase = BV_failed then
             \<lparr>tp_phase = TP_failed,
              tp_reason =
                Some (or_string (case ts_reason rep of None \<Rightarrow> [] | Some r \<Rightarrow> js_trim r)
                  ''Terminal readiness failed.''),
              tp_observedAt = Some (ts_observed_at_unix_ms rep),
              tp_target = clearedTerminalTarget current\<rparr>
           else
             (let expectedCpuMillis = map_option vr_cpuMillis (pr_resources (vm_provisioning current))
              in case explicitReadyTarget rep runtimeConstraints sshHostKeysOpenssh
                        expectedCpuMillis of
                   Some target \<Rightarrow>
                     \<lparr>tp_phase = TP_ready, tp_reason = None,
                      tp_observedAt = Some (ts_observed_at_unix_ms rep), tp_target = target\<rparr>
                 | None \<Rightarrow>
                     (if vm_terminalPhase current = TP_ready then currentTerminalProjection current
                      else
                        \<lparr>tp_phase = TP_pending,
                         tp_reason =
                           (if ts_state rep = TK_ready then
                              Some (if quotaReady expectedCpuMillis runtimeConstraints
                                         (ts_observed_at_unix_ms rep)
                                    then ''Waiting for a complete verified SSH target.''
                                    else ''Waiting for CPU limit verification.'')
                            else map_option js_trim (ts_reason rep)),
                         tp_observedAt = Some (ts_observed_at_unix_ms rep),
                         tp_target = clearedTerminalTarget current\<rparr>))))"

subsection \<open>Applying a report\<close>

text \<open>The fields of a report that \<^verbatim>\<open>applyReportedVmState\<close> reads.\<close>

record ReportedVm =
  rp_run_id :: string
  rp_vm_name :: string
  rp_phase :: BridgeVmPhase
  rp_network :: "VmNetworkStateV1 option"
  rp_terminal :: "VmTerminalStateV1 option"
  rp_runtime_constraints :: "VmRuntimeConstraintsV2 option"
  rp_resource_state :: "VmResourceState option"
  rp_ssh_host_keys_openssh :: "string list"
  rp_probes :: "VmProbeSnapshotV1 list"
  rp_error :: "string option"
  rp_updated_at_unix_ms :: int

definition reportProbes :: "VmProbeSnapshotV1 list \<Rightarrow> ProbeUpdate list" where
  "reportProbes probes =
     map (\<lambda>probe.
       \<lparr>up_id = Some (ps_id probe), up_kind = None,
        up_status = Some (vmProbeStatusName (ps_status probe)),
        up_error = Some (ps_message probe), up_value = Some (ps_value probe)\<rparr>) probes"

definition reportedGeneration :: "ReportedVm \<Rightarrow> string option" where
  "reportedGeneration report =
     (case rp_runtime_constraints report of
        None \<Rightarrow> None
      | Some c \<Rightarrow> or_null (js_trim (rcv_generation c)))"

definition currentGeneration :: "RunVmStateDocument \<Rightarrow> string option" where
  "currentGeneration vm = map_option rc_generation (vm_runtimeConstraints vm)"

text \<open>The guard that drops reports of a boot that is over, and reports that hide which boot they are of.\<close>

definition generationFenced :: "RunVmStateDocument \<Rightarrow> ReportedVm \<Rightarrow> bool" where
  "generationFenced vm report =
     (case reportedGeneration report of
        Some g \<Rightarrow> g \<in> set (coalesce (vm_retiredRuntimeGenerations vm) [])
      | None \<Rightarrow> truthy (currentGeneration vm))"

definition generationChanged :: "RunVmStateDocument \<Rightarrow> ReportedVm \<Rightarrow> bool" where
  "generationChanged vm report =
     (case reportedGeneration report of
        None \<Rightarrow> False
      | Some g \<Rightarrow>
          (truthy (currentGeneration vm) \<and> currentGeneration vm \<noteq> Some g) \<or>
          (\<not> truthy (currentGeneration vm) \<and> vm_terminalPhase vm = TP_ready \<and>
           (case rp_runtime_constraints report of
              None \<Rightarrow> True
            | Some c \<Rightarrow> rcv_quota_verified_at_unix_ms c \<in> {None, Some 0})))"

definition acceptReport :: "RunVmStateDocument \<Rightarrow> ReportedVm \<Rightarrow> RunVmStateDocument" where
  "acceptReport vm report =
     (let generationBase =
            (if generationChanged vm report then resetVmForRuntimeGeneration vm else vm);
          withProbes = applyProbeSnapshotToVm generationBase (reportProbes (rp_probes report));
          runtimeConstraints =
            mergeRuntimeConstraints (vm_runtimeConstraints withProbes)
              (rp_runtime_constraints report);
          resourceState =
            (if rp_resource_state report \<noteq> None \<and>
                map_option rcv_generation (rp_runtime_constraints report) =
                map_option rc_generation runtimeConstraints
             then rp_resource_state report else vm_resourceState withProbes);
          terminal =
            projectTerminalReadiness (rp_terminal report) runtimeConstraints
              (rp_ssh_host_keys_openssh report) withProbes (rp_phase report);
          withRuntimeEvidence =
            withProbes\<lparr>vm_terminalPhase := tp_phase terminal,
                       vm_terminalReason := tp_reason terminal,
                       vm_terminalObservedAt := tp_observedAt terminal,
                       vm_terminalTarget := tp_target terminal,
                       vm_runtimeConstraints := runtimeConstraints,
                       vm_resourceState := resourceState\<rparr>;
          derived = deriveVmPhase withRuntimeEvidence (Some (rp_phase report)) (rp_error report)
      in decorateVmState
           (withRuntimeEvidence\<lparr>
              vm_guestIp :=
                coalesce_opt
                  (case rp_network report of
                     None \<Rightarrow> None
                   | Some n \<Rightarrow> or_null (js_trim (net_guest_ip n)))
                  (vm_guestIp withProbes),
              vm_phase := fst derived,
              vm_phaseDetail := snd derived,
              vm_runtimeState := Some (bridgeVmPhaseName (rp_phase report)),
              vm_runtimeObservedAt := Some (rp_updated_at_unix_ms report),
              vm_vmCreatedAt :=
                coalesce_opt (vm_vmCreatedAt withProbes)
                  (if fst derived = VP_queued then None
                   else Some (rp_updated_at_unix_ms report))\<rparr>))"

definition applyReportedVmState ::
  "string \<Rightarrow> RunVmStateDocument \<Rightarrow> ReportedVm \<Rightarrow> RunVmStateDocument" where
  "applyReportedVmState runId vm report =
     (if \<not> matchesVmReportIdentity runId (vm_runtimeVmName vm) (rp_run_id report) (rp_vm_name report)
      then vm
      else if (case vm_runtimeObservedAt vm of
                 None \<Rightarrow> False | Some t \<Rightarrow> rp_updated_at_unix_ms report < t)
      then vm
      else if generationFenced vm report then vm
      else acceptReport vm report)"

definition reportedVmOfReport :: "VmReportV2 \<Rightarrow> ReportedVm" where
  "reportedVmOfReport r =
     \<lparr>rp_run_id = vmr_run_id r, rp_vm_name = vmr_vm_name r, rp_phase = vmr_phase r,
      rp_network = vmr_network r, rp_terminal = Some (vmr_terminal r),
      rp_runtime_constraints = vmr_runtime_constraints r, rp_resource_state = vmr_resource_state r,
      rp_ssh_host_keys_openssh = vmr_ssh_host_keys_openssh r, rp_probes = vmr_probes r,
      rp_error = vmr_error r, rp_updated_at_unix_ms = vmr_observed_at_unix_ms r\<rparr>"

definition reportedVmOfActual :: "VmActualStateV2 \<Rightarrow> ReportedVm" where
  "reportedVmOfActual a =
     \<lparr>rp_run_id = av_run_id a, rp_vm_name = av_vm_name a, rp_phase = av_phase a,
      rp_network = av_network a, rp_terminal = Some (av_terminal a),
      rp_runtime_constraints = av_runtime_constraints a, rp_resource_state = av_resource_state a,
      rp_ssh_host_keys_openssh = av_ssh_host_keys_openssh a, rp_probes = av_probes a,
      rp_error = av_error a, rp_updated_at_unix_ms = av_updated_at_unix_ms a\<rparr>"

definition applyVmReportToRunState ::
  "string \<Rightarrow> RunStateDocument \<Rightarrow> VmReportV2 \<Rightarrow> RunStateDocument" where
  "applyVmReportToRunState runId current report =
     recomputeRunState
       (current\<lparr>run_vms :=
          map (\<lambda>vm. applyReportedVmState runId vm (reportedVmOfReport report)) (run_vms current)\<rparr>)"

definition applyHostReportToRunState ::
  "string \<Rightarrow> RunStateDocument \<Rightarrow> HostStateReportV2 \<Rightarrow> RunStateDocument" where
  "applyHostReportToRunState runId current report =
     recomputeRunState
       (fold (\<lambda>r nxt. nxt\<lparr>run_vms :=
                map (\<lambda>vm. applyReportedVmState runId vm (reportedVmOfActual r)) (run_vms nxt)\<rparr>)
             (hsr_vms report) current)"

subsection \<open>Specification vocabulary\<close>

text \<open>The stages of \<^const>\<open>acceptReport\<close>, named for the lemmas.\<close>

definition reportBase :: "RunVmStateDocument \<Rightarrow> ReportedVm \<Rightarrow> RunVmStateDocument" where
  "reportBase vm r = (if generationChanged vm r then resetVmForRuntimeGeneration vm else vm)"

definition reportProbed :: "RunVmStateDocument \<Rightarrow> ReportedVm \<Rightarrow> RunVmStateDocument" where
  "reportProbed vm r = applyProbeSnapshotToVm (reportBase vm r) (reportProbes (rp_probes r))"

definition reportConstraints ::
  "RunVmStateDocument \<Rightarrow> ReportedVm \<Rightarrow> RuntimeConstraintsEvidence option" where
  "reportConstraints vm r =
     mergeRuntimeConstraints (vm_runtimeConstraints (reportBase vm r)) (rp_runtime_constraints r)"

definition reportTerminal :: "RunVmStateDocument \<Rightarrow> ReportedVm \<Rightarrow> TerminalProjection" where
  "reportTerminal vm r =
     projectTerminalReadiness (rp_terminal r) (reportConstraints vm r)
       (rp_ssh_host_keys_openssh r) (reportProbed vm r) (rp_phase r)"

definition retired :: "RunVmStateDocument \<Rightarrow> string set" where
  "retired vm = set (coalesce (vm_retiredRuntimeGenerations vm) [])"

definition runReports :: "string \<Rightarrow> ReportedVm list \<Rightarrow> RunVmStateDocument \<Rightarrow> RunVmStateDocument" where
  "runReports runId rs vm = fold (\<lambda>r v. applyReportedVmState runId v r) rs vm"

definition generationOk :: "RunVmStateDocument \<Rightarrow> bool" where
  "generationOk vm \<longleftrightarrow> (\<forall>g. currentGeneration vm = Some g \<longrightarrow> g \<noteq> [] \<longrightarrow> g \<notin> retired vm)"

definition completeTarget :: "TerminalTarget \<Rightarrow> bool" where
  "completeTarget t \<longleftrightarrow>
     truthy (tt_host t) \<and> 0 < tt_port t \<and> tt_username t \<noteq> [] \<and> truthy (tt_hostKeyOpenssh t) \<and>
     tt_checkedAt t \<noteq> None"

text \<open>
  The states a VM document goes through: built from the launch seed with its provisioning, then any
  reports, with a projection wherever the run is read or written.
\<close>

inductive vmReachable :: "string \<Rightarrow> RunVmStateDocument \<Rightarrow> bool" for runId where
  launched: "vmReachable runId (decorateVmState ((buildInitialVmState seed)\<lparr>vm_provisioning := p\<rparr>))"
| projected: "vmReachable runId vm \<Longrightarrow> vmReachable runId (decorateVmState vm)"
| reported: "vmReachable runId vm \<Longrightarrow> vmReachable runId (applyReportedVmState runId vm r)"

text \<open>The document a report is projected onto, before the final decoration.\<close>

definition reportEvidence :: "RunVmStateDocument \<Rightarrow> ReportedVm \<Rightarrow> RunVmStateDocument" where
  "reportEvidence vm r =
     (reportProbed vm r)\<lparr>
       vm_terminalPhase := tp_phase (reportTerminal vm r),
       vm_terminalReason := tp_reason (reportTerminal vm r),
       vm_terminalObservedAt := tp_observedAt (reportTerminal vm r),
       vm_terminalTarget := tp_target (reportTerminal vm r),
       vm_runtimeConstraints := reportConstraints vm r,
       vm_resourceState :=
         (if rp_resource_state r \<noteq> None \<and>
             map_option rcv_generation (rp_runtime_constraints r) =
             map_option rc_generation (reportConstraints vm r)
          then rp_resource_state r else vm_resourceState (reportProbed vm r))\<rparr>"

definition reportPhase :: "RunVmStateDocument \<Rightarrow> ReportedVm \<Rightarrow> VmPhase \<times> string" where
  "reportPhase vm r = deriveVmPhase (reportEvidence vm r) (Some (rp_phase r)) (rp_error r)"

text \<open>A provisioned VM and a complete readiness report of one boot, for the concrete instances below.\<close>

definition sampleVm :: RunVmStateDocument where
  "sampleVm =
     decorateVmState
       ((buildInitialVmState sampleSeed)\<lparr>vm_provisioning :=
          initialProvisioning\<lparr>pr_resources :=
            Some \<lparr>vr_cpuMillis = 1000, vr_memoryMib = 512, vr_diskMib = 1024\<rparr>\<rparr>\<rparr>)"

definition sampleReported :: "string \<Rightarrow> ReportedVm" where
  "sampleReported generation =
     \<lparr>rp_run_id = ''run-1'', rp_vm_name = ''run-1-web'', rp_phase = BV_ready, rp_network = None,
      rp_terminal =
        Some \<lparr>ts_state = TK_ready,
              ts_target = Some \<lparr>tg_host = ''10.0.0.2'', tg_port = 22, tg_username = ''ubuntu'',
                                tg_checked_at_unix_ms = 20\<rparr>,
              ts_reason = None, ts_observed_at_unix_ms = 30\<rparr>,
      rp_runtime_constraints =
        Some \<lparr>rcv_generation = generation, rcv_cpu_millis = 1000,
              rcv_quota_verified_at_unix_ms = Some 10\<rparr>,
      rp_resource_state = None, rp_ssh_host_keys_openssh = [''ssh-ed25519 AAAA''],
      rp_probes = [\<lparr>ps_id = ''boot'', ps_phase = PP_boot, ps_status = VS_pass,
                    ps_checked_at_unix_ms = 15, ps_message = None, ps_value = None\<rparr>],
      rp_error = None, rp_updated_at_unix_ms = 100\<rparr>"

subsection \<open>Lemmas: Fields of an accepted report\<close>

lemma applyProbe_frame [simp]:
  "vm_id (applyProbeSnapshotToVm vm s) = vm_id vm"
  "vm_runtimeVmName (applyProbeSnapshotToVm vm s) = vm_runtimeVmName vm"
  "vm_phase (applyProbeSnapshotToVm vm s) = vm_phase vm"
  "vm_terminalPhase (applyProbeSnapshotToVm vm s) = vm_terminalPhase vm"
  "vm_terminalReason (applyProbeSnapshotToVm vm s) = vm_terminalReason vm"
  "vm_terminalObservedAt (applyProbeSnapshotToVm vm s) = vm_terminalObservedAt vm"
  "vm_runtimeConstraints (applyProbeSnapshotToVm vm s) = vm_runtimeConstraints vm"
  "vm_resourceState (applyProbeSnapshotToVm vm s) = vm_resourceState vm"
  "vm_retiredRuntimeGenerations (applyProbeSnapshotToVm vm s) = vm_retiredRuntimeGenerations vm"
  "vm_runtimeObservedAt (applyProbeSnapshotToVm vm s) = vm_runtimeObservedAt vm"
  "vm_vmCreatedAt (applyProbeSnapshotToVm vm s) = vm_vmCreatedAt vm"
  "vm_provisioning (applyProbeSnapshotToVm vm s) = vm_provisioning vm"
  by (simp_all add: applyProbeSnapshotToVm_def Let_def)

lemma applyProbe_terminalTarget:
  "vm_terminalTarget (applyProbeSnapshotToVm vm s) =
     (if vm_terminalPhase vm = TP_ready then vm_terminalTarget vm else clearedTarget (vm_terminalTarget vm))"
  by (simp add: applyProbeSnapshotToVm_def Let_def decorate_terminalTarget)

lemma reset_frame [simp]:
  "vm_id (resetVmForRuntimeGeneration vm) = vm_id vm"
  "vm_runtimeVmName (resetVmForRuntimeGeneration vm) = vm_runtimeVmName vm"
  "vm_provisioning (resetVmForRuntimeGeneration vm) = vm_provisioning vm"
  "vm_terminalPhase (resetVmForRuntimeGeneration vm) = TP_pending"
  "vm_phase (resetVmForRuntimeGeneration vm) = VP_booting"
  "vm_runtimeConstraints (resetVmForRuntimeGeneration vm) = None"
  "vm_retiredRuntimeGenerations (resetVmForRuntimeGeneration vm) = Some (retireGeneration vm)"
  "vm_runtimeObservedAt (resetVmForRuntimeGeneration vm) = vm_runtimeObservedAt vm"
  by (simp_all add: resetVmForRuntimeGeneration_def)

lemma reportBase_frame [simp]:
  "vm_id (reportBase vm r) = vm_id vm"
  "vm_runtimeVmName (reportBase vm r) = vm_runtimeVmName vm"
  "vm_provisioning (reportBase vm r) = vm_provisioning vm"
  by (simp_all add: reportBase_def)

lemma accept_fields:
  "vm_id (acceptReport vm r) = vm_id vm"
  "vm_runtimeVmName (acceptReport vm r) = vm_runtimeVmName vm"
  "vm_provisioning (acceptReport vm r) = vm_provisioning vm"
  "vm_runtimeConstraints (acceptReport vm r) = reportConstraints vm r"
  "vm_terminalPhase (acceptReport vm r) = tp_phase (reportTerminal vm r)"
  "vm_terminalReason (acceptReport vm r) = tp_reason (reportTerminal vm r)"
  "vm_terminalObservedAt (acceptReport vm r) = tp_observedAt (reportTerminal vm r)"
  "vm_retiredRuntimeGenerations (acceptReport vm r) = vm_retiredRuntimeGenerations (reportBase vm r)"
  "vm_runtimeObservedAt (acceptReport vm r) = Some (rp_updated_at_unix_ms r)"
  "vm_bootProbes (acceptReport vm r) = vm_bootProbes (reportProbed vm r)"
  "vm_scenarioProbes (acceptReport vm r) = vm_scenarioProbes (reportProbed vm r)"
  by (simp_all add: acceptReport_def Let_def reportTerminal_def reportConstraints_def
      reportProbed_def reportBase_def)

lemma accept_terminalTarget:
  "vm_terminalTarget (acceptReport vm r) =
     (if tp_phase (reportTerminal vm r) = TP_ready then tp_target (reportTerminal vm r)
      else clearedTarget (tp_target (reportTerminal vm r)))"
  by (simp add: acceptReport_def Let_def reportTerminal_def reportConstraints_def
      reportProbed_def reportBase_def decorate_terminalTarget)

text \<open>How one report relates the state before it to the state after it.\<close>

lemma apply_cases:
  obtains "applyReportedVmState runId vm r = vm"
  | "matchesVmReportIdentity runId (vm_runtimeVmName vm) (rp_run_id r) (rp_vm_name r)"
    "\<forall>t. vm_runtimeObservedAt vm = Some t \<longrightarrow> t \<le> rp_updated_at_unix_ms r"
    "\<not> generationFenced vm r" "applyReportedVmState runId vm r = acceptReport vm r"
  by (cases "applyReportedVmState runId vm r = vm")
     (auto simp: applyReportedVmState_def split: option.splits if_splits)

lemma constraints_generation:
  "map_option rc_generation (mergeRuntimeConstraints c (Some rep)) = Some (js_trim (rcv_generation rep)) \<or>
   (\<exists>c'. c = Some c' \<and> rc_generation c' = [] \<and> mergeRuntimeConstraints c (Some rep) = c)"
  by (auto simp: mergeRuntimeConstraints_def Let_def split: option.splits)

subsection \<open>Lemmas: Runtime generations\<close>

lemma runReports_simps [simp]:
  "runReports runId [] vm = vm"
  "runReports runId (r # rs) vm = runReports runId rs (applyReportedVmState runId vm r)"
  by (simp_all add: runReports_def)

lemma runReports_append: "runReports runId (rs @ rs') vm = runReports runId rs' (runReports runId rs vm)"
  by (simp add: runReports_def)

lemma runReports_invariant:
  assumes "P vm" and "\<And>vm r. P vm \<Longrightarrow> P (applyReportedVmState runId vm r)"
  shows "P (runReports runId rs vm)"
  using assms(1) by (induction rs arbitrary: vm) (simp_all add: assms(2))

lemma set_retireGeneration:
  "set (retireGeneration vm) = retired vm \<union> {g. currentGeneration vm = Some g \<and> g \<noteq> []}"
  by (cases "vm_runtimeConstraints vm")
     (auto simp: retireGeneration_def retired_def currentGeneration_def first_occurrences_eq_js_set)

lemma retired_base:
  "retired (reportBase vm r) =
     retired vm \<union> (if generationChanged vm r then {g. currentGeneration vm = Some g \<and> g \<noteq> []} else {})"
  using set_retireGeneration [of vm] by (auto simp: reportBase_def retired_def)

lemma retired_accept: "retired (acceptReport vm r) = retired (reportBase vm r)"
  by (simp add: retired_def accept_fields)

lemma currentGeneration_accept:
  assumes "\<not> generationFenced vm r" "currentGeneration (acceptReport vm r) = Some g" "g \<noteq> []"
  shows "reportedGeneration r = Some g"
proof (cases "rp_runtime_constraints r")
  case None
  then have "reportedGeneration r = None" by (simp add: reportedGeneration_def)
  moreover from this have "\<not> generationChanged vm r" by (simp add: generationChanged_def)
  ultimately show ?thesis
    using assms None by (auto simp: generationFenced_def currentGeneration_def accept_fields
        reportConstraints_def mergeRuntimeConstraints_def reportBase_def truthy_def)
next
  case (Some rep)
  then show ?thesis
    using assms constraints_generation [of "vm_runtimeConstraints (reportBase vm r)" rep]
    by (auto simp: currentGeneration_def accept_fields reportConstraints_def reportedGeneration_def)
qed

lemma generationOk_apply:
  assumes "generationOk vm"
  shows "generationOk (applyReportedVmState runId vm r)"
proof (cases rule: apply_cases [of runId vm r])
  case 1
  with assms show ?thesis by simp
next
  case 2
  have "g \<notin> retired (acceptReport vm r)"
    if g: "currentGeneration (acceptReport vm r) = Some g" "g \<noteq> []" for g
  proof -
    have r: "reportedGeneration r = Some g"
      by (rule currentGeneration_accept [OF 2(3) g])
    then have "g \<notin> retired vm" using 2(3) by (simp add: generationFenced_def retired_def)
    moreover have "currentGeneration vm \<noteq> Some g" if "generationChanged vm r"
      using that r g(2) by (auto simp: generationChanged_def)
    ultimately show ?thesis by (auto simp: retired_accept retired_base)
  qed
  with 2 show ?thesis by (simp add: generationOk_def)
qed

lemma retired_apply: "retired vm \<subseteq> retired (applyReportedVmState runId vm r)"
  by (cases rule: apply_cases [of runId vm r]) (auto simp: retired_accept retired_base)

lemma retired_runReports: "retired vm \<subseteq> retired (runReports runId rs vm)"
  by (induction rs arbitrary: vm) (auto dest: retired_apply [THEN subsetD])

lemma retired_ignored:
  "reportedGeneration r = Some g \<Longrightarrow> g \<in> retired vm \<Longrightarrow> applyReportedVmState runId vm r = vm"
  by (simp add: applyReportedVmState_def generationFenced_def retired_def)

lemma same_generation_kept:
  assumes "currentGeneration vm = Some g" "g \<noteq> []" "\<not> generationFenced vm r" "\<not> generationChanged vm r"
  shows "reportedGeneration r = Some g" "currentGeneration (acceptReport vm r) = Some g"
proof -
  show r: "reportedGeneration r = Some g"
    using assms by (auto simp: generationFenced_def generationChanged_def split: option.splits)
  obtain c where c: "vm_runtimeConstraints vm = Some c" "rc_generation c = g"
    using assms(1) by (auto simp: currentGeneration_def)
  obtain rep where "rp_runtime_constraints r = Some rep" "js_trim (rcv_generation rep) = g"
    using r by (auto simp: reportedGeneration_def or_null_Some_iff split: option.splits)
  then show "currentGeneration (acceptReport vm r) = Some g"
    using c assms(4)
    by (simp add: currentGeneration_def accept_fields reportConstraints_def reportBase_def
        mergeRuntimeConstraints_def Let_def)
qed

lemma left_generation_retired_step:
  assumes "currentGeneration vm = Some g" "g \<noteq> []"
  shows "currentGeneration (applyReportedVmState runId vm r) = Some g \<or>
         g \<in> retired (applyReportedVmState runId vm r)"
proof (cases rule: apply_cases [of runId vm r])
  case 2
  then show ?thesis
    using assms same_generation_kept(2) [OF assms 2(3)]
    by (cases "generationChanged vm r") (simp_all add: retired_accept retired_base)
qed (use assms in simp)

lemma left_generation_retired:
  assumes "currentGeneration vm = Some g" "g \<noteq> []"
  shows "currentGeneration (runReports runId rs vm) = Some g \<or> g \<in> retired (runReports runId rs vm)"
proof (rule runReports_invariant [where P = "\<lambda>v. currentGeneration v = Some g \<or> g \<in> retired v"])
  show "currentGeneration vm = Some g \<or> g \<in> retired vm" using assms by simp
next
  fix v r assume "currentGeneration v = Some g \<or> g \<in> retired v"
  then show "currentGeneration (applyReportedVmState runId v r) = Some g \<or>
      g \<in> retired (applyReportedVmState runId v r)"
    using left_generation_retired_step [OF _ assms(2)] retired_apply by blast
qed

lemma generation_fence_lemma:
  assumes "generationOk vm" and "currentGeneration vm = Some g" and "g \<noteq> []"
    and "currentGeneration (runReports runId rs vm) \<noteq> Some g"
  shows "currentGeneration (runReports runId (rs @ rs') vm) \<noteq> Some g \<and>
     (reportedGeneration r = Some g \<longrightarrow>
        applyReportedVmState runId (runReports runId (rs @ rs') vm) r = runReports runId (rs @ rs') vm)"
proof -
  have "g \<in> retired (runReports runId rs vm)"
    using left_generation_retired [OF assms(2,3), of runId rs] assms(4) by blast
  then have g: "g \<in> retired (runReports runId (rs @ rs') vm)"
    using retired_runReports by (auto simp: runReports_append)
  have "generationOk (runReports runId (rs @ rs') vm)"
    by (rule runReports_invariant [OF assms(1) generationOk_apply])
  with g assms(3) show ?thesis by (auto simp: generationOk_def retired_ignored)
qed

lemma observedAt_step:
  assumes "vm_runtimeObservedAt vm = Some t"
  shows "\<exists>t'. vm_runtimeObservedAt (applyReportedVmState runId vm r) = Some t' \<and> t \<le> t'"
  by (cases rule: apply_cases [of runId vm r]) (use assms in \<open>auto simp: accept_fields\<close>)

lemma order_reportedPhase: "VM_PHASE_ORDER (vm_phase vm) \<le> VM_PHASE_ORDER (fst (reportedPhase vm rp))"
  by (auto simp: reportedPhase_def canAdvanceVmPhase_def split: option.splits)

lemma order_collectionError: "VM_PHASE_ORDER (fst pd) \<le> VM_PHASE_ORDER (fst (collectionErrorPhase e pd))"
  by (auto simp: collectionErrorPhase_def canAdvanceVmPhase_def split: option.splits)

lemma order_probePhase: "VM_PHASE_ORDER (fst pd) \<le> VM_PHASE_ORDER (fst (probePhase vm pd))"
  by (auto simp: probePhase_def canAdvanceVmPhase_def)

lemma order_deriveVmPhase: "VM_PHASE_ORDER (vm_phase vm) \<le> VM_PHASE_ORDER (fst (deriveVmPhase vm rp e))"
  unfolding deriveVmPhase_def
  by (meson order_reportedPhase order_collectionError order_probePhase le_trans)

lemma deriveVmPhase_past_launch: "fst (deriveVmPhase vm rp e) \<noteq> VP_queued \<and> fst (deriveVmPhase vm rp e) \<noteq> VP_launching"
  unfolding deriveVmPhase_def
  by (cases "fst (collectionErrorPhase e (reportedPhase vm rp))")
     (auto simp: probePhase_def canAdvanceVmPhase_def)

subsection \<open>Lemmas: Terminal readiness\<close>

lemma explicitReady_complete:
  assumes "explicitReadyTarget rep rc keys cpu = Some t"
  shows "completeTarget t" "ts_state rep = TK_ready"
    "quotaReady cpu rc (ts_observed_at_unix_ms rep)"
    "\<exists>c q. rc = Some c \<and> rc_quotaVerifiedAt c = Some q \<and> q \<le> the (tt_checkedAt t)"
  using assms
  by (auto simp: explicitReadyTarget_def completeTarget_def firstHostKey_def find_Some_iff
      split: option.splits if_splits)

lemma terminal_ready_cases:
  assumes "tp_phase (projectTerminalReadiness rep rc keys cur ph) = TP_ready"
  obtains (sticky) "vm_terminalPhase cur = TP_ready"
    "projectTerminalReadiness rep rc keys cur ph = currentTerminalProjection cur"
  | (explicit) t where "rep = Some t" "ts_state t \<noteq> TK_failed" "ph \<noteq> BV_failed"
    "explicitReadyTarget t rc keys (map_option vr_cpuMillis (pr_resources (vm_provisioning cur))) =
       Some (tp_target (projectTerminalReadiness rep rc keys cur ph))"
proof (cases rep)
  case None
  then show ?thesis
    using assms sticky by (simp add: projectTerminalReadiness_def currentTerminalProjection_def)
next
  case (Some t)
  have nf: "ts_state t \<noteq> TK_failed" "ph \<noteq> BV_failed"
    using assms Some by (auto simp: projectTerminalReadiness_def split: if_splits)
  show ?thesis
  proof (cases "explicitReadyTarget t rc keys (map_option vr_cpuMillis (pr_resources (vm_provisioning cur)))")
    case None
    then show ?thesis
      using assms Some nf sticky
      by (simp add: projectTerminalReadiness_def Let_def split: if_splits)
  next
    case e: (Some u)
    then show ?thesis
      using Some nf by (intro explicit) (simp_all add: projectTerminalReadiness_def Let_def)
  qed
qed

lemma reportProbed_terminal:
  "vm_terminalPhase (reportProbed vm r) = vm_terminalPhase (reportBase vm r)"
  "vm_provisioning (reportProbed vm r) = vm_provisioning vm"
  by (simp_all add: reportProbed_def)

lemma reportBase_ready:
  "vm_terminalPhase (reportBase vm r) = TP_ready \<longleftrightarrow> vm_terminalPhase vm = TP_ready \<and> \<not> generationChanged vm r"
  by (simp add: reportBase_def)

lemma complete_apply:
  assumes "vm_terminalPhase vm = TP_ready \<longrightarrow> completeTarget (vm_terminalTarget vm)"
    and ready: "vm_terminalPhase (applyReportedVmState runId vm r) = TP_ready"
  shows "completeTarget (vm_terminalTarget (applyReportedVmState runId vm r))"
proof (cases rule: apply_cases [of runId vm r])
  case 2
  then have "tp_phase (reportTerminal vm r) = TP_ready" using ready by (simp add: accept_fields)
  then show ?thesis
    unfolding reportTerminal_def
  proof (cases rule: terminal_ready_cases)
    case sticky
    then show ?thesis
      using 2 assms by (auto simp: accept_terminalTarget accept_fields reportTerminal_def
          currentTerminalProjection_def reportProbed_terminal reportBase_ready)
         (simp add: reportProbed_def applyProbe_terminalTarget reportBase_def)
  next
    case (explicit t)
    then have "completeTarget (tp_target (reportTerminal vm r))"
      unfolding reportTerminal_def by (blast intro: explicitReady_complete(1))
    then show ?thesis
      using 2 ready by (simp add: accept_terminalTarget accept_fields)
  qed
qed (use assms in simp)

lemma initialVm_terminal:
  "vm_terminalPhase (buildInitialVmState seed) = TP_pending"
  "vm_runtimeConstraints (buildInitialVmState seed) = None"
  "vm_retiredRuntimeGenerations (buildInitialVmState seed) = None"
  by (simp_all add: buildInitialVmState_def)

lemma reachable_complete:
  "vmReachable runId vm \<Longrightarrow> vm_terminalPhase vm = TP_ready \<Longrightarrow> completeTarget (vm_terminalTarget vm)"
proof (induction rule: vmReachable.induct)
  case (reported vm r)
  then show ?case by (blast intro: complete_apply)
qed (simp_all add: decorate_terminalTarget initialVm_terminal)

lemma generationOk_decorate [simp]: "generationOk (decorateVmState vm) = generationOk vm"
  by (simp add: generationOk_def currentGeneration_def retired_def)

lemma reachable_generationOk: "vmReachable runId vm \<Longrightarrow> generationOk vm"
  by (induction rule: vmReachable.induct)
     (simp_all add: generationOk_apply, simp add: generationOk_def currentGeneration_def initialVm_terminal)

lemma ready_needs_quota:
  assumes ready: "vm_terminalPhase (applyReportedVmState runId vm r) = TP_ready"
    and new: "vm_terminalPhase vm \<noteq> TP_ready \<or>
      truthy (currentGeneration vm) \<and>
      currentGeneration (applyReportedVmState runId vm r) \<noteq> currentGeneration vm"
  shows "\<exists>t rc q. rp_terminal r = Some t \<and> ts_state t = TK_ready \<and>
    vm_runtimeConstraints (applyReportedVmState runId vm r) = Some rc \<and>
    rc_quotaVerifiedAt rc = Some q \<and> 0 < q \<and> q \<le> ts_observed_at_unix_ms t \<and>
    q \<le> the (tt_checkedAt (vm_terminalTarget (applyReportedVmState runId vm r))) \<and>
    map_option vr_cpuMillis (pr_resources (vm_provisioning vm)) = Some (rc_cpuMillis rc) \<and>
    0 < rc_cpuMillis rc \<and>
    completeTarget (vm_terminalTarget (applyReportedVmState runId vm r))"
proof (cases rule: apply_cases [of runId vm r])
  case 1
  then show ?thesis using ready new by simp
next
  case 2
  have rt: "tp_phase (reportTerminal vm r) = TP_ready" using 2 ready by (simp add: accept_fields)
  have notready: "vm_terminalPhase (reportBase vm r) \<noteq> TP_ready"
  proof (cases "vm_terminalPhase vm = TP_ready")
    case True
    then have c: "truthy (currentGeneration vm)" "currentGeneration (acceptReport vm r) \<noteq> currentGeneration vm"
      using new 2(4) by auto
    then obtain g where g: "currentGeneration vm = Some g" "g \<noteq> []"
      by (auto simp: truthy_def split: option.splits)
    then have "generationChanged vm r"
      using same_generation_kept(2) [OF g 2(3)] c by auto
    then show ?thesis by (simp add: reportBase_def)
  qed (simp add: reportBase_ready)
  from rt show ?thesis
    unfolding reportTerminal_def
  proof (cases rule: terminal_ready_cases)
    case sticky
    then show ?thesis using notready by (simp add: reportProbed_terminal)
  next
    case (explicit t)
    note e = explicitReady_complete [OF explicit(4)]
    have tgt: "vm_terminalTarget (applyReportedVmState runId vm r) = tp_target (reportTerminal vm r)"
      using 2(4) rt by (simp add: accept_terminalTarget)
    have rc: "vm_runtimeConstraints (applyReportedVmState runId vm r) = reportConstraints vm r"
      using 2(4) by (simp add: accept_fields)
    show ?thesis
      unfolding tgt rc
      using e explicit(1) by (auto simp: quotaReady_def reportProbed_terminal reportTerminal_def split: option.splits)
  qed
qed

subsection \<open>Lemmas: Repeated delivery\<close>

lemma trimmed_or_idem [simp]: "trimmed_or s (trimmed_or s d) = trimmed_or s d"
  by (simp add: trimmed_or_def or_string_def)

lemma mergeProbe_idem: "mergeProbe b us (mergeProbe b us p) = mergeProbe b us p"
proof (cases "map_of us (sp_id p)")
  case None
  then show ?thesis by (simp add: mergeProbe_def)
next
  case (Some nxt)
  then show ?thesis
    by (simp add: mergeProbe_def [of b us p] Let_def) 
       (auto simp: mergeProbe_def Let_def intro!: ScenarioProbeStatus.equality split: option.splits)
qed

lemma merge_constraints_idem:
  "mergeRuntimeConstraints (mergeRuntimeConstraints c rep) rep = mergeRuntimeConstraints c rep"
  by (auto simp: mergeRuntimeConstraints_def Let_def split: option.splits)

lemma applyProbe_noop:
  assumes "map (mergeProbe True (probeUpdates s)) (vm_bootProbes vm) = vm_bootProbes vm"
    and "map (mergeProbe False (probeUpdates s)) (vm_scenarioProbes vm) = vm_scenarioProbes vm"
    and "decorateVmState vm = vm"
  shows "applyProbeSnapshotToVm vm s = vm"
proof -
  have "vm\<lparr>vm_bootProbes := vm_bootProbes vm, vm_scenarioProbes := vm_scenarioProbes vm\<rparr> = vm"
    by (rule RunVmStateDocument.equality) simp_all
  then show ?thesis using assms by (simp add: applyProbeSnapshotToVm_def Let_def)
qed

lemma decorate_accept [simp]: "decorateVmState (acceptReport vm r) = acceptReport vm r"
  by (simp add: acceptReport_def Let_def)

lemma accept_not_changed:
  assumes "\<not> generationFenced vm r"
  shows "\<not> generationChanged (acceptReport vm r) r"
proof (cases "reportedGeneration r")
  case None
  then show ?thesis by (simp add: generationChanged_def)
next
  case (Some g)
  then obtain rep where rep: "rp_runtime_constraints r = Some rep" "js_trim (rcv_generation rep) = g" "g \<noteq> []"
    by (auto simp: reportedGeneration_def or_null_Some_iff split: option.splits)
  consider "currentGeneration (acceptReport vm r) = Some g"
    | c where "vm_runtimeConstraints (reportBase vm r) = Some c" "rc_generation c = []"
        "reportConstraints vm r = Some c"
    using constraints_generation [of "vm_runtimeConstraints (reportBase vm r)" rep] rep
    by (auto simp: currentGeneration_def accept_fields reportConstraints_def)
  then show ?thesis
  proof cases
    case 1
    then show ?thesis using Some rep(3) by (simp add: generationChanged_def)
  next
    case 2
    have nc: "\<not> generationChanged vm r" and cg: "currentGeneration vm = Some []"
      using 2(1,2) by (auto simp: reportBase_def currentGeneration_def split: if_splits)
    have "tp_phase (reportTerminal vm r) \<noteq> TP_ready"
      if q: "rcv_quota_verified_at_unix_ms rep \<in> {None, Some 0}"
    proof
      assume "tp_phase (reportTerminal vm r) = TP_ready"
      then show False
        unfolding reportTerminal_def
      proof (cases rule: terminal_ready_cases)
        case sticky
        then show False
          using nc cg Some rep q by (simp add: generationChanged_def reportProbed_terminal reportBase_ready)
      next
        case (explicit t)
        then show False
          using explicitReady_complete(3) [OF explicit(4)] 2 by (simp add: quotaReady_def js_trim_def split: option.splits)
      qed
    qed
    then show ?thesis
      using Some rep 2 by (cases "rcv_quota_verified_at_unix_ms rep \<in> {None, Some 0}")
        (auto simp: generationChanged_def accept_fields currentGeneration_def)
  qed
qed

lemma accept_probes:
  "vm_bootProbes (acceptReport vm r) =
     map (mergeProbe True (probeUpdates (reportProbes (rp_probes r)))) (vm_bootProbes (reportBase vm r))"
  "vm_scenarioProbes (acceptReport vm r) =
     map (mergeProbe False (probeUpdates (reportProbes (rp_probes r)))) (vm_scenarioProbes (reportBase vm r))"
  by (simp_all add: accept_fields reportProbed_def applyProbe_probes)

lemma reportProbed_accept:
  assumes "\<not> generationFenced vm r"
  shows "reportBase (acceptReport vm r) r = acceptReport vm r"
    "reportProbed (acceptReport vm r) r = acceptReport vm r"
    "reportConstraints (acceptReport vm r) r = reportConstraints vm r"
proof -
  show b: "reportBase (acceptReport vm r) r = acceptReport vm r"
    using accept_not_changed [OF assms] by (simp add: reportBase_def)
  show "reportProbed (acceptReport vm r) r = acceptReport vm r"
    unfolding reportProbed_def b
    by (rule applyProbe_noop) (simp_all add: accept_probes mergeProbe_idem)
  show "reportConstraints (acceptReport vm r) r = reportConstraints vm r"
    by (simp add: reportConstraints_def [of "acceptReport vm r"] b accept_fields)
       (simp add: reportConstraints_def merge_constraints_idem)
qed

lemma cleared_eq: "clearedTerminalTarget vm = clearedTarget (vm_terminalTarget vm)"
  by (simp add: clearedTerminalTarget_def clearedTarget_def)

lemma project_idem:
  assumes "vm_terminalPhase v = tp_phase (projectTerminalReadiness rep rc keys cur ph)"
    "vm_terminalReason v = tp_reason (projectTerminalReadiness rep rc keys cur ph)"
    "vm_terminalObservedAt v = tp_observedAt (projectTerminalReadiness rep rc keys cur ph)"
    "vm_terminalTarget v = tp_target (projectTerminalReadiness rep rc keys cur ph)"
    "vm_provisioning v = vm_provisioning cur"
  shows "projectTerminalReadiness rep rc keys v ph = projectTerminalReadiness rep rc keys cur ph"
proof (cases rep)
  case None
  then show ?thesis
    using assms by (simp add: projectTerminalReadiness_def currentTerminalProjection_def cleared_eq)
next
  case (Some t)
  show ?thesis
  proof (cases "explicitReadyTarget t rc keys (map_option vr_cpuMillis (pr_resources (vm_provisioning cur)))")
    case None
    then show ?thesis
      using assms Some
      by (auto simp: projectTerminalReadiness_def currentTerminalProjection_def cleared_eq Let_def)
  next
    case e: (Some u)
    then show ?thesis
      using assms Some
      by (auto simp: projectTerminalReadiness_def cleared_eq Let_def)
  qed
qed

lemma target_unready:
  "tp_phase (projectTerminalReadiness rep rc keys cur ph) \<noteq> TP_ready \<Longrightarrow>
   clearedTarget (tp_target (projectTerminalReadiness rep rc keys cur ph)) =
   tp_target (projectTerminalReadiness rep rc keys cur ph)"
  by (auto simp: projectTerminalReadiness_def currentTerminalProjection_def cleared_eq Let_def
      split: option.splits)

lemma reportTerminal_accept:
  assumes "\<not> generationFenced vm r"
  shows "reportTerminal (acceptReport vm r) r = reportTerminal vm r"
  unfolding reportTerminal_def [of "acceptReport vm r"] reportProbed_accept [OF assms]
  unfolding reportTerminal_def
  by (rule project_idem)
     (use target_unready [of "rp_terminal r" "reportConstraints vm r" "rp_ssh_host_keys_openssh r" "reportProbed vm r" "rp_phase r"]
      in \<open>auto simp: accept_fields accept_terminalTarget reportTerminal_def reportProbed_terminal\<close>)

subsection \<open>Lemmas: The phase of a repeated report\<close>

lemma snd_derive_ne:
  assumes "vm_phaseDetail we \<noteq> []"
  shows "snd (deriveVmPhase we (Some ph) e) \<noteq> []"
proof -
  have "describeReportPhase ph we \<noteq> []" by (cases ph) simp_all
  then have "snd (reportedPhase we (Some ph)) \<noteq> []"
    using assms by (simp add: reportedPhase_def)
  then have "snd (collectionErrorPhase e (reportedPhase we (Some ph))) \<noteq> []"
    by (simp add: collectionErrorPhase_def split: option.splits)
  then show ?thesis
    by (simp add: deriveVmPhase_def probePhase_def)
qed

lemma probePhase_cong:
  assumes "scenarioProbesPassing v = scenarioProbesPassing we" "bootProbesPassing v = bootProbesPassing we"
    "hasTerminalEndpoint (vm_terminalTarget v) = hasTerminalEndpoint (vm_terminalTarget we)"
  shows "probePhase v = probePhase we"
  using assms by (intro ext) (simp only: probePhase_def)

lemma probePhase_idem: "probePhase we (probePhase we pd) = probePhase we pd"
  by (cases "fst pd") (auto simp: probePhase_def canAdvanceVmPhase_def)

lemma probePhase_past_launch: "fst (probePhase vm pd) \<noteq> VP_queued" "fst (probePhase vm pd) \<noteq> VP_launching"
  by (cases "fst pd"; auto simp: probePhase_def canAdvanceVmPhase_def)+

lemma collectionError_again:
  "collectionErrorPhase e (probePhase we (collectionErrorPhase e pd)) = probePhase we (collectionErrorPhase e pd)"
  (is "collectionErrorPhase e ?c = ?c")
proof (cases "\<exists>s. e = Some s \<and> s \<noteq> [] \<and> canAdvanceVmPhase (fst ?c) VP_booting")
  case True
  then obtain s where e: "e = Some s" "s \<noteq> []" and adv: "VM_PHASE_ORDER (fst ?c) \<le> 2"
    by (auto simp: canAdvanceVmPhase_def)
  have "VM_PHASE_ORDER (fst pd) \<le> 2"
    using order_collectionError [of pd e] order_probePhase [of "collectionErrorPhase e pd" we] adv by simp
  then have b: "collectionErrorPhase e pd = (VP_booting, s)"
    using e by (simp add: collectionErrorPhase_def canAdvanceVmPhase_def)
  then have "?c = (VP_booting, s)"
    using adv by (auto simp: b probePhase_def canAdvanceVmPhase_def split: if_splits)
  then show ?thesis using e by (simp add: collectionErrorPhase_def)
next
  case False
  then show ?thesis by (auto simp: collectionErrorPhase_def split: option.splits)
qed

lemma derive_again:
  assumes pd: "pd = deriveVmPhase we (Some ph) e"
    and v: "vm_phase v = fst pd" "vm_phaseDetail v = snd pd"
    and same: "scenarioProbesPassing v = scenarioProbesPassing we"
      "bootProbesPassing v = bootProbesPassing we"
      "hasTerminalEndpoint (vm_terminalTarget v) = hasTerminalEndpoint (vm_terminalTarget we)"
  shows "deriveVmPhase v (Some ph) e = pd"
proof (cases "canAdvanceVmPhase (vm_phase v) (bridgeVmPhaseToRunVmPhase ph)")
  case True
  have "canAdvanceVmPhase (vm_phase we) (bridgeVmPhaseToRunVmPhase ph)"
    using True order_deriveVmPhase [of we "Some ph" e] v pd by (simp add: canAdvanceVmPhase_def)
  moreover have "ph \<noteq> BV_pending"
    using True deriveVmPhase_past_launch [of we "Some ph" e] v pd
    by (cases "vm_phase v") (auto simp: canAdvanceVmPhase_def)
  then have "describeReportPhase ph v = describeReportPhase ph we" by (cases ph) simp_all
  ultimately have "reportedPhase v (Some ph) = reportedPhase we (Some ph)"
    using True by (simp add: reportedPhase_def)
  then show ?thesis using pd by (simp add: deriveVmPhase_def probePhase_cong [OF same])
next
  case False
  then have "reportedPhase v (Some ph) = pd" by (simp add: reportedPhase_def v)
  then show ?thesis
    by (simp add: deriveVmPhase_def probePhase_cong [OF same])
       (simp add: pd deriveVmPhase_def collectionError_again probePhase_idem)
qed

lemma acceptReport_alt:
  "acceptReport vm r =
     decorateVmState
       ((reportEvidence vm r)\<lparr>
          vm_guestIp :=
            coalesce_opt
              (case rp_network r of None \<Rightarrow> None | Some n \<Rightarrow> or_null (js_trim (net_guest_ip n)))
              (vm_guestIp (reportProbed vm r)),
          vm_phase := fst (reportPhase vm r),
          vm_phaseDetail := snd (reportPhase vm r),
          vm_runtimeState := Some (bridgeVmPhaseName (rp_phase r)),
          vm_runtimeObservedAt := Some (rp_updated_at_unix_ms r),
          vm_vmCreatedAt :=
            coalesce_opt (vm_vmCreatedAt (reportProbed vm r))
              (if fst (reportPhase vm r) = VP_queued then None else Some (rp_updated_at_unix_ms r))\<rparr>)"
  by (simp add: acceptReport_def Let_def reportEvidence_def reportPhase_def reportTerminal_def
      reportConstraints_def reportProbed_def reportBase_def)

lemma reportProbed_detail: "vm_phaseDetail (reportProbed vm r) \<noteq> []"
  by (simp add: reportProbed_def applyProbeSnapshotToVm_def decorateVmState_def Let_def describe_detail_ne)

lemma accept_phase:
  "vm_phase (acceptReport vm r) = fst (reportPhase vm r)"
  "vm_phaseDetail (acceptReport vm r) = snd (reportPhase vm r)"
proof -
  show "vm_phase (acceptReport vm r) = fst (reportPhase vm r)"
    by (simp add: acceptReport_alt)
  have "snd (reportPhase vm r) \<noteq> []"
    unfolding reportPhase_def by (rule snd_derive_ne) (simp add: reportEvidence_def reportProbed_detail)
  then show "vm_phaseDetail (acceptReport vm r) = snd (reportPhase vm r)"
    by (simp add: acceptReport_alt decorateVmState_def Let_def describe_keeps_detail)
qed

lemma reportPhase_accept:
  assumes "\<not> generationFenced vm r"
  shows "reportPhase (acceptReport vm r) r = reportPhase vm r"
proof -
  have ep: "vm_terminalTarget (reportEvidence (acceptReport vm r) r) = tp_target (reportTerminal vm r)"
    by (simp add: reportEvidence_def reportTerminal_accept [OF assms])
  show ?thesis
    unfolding reportPhase_def [of "acceptReport vm r"]
    by (rule derive_again [OF reportPhase_def])
       (simp_all add: ep, simp_all add: reportEvidence_def reportProbed_accept [OF assms] accept_phase
         scenarioProbesPassing_def bootProbesPassing_def accept_fields)
qed

lemma accept_other:
  "vm_guestIp (acceptReport vm r) =
     coalesce_opt (case rp_network r of None \<Rightarrow> None | Some n \<Rightarrow> or_null (js_trim (net_guest_ip n)))
       (vm_guestIp (reportProbed vm r))"
  "vm_runtimeState (acceptReport vm r) = Some (bridgeVmPhaseName (rp_phase r))"
  "vm_vmCreatedAt (acceptReport vm r) =
     coalesce_opt (vm_vmCreatedAt (reportProbed vm r))
       (if fst (reportPhase vm r) = VP_queued then None else Some (rp_updated_at_unix_ms r))"
  "vm_resourceState (acceptReport vm r) = vm_resourceState (reportEvidence vm r)"
  by (simp_all add: acceptReport_alt decorateVmState_def Let_def reportEvidence_def)

lemma coalesce_opt_idem [simp]: "coalesce_opt a (coalesce_opt a b) = coalesce_opt a b"
  by (cases a) simp_all

lemma coalesce_opt_idem2 [simp]: "coalesce_opt (coalesce_opt a b) b = coalesce_opt a b"
  by (cases a; cases b) simp_all

lemma accept_idem:
  assumes "\<not> generationFenced vm r"
  shows "acceptReport (acceptReport vm r) r = acceptReport vm r"
proof -
  let ?v = "acceptReport vm r"
  let ?t = "reportTerminal vm r"
  have cl: "tp_phase ?t \<noteq> TP_ready \<Longrightarrow> clearedTarget (tp_target ?t) = tp_target ?t"
    unfolding reportTerminal_def by (rule target_unready)
  have "(reportEvidence ?v r)\<lparr>
          vm_guestIp :=
            coalesce_opt
              (case rp_network r of None \<Rightarrow> None | Some n \<Rightarrow> or_null (js_trim (net_guest_ip n)))
              (vm_guestIp (reportProbed ?v r)),
          vm_phase := fst (reportPhase ?v r),
          vm_phaseDetail := snd (reportPhase ?v r),
          vm_runtimeState := Some (bridgeVmPhaseName (rp_phase r)),
          vm_runtimeObservedAt := Some (rp_updated_at_unix_ms r),
          vm_vmCreatedAt :=
            coalesce_opt (vm_vmCreatedAt (reportProbed ?v r))
              (if fst (reportPhase ?v r) = VP_queued then None else Some (rp_updated_at_unix_ms r))\<rparr> = ?v"
    (is "?w = ?v")
  proof (rule RunVmStateDocument.equality)
    show "vm_resourceState ?w = vm_resourceState ?v"
      by (simp add: reportEvidence_def reportProbed_accept [OF assms] accept_other)
  qed (simp_all add: reportEvidence_def reportProbed_accept [OF assms] reportTerminal_accept [OF assms]
        reportPhase_accept [OF assms] accept_fields accept_phase accept_other accept_terminalTarget cl)
  then show ?thesis by (simp add: acceptReport_alt [of ?v])
qed

lemma apply_idem:
  "applyReportedVmState runId (applyReportedVmState runId vm r) r = applyReportedVmState runId vm r"
proof (cases rule: apply_cases [of runId vm r])
  case 2
  then show ?thesis
    using accept_idem [OF 2(3)] by (simp add: applyReportedVmState_def)
qed simp

subsection \<open>Lemmas: Whole runs\<close>

lemma fence_decorate [simp]:
  "generationFenced (decorateVmState vm) r = generationFenced vm r"
  by (simp add: generationFenced_def currentGeneration_def split: option.splits)

lemma apply_decorated_again:
  "applyReportedVmState runId (decorateVmState (applyReportedVmState runId vm r)) r =
     decorateVmState (applyReportedVmState runId vm r)"
proof (cases rule: apply_cases [of runId vm r])
  case 1
  then have "vm = acceptReport vm r \<or>
      (\<not> matchesVmReportIdentity runId (vm_runtimeVmName vm) (rp_run_id r) (rp_vm_name r) \<or>
       (\<exists>t. vm_runtimeObservedAt vm = Some t \<and> rp_updated_at_unix_ms r < t) \<or> generationFenced vm r)"
    by (auto simp: applyReportedVmState_def split: if_splits option.splits)
  then show ?thesis
  proof
    assume "vm = acceptReport vm r"
    then have "decorateVmState vm = vm" by (metis decorate_accept)
    then show ?thesis using 1 by simp
  next
    assume "\<not> matchesVmReportIdentity runId (vm_runtimeVmName vm) (rp_run_id r) (rp_vm_name r) \<or>
       (\<exists>t. vm_runtimeObservedAt vm = Some t \<and> rp_updated_at_unix_ms r < t) \<or> generationFenced vm r"
    then have "applyReportedVmState runId (decorateVmState vm) r = decorateVmState vm"
      by (auto simp: applyReportedVmState_def)
    then show ?thesis using 1 by simp
  qed
next
  case 2
  then show ?thesis using apply_idem [of runId vm r] by simp
qed

lemma applyVmReport_idem:
  "applyVmReportToRunState runId (applyVmReportToRunState runId d report) report =
   applyVmReportToRunState runId d report"
proof -
  let ?d = "applyVmReportToRunState runId d report"
  have "map (\<lambda>vm. applyReportedVmState runId vm (reportedVmOfReport report)) (run_vms ?d) = run_vms ?d"
    by (simp add: applyVmReportToRunState_def recompute_fields apply_decorated_again)
  then show ?thesis
    unfolding applyVmReportToRunState_def [of runId ?d]
    by (simp add: applyVmReportToRunState_def recompute_idem)
qed

lemma apply_names [simp]:
  "vm_id (applyReportedVmState runId vm r) = vm_id vm"
  "vm_runtimeVmName (applyReportedVmState runId vm r) = vm_runtimeVmName vm"
  by (auto simp: applyReportedVmState_def accept_fields)

lemma apply_phase_mono:
  assumes "\<not> generationChanged vm r"
  shows "VM_PHASE_ORDER (vm_phase vm) \<le> VM_PHASE_ORDER (vm_phase (applyReportedVmState runId vm r))"
proof (cases rule: apply_cases [of runId vm r])
  case 2
  have "vm_phase (reportEvidence vm r) = vm_phase vm"
    using assms by (simp add: reportEvidence_def reportProbed_def reportBase_def)
  then show ?thesis
    using 2 order_deriveVmPhase [of "reportEvidence vm r"] by (simp add: accept_phase reportPhase_def)
qed simp

lemma apply_changed_booting:
  assumes "generationChanged vm r" "applyReportedVmState runId vm r \<noteq> vm"
  shows "VM_PHASE_ORDER VP_booting \<le> VM_PHASE_ORDER (vm_phase (applyReportedVmState runId vm r))"
proof (cases rule: apply_cases [of runId vm r])
  case 2
  have "vm_phase (reportEvidence vm r) = VP_booting"
    using assms by (simp add: reportEvidence_def reportProbed_def reportBase_def)
  then show ?thesis
    using 2 order_deriveVmPhase [of "reportEvidence vm r"] by (simp add: accept_phase reportPhase_def)
qed (use assms in simp)

lemma apply_sticky:
  assumes "vm_terminalPhase vm = TP_ready" "\<not> generationChanged vm r"
    and "\<forall>t. rp_terminal r = Some t \<longrightarrow> ts_state t \<noteq> TK_failed" "rp_phase r \<noteq> BV_failed"
  shows "vm_terminalPhase (applyReportedVmState runId vm r) = TP_ready"
proof (cases rule: apply_cases [of runId vm r])
  case 2
  have "vm_terminalPhase (reportProbed vm r) = TP_ready"
    using assms by (simp add: reportProbed_def reportBase_def)
  then show ?thesis
    using 2 assms(3,4)
    by (simp add: accept_fields reportTerminal_def projectTerminalReadiness_def currentTerminalProjection_def
        Let_def split: option.splits)
qed (use assms in simp)

lemma apply_sealed:
  assumes "vm_runtimeConstraints vm = Some c" "rc_quotaVerifiedAt c \<noteq> None" "\<not> generationChanged vm r"
    and "\<forall>rep. rp_runtime_constraints r = Some rep \<longrightarrow> rcv_cpu_millis rep = rc_cpuMillis c"
  shows "\<exists>c'. vm_runtimeConstraints (applyReportedVmState runId vm r) = Some c' \<and>
      rc_quotaVerifiedAt c' \<noteq> None \<and> rc_cpuMillis c' = rc_cpuMillis c"
proof (cases rule: apply_cases [of runId vm r])
  case 2
  have b: "reportBase vm r = vm" using assms(3) by (simp add: reportBase_def)
  have same: "rc_generation c = [] \<or> rc_generation c = js_trim (rcv_generation rep)"
    if "rp_runtime_constraints r = Some rep" for rep
    using that assms(1) same_generation_kept(1) [of vm "rc_generation c" r] 2(3) assms(3)
    by (auto simp: currentGeneration_def reportedGeneration_def or_null_Some_iff)
  show ?thesis
    using 2 assms(1,2,4) b same
    by (cases "rp_runtime_constraints r")
       (auto simp: accept_fields reportConstraints_def mergeRuntimeConstraints_def Let_def)
qed (use assms in simp)

subsection \<open>Properties\<close>

text \<open>
  C2. Reports are idempotent: delivering the same VM report again leaves the run document unchanged, so
  at-least-once delivery is safe.
\<close>

theorem vm_report_idempotent:
  "applyVmReportToRunState runId (applyVmReportToRunState runId d report) report =
   applyVmReportToRunState runId d report"
  by (fact applyVmReport_idem)

text \<open>
  C1. The generation fence: once a VM has left a boot generation, whatever reports come afterwards, it
  never returns to that generation, and a late report that names it changes nothing.
\<close>

theorem generation_fence:
  assumes "generationOk vm" and "currentGeneration vm = Some g" and "g \<noteq> []"
    and "currentGeneration (runReports runId rs vm) \<noteq> Some g"
  shows "currentGeneration (runReports runId (rs @ rs') vm) \<noteq> Some g \<and>
     (reportedGeneration r = Some g \<longrightarrow>
        applyReportedVmState runId (runReports runId (rs @ rs') vm) r = runReports runId (rs @ rs') vm)"
  by (rule generation_fence_lemma [OF assms])

theorem generation_fence_witness:
  "let vm = applyReportedVmState ''run-1'' sampleVm (sampleReported ''g1'');
       vm' = applyReportedVmState ''run-1'' vm (sampleReported ''g2'')
   in currentGeneration vm = Some ''g1'' \<and> currentGeneration vm' = Some ''g2'' \<and>
      applyReportedVmState ''run-1'' vm' (sampleReported ''g1'') = vm'"
proof -
  let ?vm = "applyReportedVmState ''run-1'' sampleVm (sampleReported ''g1'')"
  have "currentGeneration ?vm = Some ''g1''"
    and "currentGeneration (applyReportedVmState ''run-1'' ?vm (sampleReported ''g2'')) = Some ''g2''"
    and "reportedGeneration (sampleReported ''g1'') = Some ''g1''"
    by code_simp+
  moreover have "generationOk sampleVm"
    by (simp add: generationOk_def currentGeneration_def sampleVm_def initialVm_terminal)
  ultimately show ?thesis
    using generation_fence [of ?vm "''g1''" "''run-1''" "[sampleReported ''g2'']" "[]" "sampleReported ''g1''"]
    by (simp add: generationOk_apply Let_def)
qed

text \<open>
  C3. A terminal becomes ready only on evidence: if a report makes the terminal ready that was not, or
  that belonged to an earlier boot, then the report claims readiness explicitly, the stored quota
  evidence is for exactly the provisioned CPU and was verified no later than the observation and the
  target check, and the target is complete.
\<close>

theorem terminal_ready_needs_quota:
  assumes "vm_terminalPhase (applyReportedVmState runId vm r) = TP_ready"
    and "vm_terminalPhase vm \<noteq> TP_ready \<or>
      truthy (currentGeneration vm) \<and>
      currentGeneration (applyReportedVmState runId vm r) \<noteq> currentGeneration vm"
  shows "\<exists>t rc q. rp_terminal r = Some t \<and> ts_state t = TK_ready \<and>
    vm_runtimeConstraints (applyReportedVmState runId vm r) = Some rc \<and>
    rc_quotaVerifiedAt rc = Some q \<and> 0 < q \<and> q \<le> ts_observed_at_unix_ms t \<and>
    q \<le> the (tt_checkedAt (vm_terminalTarget (applyReportedVmState runId vm r))) \<and>
    map_option vr_cpuMillis (pr_resources (vm_provisioning vm)) = Some (rc_cpuMillis rc) \<and>
    0 < rc_cpuMillis rc \<and>
    completeTarget (vm_terminalTarget (applyReportedVmState runId vm r))"
  by (rule ready_needs_quota [OF assms])

theorem terminal_ready_needs_quota_witness:
  "vm_terminalPhase (applyReportedVmState ''run-1'' sampleVm (sampleReported ''g1'')) = TP_ready \<and>
   completeTarget (vm_terminalTarget (applyReportedVmState ''run-1'' sampleVm (sampleReported ''g1'')))"
proof -
  have "vm_terminalPhase (applyReportedVmState ''run-1'' sampleVm (sampleReported ''g1'')) = TP_ready"
    and "vm_terminalPhase sampleVm \<noteq> TP_ready"
    by code_simp+
  then show ?thesis
    using terminal_ready_needs_quota [of "''run-1''" sampleVm "sampleReported ''g1''"] by blast
qed

text \<open>
  C17. In every state a VM document can reach from its launch through reports and projections, a ready
  terminal has a complete verified target and the current boot is not one of the retired ones.
\<close>

theorem reachable_vm_invariant:
  assumes "vmReachable runId vm"
  shows "(vm_terminalPhase vm = TP_ready \<longrightarrow> completeTarget (vm_terminalTarget vm)) \<and> generationOk vm"
  using reachable_complete [OF assms] reachable_generationOk [OF assms] by blast

theorem reachable_vm_invariant_witness:
  "generationOk (applyReportedVmState ''run-1'' sampleVm (sampleReported ''g1'')) \<and>
   completeTarget (vm_terminalTarget (applyReportedVmState ''run-1'' sampleVm (sampleReported ''g1'')))"
proof -
  have "vmReachable ''run-1'' (applyReportedVmState ''run-1'' sampleVm (sampleReported ''g1''))"
    unfolding sampleVm_def by (intro vmReachable.reported vmReachable.launched)
  moreover have "vm_terminalPhase (applyReportedVmState ''run-1'' sampleVm (sampleReported ''g1'')) = TP_ready"
    by code_simp
  ultimately show ?thesis using reachable_vm_invariant by blast
qed

text \<open>
  C24. Within a boot a VM's phase never moves backwards whatever the report says, and a new boot starts
  again from booting at the earliest; the observation time never decreases, and a report older than the
  last accepted one is dropped.
\<close>

theorem vm_phase_monotone:
  "(\<not> generationChanged vm r \<longrightarrow>
      VM_PHASE_ORDER (vm_phase vm) \<le> VM_PHASE_ORDER (vm_phase (applyReportedVmState runId vm r))) \<and>
   (applyReportedVmState runId vm r \<noteq> vm \<and> generationChanged vm r \<longrightarrow>
      VM_PHASE_ORDER VP_booting \<le> VM_PHASE_ORDER (vm_phase (applyReportedVmState runId vm r))) \<and>
   (\<forall>t. vm_runtimeObservedAt vm = Some t \<longrightarrow>
      (\<exists>t' \<ge> t. vm_runtimeObservedAt (applyReportedVmState runId vm r) = Some t') \<and>
      (rp_updated_at_unix_ms r < t \<longrightarrow> applyReportedVmState runId vm r = vm))"
  using apply_phase_mono [of vm r runId] apply_changed_booting [of vm r runId]
    observedAt_step [of vm _ runId r]
  by (auto simp: applyReportedVmState_def)

theorem vm_phase_monotone_witness:
  "let vm = applyReportedVmState ''run-1'' sampleVm (sampleReported ''g1'');
       late = (sampleReported ''g1'')\<lparr>rp_updated_at_unix_ms := 99, rp_phase := BV_failed\<rparr>
   in vm_runtimeObservedAt vm = Some 100 \<and> applyReportedVmState ''run-1'' vm late = vm"
proof -
  let ?vm = "applyReportedVmState ''run-1'' sampleVm (sampleReported ''g1'')"
  have "vm_runtimeObservedAt ?vm = Some 100" by code_simp
  then show ?thesis
    using vm_phase_monotone [of ?vm "(sampleReported ''g1'')\<lparr>rp_updated_at_unix_ms := 99, rp_phase := BV_failed\<rparr>" "''run-1''"]
    by (simp add: Let_def)
qed

text \<open>
  A VM report touches only its own VM: the VMs of the run keep their number, order, ids and names,
  every VM the report does not name is only projected again, and a report for another run changes
  nothing but the projection.
\<close>

theorem vm_report_frame:
  "map vm_id (run_vms (applyVmReportToRunState runId d report)) = map vm_id (run_vms d) \<and>
   map vm_runtimeVmName (run_vms (applyVmReportToRunState runId d report)) =
     map vm_runtimeVmName (run_vms d) \<and>
   (i < length (run_vms d) \<and> vm_runtimeVmName (run_vms d ! i) \<noteq> vmr_vm_name report \<longrightarrow>
      run_vms (applyVmReportToRunState runId d report) ! i = decorateVmState (run_vms d ! i)) \<and>
   (vmr_run_id report \<noteq> runId \<longrightarrow> applyVmReportToRunState runId d report = recomputeRunState d)"
  by (auto simp: applyVmReportToRunState_def recompute_fields comp_def applyReportedVmState_def
      matchesVmReportIdentity_def reportedVmOfReport_def accept_fields)

text \<open>
  C34. Within a boot, accepted evidence is sticky: a ready terminal stays ready through reports that do
  not fail it explicitly, and a verified quota stays verified through reports for the same CPU.
\<close>

theorem evidence_sticky:
  assumes "\<not> generationChanged vm r"
  shows "(vm_terminalPhase vm = TP_ready \<and> rp_phase r \<noteq> BV_failed \<and>
      (\<forall>t. rp_terminal r = Some t \<longrightarrow> ts_state t \<noteq> TK_failed) \<longrightarrow>
        vm_terminalPhase (applyReportedVmState runId vm r) = TP_ready) \<and>
    (\<forall>c. vm_runtimeConstraints vm = Some c \<and> rc_quotaVerifiedAt c \<noteq> None \<and>
      (\<forall>rep. rp_runtime_constraints r = Some rep \<longrightarrow> rcv_cpu_millis rep = rc_cpuMillis c) \<longrightarrow>
        (\<exists>c'. vm_runtimeConstraints (applyReportedVmState runId vm r) = Some c' \<and>
           rc_quotaVerifiedAt c' \<noteq> None \<and> rc_cpuMillis c' = rc_cpuMillis c))"
  using apply_sticky [OF _ assms, of runId] apply_sealed [OF _ _ assms, of _ runId] by blast

theorem evidence_sticky_witness:
  "let vm = applyReportedVmState ''run-1'' sampleVm (sampleReported ''g1'');
       quiet = (sampleReported ''g1'')\<lparr>rp_terminal := None, rp_updated_at_unix_ms := 101\<rparr>
   in vm_terminalPhase (applyReportedVmState ''run-1'' vm quiet) = TP_ready"
proof -
  let ?vm = "applyReportedVmState ''run-1'' sampleVm (sampleReported ''g1'')"
  let ?quiet = "(sampleReported ''g1'')\<lparr>rp_terminal := None, rp_updated_at_unix_ms := 101\<rparr>"
  have "\<not> generationChanged ?vm ?quiet" and "vm_terminalPhase ?vm = TP_ready"
    and "rp_phase ?quiet \<noteq> BV_failed"
    by code_simp+
  then show ?thesis
    using evidence_sticky [of ?vm ?quiet "''run-1''"] by (simp add: Let_def)
qed

end
