(* ===== verification/Versioned_Rows.thy ===== *)
theory Versioned_Rows
  imports Main
begin

section \<open>Versioned rows\<close>

text \<open>
  The contract behind the compare-and-set loops of the control plane: a write of the code replaces a row
  by one of a higher version. Then any number of writes leads to a later row, and a row that still has
  the version that was read is the row that was read. The desired-state store uses the document's
  version, the run store the row's update time.
\<close>

locale versioned_rows =
  fixes version :: "'row \<Rightarrow> int"
    and replaces :: "'row \<Rightarrow> 'row \<Rightarrow> bool"
  assumes replaces_version: "replaces r r' \<Longrightarrow> version r < version r'"
begin

definition later :: "'row option \<Rightarrow> 'row option \<Rightarrow> bool" where
  "later t t' \<longleftrightarrow>
     t = t' \<or>
     (case (t, t') of
        (None, Some _) \<Rightarrow> True
      | (Some r, Some r') \<Rightarrow> version r < version r'
      | _ \<Rightarrow> False)"

lemma later_refl [simp]: "later t t"
  by (simp add: later_def)

lemma later_trans: "later a b \<Longrightarrow> later b c \<Longrightarrow> later a c"
  by (auto simp: later_def split: option.splits)

lemma unchanged_if_same_version:
  "later (Some r) (Some r') \<Longrightarrow> version r' = version r \<Longrightarrow> r' = r"
  by (auto simp: later_def)

lemma later_replaces: "later t (Some r) \<Longrightarrow> replaces r r' \<Longrightarrow> later t (Some r')"
  using replaces_version [of r r'] by (auto simp: later_def split: option.splits)

lemma writes_later: "replaces\<^sup>*\<^sup>* r r' \<Longrightarrow> later (Some r) (Some r')"
  by (induction rule: rtranclp_induct) (auto intro: later_replaces)

end

end
