(* ===== verification/Run_Store.thy ===== *)
theory Run_Store
  imports Run_Lifecycle Versioned_Rows
begin

section \<open>The run rows and their writers\<close>

text \<open>
  How a run document is stored: the two compare-and-set loops that write the \<^verbatim>\<open>scenario_runs\<close> row,
  \<^verbatim>\<open>persistRunState\<close> of \<^verbatim>\<open>src/apps/web/src/control-plane/host-runtime-do/base.ts\<close> (the host runtime, on
  reports) and \<^verbatim>\<open>updateRunState\<close> of \<^verbatim>\<open>src/apps/web/src/lib/scenario-runs/storage.ts\<close> (the learner's
  requests), with the outcome functions of \<^verbatim>\<open>src/apps/web/src/lib/scenario-run-outcome.ts\<close>.

  The column \<^verbatim>\<open>state_json\<close> is the document it parses to, \<^const>\<open>None\<close> when it does not parse. Two
  documents are compared as records, the code compares their JSON text. The clock and the other writers
  are functions of the attempt. What a writer triggers besides its row update (the runtime projection of
  the same batch, completion records, probe transitions, timing logs, the release of the runtime slot) is
  an entry of the log \<open>rdb_effects\<close> with the arguments of the call.
\<close>

subsection \<open>Outcomes\<close>

datatype ScenarioRunOutcome = RO_in_progress | RO_succeeded | RO_cancelled | RO_failed

definition deriveScenarioRunOutcome ::
  "RunPhase \<Rightarrow> int option \<Rightarrow> int option \<Rightarrow> int option \<Rightarrow> ScenarioRunOutcome" where
  "deriveScenarioRunOutcome phase solvedAt deleteRequestedAt failedAt =
     (if phase = RP_failed \<or> failedAt \<noteq> None then RO_failed
      else if solvedAt \<noteq> None then RO_succeeded
      else if deleteRequestedAt \<noteq> None \<or>
              RUN_PHASE_ORDER RP_teardown_requested \<le> RUN_PHASE_ORDER phase then RO_cancelled
      else RO_in_progress)"

definition toFinishedRunOutcome :: "ScenarioRunOutcome \<Rightarrow> ScenarioRunOutcome" where
  "toFinishedRunOutcome outcome = (if outcome = RO_in_progress then RO_cancelled else outcome)"

definition deriveScenarioRunSolveDurationMs :: "int \<Rightarrow> int option \<Rightarrow> int option" where
  "deriveScenarioRunSolveDurationMs createdAt solvedAt =
     map_option (\<lambda>s. max 0 (s - createdAt)) solvedAt"

definition nextSolvedAt :: "RunPhase \<Rightarrow> RunPhase \<Rightarrow> int option \<Rightarrow> int \<Rightarrow> int option" where
  "nextSolvedAt currentPhase nextPhase existingSolvedAt now =
     (if existingSolvedAt \<noteq> None then existingSolvedAt
      else if currentPhase = RP_solved \<or> nextPhase = RP_solved then Some now
      else None)"

subsection \<open>Rows\<close>

record RunRow =
  rn_runId :: string
  rn_userId :: string
  rn_organizationId :: "string option"
  rn_hostId :: string
  rn_runtimeExecutionId :: "string option"
  rn_vmCount :: int
  rn_state :: RunPhase
  rn_stateRank :: nat
  rn_stateJson :: "RunStateDocument option"
  rn_activeKey :: "string option"
  rn_deleteRequestedAt :: "int option"
  rn_solvedAt :: "int option"
  rn_completedAt :: "int option"
  rn_failedAt :: "int option"
  rn_archiveEnteredAt :: "int option"
  rn_createdAt :: int
  rn_updatedAt :: int

definition parseRunState :: "RunStateDocument option \<Rightarrow> RunStateDocument" where
  "parseRunState raw =
     (case raw of None \<Rightarrow> buildInitialRunState [] | Some d \<Rightarrow> recomputeRunState d)"

text \<open>The execution and host rows the update conditions read.\<close>

record ExecutionRow =
  ex_id :: string
  ex_userId :: string
  ex_generation :: int
  ex_hostId :: string
  ex_state :: string
  ex_domainKind :: string
  ex_domainId :: string

record HostRow =
  ho_id :: string
  ho_credentialGeneration :: int
  ho_disabled :: bool
  ho_scope :: "HostScope option"
  ho_userId :: "string option"
  ho_role :: HostRoleV1
  ho_organizationId :: "string option"
  ho_activeSessionId :: "string option"

text \<open>A membership joined with its user: the user is active if not deleted and not banned.\<close>

record MembershipRow =
  me_organizationId :: string
  me_userId :: string
  me_deletedAt :: "int option"
  me_banned :: "bool option"

datatype LifecycleMetric = LM_accepted_to_terminal_ready | LM_teardown_requested_to_vm_absent

datatype RunEffect =
    ProjectRuntime string
  | RecordCourseCompletion string int
  | RecordProbeTransitions string RunStateDocument RunStateDocument int
  | LogLifecycleTiming LifecycleMetric string int int int
  | ReleaseActiveRuntimeSlot string int int

record RunDb =
  rdb_run :: "RunRow option"
  rdb_executions :: "ExecutionRow list"
  rdb_hosts :: "HostRow list"
  rdb_members :: "MembershipRow list"
  rdb_effects :: "RunEffect list"

record ExpectedExecution =
  xe_id :: string
  xe_ownerUserId :: string
  xe_generation :: int

record ExpectedHostSession =
  xs_hostId :: string
  xs_activeSessionId :: string
  xs_credentialGeneration :: int

definition executionFence :: "RunDb \<Rightarrow> ExpectedExecution \<Rightarrow> RunRow \<Rightarrow> bool" where
  "executionFence db expected run \<longleftrightarrow>
     (\<exists>e \<in> set (rdb_executions db).
        ex_id e = xe_id expected \<and> rn_runtimeExecutionId run = Some (ex_id e) \<and>
        ex_userId e = xe_ownerUserId expected \<and> ex_generation e = xe_generation expected \<and>
        ex_hostId e = rn_hostId run \<and> ex_state e \<noteq> ''archived'' \<and> ex_domainId e = rn_runId run \<and>
        \<not> (\<exists>newer \<in> set (rdb_executions db).
             ex_domainKind newer = ex_domainKind e \<and> ex_domainId newer = ex_domainId e \<and>
             ex_generation e < ex_generation newer))"

definition activeMember :: "RunDb \<Rightarrow> string \<Rightarrow> string \<Rightarrow> bool" where
  "activeMember db organizationId userId \<longleftrightarrow>
     (\<exists>m \<in> set (rdb_members db).
        me_organizationId m = organizationId \<and> me_userId m = userId \<and> me_deletedAt m = None \<and>
        \<not> coalesce (me_banned m) False)"

definition hostMayServe :: "RunDb \<Rightarrow> HostRow \<Rightarrow> RunRow \<Rightarrow> bool" where
  "hostMayServe db h run =
     (case ho_scope h of
        Some HS_platform \<Rightarrow> True
      | Some HS_personal \<Rightarrow> ho_userId h = Some (rn_userId run)
      | Some HS_organization \<Rightarrow>
          ho_role h = HR_agent \<and>
          (case ho_organizationId h of
             None \<Rightarrow> False
           | Some org \<Rightarrow> rn_organizationId run = Some org \<and> activeMember db org (rn_userId run))
      | None \<Rightarrow> False)"

definition sessionFence :: "RunDb \<Rightarrow> ExpectedHostSession \<Rightarrow> RunRow \<Rightarrow> bool" where
  "sessionFence db expected run \<longleftrightarrow>
     (\<exists>h \<in> set (rdb_hosts db).
        ho_id h = xs_hostId expected \<and>
        ho_credentialGeneration h = xs_credentialGeneration expected \<and> \<not> ho_disabled h \<and>
        hostMayServe db h run \<and> ho_activeSessionId h = Some (xs_activeSessionId expected))"

definition isActiveHostSession :: "RunDb \<Rightarrow> ExpectedHostSession \<Rightarrow> bool" where
  "isActiveHostSession db expected \<longleftrightarrow>
     (\<exists>h \<in> set (rdb_hosts db).
        ho_id h = xs_hostId expected \<and> ho_activeSessionId h = Some (xs_activeSessionId expected) \<and>
        ho_credentialGeneration h = xs_credentialGeneration expected \<and> \<not> ho_disabled h)"

text \<open>The check after a lost update: the run's execution is still the expected one.\<close>

definition executionStillExpected :: "RunDb \<Rightarrow> ExpectedExecution \<Rightarrow> bool" where
  "executionStillExpected db expected \<longleftrightarrow>
     (\<exists>run \<in> set_option (rdb_run db). \<exists>e \<in> set (rdb_executions db).
        rn_runtimeExecutionId run = Some (ex_id e) \<and> ex_id e = xe_id expected \<and>
        ex_generation e = xe_generation expected \<and> ex_userId e = xe_ownerUserId expected \<and>
        ex_state e \<noteq> ''archived'')"

definition allVmsReportedAbsent :: "RunStateDocument \<Rightarrow> bool" where
  "allVmsReportedAbsent d \<longleftrightarrow>
     run_vms d \<noteq> [] \<and> (\<forall>vm \<in> set (run_vms d). vm_runtimeState vm = Some ''absent'')"

definition latestVmAbsenceAt :: "RunStateDocument \<Rightarrow> int option" where
  "latestVmAbsenceAt d =
     (let observed = List.map_filter vm_runtimeObservedAt
            (filter (\<lambda>vm. vm_runtimeState vm = Some ''absent'') (run_vms d))
      in if observed = [] then None else Some (Max (set observed)))"

definition logLifecycleTiming :: "LifecycleMetric \<Rightarrow> string \<Rightarrow> int \<Rightarrow> int \<Rightarrow> RunEffect" where
  "logLifecycleTiming metric runId startedAt completedAt =
     LogLifecycleTiming metric runId startedAt completedAt (max 0 (completedAt - startedAt))"

subsection \<open>Writing a row\<close>

text \<open>
  The assignments both writers make for a next document: the row that is stored gets the computed
  columns, the completion and failure times start from the row that was read, the archive time from the
  stored one.
\<close>

definition writeRunRow ::
  "RunRow \<Rightarrow> RunRow \<Rightarrow> RunStateDocument \<Rightarrow> int option \<Rightarrow> int option \<Rightarrow> string option \<Rightarrow> int \<Rightarrow>
   RunRow" where
  "writeRunRow stored row nextState deleteRequestedAt solvedAt activeKey now =
     stored\<lparr>rn_state := run_phase nextState,
         rn_stateRank := RUN_PHASE_ORDER (run_phase nextState),
         rn_stateJson := Some nextState,
         rn_activeKey := activeKey,
         rn_deleteRequestedAt := deleteRequestedAt,
         rn_solvedAt := solvedAt,
         rn_completedAt :=
           (if run_phase nextState = RP_completed then Some (coalesce (rn_completedAt row) now) else None),
         rn_failedAt :=
           (if run_phase nextState = RP_failed then Some (coalesce (rn_failedAt row) now) else None),
         rn_archiveEnteredAt :=
           (if run_phase nextState \<in> {RP_archiving, RP_completed, RP_failed}
            then Some (coalesce (rn_archiveEnteredAt stored) now) else rn_archiveEnteredAt stored),
         rn_updatedAt := now\<rparr>"

definition terminalRunPhase :: "RunPhase \<Rightarrow> bool" where
  "terminalRunPhase phase \<longleftrightarrow> phase = RP_completed \<or> phase = RP_failed"

text \<open>The document a writer starts from.\<close>

definition currentState :: "RunRow \<Rightarrow> RunStateDocument" where
  "currentState row = recomputeRunState (parseRunState (rn_stateJson row))"

subsection \<open>The host runtime's writer\<close>

record PersistOptions =
  po_deleteRequestedAt :: "int option"
  po_keepDeleteRequestedAt :: bool
  po_initialRow :: "RunRow option"
  po_expectedExecution :: "ExpectedExecution option"
  po_expectedHostSession :: "ExpectedHostSession option"

datatype RunProjectionOutcome = RunUpdated int | RunUnchanged | RunStaleSession

datatype RunStoreError = ProjectionDidNotConverge string | StateDidNotConverge string

definition mergeRunPhase :: "RunStateDocument \<Rightarrow> RunStateDocument \<Rightarrow> RunStateDocument" where
  "mergeRunPhase current recomputed =
     (if canAdvanceRunPhase (run_phase current) (run_phase recomputed) then recomputed
      else recomputed\<lparr>run_phase := run_phase current\<rparr>)"

definition mergedState ::
  "RunRow \<Rightarrow> (RunStateDocument \<Rightarrow> RunStateDocument) \<Rightarrow> RunStateDocument" where
  "mergedState row deriveNextState =
     mergeRunPhase (currentState row) (recomputeRunState (deriveNextState (currentState row)))"

definition persistedRow ::
  "RunRow \<Rightarrow> RunRow \<Rightarrow> (RunStateDocument \<Rightarrow> RunStateDocument) \<Rightarrow> PersistOptions \<Rightarrow> int \<Rightarrow> RunRow" where
  "persistedRow stored row deriveNextState options clock =
     (let merged = mergedState row deriveNextState;
          now = max clock (rn_updatedAt row + 1);
          deleteRequestedAt =
            (if po_keepDeleteRequestedAt options then rn_deleteRequestedAt row
             else coalesce_opt (po_deleteRequestedAt options) (rn_deleteRequestedAt row));
          solvedAt = nextSolvedAt (run_phase (currentState row)) (run_phase merged) (rn_solvedAt row) now;
          nextActiveKey =
            (if terminalRunPhase (run_phase merged) \<and> deleteRequestedAt = None then None
             else rn_activeKey row)
      in writeRunRow stored row merged deleteRequestedAt solvedAt nextActiveKey now)"

text \<open>The early return: the computed columns are the ones that were read.\<close>

definition persistUnchanged :: "RunRow \<Rightarrow> RunRow \<Rightarrow> bool" where
  "persistUnchanged row nxt \<longleftrightarrow>
     rn_stateJson nxt = Some (currentState row) \<and>
     rn_activeKey row = rn_activeKey nxt \<and> rn_deleteRequestedAt row = rn_deleteRequestedAt nxt \<and>
     rn_solvedAt row = rn_solvedAt nxt \<and> rn_completedAt row = rn_completedAt nxt \<and>
     rn_failedAt row = rn_failedAt nxt"

definition persistFences :: "RunDb \<Rightarrow> PersistOptions \<Rightarrow> RunRow \<Rightarrow> bool" where
  "persistFences db options run \<longleftrightarrow>
     (case po_expectedExecution options of None \<Rightarrow> True | Some x \<Rightarrow> executionFence db x run) \<and>
     (case po_expectedHostSession options of None \<Rightarrow> True | Some s \<Rightarrow> sessionFence db s run)"

definition completionEffects :: "string \<Rightarrow> RunRow \<Rightarrow> RunEffect list" where
  "completionEffects runId nxt =
     (if rn_state nxt = RP_completed \<and> rn_solvedAt nxt \<noteq> None
      then [RecordCourseCompletion runId (rn_updatedAt nxt)] else [])"

definition persistEffects :: "string \<Rightarrow> RunRow \<Rightarrow> RunStateDocument \<Rightarrow> RunRow \<Rightarrow> RunEffect list" where
  "persistEffects runId row merged nxt =
     completionEffects runId nxt @
     [RecordProbeTransitions runId (currentState row) merged (rn_updatedAt nxt)] @
     (if \<not> run_canOpenTerminal (currentState row) \<and> run_canOpenTerminal merged
      then [logLifecycleTiming LM_accepted_to_terminal_ready runId (rn_createdAt row) (rn_updatedAt nxt)]
      else []) @
     (case rn_deleteRequestedAt row of
        None \<Rightarrow> []
      | Some deleteRequestedAt \<Rightarrow>
          if \<not> allVmsReportedAbsent (currentState row) \<and> allVmsReportedAbsent merged
          then [logLifecycleTiming LM_teardown_requested_to_vm_absent runId deleteRequestedAt
                  (coalesce (latestVmAbsenceAt merged) (rn_updatedAt nxt))]
          else [])"

definition addEffects :: "RunEffect list \<Rightarrow> RunDb \<Rightarrow> RunDb" where
  "addEffects es db = db\<lparr>rdb_effects := rdb_effects db @ es\<rparr>"

text \<open>The row the conditional update selects, if any.\<close>

definition persistTarget :: "RunDb \<Rightarrow> PersistOptions \<Rightarrow> RunRow \<Rightarrow> RunRow option" where
  "persistTarget db options row =
     (case rdb_run db of
        None \<Rightarrow> None
      | Some stored \<Rightarrow>
          if rn_updatedAt stored = rn_updatedAt row \<and> persistFences db options stored
          then Some stored else None)"

fun persistRunStateLoop ::
  "(nat \<Rightarrow> int) \<Rightarrow> (nat \<Rightarrow> RunDb \<Rightarrow> RunDb) \<Rightarrow> string \<Rightarrow>
   (RunStateDocument \<Rightarrow> RunStateDocument) \<Rightarrow> PersistOptions \<Rightarrow> nat \<Rightarrow> nat \<Rightarrow> RunDb \<Rightarrow>
   (RunStoreError + RunProjectionOutcome) \<times> RunDb" where
  "persistRunStateLoop clock env runId deriveNextState options 0 attempt db =
     (Inl (ProjectionDidNotConverge runId), db)"
| "persistRunStateLoop clock env runId deriveNextState options (Suc n) attempt db =
     (case (if attempt = 0 \<and> map_option rn_runId (po_initialRow options) = Some runId
            then po_initialRow options else rdb_run db) of
        None \<Rightarrow> (Inr RunUnchanged, db)
      | Some row \<Rightarrow>
          (let computed = persistedRow row row deriveNextState options (clock attempt) in
           if persistUnchanged row computed
           then (Inr RunUnchanged, addEffects (completionEffects runId computed) db)
           else
             (let db' = addEffects [ProjectRuntime runId] (env attempt db) in
              case persistTarget db' options row of
                Some stored \<Rightarrow>
                  (let nxt = persistedRow stored row deriveNextState options (clock attempt)
                   in (Inr (RunUpdated (rn_updatedAt nxt)),
                       addEffects (persistEffects runId row (mergedState row deriveNextState) nxt)
                         (db'\<lparr>rdb_run := Some nxt\<rparr>)))
              | None \<Rightarrow>
                  (if (case po_expectedExecution options of
                         None \<Rightarrow> False | Some x \<Rightarrow> \<not> executionStillExpected db' x)
                   then (Inr RunUnchanged, db')
                   else if (case po_expectedHostSession options of
                              None \<Rightarrow> False | Some s \<Rightarrow> \<not> isActiveHostSession db' s)
                   then (Inr RunStaleSession, db')
                   else persistRunStateLoop clock env runId deriveNextState options n (Suc attempt)
                          db'))))"

definition persistRunState ::
  "(nat \<Rightarrow> int) \<Rightarrow> (nat \<Rightarrow> RunDb \<Rightarrow> RunDb) \<Rightarrow> string \<Rightarrow>
   (RunStateDocument \<Rightarrow> RunStateDocument) \<Rightarrow> PersistOptions \<Rightarrow> RunDb \<Rightarrow>
   (RunStoreError + RunProjectionOutcome) \<times> RunDb" where
  "persistRunState clock env runId deriveNextState options db =
     persistRunStateLoop clock env runId deriveNextState options 8 0 db"

subsection \<open>The learner's writer\<close>

text \<open>
  The delete time is left alone, set or cleared (the outer option is whether the option was given), and
  the active slot may be released explicitly.
\<close>

record UpdateInput =
  ui_mutate :: "RunStateDocument \<Rightarrow> RunStateDocument"
  ui_deleteRequestedAt :: "int option option"
  ui_releaseActiveSlot :: bool

definition updateDeleteRequestedAt :: "RunRow \<Rightarrow> UpdateInput \<Rightarrow> int option" where
  "updateDeleteRequestedAt row inp =
     (case ui_deleteRequestedAt inp of None \<Rightarrow> rn_deleteRequestedAt row | Some d \<Rightarrow> d)"

definition updateReleasesSlot :: "RunRow \<Rightarrow> UpdateInput \<Rightarrow> bool" where
  "updateReleasesSlot row inp \<longleftrightarrow>
     ui_releaseActiveSlot inp \<or>
     terminalRunPhase (run_phase (recomputeRunState (ui_mutate inp (currentState row)))) \<and>
     updateDeleteRequestedAt row inp = None"

definition updatedRow :: "RunRow \<Rightarrow> RunRow \<Rightarrow> UpdateInput \<Rightarrow> int \<Rightarrow> RunRow" where
  "updatedRow stored row inp clock =
     (let nextState = recomputeRunState (ui_mutate inp (currentState row));
          now = max clock (rn_updatedAt row + 1);
          solvedAt =
            nextSolvedAt (run_phase (currentState row)) (run_phase nextState) (rn_solvedAt row) now;
          activeKey = (if updateReleasesSlot row inp then None else rn_activeKey row)
      in writeRunRow stored row nextState (updateDeleteRequestedAt row inp) solvedAt activeKey now)"

definition updateEffects :: "string \<Rightarrow> RunRow \<Rightarrow> UpdateInput \<Rightarrow> RunRow \<Rightarrow> RunEffect list" where
  "updateEffects runId row inp nxt =
     completionEffects runId nxt @
     (case rn_runtimeExecutionId row of
        None \<Rightarrow> []
      | Some executionId \<Rightarrow>
          if executionId \<noteq> [] \<and> updateReleasesSlot row inp
          then [ReleaseActiveRuntimeSlot executionId 1 (rn_updatedAt nxt)] else [])"

fun updateRunStateLoop ::
  "(nat \<Rightarrow> int) \<Rightarrow> (nat \<Rightarrow> RunDb \<Rightarrow> RunDb) \<Rightarrow> string \<Rightarrow> UpdateInput \<Rightarrow> nat \<Rightarrow> nat \<Rightarrow> RunDb \<Rightarrow>
   (RunStoreError + int option) \<times> RunDb" where
  "updateRunStateLoop clock env runId inp 0 attempt db = (Inl (StateDidNotConverge runId), db)"
| "updateRunStateLoop clock env runId inp (Suc n) attempt db =
     (case rdb_run db of
        None \<Rightarrow> (Inr None, db)
      | Some row \<Rightarrow>
          (let db' = addEffects [ProjectRuntime runId] (env attempt db) in
           case rdb_run db' of
             None \<Rightarrow> updateRunStateLoop clock env runId inp n (Suc attempt) db'
           | Some stored \<Rightarrow>
               if rn_updatedAt stored = rn_updatedAt row
               then (let nxt = updatedRow stored row inp (clock attempt)
                     in (Inr (Some (rn_updatedAt nxt)),
                         addEffects (updateEffects runId row inp nxt) (db'\<lparr>rdb_run := Some nxt\<rparr>)))
               else updateRunStateLoop clock env runId inp n (Suc attempt) db'))"

definition updateRunState ::
  "(nat \<Rightarrow> int) \<Rightarrow> (nat \<Rightarrow> RunDb \<Rightarrow> RunDb) \<Rightarrow> string \<Rightarrow> UpdateInput \<Rightarrow> RunDb \<Rightarrow>
   (RunStoreError + int option) \<times> RunDb" where
  "updateRunState clock env runId inp db = updateRunStateLoop clock env runId inp 8 0 db"

subsection \<open>Specification vocabulary\<close>

text \<open>A write by either writer, and the rows a sequence of writes leads to.\<close>

inductive runWrite :: "RunRow \<Rightarrow> RunRow \<Rightarrow> bool" where
  host_write: "runWrite row (persistedRow row row deriveNextState options clock)"
| learner_write: "runWrite row (updatedRow row row inp clock)"

text \<open>What the columns of a written row say about its document.\<close>

definition rowConsistent :: "RunRow \<Rightarrow> bool" where
  "rowConsistent row \<longleftrightarrow>
     map_option run_phase (rn_stateJson row) = Some (rn_state row) \<and>
     rn_stateRank row = RUN_PHASE_ORDER (rn_state row) \<and>
     (rn_completedAt row \<noteq> None \<longleftrightarrow> rn_state row = RP_completed) \<and>
     (rn_failedAt row \<noteq> None \<longleftrightarrow> rn_state row = RP_failed) \<and>
     (rn_state row = RP_solved \<longrightarrow> rn_solvedAt row \<noteq> None) \<and>
     (rn_state row \<in> {RP_archiving, RP_completed, RP_failed} \<longrightarrow> rn_archiveEnteredAt row \<noteq> None)"

text \<open>The columns no writer of the run state changes.\<close>

definition rowIdentity :: "RunRow \<Rightarrow> string \<times> string \<times> string option \<times> string \<times> string option \<times> int \<times> int" where
  "rowIdentity row =
     (rn_runId row, rn_userId row, rn_organizationId row, rn_hostId row, rn_runtimeExecutionId row,
      rn_vmCount row, rn_createdAt row)"

interpretation run_row: versioned_rows rn_updatedAt runWrite
proof
  show "runWrite r r' \<Longrightarrow> rn_updatedAt r < rn_updatedAt r'" for r r'
    by (induction rule: runWrite.induct)
       (simp_all add: persistedRow_def updatedRow_def writeRunRow_def Let_def)
qed

text \<open>The other writers of the row follow the protocol: the row they leave is a later one.\<close>

definition politeRunEnv :: "(nat \<Rightarrow> RunDb \<Rightarrow> RunDb) \<Rightarrow> bool" where
  "politeRunEnv env \<longleftrightarrow> (\<forall>k db. run_row.later (rdb_run db) (rdb_run (env k db)))"

definition sampleRun :: RunRow where
  "sampleRun =
     \<lparr>rn_runId = ''run-1'', rn_userId = ''u1'', rn_organizationId = None, rn_hostId = ''h1'',
      rn_runtimeExecutionId = Some ''run-1'', rn_vmCount = 1, rn_state = RP_queued, rn_stateRank = 0,
      rn_stateJson = Some (buildInitialRunState [sampleSeed]), rn_activeKey = Some ''u1'',
      rn_deleteRequestedAt = None, rn_solvedAt = None, rn_completedAt = None, rn_failedAt = None,
      rn_archiveEnteredAt = None, rn_createdAt = 10, rn_updatedAt = 10\<rparr>"

definition sampleDb :: RunDb where
  "sampleDb =
     \<lparr>rdb_run = Some sampleRun,
      rdb_executions =
        [\<lparr>ex_id = ''run-1'', ex_userId = ''u1'', ex_generation = 1, ex_hostId = ''h1'',
          ex_state = ''queued'', ex_domainKind = ''scenario'', ex_domainId = ''run-1''\<rparr>],
      rdb_hosts =
        [\<lparr>ho_id = ''h1'', ho_credentialGeneration = 3, ho_disabled = False, ho_scope = Some HS_personal,
          ho_userId = Some ''u1'', ho_role = HR_agent, ho_organizationId = None,
          ho_activeSessionId = Some ''s1''\<rparr>],
      rdb_members = [], rdb_effects = []\<rparr>"

definition sampleOptions :: PersistOptions where
  "sampleOptions =
     \<lparr>po_deleteRequestedAt = None, po_keepDeleteRequestedAt = True, po_initialRow = None,
      po_expectedExecution = Some \<lparr>xe_id = ''run-1'', xe_ownerUserId = ''u1'', xe_generation = 1\<rparr>,
      po_expectedHostSession =
        Some \<lparr>xs_hostId = ''h1'', xs_activeSessionId = ''s1'', xs_credentialGeneration = 3\<rparr>\<rparr>"

subsection \<open>Lemmas\<close>

lemma write_shape:
  assumes "runWrite row row'"
  obtains d deleteRequestedAt activeKey now where
    "row' = writeRunRow row row d deleteRequestedAt
       (nextSolvedAt (run_phase (currentState row)) (run_phase d) (rn_solvedAt row) now) activeKey now"
    "rn_updatedAt row < now" "activeKey \<in> {None, rn_activeKey row}"
  using assms
proof (cases rule: runWrite.cases)
  case (host_write derive options clock)
  show ?thesis
    by (rule that [of "mergedState row derive" _ "max clock (rn_updatedAt row + 1)"])
       (simp_all only: host_write persistedRow_def Let_def, auto)
next
  case (learner_write inp clock)
  show ?thesis
    by (rule that [of "recomputeRunState (ui_mutate inp (currentState row))" _ "max clock (rn_updatedAt row + 1)"])
       (simp_all only: learner_write updatedRow_def Let_def, auto)
qed

lemma writeRunRow_fields [simp]:
  "rn_stateJson (writeRunRow stored row d del solved key now) = Some d"
  "rn_state (writeRunRow stored row d del solved key now) = run_phase d"
  "rn_stateRank (writeRunRow stored row d del solved key now) = RUN_PHASE_ORDER (run_phase d)"
  "rn_activeKey (writeRunRow stored row d del solved key now) = key"
  "rn_deleteRequestedAt (writeRunRow stored row d del solved key now) = del"
  "rn_solvedAt (writeRunRow stored row d del solved key now) = solved"
  "rn_completedAt (writeRunRow stored row d del solved key now) =
     (if run_phase d = RP_completed then Some (coalesce (rn_completedAt row) now) else None)"
  "rn_failedAt (writeRunRow stored row d del solved key now) =
     (if run_phase d = RP_failed then Some (coalesce (rn_failedAt row) now) else None)"
  "rn_archiveEnteredAt (writeRunRow stored row d del solved key now) =
     (if run_phase d \<in> {RP_archiving, RP_completed, RP_failed}
      then Some (coalesce (rn_archiveEnteredAt stored) now) else rn_archiveEnteredAt stored)"
  "rn_updatedAt (writeRunRow stored row d del solved key now) = now"
  "rowIdentity (writeRunRow stored row d del solved key now) = rowIdentity stored"
  by (simp_all add: writeRunRow_def rowIdentity_def)

lemma write_consistent: "runWrite row row' \<Longrightarrow> rowConsistent row'"
  by (erule write_shape) (simp add: rowConsistent_def nextSolvedAt_def)

lemma write_sticky:
  assumes "runWrite row row'"
  shows "rn_solvedAt row = Some t \<Longrightarrow> rn_solvedAt row' = Some t"
    "rn_archiveEnteredAt row = Some t \<Longrightarrow> rn_archiveEnteredAt row' = Some t"
    "rn_activeKey row' \<in> {None, rn_activeKey row}"
    "rowIdentity row' = rowIdentity row"
  using assms by (auto elim!: write_shape simp: nextSolvedAt_def)

lemma history_sticky:
  assumes "runWrite\<^sup>*\<^sup>* row row'"
  shows "rn_solvedAt row = Some t \<Longrightarrow> rn_solvedAt row' = Some t"
    "rn_archiveEnteredAt row = Some t \<Longrightarrow> rn_archiveEnteredAt row' = Some t"
    "rn_activeKey row' \<in> {None, rn_activeKey row}"
    "rowIdentity row' = rowIdentity row"
proof -
  show "rn_solvedAt row = Some t \<Longrightarrow> rn_solvedAt row' = Some t"
    using assms by (induction rule: rtranclp_induct) (auto dest: write_sticky(1))
  show "rn_archiveEnteredAt row = Some t \<Longrightarrow> rn_archiveEnteredAt row' = Some t"
    using assms by (induction rule: rtranclp_induct) (auto dest: write_sticky(2))
  show "rn_activeKey row' \<in> {None, rn_activeKey row}"
    using assms by (induction rule: rtranclp_induct) (use write_sticky(3) in fastforce)+
  show "rowIdentity row' = rowIdentity row"
    using assms by (induction rule: rtranclp_induct) (simp_all add: write_sticky(4))
qed

lemma addEffects_frame [simp]:
  "rdb_run (addEffects es db) = rdb_run db" "rdb_executions (addEffects es db) = rdb_executions db"
  "rdb_hosts (addEffects es db) = rdb_hosts db" "rdb_members (addEffects es db) = rdb_members db"
  by (simp_all add: addEffects_def)

lemma fences_addEffects [simp]: "persistFences (addEffects es db) options row = persistFences db options row"
proof -
  have member: "activeMember (addEffects es db) = activeMember db"
    by (intro ext) (simp add: activeMember_def)
  have "hostMayServe (addEffects es db) = hostMayServe db"
    by (intro ext) (unfold hostMayServe_def member, rule refl)
  then have "sessionFence (addEffects es db) = sessionFence db"
    by (intro ext) (simp add: sessionFence_def)
  moreover have "executionFence (addEffects es db) = executionFence db"
    by (intro ext) (simp add: executionFence_def)
  ultimately show ?thesis by (simp add: persistFences_def split: option.split)
qed

lemma persistTarget_Some:
  "persistTarget db options row = Some stored \<longleftrightarrow>
     rdb_run db = Some stored \<and> rn_updatedAt stored = rn_updatedAt row \<and> persistFences db options stored"
  by (auto simp: persistTarget_def split: option.splits)

lemma persistLoop_correct:
  assumes "politeRunEnv env"
    and "\<forall>i. po_initialRow options = Some i \<and> rn_runId i = runId \<and> attempt = 0 \<longrightarrow>
      run_row.later (Some i) (rdb_run db)"
    and "persistRunStateLoop clock env runId derive options n attempt db = (Inr (RunUpdated revision), db')"
  shows "\<exists>row db1 k. rdb_run db1 = Some row \<and> run_row.later (rdb_run db) (rdb_run db1) \<and>
    persistFences db1 options row \<and> rdb_run db' = Some (persistedRow row row derive options (clock k)) \<and>
    revision = rn_updatedAt (persistedRow row row derive options (clock k))"
  using assms(2,3)
proof (induction n arbitrary: attempt db)
  case (Suc n)
  let ?src = "if attempt = 0 \<and> map_option rn_runId (po_initialRow options) = Some runId
            then po_initialRow options else rdb_run db"
  obtain row where src: "?src = Some row"
    using Suc.prems(2) by (cases ?src) auto
  have read: "run_row.later (Some row) (rdb_run db)"
    using src Suc.prems(1) by (auto split: if_splits)
  let ?db = "addEffects [ProjectRuntime runId] (env attempt db)"
  have later: "run_row.later (rdb_run db) (rdb_run ?db)" using assms(1) by (simp add: politeRunEnv_def)
  have changed: "\<not> persistUnchanged row (persistedRow row row derive options (clock attempt))"
    using Suc.prems(2) unfolding persistRunStateLoop.simps src by (auto simp: Let_def)
  show ?case
  proof (cases "persistTarget ?db options row")
    case None
    then have "persistRunStateLoop clock env runId derive options n (Suc attempt) ?db = (Inr (RunUpdated revision), db')"
      using Suc.prems(2) changed unfolding persistRunStateLoop.simps src by (auto simp: Let_def split: if_splits)
    from Suc.IH [OF _ this] show ?thesis using run_row.later_trans [OF later] by blast
  next
    case (Some stored)
    then have st: "rdb_run ?db = Some stored" "rn_updatedAt stored = rn_updatedAt row"
      "persistFences ?db options stored" by (simp_all add: persistTarget_Some)
    have "stored = row"
      by (rule run_row.unchanged_if_same_version [OF _ st(2)])
         (use run_row.later_trans [OF read later] st(1) in simp)
    then show ?thesis
      using Some changed Suc.prems(2) st later unfolding persistRunStateLoop.simps src
      by (intro exI [of _ row] exI [of _ ?db] exI [of _ attempt]) (auto simp: Let_def)
  qed
qed simp

lemma quiet_persist:
  assumes "rdb_run db = Some row" and "po_initialRow options = None"
    and "persistFences db options row"
  shows "rdb_run (snd (persistRunState clock (\<lambda>_ d. d) runId derive options db)) =
      Some (if persistUnchanged row (persistedRow row row derive options (clock 0)) then row
            else persistedRow row row derive options (clock 0)) \<and>
    fst (persistRunState clock (\<lambda>_ d. d) runId derive options db) =
      Inr (if persistUnchanged row (persistedRow row row derive options (clock 0)) then RunUnchanged
           else RunUpdated (rn_updatedAt (persistedRow row row derive options (clock 0))))"
  using assms
  by (simp add: persistRunState_def numeral_eq_Suc persistTarget_def Let_def)

lemma updateLoop_correct:
  assumes "politeRunEnv env"
    and "updateRunStateLoop clock env runId inp n attempt db = (Inr (Some revision), db')"
  shows "\<exists>row (db1 :: RunDb) k. rdb_run db1 = Some row \<and> run_row.later (rdb_run db) (rdb_run db1) \<and>
    rdb_run db' = Some (updatedRow row row inp (clock k)) \<and>
    revision = rn_updatedAt (updatedRow row row inp (clock k))"
  using assms(2)
proof (induction n arbitrary: attempt db)
  case (Suc n)
  obtain row where src: "rdb_run db = Some row"
    using Suc.prems by (cases "rdb_run db") auto
  let ?db = "addEffects [ProjectRuntime runId] (env attempt db)"
  have later: "run_row.later (rdb_run db) (rdb_run ?db)" using assms(1) by (simp add: politeRunEnv_def)
  show ?case
  proof (cases "\<exists>stored. rdb_run ?db = Some stored \<and> rn_updatedAt stored = rn_updatedAt row")
    case False
    then have "updateRunStateLoop clock env runId inp n (Suc attempt) ?db = (Inr (Some revision), db')"
      using Suc.prems src by (auto simp: Let_def split: option.splits if_splits)
    from Suc.IH [OF this] show ?thesis using run_row.later_trans [OF later] by blast
  next
    case True
    then obtain stored where st: "rdb_run ?db = Some stored" "rn_updatedAt stored = rn_updatedAt row" by blast
    have "stored = row"
      by (rule run_row.unchanged_if_same_version [OF _ st(2)]) (use later st(1) src in simp)
    then show ?thesis
      using Suc.prems st later src
      by (intro exI [of _ row] exI [of _ ?db] exI [of _ attempt]) (auto simp: Let_def)
  qed
qed simp

text \<open>
  The guard that keeps a run from going back holds for one write only: a VM that a host reports as
  destroyed without a teardown request leaves the stored phase at \<^verbatim>\<open>active_full\<close>, and the next load
  derives \<^verbatim>\<open>queued\<close> from the same document, which the next write then stores.
\<close>

lemma phase_guard_undone:
  "let ready = sampleRun\<lparr>rn_stateJson := Some (recomputeRunState
         ((buildInitialRunState [sampleSeed])\<lparr>run_vms :=
            map (\<lambda>vm. vm\<lparr>vm_phase := VP_ready\<rparr>) (run_vms (buildInitialRunState [sampleSeed]))\<rparr>))\<rparr>;
       destroyed = (\<lambda>d. d\<lparr>run_vms := map (\<lambda>vm. vm\<lparr>vm_phase := VP_destroying\<rparr>) (run_vms d)\<rparr>);
       first = persistedRow ready ready destroyed sampleOptions 20;
       second = persistedRow first first (\<lambda>d. d) sampleOptions 30
   in run_phase (currentState ready) = RP_active_full \<and>
      rn_state first = RP_active_full \<and> run_phase (currentState first) = RP_queued \<and>
      rn_state second = RP_queued"
  by code_simp

subsection \<open>Properties\<close>



text \<open>
  The learner's writes lose no update either: a request that reports a revision has replaced exactly
  the row its document was derived from, by a row of that later revision.
\<close>

theorem learner_write_exact:
  assumes "politeRunEnv env"
    and "updateRunState clock env runId inp db = (Inr (Some revision), db')"
  shows "\<exists>row (db1 :: RunDb) k. rdb_run db1 = Some row \<and> run_row.later (rdb_run db) (rdb_run db1) \<and>
    rdb_run db' = Some (updatedRow row row inp (clock k)) \<and>
    revision = rn_updatedAt (updatedRow row row inp (clock k)) \<and> rn_updatedAt row < revision"
  using updateLoop_correct [OF assms(1) assms(2) [unfolded updateRunState_def]]
    run_row.replaces_version [OF learner_write] by blast



text \<open>
  The active slot is released exactly when it should be: a host write frees it iff the new phase is
  terminal and no teardown is pending, a learner's write also on request; and only then does the learner's
  write ask the runtime to drop its slot.
\<close>

theorem active_slot_release:
  assumes "rn_activeKey row = Some key"
  shows "(rn_activeKey (persistedRow row row derive options clock) = None \<longleftrightarrow>
      rn_state (persistedRow row row derive options clock) \<in> {RP_completed, RP_failed} \<and>
      rn_deleteRequestedAt (persistedRow row row derive options clock) = None) \<and>
    (rn_activeKey (updatedRow row row inp clock) = None \<longleftrightarrow>
      ui_releaseActiveSlot inp \<or>
      rn_state (updatedRow row row inp clock) \<in> {RP_completed, RP_failed} \<and>
      rn_deleteRequestedAt (updatedRow row row inp clock) = None) \<and>
    (\<forall>e g t. ReleaseActiveRuntimeSlot e g t \<in> set (updateEffects runId row inp (updatedRow row row inp clock)) \<longrightarrow>
      rn_runtimeExecutionId row = Some e \<and> rn_activeKey (updatedRow row row inp clock) = None)"
  using assms
  by (auto simp: persistedRow_def updatedRow_def writeRunRow_def terminalRunPhase_def updateReleasesSlot_def
      updateEffects_def completionEffects_def Let_def split: option.splits if_splits)

text \<open>
  Without interference a fenced write is decided by its first attempt: it is stored and reported as
  updated, or nothing changes and it is reported as unchanged.
\<close>

theorem run_write_progress:
  assumes "rdb_run db = Some row" and "po_initialRow options = None" and "persistFences db options row"
  shows "rdb_run (snd (persistRunState clock (\<lambda>_ d. d) runId derive options db)) =
      Some (if persistUnchanged row (persistedRow row row derive options (clock 0)) then row
            else persistedRow row row derive options (clock 0)) \<and>
    fst (persistRunState clock (\<lambda>_ d. d) runId derive options db) =
      Inr (if persistUnchanged row (persistedRow row row derive options (clock 0)) then RunUnchanged
           else RunUpdated (rn_updatedAt (persistedRow row row derive options (clock 0))))"
  by (rule quiet_persist [OF assms])

end
