(* ===== verification/Desired_State.thy ===== *)
theory Desired_State
  imports Bridge_Types Bridge_V8
begin

section \<open>The desired state of a host\<close>

text \<open>
  The document that tells a host which VMs, images and builds to hold, and how it is edited:
  \<^verbatim>\<open>src/apps/web/src/lib/desired-state.ts\<close>. An edit clones the document, runs a mutator on the clone,
  refuses a change of ownership, normalizes, validates with the bridge parser and bumps the version
  only if the payload changed.

  \<^verbatim>\<open>String.prototype.localeCompare\<close> depends on the locale data of the platform: it is the parameter
  \<open>lc\<close> of the definitions that sort, and the theorems that need it ask for a consistent comparator. The
  payloads are compared as records: the code compares their JSON text, which for objects built with the
  same key order says the same. A mutator that edits the draft in place is a function on documents.
\<close>

subsection \<open>JSON encoding\<close>

text \<open>\<^verbatim>\<open>JSON.stringify\<close> followed by \<^verbatim>\<open>JSON.parse\<close>: optional properties that are absent are left out.\<close>

fun archName :: "ImageArchitecture \<Rightarrow> string" where
  "archName X86_64 = ''x86_64''"
| "archName Aarch64 = ''aarch64''"

fun scopeName :: "HostScope \<Rightarrow> string" where
  "scopeName HS_personal = ''personal''"
| "scopeName HS_platform = ''platform''"
| "scopeName HS_organization = ''organization''"

fun desiredPhaseName :: "DesiredVmPhase \<Rightarrow> string" where
  "desiredPhaseName DP_running = ''running''"
| "desiredPhaseName DP_absent = ''absent''"

definition encodeImageKey :: "ImageKey \<Rightarrow> json" where
  "encodeImageKey k =
     JObj [(''scenario'', JStr (ik_scenario k)), (''vm'', JStr (ik_vm k)),
           (''arch'', JStr (archName (ik_arch k)))]"

definition encodeCachedImage :: "DesiredCachedImageV1 \<Rightarrow> json" where
  "encodeCachedImage i =
     JObj [(''image_key'', encodeImageKey (ci_image_key i)), (''image_id'', JStr (ci_image_id i))]"

definition encodeGuestTools :: "DesiredGuestToolsV1 \<Rightarrow> json" where
  "encodeGuestTools g =
     JObj [(''tools_disk_sha256'', JStr (gt_tools_disk_sha256 g)),
           (''tools_disk_size_bytes'', JInt (gt_tools_disk_size_bytes g)),
           (''kino_sha256'', JStr (gt_kino_sha256 g)), (''bootstrap_abi'', JInt (gt_bootstrap_abi g))]"

definition encodeVmResources :: "VmResourcesV3 \<Rightarrow> json" where
  "encodeVmResources r =
     JObj [(''cpu_millis'', JInt (rv_cpu_millis r)), (''memory_mib'', JInt (rv_memory_mib r)),
           (''disk_mib'', JInt (rv_disk_mib r))]"

definition encodeDesiredVm :: "DesiredVmV2 \<Rightarrow> json" where
  "encodeDesiredVm v =
     JObj [(''vm_id'', JStr (dv_vm_id v)), (''run_id'', JStr (dv_run_id v)),
           (''owner_user_id'', JStr (dv_owner_user_id v)),
           (''runtime_execution_id'', JStr (dv_runtime_execution_id v)),
           (''generation'', JInt (dv_generation v)), (''vm_name'', JStr (dv_vm_name v)),
           (''desired_phase'', JStr (desiredPhaseName (dv_desired_phase v))),
           (''image_key'', encodeImageKey (dv_image_key v)), (''image_id'', JStr (dv_image_id v)),
           (''guest_tools'', encodeGuestTools (dv_guest_tools v)),
           (''resources'', encodeVmResources (dv_resources v)),
           (''ssh_authorized_keys_openssh'', JArr (map JStr (dv_ssh_authorized_keys_openssh v))),
           (''lease_expires_at_unix_ms'', JInt (dv_lease_expires_at_unix_ms v))]"

definition encodeDesiredBuild :: "DesiredBuildV1 \<Rightarrow> json" where
  "encodeDesiredBuild b =
     JObj [(''build_id'', JStr (db_build_id b)), (''scenario_id'', JStr (db_scenario_id b)),
           (''arch'', JStr (archName (db_arch b))), (''rev'', JStr (db_rev b)),
           (''content_hash'', JStr (db_content_hash b)), (''bundle_ref'', JStr (db_bundle_ref b))]"

definition encodeSourceCompile :: "DesiredSourceCompileV1 \<Rightarrow> json" where
  "encodeSourceCompile c =
     JObj [(''compile_id'', JStr (sc_compile_id c)), (''attempt'', JInt (sc_attempt c)),
           (''rev'', JStr (sc_rev c)), (''validate_only'', JBool (sc_validate_only c)),
           (''arch'', JStr (archName (sc_arch c)))]"

definition encodeDesiredState :: "HostDesiredStateV2 \<Rightarrow> json" where
  "encodeDesiredState d =
     JObj ([(''schema_version'', JInt (ds_schema_version d)), (''host_id'', JStr (ds_host_id d)),
            (''scope'', JStr (scopeName (ds_scope d))), (''owner_user_id'', JStr (ds_owner_user_id d)),
            (''version'', JInt (ds_version d)),
            (''generated_at_unix_ms'', JInt (ds_generated_at_unix_ms d)),
            (''cached_images'', JArr (map encodeCachedImage (ds_cached_images d))),
            (''vms'', JArr (map encodeDesiredVm (ds_vms d))),
            (''builds'', JArr (map encodeDesiredBuild (ds_builds d)))] @
           (case ds_cached_guest_tools d of
              None \<Rightarrow> [] | Some g \<Rightarrow> [(''cached_guest_tools'', JArr (map encodeGuestTools g))]) @
           (case ds_source_compiles d of
              None \<Rightarrow> [] | Some c \<Rightarrow> [(''source_compiles'', JArr (map encodeSourceCompile c))]))"

definition desiredStateMessage :: "string \<Rightarrow> json \<Rightarrow> json" where
  "desiredStateMessage hostId document =
     JObj [(''type'', JStr ''desired_state''), (''protocol_version'', JInt BRIDGE_PROTOCOL_VERSION),
           (''host_id'', JStr hostId), (''desired_state'', document)]"

subsection \<open>Identities, clones and normalization\<close>

definition imageKeyIdentity :: "ImageKey \<Rightarrow> string" where
  "imageKeyIdentity k = ik_scenario k @ [CHR 0x0A] @ ik_vm k @ [CHR 0x0A] @ archName (ik_arch k)"

definition cachedImageIdentity :: "DesiredCachedImageV1 \<Rightarrow> string" where
  "cachedImageIdentity img = imageKeyIdentity (ci_image_key img) @ '':'' @ ci_image_id img"

definition desiredVmIdentity :: "DesiredVmV2 \<Rightarrow> string" where
  "desiredVmIdentity vm = dv_run_id vm @ [CHR 0x0A] @ dv_vm_name vm"

definition desiredBuildIdentity :: "DesiredBuildV1 \<Rightarrow> string" where
  "desiredBuildIdentity build = db_build_id build"

definition uniqueLastBy :: "('a \<Rightarrow> string) \<Rightarrow> 'a list \<Rightarrow> 'a list" where
  "uniqueLastBy identity values = map snd (js_map (map (\<lambda>x. (identity x, x)) values))"

definition normalizeAuthorizedKeys :: "string list \<Rightarrow> string list" where
  "normalizeAuthorizedKeys values = js_set (filter (\<lambda>x. x \<noteq> []) (map js_trim values))"

text \<open>A clone differs from its original only in that the list of guest tools is present.\<close>

definition cloneDesiredState :: "HostDesiredStateV2 \<Rightarrow> HostDesiredStateV2" where
  "cloneDesiredState document =
     document\<lparr>ds_cached_guest_tools := Some (coalesce (ds_cached_guest_tools document) [])\<rparr>"

definition normalizeBy :: "(string \<Rightarrow> string \<Rightarrow> int) \<Rightarrow> ('a \<Rightarrow> string) \<Rightarrow> 'a list \<Rightarrow> 'a list" where
  "normalizeBy lc identity values = js_sort (by_key lc identity) (uniqueLastBy identity values)"

definition normalizeDesiredState ::
  "(string \<Rightarrow> string \<Rightarrow> int) \<Rightarrow> HostDesiredStateV2 \<Rightarrow> HostDesiredStateV2" where
  "normalizeDesiredState lc document =
     (let sourceCompiles =
            normalizeBy lc sc_compile_id (coalesce (ds_source_compiles document) [])
      in document\<lparr>
           ds_cached_images := normalizeBy lc cachedImageIdentity (ds_cached_images document),
           ds_cached_guest_tools :=
             Some (normalizeBy lc gt_tools_disk_sha256 (coalesce (ds_cached_guest_tools document) [])),
           ds_vms := normalizeBy lc desiredVmIdentity (ds_vms document),
           ds_builds := normalizeBy lc desiredBuildIdentity (ds_builds document),
           ds_source_compiles := (if sourceCompiles \<noteq> [] then Some sourceCompiles else None)\<rparr>)"

text \<open>The compared payload is the normalized document without version and time.\<close>

definition comparableDesiredStatePayload ::
  "(string \<Rightarrow> string \<Rightarrow> int) \<Rightarrow> HostDesiredStateV2 \<Rightarrow> HostDesiredStateV2" where
  "comparableDesiredStatePayload lc document =
     (normalizeDesiredState lc document)\<lparr>ds_version := 0, ds_generated_at_unix_ms := 0\<rparr>"

subsection \<open>Validation and mutation\<close>

datatype DesiredStateError =
    DocumentNotObject string
  | InvalidIdentity string
  | InvalidSchemaOrOwnership string
  | OwnershipImmutable
  | BridgeParserRaised
  | HostNotEnrolled
  | InvalidOrganizationHost
  | WrongHostOwner
  | LostLoadRaces string
  | LostVersionRaces string
  | WriteGuardFailed

definition createEmptyHostDesiredState ::
  "string \<Rightarrow> HostScope \<Rightarrow> string \<Rightarrow> int \<Rightarrow> HostDesiredStateV2" where
  "createEmptyHostDesiredState hostId scope ownerUserId nowUnixMs =
     \<lparr>ds_scope = scope, ds_owner_user_id = ownerUserId,
      ds_schema_version = HOST_DESIRED_STATE_SCHEMA_VERSION, ds_host_id = hostId, ds_version = 0,
      ds_generated_at_unix_ms = nowUnixMs, ds_cached_images = [], ds_cached_guest_tools = Some [],
      ds_vms = [], ds_builds = [], ds_source_compiles = None\<rparr>"

definition validateStoredHostDesiredState ::
  "json \<Rightarrow> string \<Rightarrow> int \<Rightarrow> DesiredStateError + json" where
  "validateStoredHostDesiredState document hostId rowVersion =
     (if \<not> isRecord (Some document) then Inl (DocumentNotObject hostId)
      else if get_prop (Some document) ''host_id'' \<noteq> Some (JStr hostId) \<or>
              get_prop (Some document) ''version'' \<noteq> Some (JInt rowVersion) \<or>
              \<not> isSafeInteger rowVersion \<or> rowVersion < 0
      then Inl (InvalidIdentity hostId)
      else
        (case parseBridgeMessageV8 (Some (desiredStateMessage hostId document)) of
           Inl _ \<Rightarrow> Inl BridgeParserRaised
         | Inr None \<Rightarrow> Inl (InvalidSchemaOrOwnership hostId)
         | Inr (Some message) \<Rightarrow>
             (if get_prop (Some message) ''type'' = Some (JStr ''desired_state'')
              then Inr (the (get_prop (Some message) ''desired_state''))
              else Inl (InvalidSchemaOrOwnership hostId))))"

definition mutateDesiredState ::
  "(string \<Rightarrow> string \<Rightarrow> int) \<Rightarrow> HostDesiredStateV2 \<Rightarrow>
   (HostDesiredStateV2 \<Rightarrow> HostDesiredStateV2) \<Rightarrow> int \<Rightarrow>
   DesiredStateError + HostDesiredStateV2" where
  "mutateDesiredState lc current mutator nowUnixMs =
     (let before = comparableDesiredStatePayload lc current;
          draft = mutator (cloneDesiredState current)
      in if ds_scope draft \<noteq> ds_scope current \<or> ds_owner_user_id draft \<noteq> ds_owner_user_id current \<or>
            ds_host_id draft \<noteq> ds_host_id current
         then Inl OwnershipImmutable
         else
           (let normalized = normalizeDesiredState lc draft in
            case validateStoredHostDesiredState (encodeDesiredState normalized) (ds_host_id current)
                   (ds_version current) of
              Inl e \<Rightarrow> Inl e
            | Inr _ \<Rightarrow>
                (if before = comparableDesiredStatePayload lc normalized then Inr current
                 else Inr (normalized\<lparr>ds_version := ds_version current + 1,
                                      ds_generated_at_unix_ms := nowUnixMs\<rparr>))))"

subsection \<open>Edits\<close>

text \<open>\<^verbatim>\<open>findIndex\<close>, then overwrite at that index or push.\<close>

fun upsertBy :: "('a \<Rightarrow> string) \<Rightarrow> 'a \<Rightarrow> 'a list \<Rightarrow> 'a list" where
  "upsertBy identity nxt [] = [nxt]"
| "upsertBy identity nxt (x # xs) =
     (if identity x = identity nxt then nxt # xs else x # upsertBy identity nxt xs)"

definition upsertDesiredCachedImage ::
  "HostDesiredStateV2 \<Rightarrow> DesiredCachedImageV1 \<Rightarrow> HostDesiredStateV2" where
  "upsertDesiredCachedImage draft img =
     draft\<lparr>ds_cached_images := upsertBy cachedImageIdentity img (ds_cached_images draft)\<rparr>"

definition upsertDesiredGuestTools ::
  "HostDesiredStateV2 \<Rightarrow> DesiredGuestToolsV1 \<Rightarrow> HostDesiredStateV2" where
  "upsertDesiredGuestTools draft pin =
     draft\<lparr>ds_cached_guest_tools :=
       Some (upsertBy gt_tools_disk_sha256 pin (coalesce (ds_cached_guest_tools draft) []))\<rparr>"

definition upsertDesiredVm :: "HostDesiredStateV2 \<Rightarrow> DesiredVmV2 \<Rightarrow> HostDesiredStateV2" where
  "upsertDesiredVm draft vm = draft\<lparr>ds_vms := upsertBy desiredVmIdentity vm (ds_vms draft)\<rparr>"

definition upsertDesiredBuild :: "HostDesiredStateV2 \<Rightarrow> DesiredBuildV1 \<Rightarrow> HostDesiredStateV2" where
  "upsertDesiredBuild draft build =
     draft\<lparr>ds_builds := upsertBy desiredBuildIdentity build (ds_builds draft)\<rparr>"

fun removeFirst :: "('a \<Rightarrow> bool) \<Rightarrow> 'a list \<Rightarrow> 'a list" where
  "removeFirst P [] = []"
| "removeFirst P (x # xs) = (if P x then xs else x # removeFirst P xs)"

definition removeDesiredBuild :: "HostDesiredStateV2 \<Rightarrow> string \<Rightarrow> bool \<times> HostDesiredStateV2" where
  "removeDesiredBuild draft buildId =
     (if \<not> list_ex (\<lambda>build. db_build_id build = buildId) (ds_builds draft) then (False, draft)
      else (True, draft\<lparr>ds_builds :=
             removeFirst (\<lambda>build. db_build_id build = buildId) (ds_builds draft)\<rparr>))"

definition clearDesiredCachedImages :: "HostDesiredStateV2 \<Rightarrow> bool \<times> HostDesiredStateV2" where
  "clearDesiredCachedImages draft =
     (if ds_cached_images draft = [] then (False, draft) else (True, draft\<lparr>ds_cached_images := []\<rparr>))"

definition clearDesiredGuestTools :: "HostDesiredStateV2 \<Rightarrow> bool \<times> HostDesiredStateV2" where
  "clearDesiredGuestTools draft =
     (if coalesce (ds_cached_guest_tools draft) [] = [] then (False, draft)
      else (True, draft\<lparr>ds_cached_guest_tools := Some []\<rparr>))"

definition clearDesiredVms :: "HostDesiredStateV2 \<Rightarrow> bool \<times> HostDesiredStateV2" where
  "clearDesiredVms draft =
     (if ds_vms draft = [] then (False, draft) else (True, draft\<lparr>ds_vms := []\<rparr>))"

definition clearDesiredBuilds :: "HostDesiredStateV2 \<Rightarrow> bool \<times> HostDesiredStateV2" where
  "clearDesiredBuilds draft =
     (if ds_builds draft = [] then (False, draft) else (True, draft\<lparr>ds_builds := []\<rparr>))"

fun updateFirst :: "('a \<Rightarrow> bool) \<Rightarrow> ('a \<Rightarrow> 'a) \<Rightarrow> 'a list \<Rightarrow> 'a list" where
  "updateFirst P f [] = []"
| "updateFirst P f (x # xs) = (if P x then f x # xs else x # updateFirst P f xs)"

definition markDesiredVmAbsent ::
  "HostDesiredStateV2 \<Rightarrow> string \<Rightarrow> string \<Rightarrow> bool \<times> HostDesiredStateV2" where
  "markDesiredVmAbsent draft runId vmName =
     (let isTarget = (\<lambda>vm. dv_run_id vm = runId \<and> dv_vm_name vm = vmName) in
      if \<not> list_ex isTarget (ds_vms draft) then (False, draft)
      else (True, draft\<lparr>ds_vms :=
             updateFirst isTarget (\<lambda>vm. vm\<lparr>dv_desired_phase := DP_absent\<rparr>) (ds_vms draft)\<rparr>))"

definition desiredVmFromRunVm ::
  "string \<Rightarrow> string \<Rightarrow> string \<Rightarrow> int \<Rightarrow> RunVmStateDocument \<Rightarrow> int \<Rightarrow> string list \<Rightarrow>
   DesiredGuestToolsV1 \<Rightarrow> DesiredVmV2 option" where
  "desiredVmFromRunVm runId ownerUserId runtimeExecutionId generation vm nowUnixMs
       sshAuthorizedKeysOpenssh guestTools =
     (let provisioning = vm_provisioning vm;
          imageSha256 = js_trim (coalesce (pr_imageSha256 provisioning) []);
          keys = normalizeAuthorizedKeys sshAuthorizedKeysOpenssh
      in if js_trim ownerUserId = [] \<or> js_trim runtimeExecutionId = [] \<or>
            \<not> isSafeInteger generation \<or> generation < 1 \<or> imageSha256 = [] \<or> keys = []
         then None
         else
           (case (pr_imageKey provisioning, pr_resources provisioning,
                  pr_leaseDurationSeconds provisioning) of
              (Some imageKey, Some resources, Some leaseDurationSeconds) \<Rightarrow>
                Some \<lparr>dv_vm_id = vm_id vm, dv_owner_user_id = ownerUserId,
                      dv_runtime_execution_id = runtimeExecutionId, dv_generation = generation,
                      dv_run_id = runId, dv_vm_name = vm_runtimeVmName vm,
                      dv_desired_phase = DP_running, dv_image_key = imageKey,
                      dv_image_id = imageSha256, dv_guest_tools = guestTools,
                      dv_resources =
                        \<lparr>rv_cpu_millis = vr_cpuMillis resources,
                         rv_memory_mib = vr_memoryMib resources, rv_disk_mib = vr_diskMib resources\<rparr>,
                      dv_ssh_authorized_keys_openssh = keys,
                      dv_lease_expires_at_unix_ms = nowUnixMs + leaseDurationSeconds * 1000\<rparr>
            | _ \<Rightarrow> None))"

subsection \<open>Specification vocabulary\<close>

text \<open>The contract of a stored document on the typed side, field by field.\<close>

definition nonBlank :: "string \<Rightarrow> bool" where
  "nonBlank s \<longleftrightarrow> js_trim s \<noteq> []"

definition sha256Ok :: "string \<Rightarrow> bool" where
  "sha256Ok s \<longleftrightarrow> SHA256_HEX_RE (js_trim s)"

definition imageKeyOk :: "ImageKey \<Rightarrow> bool" where
  "imageKeyOk k \<longleftrightarrow> nonBlank (ik_scenario k) \<and> nonBlank (ik_vm k)"

definition guestToolsOk :: "DesiredGuestToolsV1 \<Rightarrow> bool" where
  "guestToolsOk g \<longleftrightarrow>
     sha256Ok (gt_tools_disk_sha256 g) \<and> gt_tools_disk_size_bytes g = 64 * 1024 * 1024 \<and>
     sha256Ok (gt_kino_sha256 g) \<and> gt_bootstrap_abi g = 2"

definition desiredVmOk :: "DesiredVmV2 \<Rightarrow> bool" where
  "desiredVmOk v \<longleftrightarrow>
     nonBlank (dv_owner_user_id v) \<and> nonBlank (dv_runtime_execution_id v) \<and>
     isSafeInteger (dv_generation v) \<and> 0 < dv_generation v \<and> nonBlank (dv_run_id v) \<and>
     nonBlank (dv_vm_name v) \<and> nonBlank (dv_vm_id v) \<and> imageKeyOk (dv_image_key v) \<and>
     sha256Ok (dv_image_id v) \<and> guestToolsOk (dv_guest_tools v) \<and>
     0 < rv_cpu_millis (dv_resources v) \<and> 0 \<le> rv_memory_mib (dv_resources v) \<and>
     0 \<le> rv_disk_mib (dv_resources v)"

definition desiredBuildOk :: "DesiredBuildV1 \<Rightarrow> bool" where
  "desiredBuildOk b \<longleftrightarrow>
     nonBlank (db_build_id b) \<and> nonBlank (db_scenario_id b) \<and> nonBlank (db_rev b) \<and>
     sha256Ok (db_content_hash b) \<and> nonBlank (db_bundle_ref b)"

definition sourceCompileOk :: "DesiredSourceCompileV1 \<Rightarrow> bool" where
  "sourceCompileOk c \<longleftrightarrow>
     isSafeBundleRev (sc_compile_id c) \<and> 0 \<le> sc_attempt c \<and> sc_attempt c \<le> 4294967295 \<and>
     isSafeBundleRev (sc_rev c)"

definition desiredStateOk :: "HostDesiredStateV2 \<Rightarrow> bool" where
  "desiredStateOk d \<longleftrightarrow>
     nonBlank (ds_host_id d) \<and> js_trim (ds_host_id d) = ds_host_id d \<and>
     ds_schema_version d = HOST_DESIRED_STATE_SCHEMA_VERSION \<and> nonBlank (ds_owner_user_id d) \<and>
     0 \<le> ds_version d \<and>
     (\<forall>i \<in> set (ds_cached_images d). imageKeyOk (ci_image_key i) \<and> sha256Ok (ci_image_id i)) \<and>
     (\<forall>v \<in> set (ds_vms d). desiredVmOk v \<and>
        (ds_scope d = HS_personal \<longrightarrow> dv_owner_user_id v = ds_owner_user_id d)) \<and>
     distinct (map dv_vm_name (ds_vms d)) \<and>
     (\<forall>b \<in> set (ds_builds d). desiredBuildOk b) \<and>
     (\<forall>c \<in> set (coalesce (ds_source_compiles d) []). sourceCompileOk c)"

text \<open>Finding an entry by its identity.\<close>

definition entry :: "('a \<Rightarrow> string) \<Rightarrow> 'a list \<Rightarrow> string \<Rightarrow> 'a option" where
  "entry identity xs k = find (\<lambda>x. identity x = k) xs"

text \<open>A valid document with no entries, for the concrete instances below.\<close>

definition emptySample :: HostDesiredStateV2 where
  "emptySample = createEmptyHostDesiredState ''h1'' HS_personal ''u1'' 5"

definition vmSample :: DesiredVmV2 where
  "vmSample =
     \<lparr>dv_vm_id = ''v1'', dv_owner_user_id = ''u1'', dv_runtime_execution_id = ''e1'', dv_generation = 1,
      dv_run_id = ''r1'', dv_vm_name = ''r1-web'', dv_desired_phase = DP_running,
      dv_image_key = \<lparr>ik_scenario = ''s'', ik_vm = ''web'', ik_arch = X86_64\<rparr>,
      dv_image_id = replicate 64 CHR ''a'',
      dv_guest_tools =
        \<lparr>gt_tools_disk_sha256 = replicate 64 CHR ''b'', gt_tools_disk_size_bytes = 67108864,
         gt_kino_sha256 = replicate 64 CHR ''c'', gt_bootstrap_abi = 2\<rparr>,
      dv_resources = \<lparr>rv_cpu_millis = 1000, rv_memory_mib = 512, rv_disk_mib = 1024\<rparr>,
      dv_ssh_authorized_keys_openssh = [''ssh-ed25519 AAAA''], dv_lease_expires_at_unix_ms = 9\<rparr>"

subsection \<open>Lemmas: encoding and validation\<close>

lemma isPresentString_JStr [simp]: "isPresentString (Some (JStr s)) \<longleftrightarrow> nonBlank s"
  by (simp add: isPresentString_def nonBlank_def or_null_def)

lemma isSha_JStr [simp]: "isSha256Hex (Some (JStr s)) \<longleftrightarrow> sha256Ok s"
  by (auto simp: isSha256Hex_def sha256Ok_def or_null_def SHA256_HEX_RE_def)

lemma readsOneOf_JStr [simp]: "readsOneOf ls (Some (JStr s)) \<longleftrightarrow> nonBlank s \<and> js_trim s \<in> set ls"
  by (simp add: readsOneOf_def nonBlank_def or_null_def)

lemma isInteger_JInt [simp]: "isInteger (Some (JInt n))"
  by (simp add: isInteger_iff)

lemma isPositive_JInt [simp]: "isPositiveInteger (Some (JInt n)) \<longleftrightarrow> 0 < n"
  by (auto simp: isPositiveInteger_iff)

lemma isNonNegative_JInt [simp]: "isNonNegativeInteger (Some (JInt n)) \<longleftrightarrow> 0 \<le> n"
  by (auto simp: isNonNegativeInteger_iff)

lemma isSafe_JInt [simp]: "isSafeIntegerValue (Some (JInt n)) \<longleftrightarrow> isSafeInteger n"
  by (auto simp: isSafeIntegerValue_iff)

lemma archName_ok [simp]:
  "nonBlank (archName a)" "js_trim (archName a) \<in> set IMAGE_ARCHITECTURES" "archName a \<in> set IMAGE_ARCHITECTURES"
  by (cases a; simp add: nonBlank_def IMAGE_ARCHITECTURES_def js_trim_no_ws js_ws_def)+

lemma phaseName_ok [simp]:
  "nonBlank (desiredPhaseName p)" "js_trim (desiredPhaseName p) \<in> set DESIRED_VM_PHASES"
  by (cases p; simp add: nonBlank_def DESIRED_VM_PHASES_def js_trim_no_ws js_ws_def)+

lemma isImageKey_encode [simp]: "isImageKeyPayload (Some (encodeImageKey k)) \<longleftrightarrow> imageKeyOk k"
  by (simp add: isImageKeyPayload_def encodeImageKey_def imageKeyOk_def)

lemma isCachedImage_encode [simp]:
  "isDesiredCachedImagePayload (Some (encodeCachedImage i)) \<longleftrightarrow>
     imageKeyOk (ci_image_key i) \<and> sha256Ok (ci_image_id i)"
  by (simp add: isDesiredCachedImagePayload_def encodeCachedImage_def)

lemma JInt_inject: "(JInt m = JInt n) = (m = n)"
  by simp

lemma isGuestTools_encode [simp]: "isGuestToolsPayload (Some (encodeGuestTools g)) \<longleftrightarrow> guestToolsOk g"
  unfolding isGuestToolsPayload_def encodeGuestTools_def guestToolsOk_def
  by (simp del: of_int_mult of_int_numeral)

lemma isStringArray_JStr [simp]: "isStringArray (Some (JArr (map JStr ss)))"
  by (simp add: isStringArray_def list_all_iff)

lemma isDesiredVm_encode [simp]: "isDesiredVmPayload (Some (encodeDesiredVm v)) \<longleftrightarrow> desiredVmOk v"
  by (auto simp add: isDesiredVmPayload_def encodeDesiredVm_def desiredVmOk_def isExecutionIdentity_def
      isVmResourcesPayload_def encodeVmResources_def)

lemma isDesiredBuild_encode [simp]: "isDesiredBuildPayload (Some (encodeDesiredBuild b)) \<longleftrightarrow> desiredBuildOk b"
  by (simp add: isDesiredBuildPayload_def encodeDesiredBuild_def desiredBuildOk_def)

lemma isSourceCompile_encode [simp]:
  "isDesiredSourceCompilePayload (Some (encodeSourceCompile c)) \<longleftrightarrow> sourceCompileOk c"
  by (auto simp add: isDesiredSourceCompilePayload_def encodeSourceCompile_def sourceCompileOk_def)

lemma isArrayOf_encode [simp]:
  "isArrayOf P (Some (JArr (map f xs))) \<longleftrightarrow> (\<forall>x \<in> set xs. P (Some (f x)))"
  by (simp add: isArrayOf_def list_all_iff)

lemma get_encodeDesiredVm [simp]:
  "get_prop (Some (encodeDesiredVm v)) ''vm_name'' = Some (JStr (dv_vm_name v))"
  "get_prop (Some (encodeDesiredVm v)) ''owner_user_id'' = Some (JStr (dv_owner_user_id v))"
  by (simp_all add: encodeDesiredVm_def)

lemma get_encodeDesiredState [simp]:
  "get_prop (Some (encodeDesiredState d)) ''schema_version'' = Some (JInt (ds_schema_version d))"
  "get_prop (Some (encodeDesiredState d)) ''host_id'' = Some (JStr (ds_host_id d))"
  "get_prop (Some (encodeDesiredState d)) ''scope'' = Some (JStr (scopeName (ds_scope d)))"
  "get_prop (Some (encodeDesiredState d)) ''owner_user_id'' = Some (JStr (ds_owner_user_id d))"
  "get_prop (Some (encodeDesiredState d)) ''version'' = Some (JInt (ds_version d))"
  "get_prop (Some (encodeDesiredState d)) ''generated_at_unix_ms'' = Some (JInt (ds_generated_at_unix_ms d))"
  "get_prop (Some (encodeDesiredState d)) ''cached_images'' = Some (JArr (map encodeCachedImage (ds_cached_images d)))"
  "get_prop (Some (encodeDesiredState d)) ''vms'' = Some (JArr (map encodeDesiredVm (ds_vms d)))"
  "get_prop (Some (encodeDesiredState d)) ''builds'' = Some (JArr (map encodeDesiredBuild (ds_builds d)))"
  "get_prop (Some (encodeDesiredState d)) ''source_compiles'' =
     map_option (\<lambda>c. JArr (map encodeSourceCompile c)) (ds_source_compiles d)"
  by (simp_all add: encodeDesiredState_def map_add_def split: option.splits)

lemma isRecord_encode [simp]: "isRecord (Some (encodeDesiredState d))"
  by (simp add: encodeDesiredState_def)

lemma get_message [simp]:
  "get_prop (Some (desiredStateMessage h doc)) ''type'' = Some (JStr ''desired_state'')"
  "get_prop (Some (desiredStateMessage h doc)) ''protocol_version'' = Some (JInt BRIDGE_PROTOCOL_VERSION)"
  "get_prop (Some (desiredStateMessage h doc)) ''host_id'' = Some (JStr h)"
  "get_prop (Some (desiredStateMessage h doc)) ''desired_state'' = Some doc"
  "isRecord (Some (desiredStateMessage h doc))"
  by (simp_all add: desiredStateMessage_def)

lemma scopeName_iff [simp]:
  "scopeName s = ''personal'' \<longleftrightarrow> s = HS_personal"
  "scopeName s \<in> {''personal'', ''platform'', ''organization''}"
  by (cases s; simp)+

lemma isDesiredState_encode:
  "isDesiredState (Some (desiredStateMessage h (encodeDesiredState d))) \<longleftrightarrow>
     desiredStateOk d \<and> js_trim h = ds_host_id d"
proof (cases "js_trim h = []")
  case True
  then show ?thesis by (auto simp: isDesiredState_def desiredStateOk_def nonBlank_def)
next
  case False
  have h: "readString (Some (JStr h)) = Some (js_trim h)" using False by simp
  have scope: "Some (JStr (scopeName (ds_scope d))) \<in>
      {Some (JStr ''personal''), Some (JStr ''platform''), Some (JStr ''organization'')}"
    by (cases "ds_scope d") simp_all
  have own: "ownedDesiredVm (Some (encodeDesiredState d)) (Some (encodeDesiredVm v)) \<longleftrightarrow>
      desiredVmOk v \<and> (ds_scope d = HS_personal \<longrightarrow> dv_owner_user_id v = ds_owner_user_id d)" for v
    by (auto simp: ownedDesiredVm_def)
  have names: "distinct (map (\<lambda>vm. get_prop (Some vm) ''vm_name'') (map encodeDesiredVm vs)) =
      distinct (map dv_vm_name vs)" for vs
    by (simp add: comp_def) (simp add: distinct_map inj_on_def)
  have sv: "Some (JInt (ds_schema_version d)) = Some (JInt HOST_DESIRED_STATE_SCHEMA_VERSION) \<longleftrightarrow>
      ds_schema_version d = HOST_DESIRED_STATE_SCHEMA_VERSION"
    by simp
  have sc: "(map_option (\<lambda>c. JArr (map encodeSourceCompile c)) (ds_source_compiles d) = None \<or>
       isArrayOf isDesiredSourceCompilePayload
         (map_option (\<lambda>c. JArr (map encodeSourceCompile c)) (ds_source_compiles d))) \<longleftrightarrow>
      (\<forall>c \<in> set (coalesce (ds_source_compiles d) []). sourceCompileOk c)"
    by (cases "ds_source_compiles d") simp_all
  have "isDesiredState (Some (desiredStateMessage h (encodeDesiredState d))) \<longleftrightarrow>
      ds_schema_version d = HOST_DESIRED_STATE_SCHEMA_VERSION \<and> ds_host_id d = js_trim h \<and>
      nonBlank (ds_owner_user_id d) \<and> 0 \<le> ds_version d \<and>
      (\<forall>i \<in> set (ds_cached_images d). imageKeyOk (ci_image_key i) \<and> sha256Ok (ci_image_id i)) \<and>
      (\<forall>v \<in> set (ds_vms d). desiredVmOk v \<and>
        (ds_scope d = HS_personal \<longrightarrow> dv_owner_user_id v = ds_owner_user_id d)) \<and>
      distinct (map dv_vm_name (ds_vms d)) \<and> (\<forall>b \<in> set (ds_builds d). desiredBuildOk b) \<and>
      (\<forall>c \<in> set (coalesce (ds_source_compiles d) []). sourceCompileOk c)"
    unfolding isDesiredState_def Let_def get_message get_encodeDesiredState h option.case elements.simps names sv sc
    using scope by (simp add: own)
  then show ?thesis using False by (auto simp: desiredStateOk_def nonBlank_def)
qed

lemma parse_desired_message:
  "parseBridgeMessageV8 (Some (desiredStateMessage h doc)) =
     Inr (if nonBlank h \<and> isDesiredState (Some (desiredStateMessage h doc))
          then Some (desiredStateMessage h doc) else None)"
proof -
  have t: "readString (get_prop (Some (desiredStateMessage h doc)) ''type'') = Some ''desired_state''"
    by (simp add: js_trim_no_ws js_ws_def)
  have e: "hasV7Envelope (Some (desiredStateMessage h doc)) \<longleftrightarrow> nonBlank h"
    by (simp add: hasV7Envelope_def)
  have m: "''desired_state'' \<in> set MESSAGE_TYPES" by (simp add: MESSAGE_TYPES_def)
  show ?thesis
  proof (cases "nonBlank h")
    case True
    then have "parseBridgeMessageV8 (Some (desiredStateMessage h doc)) =
        dispatchMessage ''desired_state'' (desiredStateMessage h doc)"
      using parse_intro [OF _ t _ m] e by simp
    then show ?thesis using True by (simp add: dispatchMessage_def acceptIf_def)
  next
    case False
    then show ?thesis using t e m by (simp add: parseBridgeMessageV8_def)
  qed
qed

lemma validate_encode:
  "validateStoredHostDesiredState (encodeDesiredState d) host v = Inr x \<longleftrightarrow>
     desiredStateOk d \<and> ds_host_id d = host \<and> ds_version d = v \<and> isSafeInteger v \<and>
     x = encodeDesiredState d"
proof (cases "ds_host_id d = host \<and> ds_version d = v \<and> isSafeInteger v \<and> 0 \<le> v")
  case True
  then show ?thesis
    by (auto simp: validateStoredHostDesiredState_def parse_desired_message isDesiredState_encode
        desiredStateOk_def)
next
  case False
  then have "validateStoredHostDesiredState (encodeDesiredState d) host v = Inl (InvalidIdentity host)"
    unfolding validateStoredHostDesiredState_def get_encodeDesiredState isRecord_encode by auto
  then show ?thesis using False by (auto simp: desiredStateOk_def)
qed

subsection \<open>Lemmas: normalization\<close>

text \<open>Normalizing one of the keyed lists.\<close>

lemma js_map_keyed:
  "map (\<lambda>x. (identity x, x)) (uniqueLastBy identity xs) = js_map (map (\<lambda>x. (identity x, x)) xs)"
proof -
  let ?m = "js_map (map (\<lambda>x. (identity x, x)) xs)"
  have "identity v = k" if "(k, v) \<in> set ?m" for k v
  proof -
    have "map_of ?m k = Some v" using that by simp
    then have "(k, v) \<in> set (rev (map (\<lambda>x. (identity x, x)) xs))"
      unfolding map_of_js_map by (rule map_of_SomeD)
    then show ?thesis by auto
  qed
  then show ?thesis by (auto simp: uniqueLastBy_def intro!: map_idI)
qed

lemma distinct_uniqueLastBy [simp]: "distinct (map identity (uniqueLastBy identity xs))"
proof -
  have "map identity (uniqueLastBy identity xs) = map fst (map (\<lambda>x. (identity x, x)) (uniqueLastBy identity xs))"
    by (simp add: comp_def)
  then show ?thesis unfolding js_map_keyed by simp
qed

lemma uniqueLastBy_distinct: "distinct (map identity xs) \<Longrightarrow> uniqueLastBy identity xs = xs"
  by (simp add: uniqueLastBy_def js_map_distinct comp_def)

lemma entry_map_of: "entry identity xs = map_of (map (\<lambda>x. (identity x, x)) xs)"
proof
  show "entry identity xs k = map_of (map (\<lambda>x. (identity x, x)) xs) k" for k
    by (induction xs) (auto simp: entry_def)
qed

lemma entry_uniqueLastBy: "entry identity (uniqueLastBy identity xs) = entry identity (rev xs)"
  by (simp add: entry_map_of js_map_keyed map_of_js_map rev_map)

lemma entry_distinct_mset:
  assumes "distinct (map identity xs)" "mset xs = mset ys"
  shows "entry identity xs = entry identity ys"
proof -
  have "distinct (map identity ys)"
    using assms by (metis mset_map mset_eq_imp_distinct_iff)
  then show ?thesis
    using assms unfolding entry_map_of
    by (intro map_of_eqI) (auto simp: comp_def image_def dest: mset_eq_setD intro!: ext)
qed

lemma distinct_normalizeBy [simp]: "distinct (map identity (normalizeBy lc identity xs))"
  by (simp add: normalizeBy_def)

lemma entry_normalizeBy: "entry identity (normalizeBy lc identity xs) = entry identity (rev xs)"
proof -
  have "entry identity (normalizeBy lc identity xs) = entry identity (uniqueLastBy identity xs)"
    by (rule entry_distinct_mset) (simp_all add: normalizeBy_def)
  then show ?thesis by (simp add: entry_uniqueLastBy)
qed

lemma sorted_normalizeBy:
  assumes "consistent_comparator lc"
  shows "sorted_wrt (\<lambda>x y. lc (identity x) (identity y) \<le> 0) (normalizeBy lc identity xs)"
  using consistent_comparator.sorted_js_sort [OF consistent_by_key [OF assms], of identity]
  by (simp add: normalizeBy_def by_key_def)

lemma normalizeBy_idem:
  assumes "consistent_comparator lc"
  shows "normalizeBy lc identity (normalizeBy lc identity xs) = normalizeBy lc identity xs"
proof -
  have "uniqueLastBy identity (normalizeBy lc identity xs) = normalizeBy lc identity xs"
    by (rule uniqueLastBy_distinct) simp
  then show ?thesis
    using consistent_comparator.js_sort_idem [OF consistent_by_key [OF assms], of identity]
    by (simp add: normalizeBy_def)
qed

lemma normalizeBy_Nil [simp]: "normalizeBy lc identity [] = []"
  by (simp add: normalizeBy_def uniqueLastBy_def js_map_def)

lemma normalize_idem:
  assumes "consistent_comparator lc"
  shows "normalizeDesiredState lc (normalizeDesiredState lc d) = normalizeDesiredState lc d"
  by (simp add: normalizeDesiredState_def Let_def normalizeBy_idem [OF assms])

lemma normalize_fields [simp]:
  "ds_scope (normalizeDesiredState lc d) = ds_scope d"
  "ds_owner_user_id (normalizeDesiredState lc d) = ds_owner_user_id d"
  "ds_host_id (normalizeDesiredState lc d) = ds_host_id d"
  "ds_version (normalizeDesiredState lc d) = ds_version d"
  "ds_vms (normalizeDesiredState lc d) = normalizeBy lc desiredVmIdentity (ds_vms d)"
  "ds_builds (normalizeDesiredState lc d) = normalizeBy lc desiredBuildIdentity (ds_builds d)"
  "ds_cached_images (normalizeDesiredState lc d) = normalizeBy lc cachedImageIdentity (ds_cached_images d)"
  "ds_cached_guest_tools (normalizeDesiredState lc d) =
     Some (normalizeBy lc gt_tools_disk_sha256 (coalesce (ds_cached_guest_tools d) []))"
  by (simp_all add: normalizeDesiredState_def Let_def)

lemma normalize_stamp:
  "normalizeDesiredState lc (d\<lparr>ds_version := v, ds_generated_at_unix_ms := t\<rparr>) =
   (normalizeDesiredState lc d)\<lparr>ds_version := v, ds_generated_at_unix_ms := t\<rparr>"
  by (simp add: normalizeDesiredState_def Let_def)

lemma payload_stamp [simp]:
  "comparableDesiredStatePayload lc (d\<lparr>ds_version := v, ds_generated_at_unix_ms := t\<rparr>) =
   comparableDesiredStatePayload lc d"
  by (simp add: comparableDesiredStatePayload_def normalize_stamp)

lemma payload_normalize:
  assumes "consistent_comparator lc"
  shows "comparableDesiredStatePayload lc (normalizeDesiredState lc d) = comparableDesiredStatePayload lc d"
  by (simp add: comparableDesiredStatePayload_def normalize_idem [OF assms])

lemma desiredStateOk_stamp:
  "desiredStateOk d \<Longrightarrow> 0 \<le> v \<Longrightarrow> desiredStateOk (d\<lparr>ds_version := v, ds_generated_at_unix_ms := t\<rparr>)"
  by (simp add: desiredStateOk_def)

text \<open>The outcomes of a mutation.\<close>

lemma mutate_cases:
  assumes "mutateDesiredState lc current mutator now = Inr d"
  defines "n \<equiv> normalizeDesiredState lc (mutator (cloneDesiredState current))"
  shows "ds_scope n = ds_scope current" "ds_owner_user_id n = ds_owner_user_id current"
    "ds_host_id n = ds_host_id current" "ds_version n = ds_version current" "desiredStateOk n"
    "isSafeInteger (ds_version current)"
    "d = (if comparableDesiredStatePayload lc current = comparableDesiredStatePayload lc n then current
          else n\<lparr>ds_version := ds_version current + 1, ds_generated_at_unix_ms := now\<rparr>)"
proof -
  let ?draft = "mutator (cloneDesiredState current)"
  have own: "ds_scope ?draft = ds_scope current" "ds_owner_user_id ?draft = ds_owner_user_id current"
    "ds_host_id ?draft = ds_host_id current"
    using assms(1) by (auto simp: mutateDesiredState_def Let_def split: if_splits)
  then show "ds_scope n = ds_scope current" "ds_owner_user_id n = ds_owner_user_id current"
    "ds_host_id n = ds_host_id current" by (simp_all add: n_def)
  have r: "(case validateStoredHostDesiredState (encodeDesiredState n) (ds_host_id current) (ds_version current) of
       Inl e \<Rightarrow> Inl e
     | Inr _ \<Rightarrow> (if comparableDesiredStatePayload lc current = comparableDesiredStatePayload lc n then Inr current
         else Inr (n\<lparr>ds_version := ds_version current + 1, ds_generated_at_unix_ms := now\<rparr>))) = Inr d"
    using assms(1) own unfolding mutateDesiredState_def Let_def n_def by (simp split del: if_split)
  then obtain x where x: "validateStoredHostDesiredState (encodeDesiredState n) (ds_host_id current)
      (ds_version current) = Inr x"
    by (cases "validateStoredHostDesiredState (encodeDesiredState n) (ds_host_id current) (ds_version current)")
       simp_all
  then show "ds_version n = ds_version current" "desiredStateOk n" "isSafeInteger (ds_version current)"
    by (simp_all add: validate_encode)
  show "d = (if comparableDesiredStatePayload lc current = comparableDesiredStatePayload lc n then current
          else n\<lparr>ds_version := ds_version current + 1, ds_generated_at_unix_ms := now\<rparr>)"
    using r x by (simp split: if_splits)
qed

subsection \<open>Lemmas: edits\<close>

text \<open>
  The keyed collections of a draft: an interface over the list a draft holds, the identity of its
  entries and the upsert, and what a client may conclude about lookups.
\<close>

locale keyed_collection =
  fixes items :: "HostDesiredStateV2 \<Rightarrow> 'a list"
    and identity :: "'a \<Rightarrow> string"
    and upsert :: "HostDesiredStateV2 \<Rightarrow> 'a \<Rightarrow> HostDesiredStateV2"
  assumes items_upsert: "items (upsert d x) = upsertBy identity x (items d)"
begin

lemma entry_upsert:
  "entry identity (items (upsert d x)) k = (if k = identity x then Some x else entry identity (items d) k)"
proof -
  have "entry identity (upsertBy identity x xs) k = (if k = identity x then Some x else entry identity xs k)" for xs
    by (induction xs) (auto simp: entry_def)
  then show ?thesis by (simp add: items_upsert)
qed

lemma identities_upsert:
  "map identity (items (upsert d x)) =
     (if identity x \<in> identity ` set (items d) then map identity (items d)
      else map identity (items d) @ [identity x])"
proof -
  have "map identity (upsertBy identity x xs) =
      (if identity x \<in> identity ` set xs then map identity xs else map identity xs @ [identity x])" for xs
    by (induction xs) auto
  then show ?thesis by (simp add: items_upsert)
qed

lemma distinct_upsert:
  "distinct (map identity (items d)) \<Longrightarrow> distinct (map identity (items (upsert d x)))"
  by (simp add: identities_upsert)

lemma upsert_twice: "items (upsert (upsert d x) x) = items (upsert d x)"
proof -
  have "upsertBy identity x (upsertBy identity x xs) = upsertBy identity x xs" for xs
    by (induction xs) auto
  then show ?thesis by (simp add: items_upsert)
qed

end

interpretation desired_vms: keyed_collection ds_vms desiredVmIdentity upsertDesiredVm
  by unfold_locales (simp add: upsertDesiredVm_def)

interpretation desired_builds: keyed_collection ds_builds desiredBuildIdentity upsertDesiredBuild
  by unfold_locales (simp add: upsertDesiredBuild_def)

interpretation desired_images: keyed_collection ds_cached_images cachedImageIdentity upsertDesiredCachedImage
  by unfold_locales (simp add: upsertDesiredCachedImage_def)

interpretation desired_tools: keyed_collection "\<lambda>d. coalesce (ds_cached_guest_tools d) []"
    gt_tools_disk_sha256 upsertDesiredGuestTools
  by unfold_locales (simp add: upsertDesiredGuestTools_def)

lemma entry_updateFirst:
  assumes "\<And>x. identity (f x) = identity x" "\<And>x. P x \<longleftrightarrow> identity x = k"
  shows "entry identity (updateFirst P f xs) k' =
    (if k' = k then map_option f (entry identity xs k) else entry identity xs k')"
  using assms by (induction xs) (auto simp: entry_def)

lemma set_removeFirst_distinct:
  "distinct (map identity xs) \<Longrightarrow>
   entry identity (removeFirst (\<lambda>x. identity x = k) xs) k' = (if k' = k then None else entry identity xs k')"
proof (induction xs)
  case (Cons x xs)
  then show ?case by (auto simp: entry_def find_None_iff) (metis imageI)
qed (simp add: entry_def)

lemma clone_fields [simp]:
  "ds_vms (cloneDesiredState d) = ds_vms d" "ds_builds (cloneDesiredState d) = ds_builds d"
  "ds_scope (cloneDesiredState d) = ds_scope d" "ds_host_id (cloneDesiredState d) = ds_host_id d"
  by (simp_all add: cloneDesiredState_def)

lemma payload_vms: "ds_vms (comparableDesiredStatePayload lc d) = normalizeBy lc desiredVmIdentity (ds_vms d)"
  by (simp add: comparableDesiredStatePayload_def)

lemma payload_clone [simp]:
  "comparableDesiredStatePayload lc (cloneDesiredState d) = comparableDesiredStatePayload lc d"
  by (simp add: comparableDesiredStatePayload_def normalizeDesiredState_def cloneDesiredState_def Let_def)

lemma entry_rev_distinct: "distinct (map identity xs) \<Longrightarrow> entry identity (rev xs) = entry identity xs"
  by (rule entry_distinct_mset) (simp_all add: rev_map [symmetric])

text \<open>The VMs of a mutated document are those of the draft.\<close>

lemma mutate_payload:
  assumes "consistent_comparator lc" "mutateDesiredState lc current mutator now = Inr d"
  shows "comparableDesiredStatePayload lc d =
    comparableDesiredStatePayload lc (mutator (cloneDesiredState current))"
  using mutate_cases(7) [OF assms(2)] by (simp add: payload_normalize [OF assms(1)] split: if_splits)

lemma mutate_entries:
  assumes "consistent_comparator lc" "mutateDesiredState lc current mutator now = Inr d"
    and "distinct (map desiredVmIdentity (ds_vms current))"
    and "distinct (map desiredVmIdentity (ds_vms (mutator (cloneDesiredState current))))"
  shows "entry desiredVmIdentity (ds_vms d) =
      entry desiredVmIdentity (ds_vms (mutator (cloneDesiredState current)))"
    "distinct (map desiredVmIdentity (ds_vms d))"
proof -
  let ?draft = "mutator (cloneDesiredState current)"
  have "d = current \<or> ds_vms d = normalizeBy lc desiredVmIdentity (ds_vms ?draft)"
    using mutate_cases(7) [OF assms(2)] by (auto split: if_splits)
  then show d: "distinct (map desiredVmIdentity (ds_vms d))" using assms(3) by auto
  have "normalizeBy lc desiredVmIdentity (ds_vms d) = normalizeBy lc desiredVmIdentity (ds_vms ?draft)"
    using mutate_payload [OF assms(1,2)] by (metis payload_vms)
  then have "entry desiredVmIdentity (rev (ds_vms d)) = entry desiredVmIdentity (rev (ds_vms ?draft))"
    by (metis entry_normalizeBy)
  then show "entry desiredVmIdentity (ds_vms d) = entry desiredVmIdentity (ds_vms ?draft)"
    using d assms(4) by (simp add: entry_rev_distinct)
qed

lemma identity_inject:
  assumes "CHR 0x0A \<notin> set r" "CHR 0x0A \<notin> set r'"
  shows "r @ CHR 0x0A # n = r' @ CHR 0x0A # n' \<longleftrightarrow> r = r' \<and> n = n'"
  using assms
proof (induction r arbitrary: r')
  case Nil
  then show ?case by (cases r') auto
next
  case (Cons c r)
  then show ?case by (cases r') auto
qed

lemma updateFirst_cong: "(\<And>x. x \<in> set xs \<Longrightarrow> P x = Q x) \<Longrightarrow> updateFirst P f xs = updateFirst Q f xs"
  by (induction xs) auto

lemma updateFirst_none: "\<not> list_ex P xs \<Longrightarrow> updateFirst P f xs = xs"
  by (induction xs) auto

lemma map_updateFirst: "(\<And>x. identity (f x) = identity x) \<Longrightarrow> map identity (updateFirst P f xs) = map identity xs"
  by (induction xs) auto

lemma sample_mutation:
  "mutateDesiredState code_unit_compare emptySample (\<lambda>d. upsertDesiredVm d vmSample) 7 =
     Inr (emptySample\<lparr>ds_vms := [vmSample], ds_version := 1, ds_generated_at_unix_ms := 7\<rparr>)"
  by code_simp

subsection \<open>Properties\<close>

text \<open>
  C37. A mutation returns either the current document, exactly when the payload did not change, or the
  normalized draft under the next version and the time of the edit; host, scope and owner never change,
  and the payload of the result is the payload of the draft.
\<close>

theorem mutate_versioned:
  assumes "consistent_comparator lc" and "mutateDesiredState lc current mutator now = Inr d"
  shows "ds_host_id d = ds_host_id current \<and> ds_scope d = ds_scope current \<and>
    ds_owner_user_id d = ds_owner_user_id current \<and>
    comparableDesiredStatePayload lc d =
      comparableDesiredStatePayload lc (mutator (cloneDesiredState current)) \<and>
    (if comparableDesiredStatePayload lc (mutator (cloneDesiredState current)) =
        comparableDesiredStatePayload lc current
     then d = current
     else ds_version d = ds_version current + 1 \<and> ds_generated_at_unix_ms d = now)"
  using mutate_cases(1-3,7) [OF assms(2)] mutate_payload [OF assms]
  by (auto simp: payload_normalize [OF assms(1)] split: if_splits)

theorem mutate_versioned_witness:
  "ds_version (emptySample\<lparr>ds_vms := [vmSample], ds_version := 1, ds_generated_at_unix_ms := 7\<rparr>) =
     ds_version emptySample + 1"
proof -
  have "comparableDesiredStatePayload code_unit_compare (upsertDesiredVm (cloneDesiredState emptySample) vmSample) \<noteq>
      comparableDesiredStatePayload code_unit_compare emptySample"
    by code_simp
  with mutate_versioned [OF code_unit.consistent_comparator_axioms sample_mutation]
  show ?thesis by (simp split: if_splits)
qed

text \<open>
  C38. What a mutation stores is what a host accepts: a changed document passes the bridge parser for its
  host, names every VM once, and its VMs are sorted by identity.
\<close>

theorem mutate_document_accepted:
  assumes "consistent_comparator lc" and "mutateDesiredState lc current mutator now = Inr d"
    and "d \<noteq> current"
  shows "parseBridgeMessageV8 (Some (desiredStateMessage (ds_host_id d) (encodeDesiredState d))) =
      Inr (Some (desiredStateMessage (ds_host_id d) (encodeDesiredState d))) \<and>
    distinct (map dv_vm_name (ds_vms d)) \<and>
    sorted_wrt (\<lambda>v w. lc (desiredVmIdentity v) (desiredVmIdentity w) \<le> 0) (ds_vms d)"
proof -
  let ?n = "normalizeDesiredState lc (mutator (cloneDesiredState current))"
  note m = mutate_cases [OF assms(2)]
  have d: "d = ?n\<lparr>ds_version := ds_version current + 1, ds_generated_at_unix_ms := now\<rparr>"
    using m(7) assms(3) by (simp split: if_splits)
  have "0 \<le> ds_version current" using m(4,5) by (simp add: desiredStateOk_def)
  then have ok: "desiredStateOk d" unfolding d by (intro desiredStateOk_stamp m(5)) simp
  then show ?thesis
    using sorted_normalizeBy [OF assms(1), of desiredVmIdentity "ds_vms (mutator (cloneDesiredState current))"]
    by (auto simp: parse_desired_message isDesiredState_encode desiredStateOk_def) (simp add: d)
qed

theorem mutate_document_accepted_witness:
  "distinct (map dv_vm_name (ds_vms
     (emptySample\<lparr>ds_vms := [vmSample], ds_version := 1, ds_generated_at_unix_ms := 7\<rparr>)))"
proof -
  have "ds_version (emptySample\<lparr>ds_vms := [vmSample], ds_version := 1, ds_generated_at_unix_ms := 7\<rparr>) \<noteq>
      ds_version emptySample"
    by (simp add: emptySample_def createEmptyHostDesiredState_def)
  then have "emptySample\<lparr>ds_vms := [vmSample], ds_version := 1, ds_generated_at_unix_ms := 7\<rparr> \<noteq> emptySample"
    by metis
  from mutate_document_accepted [OF code_unit.consistent_comparator_axioms sample_mutation this]
  show ?thesis by blast
qed

text \<open>
  Validating an encoded document is exact: it succeeds precisely for the documents that meet the
  field-by-field contract, carry the host id and the safe version of their row, and it returns the
  document unchanged.
\<close>

theorem stored_validation_exact:
  "validateStoredHostDesiredState (encodeDesiredState d) host v = Inr x \<longleftrightarrow>
     desiredStateOk d \<and> ds_host_id d = host \<and> ds_version d = v \<and> isSafeInteger v \<and>
     x = encodeDesiredState d"
  by (rule validate_encode)

text \<open>
  C40. Upserting a VM through a mutation does what it says: afterwards the document holds the VM under its
  identity, every other VM is as it was, and no identity occurs twice.
\<close>

theorem upsert_vm_mutation:
  assumes "consistent_comparator lc" and "distinct (map desiredVmIdentity (ds_vms current))"
    and "mutateDesiredState lc current (\<lambda>draft. upsertDesiredVm draft vm) now = Inr d"
  shows "entry desiredVmIdentity (ds_vms d) k =
      (if k = desiredVmIdentity vm then Some vm else entry desiredVmIdentity (ds_vms current) k) \<and>
    distinct (map desiredVmIdentity (ds_vms d))"
  using mutate_entries [OF assms(1,3,2)] assms(2)
  by (simp add: desired_vms.distinct_upsert desired_vms.entry_upsert)

theorem upsert_vm_mutation_witness:
  "entry desiredVmIdentity
     (ds_vms (emptySample\<lparr>ds_vms := [vmSample], ds_version := 1, ds_generated_at_unix_ms := 7\<rparr>))
     (desiredVmIdentity vmSample) = Some vmSample"
proof -
  have "distinct (map desiredVmIdentity (ds_vms emptySample))"
    by (simp add: emptySample_def createEmptyHostDesiredState_def)
  from upsert_vm_mutation [OF code_unit.consistent_comparator_axioms this sample_mutation]
  show ?thesis by simp
qed

text \<open>
  Marking a VM absent through a mutation changes only that VM's desired phase, and reports whether
  the VM was there.
\<close>

theorem mark_absent_mutation:
  assumes "consistent_comparator lc" and "distinct (map desiredVmIdentity (ds_vms current))"
    and "CHR 0x0A \<notin> set runId" and "\<forall>vm \<in> set (ds_vms current). CHR 0x0A \<notin> set (dv_run_id vm)"
    and "mutateDesiredState lc current (\<lambda>draft. snd (markDesiredVmAbsent draft runId vmName)) now = Inr d"
  shows "entry desiredVmIdentity (ds_vms d) k =
      (if k = runId @ [CHR 0x0A] @ vmName
       then map_option (\<lambda>vm. vm\<lparr>dv_desired_phase := DP_absent\<rparr>) (entry desiredVmIdentity (ds_vms current) k)
       else entry desiredVmIdentity (ds_vms current) k) \<and>
    (fst (markDesiredVmAbsent current runId vmName) \<longleftrightarrow>
       entry desiredVmIdentity (ds_vms current) (runId @ [CHR 0x0A] @ vmName) \<noteq> None)"
proof -
  let ?t = "\<lambda>vm. dv_run_id vm = runId \<and> dv_vm_name vm = vmName"
  let ?a = "\<lambda>vm. vm\<lparr>dv_desired_phase := DP_absent\<rparr>"
  let ?k = "runId @ [CHR 0x0A] @ vmName"
  have t: "?t vm \<longleftrightarrow> desiredVmIdentity vm = ?k" if "vm \<in> set (ds_vms current)" for vm
    using identity_inject [of "dv_run_id vm" runId "dv_vm_name vm" vmName] assms(3,4) that
    by (auto simp: desiredVmIdentity_def)
  have ex: "list_ex ?t (ds_vms current) \<longleftrightarrow> entry desiredVmIdentity (ds_vms current) ?k \<noteq> None"
    using t by (auto simp: entry_def find_None_iff list_ex_iff)
  have upd: "updateFirst ?t ?a (ds_vms current) =
      updateFirst (\<lambda>vm. desiredVmIdentity vm = ?k) ?a (ds_vms current)"
    by (rule updateFirst_cong) (rule t)
  have id: "desiredVmIdentity (?a vm) = desiredVmIdentity vm" for vm
    by (simp add: desiredVmIdentity_def)
  have vms: "ds_vms (snd (markDesiredVmAbsent (cloneDesiredState current) runId vmName)) =
      updateFirst (\<lambda>vm. desiredVmIdentity vm = ?k) ?a (ds_vms current)"
    using upd updateFirst_none [of ?t "ds_vms current" ?a] by (simp add: markDesiredVmAbsent_def Let_def)
  have "entry desiredVmIdentity (ds_vms d) k =
      entry desiredVmIdentity (updateFirst (\<lambda>vm. desiredVmIdentity vm = ?k) ?a (ds_vms current)) k"
    using mutate_entries(1) [OF assms(1,5,2)] assms(2) unfolding vms map_updateFirst [of desiredVmIdentity ?a, OF id]
    by simp
  also have "\<dots> = (if k = ?k then map_option ?a (entry desiredVmIdentity (ds_vms current) ?k)
      else entry desiredVmIdentity (ds_vms current) k)"
    by (rule entry_updateFirst) (rule id, rule refl)
  finally show ?thesis
    using ex by (auto simp: markDesiredVmAbsent_def Let_def)
qed

end
