(* ===== verification/Desired_Store.thy ===== *)
theory Desired_Store
  imports Desired_State Versioned_Rows
begin

section \<open>The desired-state store\<close>

text \<open>
  Loading and mutating the stored desired state under optimistic concurrency:
  \<^verbatim>\<open>src/apps/web/src/lib/desired-state-store.ts\<close>. The row of one host is an optional version and
  document; the other writers of the row are functions applied between the reads and the writes of a
  loop, so a theorem about a loop holds for every interleaving. A write guard is an extra SQL condition
  with an assertion that raises when it does not hold; both may change between attempts.
\<close>

subsection \<open>Rows\<close>

record DesiredRow =
  row_version :: int
  row_doc :: HostDesiredStateV2

text \<open>A write of the store: a changed document under its own version.\<close>

definition asRow :: "HostDesiredStateV2 \<Rightarrow> DesiredRow" where
  "asRow d = \<lparr>row_version = ds_version d, row_doc = d\<rparr>"

definition desiredWrite :: "DesiredRow \<Rightarrow> DesiredRow \<Rightarrow> bool" where
  "desiredWrite r r' \<longleftrightarrow>
     (\<exists>lc current mutator now nxt. r = asRow current \<and> r' = asRow nxt \<and> nxt \<noteq> current \<and>
        mutateDesiredState lc current mutator now = Inr nxt)"

interpretation desired_row: versioned_rows row_version desiredWrite
proof
  fix r r' assume "desiredWrite r r'"
  then obtain lc current mutator now nxt where w: "r = asRow current" "r' = asRow nxt" "nxt \<noteq> current"
    "mutateDesiredState lc current mutator now = Inr nxt"
    by (auto simp: desiredWrite_def)
  then show "row_version r < row_version r'"
    using mutate_cases(7) [OF w(4)] by (simp add: asRow_def split: if_splits)
qed

record EnrolledHost =
  eh_scope :: "HostScope option"
  eh_ownerUserId :: "string option"
  eh_organizationId :: "string option"
  eh_role :: HostRoleV1

type_synonym desired_table = "DesiredRow option"

subsection \<open>Loading\<close>

definition MUTATE_DESIRED_STATE_MAX_ATTEMPTS :: nat where
  "MUTATE_DESIRED_STATE_MAX_ATTEMPTS = 5"

text \<open>The loop after the host row was checked; \<open>env\<close> acts between the select and the insert.\<close>

fun loadDesiredLoop ::
  "(nat \<Rightarrow> desired_table \<Rightarrow> desired_table) \<Rightarrow> string \<Rightarrow> HostScope \<Rightarrow> string \<Rightarrow> int \<Rightarrow> nat \<Rightarrow> nat \<Rightarrow>
   desired_table \<Rightarrow> (DesiredStateError + HostDesiredStateV2) \<times> desired_table" where
  "loadDesiredLoop env hostId scope owner now 0 attempt table = (Inl (LostLoadRaces hostId), table)"
| "loadDesiredLoop env hostId scope owner now (Suc n) attempt table =
     (case table of
        Some row \<Rightarrow>
          (case validateStoredHostDesiredState (encodeDesiredState (row_doc row)) hostId
                  (row_version row) of
             Inl e \<Rightarrow> (Inl e, table)
           | Inr _ \<Rightarrow>
               (if ds_scope (row_doc row) \<noteq> scope \<or> ds_owner_user_id (row_doc row) \<noteq> owner
                then (Inl WrongHostOwner, table)
                else (Inr (row_doc row), table)))
      | None \<Rightarrow>
          (let doc = createEmptyHostDesiredState hostId scope owner now;
               table' = env attempt table
           in case table' of
                None \<Rightarrow> (Inr doc, Some \<lparr>row_version = ds_version doc, row_doc = doc\<rparr>)
              | Some _ \<Rightarrow> loadDesiredLoop env hostId scope owner now n (Suc attempt) table'))"

definition loadOrCreateHostDesiredState ::
  "(nat \<Rightarrow> desired_table \<Rightarrow> desired_table) \<Rightarrow> EnrolledHost option \<Rightarrow> string \<Rightarrow> int \<Rightarrow>
   desired_table \<Rightarrow> (DesiredStateError + HostDesiredStateV2) \<times> desired_table" where
  "loadOrCreateHostDesiredState env host hostId now table =
     (case host of
        None \<Rightarrow> (Inl HostNotEnrolled, table)
      | Some h \<Rightarrow>
          (case (eh_scope h, eh_ownerUserId h) of
             (Some scope, Some owner) \<Rightarrow>
               (if owner = [] then (Inl HostNotEnrolled, table)
                else if scope = HS_organization \<and>
                        (\<not> truthy (eh_organizationId h) \<or> eh_role h \<noteq> HR_agent)
                then (Inl InvalidOrganizationHost, table)
                else loadDesiredLoop env hostId scope owner now
                       MUTATE_DESIRED_STATE_MAX_ATTEMPTS 0 table)
           | _ \<Rightarrow> (Inl HostNotEnrolled, table)))"

subsection \<open>Mutating\<close>

text \<open>
  The parameters of one mutation: what the other writers do during the loads and before the update of
  each attempt, and whether the write guard holds and its assertion passes at that attempt.
\<close>

record StoreEnv =
  env_load :: "nat \<Rightarrow> nat \<Rightarrow> desired_table \<Rightarrow> desired_table"
  env_write :: "nat \<Rightarrow> desired_table \<Rightarrow> desired_table"
  env_guard :: "nat \<Rightarrow> bool"
  env_assert :: "nat \<Rightarrow> bool"

fun mutateStoredLoop ::
  "(string \<Rightarrow> string \<Rightarrow> int) \<Rightarrow> StoreEnv \<Rightarrow> EnrolledHost option \<Rightarrow> string \<Rightarrow> int \<Rightarrow>
   (HostDesiredStateV2 \<Rightarrow> HostDesiredStateV2) \<Rightarrow> HostDesiredStateV2 option \<Rightarrow> nat \<Rightarrow> nat \<Rightarrow>
   desired_table \<Rightarrow> (DesiredStateError + HostDesiredStateV2) \<times> desired_table" where
  "mutateStoredLoop lc env host hostId now mutator initialState 0 attempt table =
     (Inl (LostVersionRaces hostId), table)"
| "mutateStoredLoop lc env host hostId now mutator initialState (Suc n) attempt table =
     (case (if attempt = 0 \<and> map_option ds_host_id initialState = Some hostId
            then (Inr (the initialState), table)
            else loadOrCreateHostDesiredState (env_load env attempt) host hostId now table) of
        (Inl e, t) \<Rightarrow> (Inl e, t)
      | (Inr current, t) \<Rightarrow>
          (case mutateDesiredState lc current mutator now of
             Inl e \<Rightarrow> (Inl e, t)
           | Inr nxt \<Rightarrow>
               (if nxt = current then (Inr current, t)
                else
                  (let t' = env_write env attempt t in
                   if map_option row_version t' = Some (ds_version current) \<and> env_guard env attempt
                   then (Inr nxt, Some \<lparr>row_version = ds_version nxt, row_doc = nxt\<rparr>)
                   else if \<not> env_assert env attempt then (Inl WriteGuardFailed, t')
                   else mutateStoredLoop lc env host hostId now mutator initialState n
                          (Suc attempt) t'))))"

definition mutateStoredHostDesiredState ::
  "(string \<Rightarrow> string \<Rightarrow> int) \<Rightarrow> StoreEnv \<Rightarrow> EnrolledHost option \<Rightarrow> string \<Rightarrow> int \<Rightarrow>
   (HostDesiredStateV2 \<Rightarrow> HostDesiredStateV2) \<Rightarrow> HostDesiredStateV2 option \<Rightarrow>
   desired_table \<Rightarrow> (DesiredStateError + HostDesiredStateV2) \<times> desired_table" where
  "mutateStoredHostDesiredState lc env host hostId now mutator initialState table =
     mutateStoredLoop lc env host hostId now mutator initialState
       MUTATE_DESIRED_STATE_MAX_ATTEMPTS 0 table"

subsection \<open>Specification vocabulary\<close>

text \<open>The other writers of the row follow the version protocol.\<close>

definition politeEnv :: "StoreEnv \<Rightarrow> bool" where
  "politeEnv env \<longleftrightarrow>
     (\<forall>k j t. desired_row.later t (env_load env k j t)) \<and>
     (\<forall>k t. desired_row.later t (env_write env k t))"

text \<open>No other writer is active and the guard holds.\<close>

definition quietEnv :: StoreEnv where
  "quietEnv = \<lparr>env_load = (\<lambda>_ _ t. t), env_write = (\<lambda>_ t. t), env_guard = (\<lambda>_. True), env_assert = (\<lambda>_. True)\<rparr>"

subsection \<open>Lemmas\<close>

lemma loadLoop_correct:
  assumes "\<forall>j t. desired_row.later t (env j t)"
    and "loadDesiredLoop env hostId scope owner now n attempt table = (Inr d, t)"
  shows "t = Some (asRow d)" "desired_row.later table t" "ds_host_id d = hostId"
proof -
  have "t = Some (asRow d) \<and> desired_row.later table t \<and> ds_host_id d = hostId"
    using assms(2)
  proof (induction n arbitrary: attempt table)
    case (Suc n)
    show ?case
    proof (cases table)
      case None
      show ?thesis
      proof (cases "env attempt None")
        case e: None
        then show ?thesis
          using Suc.prems None
          by (auto simp: Let_def asRow_def desired_row.later_def createEmptyHostDesiredState_def)
      next
        case e: (Some r)
        then have "loadDesiredLoop env hostId scope owner now n (Suc attempt) (Some r) = (Inr d, t)"
          using Suc.prems None by (simp add: Let_def)
        then show ?thesis
          using Suc.IH None by (auto simp: desired_row.later_def split: option.splits)
      qed
    next
      case (Some row)
      then obtain x where "validateStoredHostDesiredState (encodeDesiredState (row_doc row)) hostId (row_version row) = Inr x"
        using Suc.prems
        by (cases "validateStoredHostDesiredState (encodeDesiredState (row_doc row)) hostId (row_version row)") simp_all
      then have "ds_version (row_doc row) = row_version row" "ds_host_id (row_doc row) = hostId"
        by (simp_all add: validate_encode)
      moreover have "d = row_doc row" "t = table"
        using Suc.prems Some by (simp_all split: sum.splits if_splits)
      ultimately show ?thesis using Some by (simp add: asRow_def)
    qed
  qed simp
  then show "t = Some (asRow d)" "desired_row.later table t" "ds_host_id d = hostId" by blast+
qed

lemma load_correct:
  assumes "\<forall>j t. desired_row.later t (env j t)"
    and "loadOrCreateHostDesiredState env host hostId now table = (Inr d, t)"
  shows "t = Some (asRow d)" "desired_row.later table t" "ds_host_id d = hostId"
  using assms(2) loadLoop_correct [OF assms(1)]
  by (auto simp: loadOrCreateHostDesiredState_def split: option.splits if_splits)

lemma mutate_version:
  "mutateDesiredState lc cur mutator now = Inr d \<Longrightarrow> d \<noteq> cur \<Longrightarrow> ds_version d = ds_version cur + 1"
  using mutate_cases(7) [of lc cur mutator now d] by (simp split: if_splits)

lemma mutateLoop_correct:
  assumes "politeEnv env"
    and "\<forall>i. initialState = Some i \<and> ds_host_id i = hostId \<and> attempt = 0 \<longrightarrow>
      desired_row.later (Some (asRow i)) table"
    and "mutateStoredLoop lc env host hostId now mutator initialState n attempt table = (Inr d, t)"
  shows "\<exists>cur tb. mutateDesiredState lc cur mutator now = Inr d \<and> desired_row.later table tb \<and>
    (if d = cur then t = tb else tb = Some (asRow cur) \<and> t = Some (asRow d) \<and> ds_version d = ds_version cur + 1)"
  using assms(2,3)
proof (induction n arbitrary: attempt table)
  case (Suc n)
  let ?src = "if attempt = 0 \<and> map_option ds_host_id initialState = Some hostId
      then (Inr (the initialState), table)
      else loadOrCreateHostDesiredState (env_load env attempt) host hostId now table"
  obtain cur t0 where src: "?src = (Inr cur, t0)"
    using Suc.prems(2) by (cases ?src; cases "fst ?src") (auto split: if_splits)
  have lat: "desired_row.later (Some (asRow cur)) t0" "desired_row.later table t0"
  proof -
    have "desired_row.later (Some (asRow cur)) t0 \<and> desired_row.later table t0"
    proof (cases "attempt = 0 \<and> map_option ds_host_id initialState = Some hostId")
      case True
      then show ?thesis using src Suc.prems(1) by auto
    next
      case False
      then have "loadOrCreateHostDesiredState (env_load env attempt) host hostId now table = (Inr cur, t0)"
        using src by (simp only: False if_False)
      then show ?thesis
        using load_correct [of "env_load env attempt"] assms(1) by (auto simp: politeEnv_def)
    qed
    then show "desired_row.later (Some (asRow cur)) t0" "desired_row.later table t0" by blast+
  qed
  have loop: "mutateStoredLoop lc env host hostId now mutator initialState (Suc n) attempt table =
     (case mutateDesiredState lc cur mutator now of
             Inl e \<Rightarrow> (Inl e, t0)
           | Inr nxt \<Rightarrow>
               (if nxt = cur then (Inr cur, t0)
                else
                  (let t' = env_write env attempt t0 in
                   if map_option row_version t' = Some (ds_version cur) \<and> env_guard env attempt
                   then (Inr nxt, Some \<lparr>row_version = ds_version nxt, row_doc = nxt\<rparr>)
                   else if \<not> env_assert env attempt then (Inl WriteGuardFailed, t')
                   else mutateStoredLoop lc env host hostId now mutator initialState n
                          (Suc attempt) t')))"
    unfolding mutateStoredLoop.simps src by simp
  obtain nxt where nxt: "mutateDesiredState lc cur mutator now = Inr nxt"
    using Suc.prems(2) unfolding loop by (cases "mutateDesiredState lc cur mutator now") simp_all
  show ?case
  proof (cases "nxt = cur")
    case True
    then have "d = cur" "t = t0" using Suc.prems(2) unfolding loop nxt by simp_all
    then show ?thesis using nxt True lat(2) by auto
  next
    case changed: False
    let ?t = "env_write env attempt t0"
    have later: "desired_row.later t0 ?t" using assms(1) by (simp add: politeEnv_def)
    show ?thesis
    proof (cases "map_option row_version ?t = Some (ds_version cur) \<and> env_guard env attempt")
      case True
      then obtain r where r: "?t = Some r" "row_version r = ds_version cur" by auto
      have "r = asRow cur"
        by (rule desired_row.unchanged_if_same_version)
           (use desired_row.later_trans [OF lat(1) later] r in \<open>simp_all add: asRow_def\<close>)
      moreover have "d = nxt" "t = Some (asRow nxt)"
        using Suc.prems(2) True changed unfolding loop nxt by (auto simp: Let_def asRow_def)
      ultimately show ?thesis
        using nxt changed r mutate_version [OF nxt changed] desired_row.later_trans [OF lat(2) later]
        by (intro exI [of _ cur] exI [of _ ?t]) auto
    next
      case False
      then have "mutateStoredLoop lc env host hostId now mutator initialState n (Suc attempt) ?t = (Inr d, t)"
        using Suc.prems(2) changed unfolding loop nxt by (auto simp: Let_def split: if_splits)
      from Suc.IH [OF _ this] obtain cur' tb where
        "mutateDesiredState lc cur' mutator now = Inr d" "desired_row.later ?t tb"
        "if d = cur' then t = tb else tb = Some (asRow cur') \<and> t = Some (asRow d) \<and> ds_version d = ds_version cur' + 1"
        by auto
      moreover have "desired_row.later table tb"
        using desired_row.later_trans [OF desired_row.later_trans [OF lat(2) later]] calculation(2) by blast
      ultimately show ?thesis by blast
    qed
  qed
qed simp

lemma quiet_first_attempt:
  assumes "loadOrCreateHostDesiredState (\<lambda>_ t. t) host hostId now table = (Inr cur, t0)"
    and "mutateDesiredState lc cur mutator now = Inr nxt"
  shows "mutateStoredHostDesiredState lc quietEnv host hostId now mutator None table =
    (Inr nxt, if nxt = cur then t0 else Some (asRow nxt))"
proof -
  have t0: "t0 = Some (asRow cur)" by (rule load_correct(1) [OF _ assms(1)]) simp
  then show ?thesis
    using assms
    by (simp add: mutateStoredHostDesiredState_def MUTATE_DESIRED_STATE_MAX_ATTEMPTS_def numeral_eq_Suc
        quietEnv_def asRow_def Let_def)
qed

subsection \<open>Properties\<close>

text \<open>
  C15. No update is lost: whatever the other writers do between the steps, as long as they follow the
  version protocol, a mutation that returns a changed document has replaced exactly the row it was
  computed from, and leaves the document under the next version.
\<close>

theorem store_no_lost_update:
  assumes "politeEnv env"
    and "\<forall>i. initialState = Some i \<and> ds_host_id i = hostId \<longrightarrow> desired_row.later (Some (asRow i)) table"
    and "mutateStoredHostDesiredState lc env host hostId now mutator initialState table = (Inr d, t)"
  shows "\<exists>cur tb. mutateDesiredState lc cur mutator now = Inr d \<and> desired_row.later table tb \<and>
    (if d = cur then t = tb
     else tb = Some (asRow cur) \<and> t = Some (asRow d) \<and> ds_version d = ds_version cur + 1)"
  using mutateLoop_correct [OF assms(1) _ assms(3) [unfolded mutateStoredHostDesiredState_def]] assms(2)
  by blast

theorem store_no_lost_update_witness:
  "\<exists>cur tb. mutateDesiredState code_unit_compare cur (\<lambda>d. upsertDesiredVm d vmSample) 7 =
       Inr (emptySample\<lparr>ds_vms := [vmSample], ds_version := 1, ds_generated_at_unix_ms := 7\<rparr>) \<and>
     desired_row.later (Some (asRow emptySample)) tb"
proof -
  let ?host = "Some \<lparr>eh_scope = Some HS_personal, eh_ownerUserId = Some ''u1'', eh_organizationId = None,
      eh_role = HR_agent\<rparr>"
  let ?d = "emptySample\<lparr>ds_vms := [vmSample], ds_version := 1, ds_generated_at_unix_ms := 7\<rparr>"
  have l: "loadOrCreateHostDesiredState (\<lambda>_ t. t) ?host ''h1'' 7 (Some (asRow emptySample)) =
      (Inr emptySample, Some (asRow emptySample))"
    by code_simp
  have "politeEnv quietEnv" by (simp add: politeEnv_def quietEnv_def)
  from store_no_lost_update [OF this _ quiet_first_attempt [OF l sample_mutation]]
  show ?thesis by auto
qed

text \<open>
  Progress: with no other writer active the first attempt decides, so a load and a mutation that
  succeed are stored and returned, and the version races are never lost.
\<close>

theorem store_progress:
  assumes "loadOrCreateHostDesiredState (\<lambda>_ t. t) host hostId now table = (Inr cur, t0)"
    and "mutateDesiredState lc cur mutator now = Inr nxt"
  shows "mutateStoredHostDesiredState lc quietEnv host hostId now mutator None table =
    (Inr nxt, if nxt = cur then t0 else Some (asRow nxt))"
  by (rule quiet_first_attempt [OF assms])

end
