(* ===== verification/Cpu_Reservations.thy ===== *)
theory Cpu_Reservations
  imports Cpu_Capacity Run_Store Desired_Store
begin

section \<open>CPU reservations\<close>

text \<open>
  The reservation rows of \<^verbatim>\<open>src/apps/web/src/control-plane/host-cpu-reservations.ts\<close>: admission, commit,
  rollback, the recovery of expired runs and the reconciliation of a host against its desired and its
  reported state. A table is the list of its rows, keyed as in the schema. The per-host lock of the host
  runtime keeps other code from changing the reservations during a reconciliation; everything else may
  change where the code waits for the database inside the recovery loop, by the functions \<open>env\<close>. A stored
  report has passed the bridge parser, so its \<^verbatim>\<open>vms\<close> is an array.
\<close>

subsection \<open>Tables\<close>

definition HOST_CPU_RESERVATION_TTL_MS :: int where
  "HOST_CPU_RESERVATION_TTL_MS = 60000"

record CpuReservation =
  cr_runId :: string
  cr_hostId :: string
  cr_cpuMillis :: int
  cr_state :: ReservationState
  cr_expiresAt :: "int option"
  cr_createdAt :: int
  cr_updatedAt :: int

datatype ResourceState = RR_pending | RR_committed | RR_released

record ResourceReservation =
  rr_executionId :: string
  rr_hostId :: string
  rr_cpuMillis :: int
  rr_memoryMib :: int
  rr_worstCaseDiskMib :: int
  rr_state :: ResourceState
  rr_expiresAt :: "int option"
  rr_releasedAt :: "int option"
  rr_createdAt :: int
  rr_updatedAt :: int

record ActualRow =
  ar_appliedDesiredVersion :: int
  ar_reportJson :: json

record CpuDb =
  cd_reservations :: "CpuReservation list"
  cd_resources :: "ResourceReservation list"
  cd_runs :: "RunRow list"
  cd_desired :: "(string \<times> DesiredRow) list"
  cd_actual :: "(string \<times> ActualRow) list"

subsection \<open>Single statements\<close>

definition reservationOf :: "string \<Rightarrow> string \<Rightarrow> CpuReservation \<Rightarrow> bool" where
  "reservationOf hostId runId r \<longleftrightarrow> cr_hostId r = hostId \<and> cr_runId r = runId"

definition commitHostCpuReservation :: "string \<Rightarrow> string \<Rightarrow> int \<Rightarrow> CpuDb \<Rightarrow> bool \<times> CpuDb" where
  "commitHostCpuReservation hostId runId nowUnixMs db =
     (list_ex (reservationOf hostId runId) (cd_reservations db),
      db\<lparr>cd_reservations :=
        map (\<lambda>r. if reservationOf hostId runId r
                 then r\<lparr>cr_state := RS_committed, cr_expiresAt := None, cr_updatedAt := nowUnixMs\<rparr> else r)
          (cd_reservations db)\<rparr>)"

text \<open>Releasing the generic reservation rows in one of the given states.\<close>

definition releaseResources ::
  "ResourceState list \<Rightarrow> string \<Rightarrow> string \<Rightarrow> int \<Rightarrow> ResourceReservation list \<Rightarrow>
   ResourceReservation list" where
  "releaseResources states executionId hostId nowUnixMs rows =
     map (\<lambda>r. if rr_executionId r = executionId \<and> rr_hostId r = hostId \<and> rr_state r \<in> set states
              then r\<lparr>rr_state := RR_released, rr_releasedAt := Some nowUnixMs, rr_updatedAt := nowUnixMs\<rparr>
              else r) rows"

definition rollbackPendingHostCpuReservation ::
  "string \<Rightarrow> string \<Rightarrow> int \<Rightarrow> CpuDb \<Rightarrow> bool \<times> CpuDb" where
  "rollbackPendingHostCpuReservation hostId runId nowUnixMs db =
     (let doomed = (\<lambda>r. reservationOf hostId runId r \<and> cr_state r = RS_pending)
      in (list_ex doomed (cd_reservations db),
          db\<lparr>cd_reservations := filter (\<lambda>r. \<not> doomed r) (cd_reservations db),
             cd_resources := releaseResources [RR_pending] runId hostId nowUnixMs (cd_resources db)\<rparr>))"

definition syncScenarioRuntimeResourceReservation ::
  "string \<Rightarrow> string \<Rightarrow> int option \<Rightarrow> ResourceState option \<Rightarrow> int \<Rightarrow> CpuDb \<Rightarrow> CpuDb" where
  "syncScenarioRuntimeResourceReservation executionId hostId cpuMillis state nowUnixMs db =
     (if state = Some RR_released
      then db\<lparr>cd_resources :=
             releaseResources [RR_pending, RR_committed] executionId hostId nowUnixMs (cd_resources db)\<rparr>
      else
        db\<lparr>cd_resources :=
          map (\<lambda>r. if rr_executionId r = executionId \<and> rr_hostId r = hostId \<and>
                      rr_state r \<in> {RR_pending, RR_committed}
                   then
                     (let priced = r\<lparr>rr_cpuMillis := coalesce cpuMillis (rr_cpuMillis r),
                                     rr_updatedAt := nowUnixMs\<rparr>
                      in if state = Some RR_committed
                         then priced\<lparr>rr_state := RR_committed, rr_expiresAt := None\<rparr> else priced)
                   else r) (cd_resources db)\<rparr>)"

definition nextPendingHostCpuReservationExpiry :: "string \<Rightarrow> CpuDb \<Rightarrow> int option" where
  "nextPendingHostCpuReservationExpiry hostId db =
     (let expiries = List.map_filter cr_expiresAt
            (filter (\<lambda>r. cr_hostId r = hostId \<and> cr_state r = RS_pending) (cd_reservations db))
      in case js_sort numeric_compare expiries of [] \<Rightarrow> None | e # _ \<Rightarrow> Some e)"

definition loadHostCpuReservationCapacity :: "string \<Rightarrow> CpuDb \<Rightarrow> HostCpuReservationCapacity option" where
  "loadHostCpuReservationCapacity hostId db =
     hostCpuReservationCapacityFromSnapshot
       (map_option ar_reportJson (map_of (cd_actual db) hostId))
       (map (\<lambda>r. \<lparr>cw_runId = cr_runId r, cw_cpuMillis = cr_cpuMillis r, cw_state = cr_state r\<rparr>)
         (filter (\<lambda>r. cr_hostId r = hostId) (cd_reservations db)))"

text \<open>
  The two statements of an admission batch, each an insert selected from the run row. A row that violates
  a constraint of its table (the key, a missing execution, an amount that is not positive) fails the
  batch, the value \<^const>\<open>None\<close>.
\<close>

definition insertReservations :: "CpuReservation list \<Rightarrow> CpuDb \<Rightarrow> CpuDb option" where
  "insertReservations rows db =
     (let all = cd_reservations db @ rows in
      if distinct (map cr_runId all) \<and> list_all (\<lambda>r. 0 < cr_cpuMillis r) rows
      then Some (db\<lparr>cd_reservations := all\<rparr>) else None)"

definition admissionCpuQuotaStatement ::
  "string \<Rightarrow> string \<Rightarrow> string \<Rightarrow> int \<Rightarrow> int \<Rightarrow> int \<Rightarrow> CpuDb \<Rightarrow> CpuDb option" where
  "admissionCpuQuotaStatement runId userId hostId cpuMillis desiredVersion nowUnixMs db =
     insertReservations
       (map (\<lambda>run. \<lparr>cr_runId = rn_runId run, cr_hostId = rn_hostId run, cr_cpuMillis = cpuMillis,
                    cr_state = RS_committed, cr_expiresAt = None, cr_createdAt = nowUnixMs,
                    cr_updatedAt = nowUnixMs\<rparr>)
         (filter (\<lambda>run. rn_runId run = runId \<and> rn_userId run = userId \<and> rn_hostId run = hostId \<and>
              map_option row_version (map_of (cd_desired db) (rn_hostId run)) = Some desiredVersion)
           (cd_runs db))) db"

definition insertResources :: "ResourceReservation list \<Rightarrow> CpuDb \<Rightarrow> CpuDb option" where
  "insertResources rows db =
     (let all = cd_resources db @ rows in
      if distinct (map rr_executionId all) \<and>
         list_all (\<lambda>r. 0 < rr_cpuMillis r \<and> 0 < rr_memoryMib r \<and> 0 < rr_worstCaseDiskMib r) rows
      then Some (db\<lparr>cd_resources := all\<rparr>) else None)"

definition admissionResourceReservationStatement ::
  "string \<Rightarrow> string \<Rightarrow> RuntimeResourceDemand \<Rightarrow> int option \<Rightarrow> int \<Rightarrow> CpuDb \<Rightarrow> CpuDb option" where
  "admissionResourceReservationStatement runId hostId resources expiresAt nowUnixMs db =
     (let runs = filter (\<lambda>run. rn_runId run = runId \<and> rn_hostId run = hostId \<and>
                               rn_state run = RP_provisioning) (cd_runs db)
      in if list_ex (\<lambda>run. rn_runtimeExecutionId run = None) runs then None
         else
           insertResources
             (map (\<lambda>run.
                \<lparr>rr_executionId = the (rn_runtimeExecutionId run), rr_hostId = rn_hostId run,
                 rr_cpuMillis = rd_cpuMillis resources, rr_memoryMib = rd_memoryMib resources,
                 rr_worstCaseDiskMib = rd_worstCaseDiskMib resources, rr_state = RR_pending,
                 rr_expiresAt = expiresAt, rr_releasedAt = None, rr_createdAt = nowUnixMs,
                 rr_updatedAt = nowUnixMs\<rparr>) runs) db)"

subsection \<open>Durable dispatch\<close>

text \<open>The runtime names of the run document, if they are present and distinct.\<close>

fun projectedVmNames :: "RunVmStateDocument list \<Rightarrow> string list \<Rightarrow> string list option" where
  "projectedVmNames [] names = Some names"
| "projectedVmNames (vm # vms) names =
     (case or_null (js_trim (vm_runtimeVmName vm)) of
        None \<Rightarrow> None
      | Some vmName \<Rightarrow>
          if vmName \<in> set names then None else projectedVmNames vms (vmName # names))"

fun desiredCpuTotal :: "string list \<Rightarrow> DesiredVmV2 list \<Rightarrow> string list \<Rightarrow> int \<Rightarrow> int option" where
  "desiredCpuTotal projected [] desiredNames cpuMillis = Some cpuMillis"
| "desiredCpuTotal projected (vm # vms) desiredNames cpuMillis =
     (if dv_vm_name vm \<notin> set projected \<or> dv_vm_name vm \<in> set desiredNames \<or>
         \<not> isSafeInteger (rv_cpu_millis (dv_resources vm)) \<or> rv_cpu_millis (dv_resources vm) \<le> 0
      then None
      else
        (let total' = js_add cpuMillis (rv_cpu_millis (dv_resources vm)) in
         if \<not> isSafeInteger total' then None
         else desiredCpuTotal projected vms (dv_vm_name vm # desiredNames) total'))"

definition desiredRunning :: "string \<Rightarrow> HostDesiredStateV2 \<Rightarrow> DesiredVmV2 list" where
  "desiredRunning runId desired =
     filter (\<lambda>vm. dv_run_id vm = runId \<and> dv_desired_phase vm = DP_running) (ds_vms desired)"

definition pendingRunHasDurableDesiredVms ::
  "RunRow \<Rightarrow> int \<Rightarrow> HostDesiredStateV2 option \<Rightarrow> bool" where
  "pendingRunHasDurableDesiredVms run cpuMillis desired =
     (case (desired, rn_stateJson run) of
        (Some desired, Some projected) \<Rightarrow>
          (if rn_vmCount run \<le> 0 then False
           else
             (case projectedVmNames (run_vms projected) [] of
                None \<Rightarrow> False
              | Some projectedNames \<Rightarrow>
                  (let desiredVms = desiredRunning (rn_runId run) desired in
                   if int (length projectedNames) \<noteq> rn_vmCount run \<or>
                      int (length desiredVms) \<noteq> rn_vmCount run
                   then False
                   else desiredCpuTotal projectedNames desiredVms [] 0 = Some cpuMillis)))
      | _ \<Rightarrow> False)"

subsection \<open>Recovery of expired runs\<close>

definition undispatchedReason :: string where
  "undispatchedReason = ''Boot admission expired before durable desired-state dispatch completed.''"

definition failedUndispatchedRunStateJson ::
  "RunStateDocument option \<Rightarrow> string \<Rightarrow> int \<Rightarrow> RunStateDocument option" where
  "failedUndispatchedRunStateJson stateJson reason nowUnixMs =
     map_option (\<lambda>current. recomputeRunState
       (current\<lparr>run_phase := RP_failed, run_phaseDetail := reason,
          run_vms := map (\<lambda>vm.
            vm\<lparr>vm_phase := VP_failed, vm_phaseDetail := reason, vm_terminalPhase := TP_failed,
               vm_terminalReason := Some reason, vm_terminalObservedAt := Some nowUnixMs,
               vm_provisioning :=
                 (vm_provisioning vm)\<lparr>pr_status := PS_failed, pr_error := Some reason\<rparr>\<rparr>)
            (run_vms current)\<rparr>)) stateJson"

datatype ExpiredDisposition = ED_failed | ED_terminal | ED_durable

datatype ReconcileError = CouldNotFence string

definition findRun :: "string \<Rightarrow> CpuDb \<Rightarrow> RunRow option" where
  "findRun runId db = find (\<lambda>run. rn_runId run = runId) (cd_runs db)"

definition desiredDoc :: "DesiredRow option \<Rightarrow> HostDesiredStateV2 option" where
  "desiredDoc row = map_option row_doc row"

definition failedRun :: "RunRow \<Rightarrow> RunRow \<Rightarrow> int \<Rightarrow> RunRow" where
  "failedRun stored run nowUnixMs =
     (let updatedAt = max nowUnixMs (rn_updatedAt run + 1) in
      stored\<lparr>rn_state := RP_failed, rn_stateRank := RUN_PHASE_ORDER RP_failed,
        rn_stateJson := failedUndispatchedRunStateJson (rn_stateJson run) undispatchedReason nowUnixMs,
        rn_activeKey := (if rn_deleteRequestedAt run = None then None else rn_activeKey run),
        rn_failedAt := Some updatedAt,
        rn_archiveEnteredAt := Some (coalesce (rn_archiveEnteredAt stored) updatedAt),
        rn_updatedAt := updatedAt\<rparr>)"

definition failGuard :: "string \<Rightarrow> string \<Rightarrow> RunRow \<Rightarrow> DesiredRow option \<Rightarrow> CpuDb \<Rightarrow> RunRow \<Rightarrow> bool" where
  "failGuard hostId runId run desiredRow db stored \<longleftrightarrow>
     rn_runId stored = runId \<and> rn_hostId stored = hostId \<and> rn_updatedAt stored = rn_updatedAt run \<and>
     rn_completedAt stored = None \<and> rn_failedAt stored = None \<and>
     (case desiredRow of
        None \<Rightarrow> True
      | Some row \<Rightarrow> map_option row_version (map_of (cd_desired db) hostId) = Some (row_version row))"

fun failExpiredLoop ::
  "(nat \<Rightarrow> CpuDb \<Rightarrow> CpuDb) \<Rightarrow> string \<Rightarrow> string \<Rightarrow> int \<Rightarrow> int \<Rightarrow> nat \<Rightarrow> nat \<Rightarrow> CpuDb \<Rightarrow>
   (ReconcileError + ExpiredDisposition) \<times> CpuDb" where
  "failExpiredLoop env hostId runId cpuMillis nowUnixMs 0 attempt db = (Inl (CouldNotFence runId), db)"
| "failExpiredLoop env hostId runId cpuMillis nowUnixMs (Suc n) attempt db =
     (case findRun runId db of
        None \<Rightarrow> (Inr ED_terminal, db)
      | Some run \<Rightarrow>
          (if rn_hostId run \<noteq> hostId \<or> rn_activeKey run = None \<or> rn_completedAt run \<noteq> None \<or>
              rn_failedAt run \<noteq> None
           then (Inr ED_terminal, db)
           else
             (let db1 = env (2 * attempt) db;
                  desiredRow = map_of (cd_desired db1) hostId
              in if pendingRunHasDurableDesiredVms run cpuMillis (desiredDoc desiredRow)
                 then (Inr ED_durable, db1)
                 else
                   (let db2 = env (2 * attempt + 1) db1 in
                    if list_ex (failGuard hostId runId run desiredRow db2) (cd_runs db2)
                    then (Inr ED_failed,
                          db2\<lparr>cd_runs :=
                            map (\<lambda>stored. if failGuard hostId runId run desiredRow db2 stored
                                          then failedRun stored run nowUnixMs else stored)
                              (cd_runs db2)\<rparr>)
                    else failExpiredLoop env hostId runId cpuMillis nowUnixMs n (Suc attempt) db2))))"

definition failExpiredUndispatchedRun ::
  "(nat \<Rightarrow> CpuDb \<Rightarrow> CpuDb) \<Rightarrow> string \<Rightarrow> string \<Rightarrow> int \<Rightarrow> int \<Rightarrow> CpuDb \<Rightarrow>
   (ReconcileError + ExpiredDisposition) \<times> CpuDb" where
  "failExpiredUndispatchedRun env hostId runId cpuMillis nowUnixMs db =
     failExpiredLoop env hostId runId cpuMillis nowUnixMs 8 0 db"

subsection \<open>Reconciliation\<close>

text \<open>The first pass, over the pending rows read at the start.\<close>

definition executionOf :: "RunRow option \<Rightarrow> string \<Rightarrow> string" where
  "executionOf run runId =
     (case run of None \<Rightarrow> runId | Some row \<Rightarrow> coalesce (rn_runtimeExecutionId row) runId)"

definition commitReservation :: "string \<Rightarrow> int \<Rightarrow> RunRow option \<Rightarrow> CpuReservation \<Rightarrow> CpuDb \<Rightarrow> CpuDb" where
  "commitReservation hostId nowUnixMs run reservation db =
     syncScenarioRuntimeResourceReservation (executionOf run (cr_runId reservation)) hostId
       (Some (cr_cpuMillis reservation)) (Some RR_committed) nowUnixMs
       (snd (commitHostCpuReservation hostId (cr_runId reservation) nowUnixMs db))"

record ReconcileProgress =
  rp_committedRunIds :: "string list"
  rp_expiredRunIds :: "string list"
  rp_desiredRow :: "DesiredRow option"
  rp_db :: CpuDb

definition runOnHost :: "string \<Rightarrow> RunRow option \<Rightarrow> bool" where
  "runOnHost hostId run \<longleftrightarrow> map_option rn_hostId run = Some hostId"

definition runStillLive :: "RunRow option \<Rightarrow> bool" where
  "runStillLive run =
     (case run of
        None \<Rightarrow> False
      | Some row \<Rightarrow> rn_activeKey row \<noteq> None \<and> rn_completedAt row = None \<and> rn_failedAt row = None)"

definition expireReservation :: "string \<Rightarrow> int \<Rightarrow> CpuReservation \<Rightarrow> ReconcileProgress \<Rightarrow> ReconcileProgress" where
  "expireReservation hostId nowUnixMs reservation p =
     p\<lparr>rp_expiredRunIds := rp_expiredRunIds p @ [cr_runId reservation],
       rp_db := snd (rollbackPendingHostCpuReservation hostId (cr_runId reservation) nowUnixMs (rp_db p))\<rparr>"

definition reconcilePending ::
  "(string \<Rightarrow> nat \<Rightarrow> CpuDb \<Rightarrow> CpuDb) \<Rightarrow> string \<Rightarrow> int \<Rightarrow> (string \<Rightarrow> RunRow option) \<Rightarrow>
   CpuReservation \<Rightarrow> ReconcileProgress \<Rightarrow> ReconcileError option \<times> ReconcileProgress" where
  "reconcilePending env hostId nowUnixMs runById reservation p =
     (let run = runById (cr_runId reservation) in
      if cr_state reservation \<noteq> RS_pending then (None, p)
      else if runOnHost hostId run \<and>
              pendingRunHasDurableDesiredVms (the run) (cr_cpuMillis reservation)
                (desiredDoc (rp_desiredRow p))
      then (None, p\<lparr>rp_committedRunIds := rp_committedRunIds p @ [cr_runId reservation],
                    rp_db := commitReservation hostId nowUnixMs run reservation (rp_db p)\<rparr>)
      else if \<not> (\<exists>e \<in> set_option (cr_expiresAt reservation). e \<le> nowUnixMs) then (None, p)
      else if runOnHost hostId run \<and> runStillLive run
      then
        (case failExpiredUndispatchedRun (env (cr_runId reservation)) hostId (cr_runId reservation)
                (cr_cpuMillis reservation) nowUnixMs (rp_db p) of
           (Inl e, db) \<Rightarrow> (Some e, p\<lparr>rp_db := db\<rparr>)
         | (Inr disposition, db) \<Rightarrow>
             (if disposition = ED_durable
              then
                (let db' = commitReservation hostId nowUnixMs run reservation db
                 in (None, p\<lparr>rp_committedRunIds := rp_committedRunIds p @ [cr_runId reservation],
                             rp_desiredRow := map_of (cd_desired db') hostId, rp_db := db'\<rparr>))
              else (None, expireReservation hostId nowUnixMs reservation (p\<lparr>rp_db := db\<rparr>))))
      else (None, expireReservation hostId nowUnixMs reservation p))"

fun reconcilePendingAll ::
  "(string \<Rightarrow> nat \<Rightarrow> CpuDb \<Rightarrow> CpuDb) \<Rightarrow> string \<Rightarrow> int \<Rightarrow> (string \<Rightarrow> RunRow option) \<Rightarrow>
   CpuReservation list \<Rightarrow> ReconcileProgress \<Rightarrow> ReconcileError option \<times> ReconcileProgress" where
  "reconcilePendingAll env hostId nowUnixMs runById [] p = (None, p)"
| "reconcilePendingAll env hostId nowUnixMs runById (reservation # rest) p =
     (case reconcilePending env hostId nowUnixMs runById reservation p of
        (Some e, p') \<Rightarrow> (Some e, p')
      | (None, p') \<Rightarrow> reconcilePendingAll env hostId nowUnixMs runById rest p')"

text \<open>The second pass, over the committed rows: a row goes only when its absence is proved.\<close>

definition terminalOrDeleting :: "RunRow option \<Rightarrow> bool" where
  "terminalOrDeleting run =
     (case run of
        None \<Rightarrow> True
      | Some row \<Rightarrow> rn_activeKey row = None \<or> rn_deleteRequestedAt row \<noteq> None \<or>
                    rn_completedAt row \<noteq> None \<or> rn_failedAt row \<noteq> None)"

definition actualPresent :: "string \<Rightarrow> ActualRow \<Rightarrow> bool" where
  "actualPresent runId actual \<longleftrightarrow>
     list_ex (\<lambda>vm. get_prop (Some vm) ''run_id'' = Some (JStr runId) \<and>
                   get_prop (Some vm) ''phase'' \<noteq> Some (JStr ''absent''))
       (elements (get_prop (Some (ar_reportJson actual)) ''vms''))"

definition absenceProved ::
  "RunRow option \<Rightarrow> string \<Rightarrow> DesiredRow option \<Rightarrow> ActualRow option \<Rightarrow> bool" where
  "absenceProved run runId desired actual =
     (case (desired, actual) of
        (Some d, Some a) \<Rightarrow>
          terminalOrDeleting run \<and> ds_version (row_doc d) \<le> ar_appliedDesiredVersion a \<and>
          desiredRunning runId (row_doc d) = [] \<and> \<not> actualPresent runId a
      | _ \<Rightarrow> False)"

definition releaseCommitted ::
  "string \<Rightarrow> int \<Rightarrow> RunRow option \<Rightarrow> CpuReservation \<Rightarrow> CpuDb \<Rightarrow> bool \<times> CpuDb" where
  "releaseCommitted hostId nowUnixMs run reservation db =
     (let doomed = (\<lambda>r. reservationOf hostId (cr_runId reservation) r \<and> cr_state r = RS_committed)
      in (list_ex doomed (cd_reservations db),
          db\<lparr>cd_reservations := filter (\<lambda>r. \<not> doomed r) (cd_reservations db),
             cd_resources := releaseResources [RR_pending, RR_committed]
               (executionOf run (cr_runId reservation)) hostId nowUnixMs (cd_resources db)\<rparr>))"

fun reconcileCommitted ::
  "string \<Rightarrow> int \<Rightarrow> (string \<Rightarrow> RunRow option) \<Rightarrow> DesiredRow option \<Rightarrow> ActualRow option \<Rightarrow>
   CpuReservation list \<Rightarrow> string list \<Rightarrow> CpuDb \<Rightarrow> string list \<times> CpuDb" where
  "reconcileCommitted hostId nowUnixMs runById desired actual [] released db = (released, db)"
| "reconcileCommitted hostId nowUnixMs runById desired actual (reservation # rest) released db =
     (let run = runById (cr_runId reservation) in
      if cr_state reservation \<noteq> RS_committed
      then reconcileCommitted hostId nowUnixMs runById desired actual rest released db
      else if absenceProved run (cr_runId reservation) desired actual
      then
        (let (deleted, db') = releaseCommitted hostId nowUnixMs run reservation db
         in reconcileCommitted hostId nowUnixMs runById desired actual rest
              (if deleted then released @ [cr_runId reservation] else released) db')
      else
        reconcileCommitted hostId nowUnixMs runById desired actual rest released
          (syncScenarioRuntimeResourceReservation (executionOf run (cr_runId reservation)) hostId
             (Some (cr_cpuMillis reservation)) (Some RR_committed) nowUnixMs db))"

record ReconcileResult =
  rc_committedRunIds :: "string list"
  rc_expiredRunIds :: "string list"
  rc_releasedRunIds :: "string list"

definition hostReservations :: "string \<Rightarrow> CpuDb \<Rightarrow> CpuReservation list" where
  "hostReservations hostId db = filter (\<lambda>r. cr_hostId r = hostId) (cd_reservations db)"

definition reconcileHostCpuReservations ::
  "(string \<Rightarrow> nat \<Rightarrow> CpuDb \<Rightarrow> CpuDb) \<Rightarrow> string \<Rightarrow> int \<Rightarrow> CpuDb \<Rightarrow>
   (ReconcileError + ReconcileResult) \<times> CpuDb" where
  "reconcileHostCpuReservations env hostId nowUnixMs db =
     (let reservations = hostReservations hostId db;
          runById = (\<lambda>runId. findRun runId db)
      in if reservations = []
         then (Inr \<lparr>rc_committedRunIds = [], rc_expiredRunIds = [], rc_releasedRunIds = []\<rparr>, db)
         else
           (case reconcilePendingAll env hostId nowUnixMs runById reservations
                   \<lparr>rp_committedRunIds = [], rp_expiredRunIds = [],
                    rp_desiredRow = map_of (cd_desired db) hostId, rp_db = db\<rparr> of
              (Some e, p) \<Rightarrow> (Inl e, rp_db p)
            | (None, p) \<Rightarrow>
                (let (released, db') =
                       reconcileCommitted hostId nowUnixMs runById (map_of (cd_desired (rp_db p)) hostId)
                         (map_of (cd_actual (rp_db p)) hostId) (hostReservations hostId (rp_db p)) [] (rp_db p)
                 in (Inr \<lparr>rc_committedRunIds = rp_committedRunIds p, rc_expiredRunIds = rp_expiredRunIds p,
                          rc_releasedRunIds = released\<rparr>, db'))))"

subsection \<open>Specification vocabulary\<close>

text \<open>Only the holder of the host's lock changes reservations.\<close>

definition lockedEnv :: "(string \<Rightarrow> nat \<Rightarrow> CpuDb \<Rightarrow> CpuDb) \<Rightarrow> bool" where
  "lockedEnv env \<longleftrightarrow> (\<forall>runId k db. cd_reservations (env runId k db) = cd_reservations db)"

text \<open>At some moment the desired state of the host held exactly the VMs the reservation pays for.\<close>

definition durablyDispatched :: "string \<Rightarrow> CpuReservation \<Rightarrow> bool" where
  "durablyDispatched hostId r \<longleftrightarrow>
     (\<exists>run desired. rn_runId run = cr_runId r \<and> rn_hostId run = hostId \<and>
        pendingRunHasDurableDesiredVms run (cr_cpuMillis r) (Some desired))"

definition kept :: "string \<Rightarrow> CpuReservation \<Rightarrow> CpuReservation \<Rightarrow> bool" where
  "kept hostId r r' \<longleftrightarrow>
     cr_runId r' = cr_runId r \<and> cr_hostId r' = cr_hostId r \<and> cr_cpuMillis r' = cr_cpuMillis r \<and>
     (cr_state r' = cr_state r \<or> cr_state r' = RS_committed \<and> durablyDispatched hostId r)"

definition expiredPending :: "int \<Rightarrow> CpuReservation \<Rightarrow> bool" where
  "expiredPending nowUnixMs r \<longleftrightarrow>
     cr_state r = RS_pending \<and> (\<exists>e. cr_expiresAt r = Some e \<and> e \<le> nowUnixMs)"

text \<open>The first pass: rows are kept or expire, none appears, other hosts are left alone.\<close>

definition tracks :: "string \<Rightarrow> int \<Rightarrow> CpuReservation list \<Rightarrow> CpuReservation list \<Rightarrow> bool" where
  "tracks hostId nowUnixMs before after \<longleftrightarrow>
     (\<forall>r \<in> set before. (\<exists>r' \<in> set after. kept hostId r r') \<or> expiredPending nowUnixMs r) \<and>
     (\<forall>r' \<in> set after. \<exists>r \<in> set before. kept hostId r r') \<and>
     filter (\<lambda>r. cr_hostId r \<noteq> hostId) after = filter (\<lambda>r. cr_hostId r \<noteq> hostId) before"

text \<open>A run of host h1 with one VM, its reservation and the desired state that holds the VM.\<close>

definition sampleReservation :: CpuReservation where
  "sampleReservation =
     \<lparr>cr_runId = ''run-1'', cr_hostId = ''h1'', cr_cpuMillis = 1000, cr_state = RS_pending,
      cr_expiresAt = Some 5, cr_createdAt = 1, cr_updatedAt = 1\<rparr>"

definition sampleDesiredDoc :: HostDesiredStateV2 where
  "sampleDesiredDoc =
     emptySample\<lparr>ds_vms := [vmSample\<lparr>dv_run_id := ''run-1'', dv_vm_name := ''run-1-web'',
        dv_resources := \<lparr>rv_cpu_millis = 1000, rv_memory_mib = 512, rv_disk_mib = 1024\<rparr>\<rparr>]\<rparr>"

definition sampleCpuDb :: CpuDb where
  "sampleCpuDb =
     \<lparr>cd_reservations = [sampleReservation, sampleReservation\<lparr>cr_runId := ''run-2''\<rparr>], cd_resources = [],
      cd_runs = [sampleRun], cd_desired = [(''h1'', asRow sampleDesiredDoc)], cd_actual = []\<rparr>"

subsection \<open>Lemmas: reconciliation\<close>

lemma same_run:
  assumes "distinct (map cr_runId rows)" and "r \<in> set rows" and "s \<in> set rows" and "cr_runId r = cr_runId s"
  shows "r = s"
  using assms by (meson distinct_map inj_onD)

lemma kept_refl: "kept hostId r r"
  by (simp add: kept_def)

lemma tracks_refl: "tracks hostId now rows rows"
  using kept_refl by (auto simp: tracks_def)

lemma commit_tracks:
  assumes "tracks hostId now before rows" and "distinct (map cr_runId before)"
    and "reservation \<in> set before" and "durablyDispatched hostId reservation"
  shows "tracks hostId now before
    (cd_reservations (snd (commitHostCpuReservation hostId (cr_runId reservation) t (db\<lparr>cd_reservations := rows\<rparr>))))"
proof -
  let ?c = "\<lambda>r. if reservationOf hostId (cr_runId reservation) r
      then r\<lparr>cr_state := RS_committed, cr_expiresAt := None, cr_updatedAt := t\<rparr> else r"
  have step: "kept hostId r (?c r')" if "r \<in> set before" "kept hostId r r'" for r r'
  proof (cases "reservationOf hostId (cr_runId reservation) r'")
    case True
    then have "r = reservation"
      using same_run [OF assms(2) that(1) assms(3)] that(2) by (simp add: reservationOf_def kept_def)
    then show ?thesis using True that(2) assms(4) by (simp add: kept_def)
  qed (use that in simp)
  have "filter (\<lambda>r. cr_hostId r \<noteq> hostId) (map ?c rows) = filter (\<lambda>r. cr_hostId r \<noteq> hostId) rows"
    by (induction rows) (auto simp: reservationOf_def)
  also have "\<dots> = filter (\<lambda>r. cr_hostId r \<noteq> hostId) before" using assms(1) by (simp only: tracks_def)
  finally have others: "filter (\<lambda>r. cr_hostId r \<noteq> hostId) (map ?c rows) = filter (\<lambda>r. cr_hostId r \<noteq> hostId) before" .
  have fw: "\<forall>r \<in> set before. (\<exists>r' \<in> set (map ?c rows). kept hostId r r') \<or> expiredPending now r"
    using assms(1) step unfolding tracks_def set_map by blast
  have bw: "\<forall>r' \<in> set (map ?c rows). \<exists>r \<in> set before. kept hostId r r'"
    using assms(1) step unfolding tracks_def set_map by blast
  have "tracks hostId now before (map ?c rows)" unfolding tracks_def by (intro conjI fw bw others)
  then show ?thesis by (simp add: commitHostCpuReservation_def)
qed

lemma rollback_tracks:
  assumes "tracks hostId now before rows" and "distinct (map cr_runId before)"
    and "reservation \<in> set before" and "expiredPending now reservation"
  shows "tracks hostId now before
    (filter (\<lambda>r. \<not> (reservationOf hostId (cr_runId reservation) r \<and> cr_state r = RS_pending)) rows)"
proof -
  have gone: "r = reservation"
    if "r \<in> set before" "kept hostId r r'" "reservationOf hostId (cr_runId reservation) r'" for r r'
    using same_run [OF assms(2) that(1) assms(3)] that by (simp add: reservationOf_def kept_def)
  have "filter (\<lambda>r. cr_hostId r \<noteq> hostId)
      (filter (\<lambda>r. \<not> (reservationOf hostId (cr_runId reservation) r \<and> cr_state r = RS_pending)) rows) =
    filter (\<lambda>r. cr_hostId r \<noteq> hostId) rows"
    by (induction rows) (auto simp: reservationOf_def)
  then show ?thesis
    using assms(1,4) gone unfolding tracks_def by (fastforce simp del: filter_filter)
qed

lemma sync_frame [simp]:
  "cd_reservations (syncScenarioRuntimeResourceReservation e h c s t db) = cd_reservations db"
  "cd_desired (syncScenarioRuntimeResourceReservation e h c s t db) = cd_desired db"
  "cd_actual (syncScenarioRuntimeResourceReservation e h c s t db) = cd_actual db"
  by (simp_all add: syncScenarioRuntimeResourceReservation_def)

lemma findRun_id: "findRun runId db = Some run \<Longrightarrow> rn_runId run = runId"
  by (auto simp: findRun_def find_Some_iff)

lemma failExpired_frame:
  assumes "\<And>k db. cd_reservations (env k db) = cd_reservations db"
    and "failExpiredLoop env hostId runId cpuMillis now n attempt db = (res, db')"
  shows "cd_reservations db' = cd_reservations db \<and>
    (res = Inr ED_durable \<longrightarrow>
      (\<exists>run desired. rn_runId run = runId \<and> rn_hostId run = hostId \<and>
        pendingRunHasDurableDesiredVms run cpuMillis (Some desired)))"
  using assms(2)
proof (induction n arbitrary: attempt db)
  case (Suc n)
  show ?case
  proof (cases "findRun runId db")
    case None
    then show ?thesis using Suc.prems by auto
  next
    case (Some run)
    let ?db1 = "env (2 * attempt) db" and ?db2 = "env (2 * attempt + 1) (env (2 * attempt) db)"
    let ?desired = "desiredDoc (map_of (cd_desired ?db1) hostId)"
    have same: "cd_reservations ?db1 = cd_reservations db" "cd_reservations ?db2 = cd_reservations db"
      by (simp_all add: assms(1))
    show ?thesis
    proof (cases "rn_hostId run \<noteq> hostId \<or> rn_activeKey run = None \<or> rn_completedAt run \<noteq> None \<or>
        rn_failedAt run \<noteq> None")
      case True
      then show ?thesis using Suc.prems Some by auto
    next
      case live: False
      show ?thesis
      proof (cases "pendingRunHasDurableDesiredVms run cpuMillis ?desired")
        case True
        then have "\<exists>d. ?desired = Some d" by (auto simp: pendingRunHasDurableDesiredVms_def split: option.splits)
        then show ?thesis
          using Suc.prems Some live True same findRun_id [OF Some] by (auto simp: Let_def) blast
      next
        case False
        then show ?thesis
          using Suc.prems Some live same Suc.IH [of "Suc attempt" ?db2]
          by (cases "list_ex (failGuard hostId runId run (map_of (cd_desired ?db1) hostId) ?db2) (cd_runs ?db2)")
             (auto simp: Let_def)
      qed
    qed
  qed
qed auto

lemma commitReservation_rows:
  "cd_reservations (commitReservation hostId now run reservation db) =
     cd_reservations (snd (commitHostCpuReservation hostId (cr_runId reservation) now db))"
  by (simp add: commitReservation_def)

lemma expire_rows:
  "cd_reservations (rp_db (expireReservation hostId now reservation p)) =
     filter (\<lambda>r. \<not> (reservationOf hostId (cr_runId reservation) r \<and> cr_state r = RS_pending))
       (cd_reservations (rp_db p))"
  by (simp add: expireReservation_def rollbackPendingHostCpuReservation_def Let_def)

lemma commitReservation_tracks:
  assumes "tracks hostId now before (cd_reservations db)" and "distinct (map cr_runId before)"
    and "reservation \<in> set before" and "durablyDispatched hostId reservation"
  shows "tracks hostId now before (cd_reservations (commitReservation hostId now run reservation db))"
  using commit_tracks [OF assms, of now db] by (simp add: commitReservation_rows)

lemma durable_desired:
  "pendingRunHasDurableDesiredVms run cpuMillis desired \<Longrightarrow> \<exists>d. desired = Some d"
  by (auto simp: pendingRunHasDurableDesiredVms_def split: option.splits)

lemma pending_tracks:
  assumes "lockedEnv env" and "\<forall>runId run. runById runId = Some run \<longrightarrow> rn_runId run = runId"
    and tr: "tracks hostId now before (cd_reservations (rp_db p))" and "distinct (map cr_runId before)"
    and "reservation \<in> set before"
    and "reconcilePending env hostId now runById reservation p = (e, p')"
  shows "tracks hostId now before (cd_reservations (rp_db p'))"
proof -
  note commit = commitReservation_tracks [OF _ assms(4,5)]
  have expire: "tracks hostId now before (cd_reservations (rp_db (expireReservation hostId now reservation q)))"
    if "tracks hostId now before (cd_reservations (rp_db q))" "cr_state reservation = RS_pending"
      "\<exists>e \<in> set_option (cr_expiresAt reservation). e \<le> now" for q
    using rollback_tracks [OF that(1) assms(4,5)] that by (auto simp: expire_rows expiredPending_def)
  show ?thesis
  proof (cases "cr_state reservation = RS_pending")
    case pending: True
    let ?run = "runById (cr_runId reservation)"
    let ?durable = "runOnHost hostId ?run \<and>
        pendingRunHasDurableDesiredVms (the ?run) (cr_cpuMillis reservation) (desiredDoc (rp_desiredRow p))"
    show ?thesis
    proof (cases ?durable)
      case True
      then obtain run where "?run = Some run" "rn_hostId run = hostId"
        "pendingRunHasDurableDesiredVms run (cr_cpuMillis reservation) (desiredDoc (rp_desiredRow p))"
        by (auto simp: runOnHost_def)
      moreover from durable_desired [OF this(3)] obtain d where "desiredDoc (rp_desiredRow p) = Some d" by blast
      ultimately have "?run = Some run" "rn_hostId run = hostId"
        "pendingRunHasDurableDesiredVms run (cr_cpuMillis reservation) (Some d)" by simp_all
      then have "durablyDispatched hostId reservation"
        using assms(2) unfolding durablyDispatched_def by blast
      then show ?thesis using commit [OF tr] True pending assms(6) by (auto simp: reconcilePending_def Let_def)
    next
      case fresh: False
      show ?thesis
      proof (cases "\<exists>e \<in> set_option (cr_expiresAt reservation). e \<le> now")
        case False
        then show ?thesis using tr fresh pending assms(6) by (simp add: reconcilePending_def Let_def if_not_P)
      next
        case late: True
        show ?thesis
        proof (cases "runOnHost hostId ?run \<and> runStillLive ?run")
          case False
          then show ?thesis
            using expire [OF tr pending late] late fresh pending assms(6)
            by (simp add: reconcilePending_def Let_def if_not_P)
        next
          case True
          obtain res db where f: "failExpiredUndispatchedRun (env (cr_runId reservation)) hostId
              (cr_runId reservation) (cr_cpuMillis reservation) now (rp_db p) = (res, db)"
            by fastforce
          have fr: "cd_reservations db = cd_reservations (rp_db p)"
            "res = Inr ED_durable \<Longrightarrow> durablyDispatched hostId reservation"
            using failExpired_frame [OF _ f [unfolded failExpiredUndispatchedRun_def]] assms(1)
            by (auto simp: lockedEnv_def durablyDispatched_def)
          have tr': "tracks hostId now before (cd_reservations db)" using tr fr(1) by simp
          show ?thesis
            using f True late fresh pending assms(6) tr' commit [OF tr' fr(2)] expire [of "p\<lparr>rp_db := db\<rparr>"]
            by (cases res) (auto simp: reconcilePending_def Let_def split: if_splits)
        qed
      qed
    qed
  next
    case False
    then show ?thesis using tr assms(6) by (simp add: reconcilePending_def Let_def)
  qed
qed

lemma pendingAll_tracks:
  assumes "lockedEnv env" and "\<forall>runId run. runById runId = Some run \<longrightarrow> rn_runId run = runId"
    and "distinct (map cr_runId before)"
  shows "tracks hostId now before (cd_reservations (rp_db p)) \<Longrightarrow> set rows \<subseteq> set before \<Longrightarrow>
    reconcilePendingAll env hostId now runById rows p = (e, p') \<Longrightarrow>
    tracks hostId now before (cd_reservations (rp_db p'))"
proof (induction rows arbitrary: p)
  case (Cons r rows)
  obtain e1 p1 where s: "reconcilePending env hostId now runById r p = (e1, p1)" by fastforce
  have "tracks hostId now before (cd_reservations (rp_db p1))"
    by (rule pending_tracks [OF assms(1,2) Cons.prems(1) assms(3) _ s]) (use Cons.prems in simp)
  then show ?case using Cons.IH [of p1] Cons.prems(2,3) s by (cases e1) auto
qed simp

lemma committed_pass:
  assumes "reconcileCommitted hostId now runById desired actual rows released db = (rel, db')"
  shows "cd_desired db' = cd_desired db \<and> cd_actual db' = cd_actual db \<and>
    set (cd_reservations db') \<subseteq> set (cd_reservations db) \<and>
    filter (\<lambda>r. cr_hostId r \<noteq> hostId) (cd_reservations db') =
      filter (\<lambda>r. cr_hostId r \<noteq> hostId) (cd_reservations db) \<and>
    (\<forall>r \<in> set (cd_reservations db). r \<in> set (cd_reservations db') \<or>
       cr_hostId r = hostId \<and> absenceProved (runById (cr_runId r)) (cr_runId r) desired actual)"
  using assms
proof (induction rows arbitrary: released db)
  case (Cons reservation rows)
  let ?run = "runById (cr_runId reservation)"
  show ?case
  proof (cases "cr_state reservation = RS_committed \<and> absenceProved ?run (cr_runId reservation) desired actual")
    case True
    obtain d db1 where s: "releaseCommitted hostId now ?run reservation db = (d, db1)" by fastforce
    let ?doomed = "\<lambda>r. reservationOf hostId (cr_runId reservation) r \<and> cr_state r = RS_committed"
    have f: "cd_desired db1 = cd_desired db" "cd_actual db1 = cd_actual db"
      "cd_reservations db1 = filter (\<lambda>r. \<not> ?doomed r) (cd_reservations db)"
      using s by (auto simp: releaseCommitted_def Let_def)
    have o: "filter (\<lambda>r. cr_hostId r \<noteq> hostId) (filter (\<lambda>r. \<not> ?doomed r) rs) =
        filter (\<lambda>r. cr_hostId r \<noteq> hostId) rs" for rs
      by (induction rs) (auto simp: reservationOf_def)
    obtain released' where "reconcileCommitted hostId now runById desired actual rows released' db1 = (rel, db')"
      using Cons.prems True s by (auto simp: Let_def)
    note ih = Cons.IH [OF this, unfolded f o]
    have "r \<in> set (cd_reservations db') \<or>
        cr_hostId r = hostId \<and> absenceProved (runById (cr_runId r)) (cr_runId r) desired actual"
      if "r \<in> set (cd_reservations db)" for r
      using ih that True by (cases "?doomed r") (auto simp: reservationOf_def)
    then show ?thesis using ih by (auto simp del: filter_filter)
  next
    case False
    then show ?thesis
      using Cons.prems Cons.IH [of released db]
        Cons.IH [of released "syncScenarioRuntimeResourceReservation
          (executionOf ?run (cr_runId reservation)) hostId (Some (cr_cpuMillis reservation))
          (Some RR_committed) now db"]
      by (cases "cr_state reservation = RS_committed") (simp_all add: Let_def)
  qed
qed simp

subsection \<open>Lemmas: durable dispatch\<close>

lemma projectedVmNames_iff:
  "projectedVmNames vms acc = Some names \<longleftrightarrow>
     (let ns = map (\<lambda>vm. js_trim (vm_runtimeVmName vm)) vms in
      [] \<notin> set ns \<and> distinct ns \<and> set ns \<inter> set acc = {} \<and> names = rev ns @ acc)"
proof (induction vms arbitrary: acc)
  case (Cons vm vms)
  show ?case
    by (cases "js_trim (vm_runtimeVmName vm) = []") (auto simp: Cons.IH Let_def or_null_def)
qed (auto simp: Let_def)

lemma desiredCpuTotal_iff:
  assumes "0 \<le> c" and "isSafeInteger c"
  shows "desiredCpuTotal projected vms seen c = Some t \<longleftrightarrow>
     set (map dv_vm_name vms) \<subseteq> set projected \<and> distinct (map dv_vm_name vms) \<and>
     set (map dv_vm_name vms) \<inter> set seen = {} \<and>
     (\<forall>vm \<in> set vms. 0 < rv_cpu_millis (dv_resources vm)) \<and>
     isSafeInteger (c + sum_list (map (\<lambda>vm. rv_cpu_millis (dv_resources vm)) vms)) \<and>
     t = c + sum_list (map (\<lambda>vm. rv_cpu_millis (dv_resources vm)) vms)"
  using assms
proof (induction vms arbitrary: seen c)
  case (Cons vm vms)
  let ?x = "rv_cpu_millis (dv_resources vm)"
  let ?rest = "sum_list (map (\<lambda>vm. rv_cpu_millis (dv_resources vm)) vms)"
  have rest: "0 \<le> ?rest" if "\<forall>vm \<in> set vms. 0 < rv_cpu_millis (dv_resources vm)"
    using that by (intro sum_list_nonneg) (auto intro: less_imp_le)
  show ?case
  proof (cases "0 < ?x \<and> isSafeInteger (c + ?x)")
    case True
    then have x: "isSafeInteger ?x" using Cons.prems by (auto simp: isSafeInteger_iff)
    have e: "js_add c ?x = c + ?x" using True by (simp add: js_add_safe)
    have nn: "0 \<le> c + ?x" using True Cons.prems by simp
    show ?thesis
      using Cons.IH [OF nn, of "dv_vm_name vm # seen"] True x
      by (auto simp: e Let_def add.assoc)
  next
    case False
    have "desiredCpuTotal projected (vm # vms) seen c = None"
    proof (cases "0 < ?x")
      case True
      then have "\<not> isSafeInteger (js_add c ?x)"
        using False Cons.prems by (intro js_add_unsafe) auto
      then show ?thesis by (simp add: Let_def)
    qed simp
    moreover have "\<not> (0 < ?x \<and> (\<forall>vm \<in> set vms. 0 < rv_cpu_millis (dv_resources vm)) \<and>
        isSafeInteger (c + (?x + ?rest)))"
    proof
      assume a: "0 < ?x \<and> (\<forall>vm \<in> set vms. 0 < rv_cpu_millis (dv_resources vm)) \<and>
        isSafeInteger (c + (?x + ?rest))"
      then have "isSafeInteger (c + ?x)" using rest Cons.prems by (auto simp: isSafeInteger_iff)
      then show False using a False by simp
    qed
    ultimately show ?thesis by auto
  qed
qed auto

lemma durable_iff:
  "pendingRunHasDurableDesiredVms run cpuMillis (Some desired) \<longleftrightarrow>
     (\<exists>doc. rn_stateJson run = Some doc \<and>
       (let names = map (\<lambda>vm. js_trim (vm_runtimeVmName vm)) (run_vms doc);
            vms = desiredRunning (rn_runId run) desired
        in 0 < rn_vmCount run \<and> int (length names) = rn_vmCount run \<and> [] \<notin> set names \<and> distinct names \<and>
           distinct (map dv_vm_name vms) \<and> set (map dv_vm_name vms) = set names \<and>
           (\<forall>vm \<in> set vms. 0 < rv_cpu_millis (dv_resources vm)) \<and>
           cpuMillis = sum_list (map (\<lambda>vm. rv_cpu_millis (dv_resources vm)) vms) \<and> isSafeInteger cpuMillis))"
proof (cases "rn_stateJson run")
  case (Some doc)
  let ?names = "map (\<lambda>vm. js_trim (vm_runtimeVmName vm)) (run_vms doc)"
  let ?vms = "desiredRunning (rn_runId run) desired"
  have same: "length ?vms = length ?names \<longleftrightarrow> set (map dv_vm_name ?vms) = set ?names"
    if "distinct ?names" "distinct (map dv_vm_name ?vms)" "set (map dv_vm_name ?vms) \<subseteq> set ?names"
    using that by (metis List.finite_set card_subset_eq distinct_card length_map)
  show ?thesis
  proof (cases "[] \<notin> set ?names \<and> distinct ?names")
    case True
    then have p: "projectedVmNames (run_vms doc) [] = Some (rev ?names)"
      by (simp add: projectedVmNames_iff Let_def)
    have z: "isSafeInteger 0" by (simp add: isSafeInteger_iff)
    have "pendingRunHasDurableDesiredVms run cpuMillis (Some desired) \<longleftrightarrow>
        0 < rn_vmCount run \<and> int (length ?names) = rn_vmCount run \<and> int (length ?vms) = rn_vmCount run \<and>
        desiredCpuTotal (rev ?names) ?vms [] 0 = Some cpuMillis"
      by (auto simp: pendingRunHasDurableDesiredVms_def Some p Let_def)
    then show ?thesis
      using same True desiredCpuTotal_iff [of 0 "rev ?names" ?vms "[]" cpuMillis] z
      by (auto simp: Some Let_def)
  next
    case False
    then have "projectedVmNames (run_vms doc) [] = None"
      by (cases "projectedVmNames (run_vms doc) []") (auto simp: projectedVmNames_iff Let_def)
    then show ?thesis using False by (auto simp: pendingRunHasDurableDesiredVms_def Some Let_def)
  qed
qed (simp add: pendingRunHasDurableDesiredVms_def)

lemma reconcile_tracks:
  assumes "lockedEnv env" and "distinct (map cr_runId (cd_reservations db))"
    and "reconcileHostCpuReservations env hostId now db = (res, db')"
  shows "filter (\<lambda>r. cr_hostId r \<noteq> hostId) (cd_reservations db') =
      filter (\<lambda>r. cr_hostId r \<noteq> hostId) (cd_reservations db)"
    "\<forall>r' \<in> set (cd_reservations db'). \<exists>r \<in> set (cd_reservations db). kept hostId r r'"
    "\<forall>r \<in> set (cd_reservations db). (\<exists>r' \<in> set (cd_reservations db'). kept hostId r r') \<or>
       expiredPending now r \<or>
       absenceProved (findRun (cr_runId r) db) (cr_runId r) (map_of (cd_desired db') hostId)
         (map_of (cd_actual db') hostId)"
proof -
  let ?Q = "\<lambda>db'. filter (\<lambda>r. cr_hostId r \<noteq> hostId) (cd_reservations db') =
      filter (\<lambda>r. cr_hostId r \<noteq> hostId) (cd_reservations db) \<and>
    (\<forall>r' \<in> set (cd_reservations db'). \<exists>r \<in> set (cd_reservations db). kept hostId r r') \<and>
    (\<forall>r \<in> set (cd_reservations db). (\<exists>r' \<in> set (cd_reservations db'). kept hostId r r') \<or>
       expiredPending now r \<or>
       absenceProved (findRun (cr_runId r) db) (cr_runId r) (map_of (cd_desired db') hostId)
         (map_of (cd_actual db') hostId))"
  let ?p = "\<lparr>rp_committedRunIds = [], rp_expiredRunIds = [], rp_desiredRow = map_of (cd_desired db) hostId,
      rp_db = db\<rparr>"
  let ?runById = "\<lambda>runId. findRun runId db"
  have "?Q db'"
  proof (cases "hostReservations hostId db = []")
    case True
    then have "db' = db" using assms(3) by (simp add: reconcileHostCpuReservations_def Let_def)
    then show ?thesis using kept_refl by blast
  next
    case False
    obtain e p where a: "reconcilePendingAll env hostId now ?runById (hostReservations hostId db) ?p = (e, p)"
      by fastforce
    have tr: "tracks hostId now (cd_reservations db) (cd_reservations (rp_db p))"
      by (rule pendingAll_tracks [OF assms(1) _ assms(2) _ _ a])
         (auto simp: findRun_id tracks_refl hostReservations_def)
    show ?thesis
    proof (cases e)
      case (Some err)
      then have "db' = rp_db p" using assms(3) a False by (simp add: reconcileHostCpuReservations_def Let_def)
      then show ?thesis using tr unfolding tracks_def by blast
    next
      case None
      obtain rel db2 where c: "reconcileCommitted hostId now ?runById (map_of (cd_desired (rp_db p)) hostId)
          (map_of (cd_actual (rp_db p)) hostId) (hostReservations hostId (rp_db p)) [] (rp_db p) = (rel, db2)"
        by fastforce
      then have "db' = db2"
        using assms(3) a None False by (simp add: reconcileHostCpuReservations_def Let_def)
      note cp = committed_pass [OF c [folded this]]
      have same_id: "cr_runId r' = cr_runId r" if "kept hostId r r'" for r r' using that by (simp add: kept_def)
      show ?thesis
      proof (intro conjI ballI)
        show "filter (\<lambda>r. cr_hostId r \<noteq> hostId) (cd_reservations db') =
            filter (\<lambda>r. cr_hostId r \<noteq> hostId) (cd_reservations db)"
          using cp tr by (simp only: tracks_def)
        show "\<exists>r \<in> set (cd_reservations db). kept hostId r r'"
          if "r' \<in> set (cd_reservations db')" for r'
          using cp tr that unfolding tracks_def by blast
        show "(\<exists>r' \<in> set (cd_reservations db'). kept hostId r r') \<or> expiredPending now r \<or>
            absenceProved (findRun (cr_runId r) db) (cr_runId r) (map_of (cd_desired db') hostId)
              (map_of (cd_actual db') hostId)" if r: "r \<in> set (cd_reservations db)" for r
        proof (cases "expiredPending now r")
          case False
          then obtain r' where r': "r' \<in> set (cd_reservations (rp_db p))" "kept hostId r r'"
            using tr r unfolding tracks_def by blast
          then show ?thesis using cp same_id [OF r'(2)] by fastforce
        qed simp
      qed
    qed
  qed
  then show "filter (\<lambda>r. cr_hostId r \<noteq> hostId) (cd_reservations db') =
      filter (\<lambda>r. cr_hostId r \<noteq> hostId) (cd_reservations db)"
    "\<forall>r' \<in> set (cd_reservations db'). \<exists>r \<in> set (cd_reservations db). kept hostId r r'"
    "\<forall>r \<in> set (cd_reservations db). (\<exists>r' \<in> set (cd_reservations db'). kept hostId r r') \<or>
       expiredPending now r \<or>
       absenceProved (findRun (cr_runId r) db) (cr_runId r) (map_of (cd_desired db') hostId)
         (map_of (cd_actual db') hostId)" by blast+
qed

subsection \<open>Properties\<close>



text \<open>
  C39. The check for a durable dispatch means what it says: it holds exactly when the run document names
  all its VMs, distinctly, the running VMs desired for the run are these VMs, each once and with a
  positive CPU request, and their exact total is the reserved amount.
\<close>

theorem durable_dispatch_exact:
  "pendingRunHasDurableDesiredVms run cpuMillis (Some desired) \<longleftrightarrow>
     (\<exists>doc. rn_stateJson run = Some doc \<and>
       (let names = map (\<lambda>vm. js_trim (vm_runtimeVmName vm)) (run_vms doc);
            vms = desiredRunning (rn_runId run) desired
        in 0 < rn_vmCount run \<and> int (length names) = rn_vmCount run \<and> [] \<notin> set names \<and> distinct names \<and>
           distinct (map dv_vm_name vms) \<and> set (map dv_vm_name vms) = set names \<and>
           (\<forall>vm \<in> set vms. 0 < rv_cpu_millis (dv_resources vm)) \<and>
           cpuMillis = sum_list (map (\<lambda>vm. rv_cpu_millis (dv_resources vm)) vms) \<and> isSafeInteger cpuMillis))"
  by (rule durable_iff)

theorem durable_dispatch_exact_witness:
  "distinct (map dv_vm_name (desiredRunning ''run-1'' sampleDesiredDoc)) \<and>
   set (map dv_vm_name (desiredRunning ''run-1'' sampleDesiredDoc)) = {''run-1-web''}"
proof -
  have "pendingRunHasDurableDesiredVms sampleRun 1000 (Some sampleDesiredDoc)" by code_simp
  moreover have "rn_runId sampleRun = ''run-1''" "rn_stateJson sampleRun = Some (buildInitialRunState [sampleSeed])"
    by (simp_all add: sampleRun_def)
  moreover have "map (\<lambda>vm. js_trim (vm_runtimeVmName vm)) (run_vms (buildInitialRunState [sampleSeed])) = [''run-1-web'']"
    by code_simp
  ultimately show ?thesis
    using durable_dispatch_exact [of sampleRun 1000 sampleDesiredDoc] by (auto simp: Let_def)
qed

end
