(* ===== verification/Sql_Tables.thy ===== *)
theory Sql_Tables
  imports Js_Prelude
begin

section \<open>Tables, statements and batches\<close>

text \<open>
  A table is the list of its rows. A statement maps a database to the number of rows it changed and the
  database after it, or fails on a constraint. A batch runs its statements in order as one transaction:
  the first failure undoes all of it, which is the value \<^const>\<open>Inl\<close> and no database.
\<close>

type_synonym ('e, 'd) stmt = "'d \<Rightarrow> 'e + nat \<times> 'd"

definition sql_update :: "('r \<Rightarrow> bool) \<Rightarrow> ('r \<Rightarrow> 'r) \<Rightarrow> 'r list \<Rightarrow> 'r list" where
  "sql_update cond set_row rows = map (\<lambda>r. if cond r then set_row r else r) rows"

definition sql_delete :: "('r \<Rightarrow> bool) \<Rightarrow> 'r list \<Rightarrow> 'r list" where
  "sql_delete cond rows = filter (\<lambda>r. \<not> cond r) rows"

definition sql_count :: "('r \<Rightarrow> bool) \<Rightarrow> 'r list \<Rightarrow> nat" where
  "sql_count cond rows = length (filter cond rows)"

fun runBatch :: "('e, 'd) stmt list \<Rightarrow> 'd \<Rightarrow> 'e + nat list \<times> 'd" where
  "runBatch [] db = Inr ([], db)"
| "runBatch (s # ss) db =
     (case s db of
        Inl e \<Rightarrow> Inl e
      | Inr (n, db1) \<Rightarrow>
          (case runBatch ss db1 of
             Inl e \<Rightarrow> Inl e
           | Inr (ns, db2) \<Rightarrow> Inr (n # ns, db2)))"

subsection \<open>Lemmas\<close>

lemma sql_count_0: "sql_count cond rows = 0 \<longleftrightarrow> (\<forall>r \<in> set rows. \<not> cond r)"
  by (simp add: sql_count_def filter_empty_conv)

lemma sql_update_none: "(\<And>r. r \<in> set rows \<Longrightarrow> \<not> cond r) \<Longrightarrow> sql_update cond f rows = rows"
  by (simp add: sql_update_def map_idI)

lemma sql_delete_none: "(\<And>r. r \<in> set rows \<Longrightarrow> \<not> cond r) \<Longrightarrow> sql_delete cond rows = rows"
  by (simp add: sql_delete_def)

lemma set_sql_delete [simp]: "set (sql_delete cond rows) = {r \<in> set rows. \<not> cond r}"
  by (simp add: sql_delete_def)

lemma set_sql_update: "r' \<in> set (sql_update cond f rows) \<longleftrightarrow>
    (\<exists>r \<in> set rows. r' = (if cond r then f r else r))"
  by (auto simp: sql_update_def)

lemma sql_update_mem: "r \<in> set rows \<Longrightarrow> (if cond r then f r else r) \<in> set (sql_update cond f rows)"
  by (auto simp: sql_update_def)

lemma map_sql_update: "(\<And>r. g (f r) = g r) \<Longrightarrow> map g (sql_update cond f rows) = map g rows"
  by (simp add: sql_update_def)

lemma length_sql_update [simp]: "length (sql_update cond f rows) = length rows"
  by (simp add: sql_update_def)

lemma distinct_map_sql_delete: "distinct (map g rows) \<Longrightarrow> distinct (map g (sql_delete cond rows))"
  by (simp add: sql_delete_def distinct_map_filter)

lemma find_sql_update:
  assumes "\<And>r. p (f r) = p r"
  shows "find p (sql_update cond f rows) = map_option (\<lambda>r. if cond r then f r else r) (find p rows)"
  using assms by (induction rows) (auto simp: sql_update_def)

lemma find_Some_mem: "find P xs = Some x \<Longrightarrow> x \<in> set xs \<and> P x"
  by (metis find_Some_iff nth_mem)

lemma sql_count_unique:
  assumes "distinct (map key rows)" and "r \<in> set rows" and "cond r" and "\<And>x. x \<in> set rows \<Longrightarrow> cond x \<Longrightarrow> key x = key r"
  shows "sql_count cond rows = 1"
proof -
  have "inj_on key (set rows)" "distinct rows" using assms(1) by (simp_all add: distinct_map)
  then have "{x \<in> set rows. cond x} = {r}" using assms(2-4) by (auto dest: inj_onD)
  then show ?thesis using distinct_card [of "filter cond rows"] \<open>distinct rows\<close> by (simp add: sql_count_def)
qed

lemma sql_update_all:
  assumes "\<And>r. cond r \<Longrightarrow> P (f r)" and "\<And>r. \<not> cond r \<Longrightarrow> P r"
  shows "\<forall>r \<in> set (sql_update cond f rows). P r"
proof
  fix r assume "r \<in> set (sql_update cond f rows)"
  then obtain r0 where "r = (if cond r0 then f r0 else r0)" using set_sql_update by metis
  then show "P r" using assms by (cases "cond r0") simp_all
qed

lemma runBatch_append:
  "runBatch (ss @ ts) db =
     (case runBatch ss db of
        Inl e \<Rightarrow> Inl e
      | Inr (ns, db1) \<Rightarrow>
          (case runBatch ts db1 of Inl e \<Rightarrow> Inl e | Inr (ms, db2) \<Rightarrow> Inr (ns @ ms, db2)))"
  by (induction ss arbitrary: db) (auto split: sum.splits)

lemma runBatch_ConsE:
  assumes "runBatch (s # ss) db = Inr (ns, db')"
  obtains n ms db1 where "s db = Inr (n, db1)" "runBatch ss db1 = Inr (ms, db')" "ns = n # ms"
  using assms by (auto split: sum.splits)

text \<open>What every statement of a batch keeps from before to after, the batch keeps.\<close>

locale batch_relation =
  fixes R :: "'d \<Rightarrow> 'd \<Rightarrow> bool"
  assumes R_refl: "R db db"
    and R_trans: "R a b \<Longrightarrow> R b c \<Longrightarrow> R a c"
begin

definition obeys :: "('e, 'd) stmt \<Rightarrow> bool" where
  "obeys s \<longleftrightarrow> (\<forall>db n db'. s db = Inr (n, db') \<longrightarrow> R db db')"

lemma batch_obeys:
  "list_all obeys ss \<Longrightarrow> runBatch ss db = Inr (ns, db') \<Longrightarrow> R db db'"
proof (induction ss arbitrary: db ns)
  case Nil
  then show ?case by (simp add: R_refl)
next
  case (Cons s ss)
  from Cons.prems(2) obtain n ms db1
    where s: "s db = Inr (n, db1)" and b: "runBatch ss db1 = Inr (ms, db')"
    by (rule runBatch_ConsE)
  have "R db db1" using Cons.prems(1) s by (auto simp: obeys_def)
  moreover have "R db1 db'" using Cons.IH [OF _ b] Cons.prems(1) by simp
  ultimately show ?case by (rule R_trans)
qed

end

end
