(* ===== verification/Runtime_Executions.thy ===== *)
theory Runtime_Executions
  imports Cpu_Reservations Sql_Tables
begin

section \<open>The runtime ledger\<close>

text \<open>
  The ledger of runtime executions, \<^verbatim>\<open>src/apps/web/src/lib/runtime-executions.ts\<close>: one row per execution
  with the generation of its domain, its VMs, its resource reservation and the slot of the user whose
  active runtime it is. Every write is conditional on the generation being current when it runs, which may
  be later than the read before it: the other writers are the function \<open>env\<close> between the two. The
  projection statements follow the scenario run of the same batch. The second part is
  \<^verbatim>\<open>src/apps/web/src/lib/runtime-vm-state.ts\<close>, which stores what a host reports of a VM.

  Of the table constraints the keys, the positive generation and amounts and the completeness of a
  terminal target are modelled; references to rows of other tables hold. The encryption of a private key
  is the parameter \<open>encrypt\<close> of the secret, the context and the plain text; fresh identifiers are the
  parameter \<open>newId\<close>.
\<close>

subsection \<open>Tables\<close>

datatype RuntimeExecutionState = ES_queued | ES_provisioning | ES_ready | ES_archiving | ES_archived | ES_failed

record RuntimeExecution =
  re_id :: string
  re_userId :: string
  re_organizationId :: "string option"
  re_hostId :: "string option"
  re_providerConnectionId :: "string option"
  re_domainKind :: string
  re_domainId :: string
  re_generation :: int
  re_checkpointId :: "string option"
  re_state :: RuntimeExecutionState
  re_leaseExpiresAt :: "int option"
  re_archiveRequestedAt :: "int option"
  re_endedAt :: "int option"
  re_createdAt :: int
  re_updatedAt :: int

record StoredTerminalTarget =
  st_host :: string
  st_port :: int
  st_username :: string
  st_hostKeyOpenssh :: string
  st_privateKeyCiphertextB64 :: string
  st_privateKeyIvB64 :: string
  st_observedAt :: int

record RuntimeVm =
  rvm_id :: string
  rvm_executionId :: string
  rvm_vmId :: string
  rvm_ordinal :: int
  rvm_runtimeVmName :: string
  rvm_imageKeyJson :: json
  rvm_imageSha256 :: string
  rvm_cpuMillis :: int
  rvm_memoryMib :: int
  rvm_diskMib :: int
  rvm_terminal :: "StoredTerminalTarget option"
  rvm_createdAt :: int
  rvm_updatedAt :: int

record ActiveRuntimeSlot =
  sl_userId :: string
  sl_executionId :: string
  sl_acquiredAt :: int

record RuntimeVmAccessKeyRow =
  ak_runtimeVmId :: string
  ak_executionId :: string
  ak_publicKeyOpenssh :: string
  ak_privateKeyCiphertextB64 :: string
  ak_privateKeyIvB64 :: string

record RuntimeVmActualStateRow =
  vas_runtimeVmId :: string
  vas_executionId :: string
  vas_hostId :: string
  vas_phase :: BridgeVmPhase
  vas_desiredVersion :: "int option"
  vas_reportJson :: VmActualStateV2
  vas_observedAt :: int
  vas_updatedAt :: int

record LedgerDb =
  xd_executions :: "RuntimeExecution list"
  xd_vms :: "RuntimeVm list"
  xd_reservations :: "ResourceReservation list"
  xd_slots :: "ActiveRuntimeSlot list"
  xd_runs :: "RunRow list"
  xd_hosts :: "HostRow list"
  xd_accessKeys :: "RuntimeVmAccessKeyRow list"
  xd_actual :: "RuntimeVmActualStateRow list"

datatype ConstraintError =
  SlotTaken | ActiveKeyTaken | DomainGenerationTaken | GenerationNotPositive | OtherConstraint

type_synonym ledger_stmt = "(ConstraintError, LedgerDb) stmt"

subsection \<open>Errors and input checks\<close>

datatype RuntimeError =
    InvalidRuntimeInput string
  | ProviderIdentityInvalid
  | ExecutionNotFound
  | GenerationStale string string int
  | ActiveSlotConflict
  | GenerationConflict
  | IdentityMismatch
  | AuthorizationChanged
  | RuntimeVmNotFound
  | AccessKeyMissing
  | KeySecretMissing
  | KeyUndecipherable
  | DatabaseFailure ConstraintError

definition result_bind :: "'e + 'a \<Rightarrow> ('a \<Rightarrow> 'e + 'b) \<Rightarrow> 'e + 'b" where
  "result_bind r f = (case r of Inl e \<Rightarrow> Inl e | Inr x \<Rightarrow> f x)"

definition requiredId :: "string \<Rightarrow> string \<Rightarrow> RuntimeError + string" where
  "requiredId value name =
     (let normalized = js_trim value in
      if normalized = [] then Inl (InvalidRuntimeInput name) else Inr normalized)"

definition normalizedOptionalId :: "string option \<Rightarrow> RuntimeError + string option" where
  "normalizedOptionalId value =
     (case value of
        None \<Rightarrow> Inr None
      | Some v \<Rightarrow> result_bind (requiredId v ''identifier'') (\<lambda>id. Inr (Some id)))"

definition positiveInteger :: "int \<Rightarrow> string \<Rightarrow> RuntimeError + int" where
  "positiveInteger value name =
     (if \<not> isSafeInteger value \<or> value \<le> 0 then Inl (InvalidRuntimeInput name) else Inr value)"

definition nonNegativeInteger :: "int \<Rightarrow> string \<Rightarrow> RuntimeError + int" where
  "nonNegativeInteger value name =
     (if \<not> isSafeInteger value \<or> value < 0 then Inl (InvalidRuntimeInput name) else Inr value)"

definition validTimestamp :: "int \<Rightarrow> string \<Rightarrow> RuntimeError + int" where
  "validTimestamp value name = nonNegativeInteger value name"

definition optionalTimestamp :: "int option \<Rightarrow> string \<Rightarrow> RuntimeError + int option" where
  "optionalTimestamp value name =
     (case value of
        None \<Rightarrow> Inr None
      | Some v \<Rightarrow> result_bind (validTimestamp v name) (\<lambda>t. Inr (Some t)))"

definition validateProviderIdentity :: "string option \<Rightarrow> RuntimeError + unit" where
  "validateProviderIdentity providerConnectionId =
     (if providerConnectionId \<noteq> None then Inl ProviderIdentityInvalid else Inr ())"

definition isActiveRuntimeSlotConflict :: "ConstraintError \<Rightarrow> bool" where
  "isActiveRuntimeSlotConflict e \<longleftrightarrow> e = SlotTaken \<or> e = ActiveKeyTaken"

subsection \<open>Current generations\<close>

definition newerThan :: "RuntimeExecution \<Rightarrow> RuntimeExecution \<Rightarrow> bool" where
  "newerThan newer e \<longleftrightarrow>
     re_domainKind newer = re_domainKind e \<and> re_domainId newer = re_domainId e \<and>
     re_generation e < re_generation newer"

definition isNewest :: "LedgerDb \<Rightarrow> RuntimeExecution \<Rightarrow> bool" where
  "isNewest db e \<longleftrightarrow> \<not> list_ex (\<lambda>newer. newerThan newer e) (xd_executions db)"

definition currentGuard :: "LedgerDb \<Rightarrow> string \<Rightarrow> int \<Rightarrow> bool" where
  "currentGuard db executionId generation \<longleftrightarrow>
     list_ex (\<lambda>e. re_id e = executionId \<and> re_generation e = generation \<and> isNewest db e) (xd_executions db)"

definition domainGeneration :: "LedgerDb \<Rightarrow> RuntimeExecution \<Rightarrow> int" where
  "domainGeneration db e =
     fold max (map re_generation (filter (\<lambda>c. re_domainKind c = re_domainKind e \<and>
       re_domainId c = re_domainId e) (xd_executions db))) (re_generation e)"

definition loadRuntimeExecutionIdentity :: "LedgerDb \<Rightarrow> string \<Rightarrow> (RuntimeExecution \<times> int) option" where
  "loadRuntimeExecutionIdentity db executionId =
     map_option (\<lambda>e. (e, domainGeneration db e))
       (find (\<lambda>e. re_id e = executionId) (xd_executions db))"

definition runtimeGenerationStale :: "RuntimeExecution \<times> int \<Rightarrow> RuntimeError" where
  "runtimeGenerationStale row =
     GenerationStale (re_domainKind (fst row)) (re_domainId (fst row)) (snd row)"

definition requireCurrentRuntimeGeneration ::
  "LedgerDb \<Rightarrow> string \<Rightarrow> int \<Rightarrow> RuntimeError + RuntimeExecution \<times> int" where
  "requireCurrentRuntimeGeneration db executionId expectedGeneration =
     result_bind (requiredId executionId ''executionId'') (\<lambda>normalizedExecutionId.
     result_bind (positiveInteger expectedGeneration ''expectedGeneration'') (\<lambda>normalizedGeneration.
       case loadRuntimeExecutionIdentity db normalizedExecutionId of
         None \<Rightarrow> Inl ExecutionNotFound
       | Some row \<Rightarrow>
           (if re_generation (fst row) \<noteq> normalizedGeneration \<or> snd row \<noteq> normalizedGeneration
            then Inl (runtimeGenerationStale row) else Inr row)))"

definition rejectIfGenerationRaced ::
  "LedgerDb \<Rightarrow> RuntimeExecution \<times> int \<Rightarrow> int \<Rightarrow> nat \<Rightarrow> RuntimeError + unit" where
  "rejectIfGenerationRaced db execution expectedGeneration mutationChanges =
     (if 0 < mutationChanges then Inr ()
      else
        (case loadRuntimeExecutionIdentity db (re_id (fst execution)) of
           None \<Rightarrow> Inl (runtimeGenerationStale execution)
         | Some current \<Rightarrow>
             (if re_generation (fst current) \<noteq> expectedGeneration \<or> snd current \<noteq> expectedGeneration
              then Inl (runtimeGenerationStale current) else Inr ())))"

subsection \<open>Inserts\<close>

definition insertExecution :: "RuntimeExecution \<Rightarrow> ledger_stmt" where
  "insertExecution row db =
     (if re_generation row \<le> 0 then Inl GenerationNotPositive
      else if list_ex (\<lambda>e. re_id e = re_id row) (xd_executions db) then Inl OtherConstraint
      else if list_ex (\<lambda>e. re_domainKind e = re_domainKind row \<and> re_domainId e = re_domainId row \<and>
                re_generation e = re_generation row) (xd_executions db)
      then Inl DomainGenerationTaken
      else Inr (1, db\<lparr>xd_executions := xd_executions db @ [row]\<rparr>))"

definition insertVm :: "RuntimeVm \<Rightarrow> ledger_stmt" where
  "insertVm row db =
     (if rvm_ordinal row < 0 \<or> rvm_cpuMillis row \<le> 0 \<or> rvm_memoryMib row \<le> 0 \<or> rvm_diskMib row \<le> 0 \<or>
         list_ex (\<lambda>v. rvm_id v = rvm_id row \<or>
           rvm_executionId v = rvm_executionId row \<and>
           (rvm_vmId v = rvm_vmId row \<or> rvm_ordinal v = rvm_ordinal row \<or>
            rvm_runtimeVmName v = rvm_runtimeVmName row)) (xd_vms db)
      then Inl OtherConstraint else Inr (1, db\<lparr>xd_vms := xd_vms db @ [row]\<rparr>))"

definition resourceReservationInsert :: "ResourceReservation \<Rightarrow> ledger_stmt" where
  "resourceReservationInsert row db =
     (if rr_cpuMillis row \<le> 0 \<or> rr_memoryMib row \<le> 0 \<or> rr_worstCaseDiskMib row \<le> 0 \<or>
         list_ex (\<lambda>r. rr_executionId r = rr_executionId row) (xd_reservations db)
      then Inl OtherConstraint
      else Inr (1, db\<lparr>xd_reservations := xd_reservations db @ [row]\<rparr>))"

definition insertSlots :: "ActiveRuntimeSlot list \<Rightarrow> ledger_stmt" where
  "insertSlots rows db =
     (let all = xd_slots db @ rows in
      if distinct (map sl_userId all) \<and> distinct (map sl_executionId all)
      then Inr (length rows, db\<lparr>xd_slots := all\<rparr>) else Inl SlotTaken)"

subsection \<open>The projection of a scenario run\<close>

datatype ProjectionMode = PM_create | PM_update

fun executionStateOf :: "RunPhase \<Rightarrow> RuntimeExecutionState" where
  "executionStateOf RP_queued = ES_queued"
| "executionStateOf RP_provisioning = ES_provisioning"
| "executionStateOf RP_teardown_requested = ES_archiving"
| "executionStateOf RP_tearing_down = ES_archiving"
| "executionStateOf RP_archiving = ES_archiving"
| "executionStateOf RP_completed = ES_archived"
| "executionStateOf RP_failed = ES_failed"
| "executionStateOf RP_active_partial = ES_ready"
| "executionStateOf RP_active_full = ES_ready"
| "executionStateOf RP_solved = ES_ready"

definition archiveStarted :: "RunPhase \<Rightarrow> bool" where
  "archiveStarted phase \<longleftrightarrow>
     phase \<in> {RP_teardown_requested, RP_tearing_down, RP_archiving, RP_completed, RP_failed}"

definition runEndedAt :: "RunRow \<Rightarrow> int option" where
  "runEndedAt run =
     (if rn_state run = RP_completed then Some (coalesce (rn_completedAt run) (rn_updatedAt run))
      else if rn_state run = RP_failed then Some (coalesce (rn_failedAt run) (rn_updatedAt run))
      else None)"

definition executionIdOf :: "RunRow \<Rightarrow> string" where
  "executionIdOf run = coalesce (rn_runtimeExecutionId run) (rn_runId run)"

definition findLedgerRun :: "string \<Rightarrow> LedgerDb \<Rightarrow> RunRow option" where
  "findLedgerRun runId db = find (\<lambda>run. rn_runId run = runId) (xd_runs db)"

definition projectInsertExecution :: "string \<Rightarrow> ledger_stmt" where
  "projectInsertExecution runId db =
     (case findLedgerRun runId db of
        None \<Rightarrow> Inr (0, db)
      | Some run \<Rightarrow>
          (if list_ex (\<lambda>e. re_id e = executionIdOf run) (xd_executions db) then Inr (0, db)
           else
             insertExecution
               \<lparr>re_id = executionIdOf run, re_userId = rn_userId run,
                re_organizationId = rn_organizationId run, re_hostId = Some (rn_hostId run),
                re_providerConnectionId = None, re_domainKind = ''scenario'', re_domainId = rn_runId run,
                re_generation = 1, re_checkpointId = None, re_state = executionStateOf (rn_state run),
                re_leaseExpiresAt = None,
                re_archiveRequestedAt =
                  (if archiveStarted (rn_state run) then Some (rn_updatedAt run) else None),
                re_endedAt = runEndedAt run, re_createdAt = rn_createdAt run,
                re_updatedAt = rn_updatedAt run\<rparr> db))"

text \<open>The identity an execution of a run must have, and the sentinel row that fails when it has another.\<close>

definition executionOfRun :: "RunRow \<Rightarrow> RuntimeExecution \<Rightarrow> bool" where
  "executionOfRun run e \<longleftrightarrow>
     re_userId e = rn_userId run \<and> re_organizationId e = rn_organizationId run \<and>
     re_domainKind e = ''scenario'' \<and> re_domainId e = rn_runId run \<and> re_generation e = 1"

definition projectIdentitySentinel :: "string \<Rightarrow> ledger_stmt" where
  "projectIdentitySentinel runId db =
     (case findLedgerRun runId db of
        None \<Rightarrow> Inr (0, db)
      | Some run \<Rightarrow>
          (if list_ex (\<lambda>e. re_id e = executionIdOf run \<and> \<not> executionOfRun run e) (xd_executions db)
           then
             insertExecution
               \<lparr>re_id = ''__scenario_projection_mismatch__:'' @ rn_runId run, re_userId = rn_userId run,
                re_organizationId = rn_organizationId run, re_hostId = Some (rn_hostId run),
                re_providerConnectionId = None, re_domainKind = ''scenario'', re_domainId = rn_runId run,
                re_generation = 0, re_checkpointId = None, re_state = ES_queued, re_leaseExpiresAt = None,
                re_archiveRequestedAt = None, re_endedAt = None, re_createdAt = rn_createdAt run,
                re_updatedAt = rn_updatedAt run\<rparr> db
           else Inr (0, db)))"

definition projectReferenceExecution :: "string \<Rightarrow> ledger_stmt" where
  "projectReferenceExecution runId db =
     (let cond = (\<lambda>run. rn_runId run = runId \<and> rn_runtimeExecutionId run = None);
          runs = sql_update cond (\<lambda>run. run\<lparr>rn_runtimeExecutionId := Some (rn_runId run)\<rparr>) (xd_runs db)
      in if distinct (List.map_filter rn_runtimeExecutionId runs)
         then Inr (sql_count cond (xd_runs db), db\<lparr>xd_runs := runs\<rparr>) else Inl OtherConstraint)"

definition mirrorRun :: "RunRow \<Rightarrow> RuntimeExecution \<Rightarrow> RuntimeExecution" where
  "mirrorRun run e =
     e\<lparr>re_hostId := Some (rn_hostId run), re_state := executionStateOf (rn_state run),
       re_archiveRequestedAt :=
         (if archiveStarted (rn_state run)
          then Some (coalesce (re_archiveRequestedAt e) (rn_updatedAt run)) else re_archiveRequestedAt e),
       re_endedAt := (case runEndedAt run of None \<Rightarrow> re_endedAt e | Some t \<Rightarrow> Some t),
       re_updatedAt := rn_updatedAt run\<rparr>"

definition mirrored :: "RunRow \<Rightarrow> RuntimeExecution \<Rightarrow> bool" where
  "mirrored run e \<longleftrightarrow>
     rn_runtimeExecutionId run = Some (re_id e) \<and> re_domainKind e = ''scenario'' \<and>
     re_domainId e = rn_runId run \<and> re_state e \<noteq> ES_archived"

definition projectMirror :: "string \<Rightarrow> ledger_stmt" where
  "projectMirror runId db =
     (case findLedgerRun runId db of
        None \<Rightarrow> Inr (0, db)
      | Some run \<Rightarrow>
          Inr (sql_count (mirrored run) (xd_executions db),
               db\<lparr>xd_executions := sql_update (mirrored run) (mirrorRun run) (xd_executions db)\<rparr>))"

definition projectDropSlot :: "string \<Rightarrow> ledger_stmt" where
  "projectDropSlot runId db =
     (case findLedgerRun runId db of
        None \<Rightarrow> Inr (0, db)
      | Some run \<Rightarrow>
          (let cond = (\<lambda>slot. rn_activeKey run = None \<and>
                        rn_runtimeExecutionId run = Some (sl_executionId slot))
           in Inr (sql_count cond (xd_slots db), db\<lparr>xd_slots := sql_delete cond (xd_slots db)\<rparr>)))"

definition projectTakeSlot :: "string \<Rightarrow> ProjectionMode \<Rightarrow> ledger_stmt" where
  "projectTakeSlot runId mode db =
     (case findLedgerRun runId db of
        None \<Rightarrow> Inr (0, db)
      | Some run \<Rightarrow>
          (case rn_runtimeExecutionId run of
             None \<Rightarrow> Inr (0, db)
           | Some executionId \<Rightarrow>
               (if rn_activeKey run \<noteq> None \<and>
                   list_ex (\<lambda>e. re_id e = executionId \<and> re_state e \<noteq> ES_archived) (xd_executions db) \<and>
                   \<not> list_ex (\<lambda>slot. sl_userId slot = rn_userId run \<and> sl_executionId slot = executionId)
                       (xd_slots db)
                then
                  insertSlots
                    [\<lparr>sl_userId = rn_userId run, sl_executionId = executionId,
                      sl_acquiredAt =
                        (if mode = PM_create then rn_createdAt run else rn_updatedAt run)\<rparr>] db
                else Inr (0, db))))"

definition scenarioRunRuntimeProjectionStatements :: "string \<Rightarrow> ProjectionMode \<Rightarrow> ledger_stmt list" where
  "scenarioRunRuntimeProjectionStatements runId mode =
     (if mode = PM_create
      then [projectInsertExecution runId, projectIdentitySentinel runId, projectReferenceExecution runId]
      else []) @
     [projectMirror runId, projectDropSlot runId, projectTakeSlot runId mode]"

definition executeScenarioRunRuntimeProjection ::
  "string \<Rightarrow> ledger_stmt list \<Rightarrow> ProjectionMode \<Rightarrow> LedgerDb \<Rightarrow> (RuntimeError + nat list) \<times> LedgerDb" where
  "executeScenarioRunRuntimeProjection runId statements mode db =
     (case requiredId runId ''runId'' of
        Inl e \<Rightarrow> (Inl e, db)
      | Inr normalizedRunId \<Rightarrow>
          (case runBatch (statements @ scenarioRunRuntimeProjectionStatements normalizedRunId mode) db of
             Inl e \<Rightarrow>
               (Inl (if isActiveRuntimeSlotConflict e then ActiveSlotConflict
                     else if e = GenerationNotPositive then IdentityMismatch
                     else DatabaseFailure e), db)
           | Inr (changes, db') \<Rightarrow> (Inr changes, db')))"

text \<open>Deleting executions takes everything that references them along.\<close>

definition deleteExecutions :: "(RuntimeExecution \<Rightarrow> bool) \<Rightarrow> ledger_stmt" where
  "deleteExecutions cond db =
     (let gone = map re_id (filter cond (xd_executions db)) in
      Inr (length gone,
           db\<lparr>xd_executions := sql_delete cond (xd_executions db),
              xd_vms := sql_delete (\<lambda>v. rvm_executionId v \<in> set gone) (xd_vms db),
              xd_reservations := sql_delete (\<lambda>r. rr_executionId r \<in> set gone) (xd_reservations db),
              xd_slots := sql_delete (\<lambda>s. sl_executionId s \<in> set gone) (xd_slots db),
              xd_runs := sql_update (\<lambda>run. \<exists>id \<in> set gone. rn_runtimeExecutionId run = Some id)
                (\<lambda>run. run\<lparr>rn_runtimeExecutionId := None\<rparr>) (xd_runs db),
              xd_accessKeys := sql_delete (\<lambda>k. ak_executionId k \<in> set gone) (xd_accessKeys db),
              xd_actual := sql_delete (\<lambda>a. vas_executionId a \<in> set gone) (xd_actual db)\<rparr>))"

definition deleteRun :: "string \<Rightarrow> string option \<Rightarrow> ledger_stmt" where
  "deleteRun runId userId db =
     (let cond = (\<lambda>run. rn_runId run = runId \<and> (userId = None \<or> userId = Some (rn_userId run)))
      in Inr (sql_count cond (xd_runs db), db\<lparr>xd_runs := sql_delete cond (xd_runs db)\<rparr>))"

definition deleteOrphanedExecutions :: "string \<Rightarrow> ledger_stmt" where
  "deleteOrphanedExecutions runId db =
     (if findLedgerRun runId db = None
      then deleteExecutions (\<lambda>e. re_domainKind e = ''scenario'' \<and> re_domainId e = runId) db
      else Inr (0, db))"

definition deleteScenarioRunRuntimeProjection ::
  "string \<Rightarrow> string option \<Rightarrow> ledger_stmt list option \<Rightarrow> LedgerDb \<Rightarrow> (RuntimeError + bool) \<times> LedgerDb" where
  "deleteScenarioRunRuntimeProjection runId userId statements db =
     (case result_bind (requiredId runId ''runId'') (\<lambda>r.
           result_bind (normalizedOptionalId userId) (\<lambda>u. Inr (r, u))) of
        Inl e \<Rightarrow> (Inl e, db)
      | Inr (r, u) \<Rightarrow>
          (let deleteStatements = coalesce statements [deleteRun r u] in
           if deleteStatements = []
           then (Inl (InvalidRuntimeInput ''a scenario delete requires a mutation statement''), db)
           else
             (case runBatch (deleteStatements @ [deleteOrphanedExecutions r]) db of
                Inl e \<Rightarrow> (Inl (DatabaseFailure e), db)
              | Inr (changes, db') \<Rightarrow> (Inr (0 < hd changes), db'))))"

subsection \<open>Creating an execution\<close>

record RuntimeVmSpec =
  vs_vmId :: string
  vs_ordinal :: int
  vs_runtimeVmName :: string
  vs_imageKey :: json
  vs_imageSha256 :: string
  vs_cpuMillis :: int
  vs_memoryMib :: int
  vs_diskMib :: int

record CreateRuntimeExecutionInput =
  ci_executionId :: "string option"
  ci_userId :: string
  ci_organizationId :: "string option"
  ci_hostId :: "string option"
  ci_providerConnectionId :: "string option"
  ci_domainKind :: string
  ci_domainId :: string
  ci_checkpointId :: "string option"
  ci_leaseExpiresAt :: "int option"
  ci_vms :: "RuntimeVmSpec list"
  ci_claimActiveSlot :: bool
  ci_reservationState :: "ResourceState option"
  ci_reservationExpiresAt :: "int option"
  ci_reservationResources :: "RuntimeResourceDemand option"
  ci_now :: int

text \<open>An optional statement of a batch.\<close>

definition option_list :: "'a option \<Rightarrow> 'a list" where
  "option_list x = (case x of None \<Rightarrow> [] | Some v \<Rightarrow> [v])"

text \<open>The checks of one VM against those before it, in the order of the code.\<close>

fun prepareVms ::
  "(nat \<Rightarrow> string) \<Rightarrow> string \<Rightarrow> int \<Rightarrow> nat \<Rightarrow> RuntimeVm list \<Rightarrow> RuntimeVmSpec list \<Rightarrow>
   RuntimeError + RuntimeVm list" where
  "prepareVms newId executionId now k before [] = Inr []"
| "prepareVms newId executionId now k before (candidate # rest) =
     result_bind (requiredId (vs_vmId candidate) ''vms[].vmId'') (\<lambda>vmId.
     result_bind (requiredId (vs_runtimeVmName candidate) ''vms[].runtimeVmName'') (\<lambda>runtimeVmName.
     result_bind (nonNegativeInteger (vs_ordinal candidate) ''vms[].ordinal'') (\<lambda>ordinal.
       if list_ex (\<lambda>v. rvm_vmId v = vmId \<or> rvm_ordinal v = ordinal \<or> rvm_runtimeVmName v = runtimeVmName) before
       then Inl (InvalidRuntimeInput ''runtime VM ids, ordinals, and runtime names must be unique'')
       else if \<not> isRecord (Some (vs_imageKey candidate))
       then Inl (InvalidRuntimeInput ''vms[].imageKey must be an object'')
       else
         result_bind (requiredId (vs_imageSha256 candidate) ''vms[].imageSha256'') (\<lambda>imageSha256.
         result_bind (positiveInteger (vs_cpuMillis candidate) ''vms[].cpuMillis'') (\<lambda>cpuMillis.
         result_bind (positiveInteger (vs_memoryMib candidate) ''vms[].memoryMib'') (\<lambda>memoryMib.
         result_bind (positiveInteger (vs_diskMib candidate) ''vms[].diskMib'') (\<lambda>diskMib.
           let vm = \<lparr>rvm_id = newId k, rvm_executionId = executionId, rvm_vmId = vmId, rvm_ordinal = ordinal,
                     rvm_runtimeVmName = runtimeVmName, rvm_imageKeyJson = vs_imageKey candidate,
                     rvm_imageSha256 = imageSha256, rvm_cpuMillis = cpuMillis, rvm_memoryMib = memoryMib,
                     rvm_diskMib = diskMib, rvm_terminal = None, rvm_createdAt = now, rvm_updatedAt = now\<rparr>
           in result_bind (prepareVms newId executionId now (Suc k) (vm # before) rest) (\<lambda>vms.
                Inr (vm # vms)))))))))"

definition prepareVmRows ::
  "(nat \<Rightarrow> string) \<Rightarrow> string \<Rightarrow> int \<Rightarrow> RuntimeVmSpec list \<Rightarrow> RuntimeError + RuntimeVm list" where
  "prepareVmRows newId executionId now specs =
     (if specs = [] then Inl (InvalidRuntimeInput ''a runtime execution requires at least one VM'')
      else prepareVms newId executionId now 1 [] specs)"

definition supportedTotal :: "int \<Rightarrow> string \<Rightarrow> RuntimeError + int" where
  "supportedTotal value name =
     (if \<not> isSafeInteger value \<or> value \<le> 0 then Inl (InvalidRuntimeInput name) else Inr value)"

definition sumResources :: "RuntimeVm list \<Rightarrow> RuntimeError + RuntimeResourceDemand" where
  "sumResources vms =
     result_bind (supportedTotal (js_sum (map rvm_cpuMillis vms)) ''cpuMillis'') (\<lambda>cpuMillis.
     result_bind (supportedTotal (js_sum (map rvm_memoryMib vms)) ''memoryMib'') (\<lambda>memoryMib.
     result_bind (supportedTotal (js_sum (map rvm_diskMib vms)) ''worstCaseDiskMib'') (\<lambda>worstCaseDiskMib.
       Inr \<lparr>rd_cpuMillis = cpuMillis, rd_memoryMib = memoryMib, rd_worstCaseDiskMib = worstCaseDiskMib\<rparr>)))"

definition prepareReservationResources ::
  "RuntimeResourceDemand option \<Rightarrow> RuntimeResourceDemand \<Rightarrow> RuntimeError + RuntimeResourceDemand" where
  "prepareReservationResources inp vmResources =
     (case inp of
        None \<Rightarrow> Inr vmResources
      | Some r \<Rightarrow>
          result_bind (positiveInteger (rd_cpuMillis r) ''reservationResources.cpuMillis'') (\<lambda>cpuMillis.
          result_bind (positiveInteger (rd_memoryMib r) ''reservationResources.memoryMib'') (\<lambda>memoryMib.
          result_bind (positiveInteger (rd_worstCaseDiskMib r) ''reservationResources.worstCaseDiskMib'')
            (\<lambda>worstCaseDiskMib.
               if cpuMillis < rd_cpuMillis vmResources \<or> memoryMib < rd_memoryMib vmResources \<or>
                  worstCaseDiskMib < rd_worstCaseDiskMib vmResources
               then Inl (InvalidRuntimeInput
                 ''reservationResources cannot be smaller than the runtime VM resources'')
               else Inr \<lparr>rd_cpuMillis = cpuMillis, rd_memoryMib = memoryMib,
                          rd_worstCaseDiskMib = worstCaseDiskMib\<rparr>))))"

text \<open>The checked input: the execution row, its VMs, its reservation and the slot it claims.\<close>

record PreparedExecution =
  pe_execution :: RuntimeExecution
  pe_vms :: "RuntimeVm list"
  pe_resources :: RuntimeResourceDemand
  pe_reservation :: "ResourceReservation option"
  pe_slot :: "ActiveRuntimeSlot option"

definition prepareExecution ::
  "(nat \<Rightarrow> string) \<Rightarrow> CreateRuntimeExecutionInput \<Rightarrow> RuntimeError + PreparedExecution" where
  "prepareExecution newId inp =
     result_bind (normalizedOptionalId (ci_executionId inp)) (\<lambda>givenId.
     let executionId = coalesce givenId (newId 0) in
     result_bind (requiredId (ci_userId inp) ''userId'') (\<lambda>userId.
     result_bind (requiredId (ci_domainId inp) ''domainId'') (\<lambda>domainId.
     result_bind (normalizedOptionalId (ci_organizationId inp)) (\<lambda>organizationId.
     result_bind (normalizedOptionalId (ci_hostId inp)) (\<lambda>hostId.
     result_bind (normalizedOptionalId (ci_providerConnectionId inp)) (\<lambda>providerConnectionId.
     result_bind (validateProviderIdentity providerConnectionId) (\<lambda>_.
     result_bind (normalizedOptionalId (ci_checkpointId inp)) (\<lambda>checkpointId.
     result_bind (validTimestamp (ci_now inp) ''now'') (\<lambda>now.
     result_bind (optionalTimestamp (ci_leaseExpiresAt inp) ''leaseExpiresAt'') (\<lambda>leaseExpiresAt.
     result_bind (prepareVmRows newId executionId now (ci_vms inp)) (\<lambda>vms.
     result_bind (sumResources vms) (\<lambda>resources.
     result_bind (prepareReservationResources (ci_reservationResources inp) resources) (\<lambda>reserved.
     result_bind (optionalTimestamp (ci_reservationExpiresAt inp) ''reservationExpiresAt'') (\<lambda>expiresAt.
       Inr \<lparr>pe_execution =
              \<lparr>re_id = executionId, re_userId = userId, re_organizationId = organizationId,
               re_hostId = hostId, re_providerConnectionId = providerConnectionId,
               re_domainKind = ci_domainKind inp, re_domainId = domainId, re_generation = 1,
               re_checkpointId = checkpointId, re_state = ES_queued, re_leaseExpiresAt = leaseExpiresAt,
               re_archiveRequestedAt = None, re_endedAt = None, re_createdAt = now, re_updatedAt = now\<rparr>,
            pe_vms = vms, pe_resources = resources,
            pe_reservation = map_option (\<lambda>host.
              \<lparr>rr_executionId = executionId, rr_hostId = host, rr_cpuMillis = rd_cpuMillis reserved,
               rr_memoryMib = rd_memoryMib reserved, rr_worstCaseDiskMib = rd_worstCaseDiskMib reserved,
               rr_state = coalesce (ci_reservationState inp) RR_pending, rr_expiresAt = expiresAt,
               rr_releasedAt = None, rr_createdAt = now, rr_updatedAt = now\<rparr>) hostId,
            pe_slot =
              (if ci_claimActiveSlot inp
               then Some \<lparr>sl_userId = userId, sl_executionId = executionId, sl_acquiredAt = now\<rparr>
               else None)\<rparr>))))))))))))))"

definition createStatements :: "PreparedExecution \<Rightarrow> ledger_stmt list" where
  "createStatements prepared =
     insertExecution (pe_execution prepared) # map insertVm (pe_vms prepared) @
     map resourceReservationInsert (option_list (pe_reservation prepared)) @
     map (\<lambda>slot. insertSlots [slot]) (option_list (pe_slot prepared))"

definition createRuntimeExecution ::
  "(nat \<Rightarrow> string) \<Rightarrow> CreateRuntimeExecutionInput \<Rightarrow> LedgerDb \<Rightarrow>
   (RuntimeError + PreparedExecution) \<times> LedgerDb" where
  "createRuntimeExecution newId inp db =
     (case prepareExecution newId inp of
        Inl e \<Rightarrow> (Inl e, db)
      | Inr prepared \<Rightarrow>
          (case runBatch (createStatements prepared) db of
             Inl e \<Rightarrow>
               (Inl (if isActiveRuntimeSlotConflict e then ActiveSlotConflict
                     else if e = DomainGenerationTaken then GenerationConflict
                     else DatabaseFailure e), db)
           | Inr (changes, db') \<Rightarrow>
               (if hd changes \<noteq> 1 then (Inl AuthorizationChanged, db') else (Inr prepared, db'))))"

subsection \<open>Ending an execution\<close>

text \<open>The run that references the execution loses its active key.\<close>

definition clearActiveKey :: "string \<Rightarrow> int \<Rightarrow> int \<Rightarrow> ledger_stmt" where
  "clearActiveKey executionId generation now db =
     (let cond = (\<lambda>run. rn_runtimeExecutionId run = Some executionId \<and> rn_activeKey run \<noteq> None \<and>
                   currentGuard db executionId generation)
      in Inr (sql_count cond (xd_runs db),
              db\<lparr>xd_runs := sql_update cond (\<lambda>run. run\<lparr>rn_activeKey := None,
                   rn_updatedAt := max (rn_updatedAt run + 1) now\<rparr>) (xd_runs db)\<rparr>))"

definition deleteSlot :: "string \<Rightarrow> int \<Rightarrow> ledger_stmt" where
  "deleteSlot executionId generation db =
     (let cond = (\<lambda>slot. sl_executionId slot = executionId \<and> currentGuard db executionId generation)
      in Inr (sql_count cond (xd_slots db), db\<lparr>xd_slots := sql_delete cond (xd_slots db)\<rparr>))"

definition releaseReservation :: "string \<Rightarrow> int \<Rightarrow> int \<Rightarrow> ledger_stmt" where
  "releaseReservation executionId generation endedAt db =
     (let cond = (\<lambda>r. rr_executionId r = executionId \<and> rr_state r \<noteq> RR_released \<and>
                   currentGuard db executionId generation)
      in Inr (sql_count cond (xd_reservations db),
              db\<lparr>xd_reservations := sql_update cond (\<lambda>r. r\<lparr>rr_state := RR_released,
                   rr_releasedAt := Some (coalesce (rr_releasedAt r) endedAt), rr_updatedAt := endedAt\<rparr>)
                   (xd_reservations db)\<rparr>))"

definition archiveExecution :: "string \<Rightarrow> int \<Rightarrow> int \<Rightarrow> ledger_stmt" where
  "archiveExecution executionId generation endedAt db =
     (let cond = (\<lambda>e. re_id e = executionId \<and> re_generation e = generation \<and> isNewest db e)
      in Inr (sql_count cond (xd_executions db),
              db\<lparr>xd_executions := sql_update cond (\<lambda>e. e\<lparr>re_state := ES_archived,
                   re_archiveRequestedAt := Some (coalesce (re_archiveRequestedAt e) endedAt),
                   re_endedAt := Some (coalesce (re_endedAt e) endedAt), re_updatedAt := endedAt\<rparr>)
                   (xd_executions db)\<rparr>))"

definition releaseActiveRuntimeSlot ::
  "(nat \<Rightarrow> LedgerDb \<Rightarrow> LedgerDb) \<Rightarrow> string \<Rightarrow> int \<Rightarrow> int \<Rightarrow> LedgerDb \<Rightarrow>
   (RuntimeError + bool) \<times> LedgerDb" where
  "releaseActiveRuntimeSlot env executionId expectedGeneration now db =
     (case result_bind (requireCurrentRuntimeGeneration db executionId expectedGeneration) (\<lambda>execution.
           result_bind (validTimestamp now ''now'') (\<lambda>now. Inr execution)) of
        Inl e \<Rightarrow> (Inl e, db)
      | Inr execution \<Rightarrow>
          (let id = re_id (fst execution); db1 = env 0 db in
           case runBatch [clearActiveKey id expectedGeneration now, deleteSlot id expectedGeneration] db1 of
             Inl e \<Rightarrow> (Inl (DatabaseFailure e), db1)
           | Inr (changes, db2) \<Rightarrow>
               (let db3 = env 1 db2 in
                case rejectIfGenerationRaced db3 execution expectedGeneration (sum_list changes) of
                  Inl e \<Rightarrow> (Inl e, db3)
                | Inr _ \<Rightarrow> (Inr (0 < sum_list changes), db3))))"

definition archiveStatements :: "string \<Rightarrow> int \<Rightarrow> int \<Rightarrow> ledger_stmt list" where
  "archiveStatements executionId generation endedAt =
     [clearActiveKey executionId generation endedAt, releaseReservation executionId generation endedAt,
      deleteSlot executionId generation, archiveExecution executionId generation endedAt]"

definition archiveRuntimeExecution ::
  "(nat \<Rightarrow> LedgerDb \<Rightarrow> LedgerDb) \<Rightarrow> string \<Rightarrow> int \<Rightarrow> int \<Rightarrow> LedgerDb \<Rightarrow>
   (RuntimeError + unit) \<times> LedgerDb" where
  "archiveRuntimeExecution env executionId expectedGeneration endedAt db =
     (case result_bind (requireCurrentRuntimeGeneration db executionId expectedGeneration) (\<lambda>execution.
           result_bind (validTimestamp endedAt ''endedAt'') (\<lambda>_. Inr execution)) of
        Inl e \<Rightarrow> (Inl e, db)
      | Inr execution \<Rightarrow>
          (let db1 = env 0 db in
           case runBatch (archiveStatements (re_id (fst execution)) expectedGeneration endedAt) db1 of
             Inl e \<Rightarrow> (Inl (DatabaseFailure e), db1)
           | Inr (changes, db2) \<Rightarrow>
               (if changes ! 3 \<noteq> 1 then (Inl (runtimeGenerationStale execution), db2) else (Inr (), db2))))"

subsection \<open>State changes\<close>

text \<open>A lease that is not given stays as it was read; \<^verbatim>\<open>null\<close> clears it. The state is never \<^verbatim>\<open>archived\<close>.\<close>

definition setExecutionState ::
  "RuntimeExecutionState \<Rightarrow> int option \<Rightarrow> int \<Rightarrow> RuntimeExecution \<Rightarrow> RuntimeExecution" where
  "setExecutionState state leaseExpiresAt observedAt e =
     e\<lparr>re_state := state, re_leaseExpiresAt := leaseExpiresAt,
       re_archiveRequestedAt :=
         (if state = ES_archiving then Some (coalesce (re_archiveRequestedAt e) observedAt)
          else re_archiveRequestedAt e),
       re_endedAt := (if state = ES_failed then Some (coalesce (re_endedAt e) observedAt) else re_endedAt e),
       re_updatedAt := observedAt\<rparr>"

definition updateRuntimeExecutionState ::
  "(nat \<Rightarrow> LedgerDb \<Rightarrow> LedgerDb) \<Rightarrow> string \<Rightarrow> int \<Rightarrow> RuntimeExecutionState \<Rightarrow> int \<Rightarrow>
   int option option \<Rightarrow> LedgerDb \<Rightarrow> (RuntimeError + unit) \<times> LedgerDb" where
  "updateRuntimeExecutionState env executionId expectedGeneration state observedAt leaseExpiresAt db =
     (case result_bind (requireCurrentRuntimeGeneration db executionId expectedGeneration) (\<lambda>execution.
           result_bind (validTimestamp observedAt ''observedAt'') (\<lambda>_.
           result_bind
             (case leaseExpiresAt of
                None \<Rightarrow> Inr (re_leaseExpiresAt (fst execution))
              | Some given \<Rightarrow> optionalTimestamp given ''leaseExpiresAt'') (\<lambda>lease. Inr (execution, lease)))) of
        Inl e \<Rightarrow> (Inl e, db)
      | Inr (execution, lease) \<Rightarrow>
          (let db1 = env 0 db;
               cond = (\<lambda>e. re_id e = re_id (fst execution) \<and> re_generation e = expectedGeneration \<and>
                        re_state e \<notin> {ES_archived, ES_failed} \<and> isNewest db1 e);
               db2 = db1\<lparr>xd_executions :=
                 sql_update cond (setExecutionState state lease observedAt) (xd_executions db1)\<rparr>
           in if sql_count cond (xd_executions db1) \<noteq> 1
              then (Inl (runtimeGenerationStale execution), db2) else (Inr (), db2)))"

subsection \<open>Terminal targets\<close>

record TerminalTargetInput =
  ti_host :: string
  ti_port :: int
  ti_username :: string
  ti_hostKeyOpenssh :: string
  ti_privateKeyOpenssh :: string

type_synonym cipher = "string \<Rightarrow> string \<Rightarrow> string \<Rightarrow> string \<times> string"

definition nulSeparated :: "string \<Rightarrow> string \<Rightarrow> string \<Rightarrow> string \<Rightarrow> string" where
  "nulSeparated a b c d = a @ [CHR 0x00] @ b @ [CHR 0x00] @ c @ [CHR 0x00] @ d"

definition runtimeEncryptionKey :: "string option \<Rightarrow> RuntimeError + string" where
  "runtimeEncryptionKey secret =
     (let trimmed = js_trim (coalesce secret []) in
      if trimmed = [] then Inl KeySecretMissing else Inr trimmed)"

definition encryptRuntimePrivateKey ::
  "cipher \<Rightarrow> string option \<Rightarrow> string \<Rightarrow> string \<Rightarrow> string \<Rightarrow> string \<Rightarrow> string \<Rightarrow>
   RuntimeError + string \<times> string" where
  "encryptRuntimePrivateKey encrypt secret executionId vmId runtimeVmName hostKeyOpenssh privateKeyOpenssh =
     result_bind (runtimeEncryptionKey secret) (\<lambda>key.
       Inr (encrypt key (nulSeparated executionId vmId runtimeVmName hostKeyOpenssh) privateKeyOpenssh))"

definition hostSession :: "string \<Rightarrow> string \<Rightarrow> int \<Rightarrow> HostRow \<Rightarrow> bool" where
  "hostSession hostId sessionId credentialGeneration h \<longleftrightarrow>
     ho_id h = hostId \<and> ho_activeSessionId h = Some sessionId \<and>
     ho_credentialGeneration h = credentialGeneration \<and> \<not> ho_disabled h"

definition findRuntimeVm :: "LedgerDb \<Rightarrow> string \<Rightarrow> string \<Rightarrow> RuntimeVm option" where
  "findRuntimeVm db executionId vmId =
     find (\<lambda>v. rvm_executionId v = executionId \<and> rvm_vmId v = vmId) (xd_vms db)"

definition liveExecution :: "LedgerDb \<Rightarrow> string \<Rightarrow> int \<Rightarrow> string \<Rightarrow> RuntimeExecution \<Rightarrow> bool" where
  "liveExecution db executionId generation hostId e \<longleftrightarrow>
     re_id e = executionId \<and> re_generation e = generation \<and> re_hostId e = Some hostId \<and>
     re_state e \<notin> {ES_archived, ES_failed} \<and> isNewest db e"

definition targetCond ::
  "LedgerDb \<Rightarrow> string \<Rightarrow> string \<Rightarrow> int \<Rightarrow> string \<Rightarrow> string \<Rightarrow> int \<Rightarrow> int \<Rightarrow> RuntimeVm \<Rightarrow> bool" where
  "targetCond db vmRowId executionId generation hostId sessionId credentialGeneration observedAt v \<longleftrightarrow>
     rvm_id v = vmRowId \<and> rvm_executionId v = executionId \<and>
     (case rvm_terminal v of None \<Rightarrow> True | Some t \<Rightarrow> st_observedAt t \<le> observedAt) \<and>
     list_ex (liveExecution db executionId generation hostId) (xd_executions db) \<and>
     list_ex (hostSession hostId sessionId credentialGeneration) (xd_hosts db)"

text \<open>The check after an update that matched no row: is a newer target there already?\<close>

definition newerTargetStored ::
  "LedgerDb \<Rightarrow> string \<Rightarrow> string \<Rightarrow> string \<Rightarrow> int \<Rightarrow> int \<Rightarrow> bool" where
  "newerTargetStored db vmRowId hostId sessionId credentialGeneration observedAt \<longleftrightarrow>
     list_ex (\<lambda>v. rvm_id v = vmRowId \<and>
         (case rvm_terminal v of None \<Rightarrow> False | Some t \<Rightarrow> observedAt < st_observedAt t) \<and>
         list_ex (\<lambda>e. re_id e = rvm_executionId v \<and> re_hostId e = Some hostId) (xd_executions db) \<and>
         list_ex (hostSession hostId sessionId credentialGeneration) (xd_hosts db)) (xd_vms db)"

definition recordRuntimeVmTerminalTarget ::
  "(nat \<Rightarrow> LedgerDb \<Rightarrow> LedgerDb) \<Rightarrow> cipher \<Rightarrow> string option \<Rightarrow> string \<Rightarrow> int \<Rightarrow> string \<Rightarrow>
   string \<Rightarrow> int \<Rightarrow> string \<Rightarrow> TerminalTargetInput \<Rightarrow> int \<Rightarrow> LedgerDb \<Rightarrow> (RuntimeError + unit) \<times> LedgerDb" where
  "recordRuntimeVmTerminalTarget env encrypt secret executionId generation hostId sessionId
       credentialGeneration vmId target observedAt db =
     (case result_bind (requireCurrentRuntimeGeneration db executionId generation) (\<lambda>execution.
           result_bind (requiredId vmId ''vmId'') (\<lambda>vmId.
           result_bind (requiredId (ti_host target) ''target.host'') (\<lambda>host.
           result_bind (requiredId (ti_username target) ''target.username'') (\<lambda>username.
           result_bind (requiredId (ti_hostKeyOpenssh target) ''target.hostKeyOpenssh'') (\<lambda>hostKey.
           result_bind (requiredId (ti_privateKeyOpenssh target) ''target.privateKeyOpenssh'') (\<lambda>privateKey.
           result_bind (positiveInteger (ti_port target) ''target.port'') (\<lambda>port.
           result_bind (validTimestamp observedAt ''observedAt'') (\<lambda>_.
             let db1 = env 0 db in
             case findRuntimeVm db1 (re_id (fst execution)) vmId of
               None \<Rightarrow> Inl RuntimeVmNotFound
             | Some vm \<Rightarrow>
                 result_bind (encryptRuntimePrivateKey encrypt secret (re_id (fst execution)) vmId
                     (rvm_runtimeVmName vm) hostKey privateKey) (\<lambda>encrypted.
                   Inr (execution, vm,
                     \<lparr>st_host = host, st_port = port, st_username = username, st_hostKeyOpenssh = hostKey,
                      st_privateKeyCiphertextB64 = fst encrypted, st_privateKeyIvB64 = snd encrypted,
                      st_observedAt = observedAt\<rparr>)))))))))) of
        Inl e \<Rightarrow> (Inl e, env 0 db)
      | Inr (execution, vm, stored) \<Rightarrow>
          (let db2 = env 1 (env 0 db);
               cond = targetCond db2 (rvm_id vm) (re_id (fst execution)) generation hostId sessionId
                        credentialGeneration observedAt;
               db3 = db2\<lparr>xd_vms := sql_update cond (\<lambda>v. v\<lparr>rvm_terminal := Some stored,
                        rvm_updatedAt := observedAt\<rparr>) (xd_vms db2)\<rparr>
           in if sql_count cond (xd_vms db2) = 1 then (Inr (), db3)
              else
                (let db4 = env 2 db3 in
                 case requireCurrentRuntimeGeneration db4 (re_id (fst execution)) generation of
                   Inl e \<Rightarrow> (Inl e, db4)
                 | Inr _ \<Rightarrow>
                     (let db5 = env 3 db4 in
                      if newerTargetStored db5 (rvm_id vm) hostId sessionId credentialGeneration observedAt
                      then (Inr (), db5) else (Inl (runtimeGenerationStale execution), db5)))))"

subsection \<open>Access keys and reported states\<close>

record RuntimeVmAccessKey =
  ky_executionId :: string
  ky_runtimeVmId :: string
  ky_vmId :: string
  ky_runtimeVmName :: string
  ky_publicKeyOpenssh :: string
  ky_privateKeyOpenssh :: string

type_synonym decipher = "string \<Rightarrow> string \<Rightarrow> string \<Rightarrow> string \<Rightarrow> string option"

definition encryptRuntimeVmAccessKey ::
  "cipher \<Rightarrow> string option \<Rightarrow> string \<Rightarrow> string \<Rightarrow> string \<Rightarrow> string \<Rightarrow> string \<Rightarrow>
   RuntimeError + string \<times> string" where
  "encryptRuntimeVmAccessKey encrypt secret executionId vmId runtimeVmName publicKeyOpenssh privateKeyOpenssh =
     result_bind (runtimeEncryptionKey secret) (\<lambda>key.
       Inr (encrypt key (nulSeparated executionId vmId runtimeVmName publicKeyOpenssh) privateKeyOpenssh))"

definition decryptAccessKey ::
  "decipher \<Rightarrow> string option \<Rightarrow> string \<Rightarrow> string \<Rightarrow> string \<Rightarrow> string \<Rightarrow> string \<Rightarrow> string \<Rightarrow>
   RuntimeError + string" where
  "decryptAccessKey decrypt secret executionId vmId runtimeVmName publicKeyOpenssh ciphertextB64 ivB64 =
     result_bind (runtimeEncryptionKey secret) (\<lambda>key.
       case decrypt key (nulSeparated executionId vmId runtimeVmName publicKeyOpenssh) ciphertextB64 ivB64 of
         None \<Rightarrow> Inl KeyUndecipherable
       | Some privateKey \<Rightarrow> Inr privateKey)"

definition loadRuntimeVmAccessKey ::
  "decipher \<Rightarrow> string option \<Rightarrow> string \<Rightarrow> int \<Rightarrow> string \<Rightarrow> LedgerDb \<Rightarrow>
   RuntimeError + RuntimeVmAccessKey" where
  "loadRuntimeVmAccessKey decrypt secret executionId expectedGeneration vmId db =
     result_bind (requireCurrentRuntimeGeneration db executionId expectedGeneration) (\<lambda>execution.
     result_bind (requiredId vmId ''vmId'') (\<lambda>vmId.
       case findRuntimeVm db (re_id (fst execution)) vmId of
         None \<Rightarrow> Inl AccessKeyMissing
       | Some vm \<Rightarrow>
           (case find (\<lambda>k. ak_runtimeVmId k = rvm_id vm \<and> ak_executionId k = rvm_executionId vm)
                   (xd_accessKeys db) of
              None \<Rightarrow> Inl AccessKeyMissing
            | Some accessRow \<Rightarrow>
                result_bind (decryptAccessKey decrypt secret (re_id (fst execution)) (rvm_vmId vm)
                    (rvm_runtimeVmName vm) (ak_publicKeyOpenssh accessRow) (ak_privateKeyCiphertextB64 accessRow)
                    (ak_privateKeyIvB64 accessRow)) (\<lambda>privateKey.
                  Inr \<lparr>ky_executionId = re_id (fst execution), ky_runtimeVmId = rvm_id vm,
                       ky_vmId = rvm_vmId vm, ky_runtimeVmName = rvm_runtimeVmName vm,
                       ky_publicKeyOpenssh = ak_publicKeyOpenssh accessRow, ky_privateKeyOpenssh = privateKey\<rparr>))))"

datatype RecordOutcome = RecordUpdated | RecordStale

definition reportOf :: "RuntimeExecution \<Rightarrow> RuntimeVm \<Rightarrow> VmActualStateV2 \<Rightarrow> bool" where
  "reportOf e vm report \<longleftrightarrow>
     av_runtime_execution_id report = re_id e \<and> av_run_id report = re_domainId e \<and>
     av_owner_user_id report = re_userId e \<and> av_generation report = re_generation e \<and>
     av_vm_name report = rvm_runtimeVmName vm"

text \<open>
  The upsert: the row is inserted, or replaces the one of the VM if it is of the same execution and host
  and not older, provided the execution is current and live and the host's session is the expected one.
\<close>

definition upsertActualState ::
  "int \<Rightarrow> string \<Rightarrow> int \<Rightarrow> RuntimeVmActualStateRow \<Rightarrow> LedgerDb \<Rightarrow> nat \<times> LedgerDb" where
  "upsertActualState generation sessionId credentialGeneration row db =
     (if \<not> (list_ex (liveExecution db (vas_executionId row) generation (vas_hostId row)) (xd_executions db) \<and>
            list_ex (hostSession (vas_hostId row) sessionId credentialGeneration) (xd_hosts db))
      then (0, db)
      else
        (let clash = (\<lambda>a. vas_runtimeVmId a = vas_runtimeVmId row);
             replaceable = (\<lambda>a. clash a \<and> vas_executionId a = vas_executionId row \<and>
                             vas_hostId a = vas_hostId row \<and> vas_observedAt a \<le> vas_observedAt row)
         in if \<not> list_ex clash (xd_actual db) then (1, db\<lparr>xd_actual := xd_actual db @ [row]\<rparr>)
            else (sql_count replaceable (xd_actual db),
                  db\<lparr>xd_actual := sql_update replaceable (\<lambda>_. row) (xd_actual db)\<rparr>)))"

record ReportInput =
  ri_executionId :: string
  ri_expectedGeneration :: int
  ri_vmId :: string
  ri_hostId :: string
  ri_report :: VmActualStateV2
  ri_observedAt :: "int option"
  ri_expectedHostSessionId :: string
  ri_expectedHostCredentialGeneration :: int

definition actualStateRow :: "string \<Rightarrow> string \<Rightarrow> string \<Rightarrow> int \<Rightarrow> VmActualStateV2 \<Rightarrow> RuntimeVmActualStateRow" where
  "actualStateRow vmRowId executionId hostId observedAt report =
     \<lparr>vas_runtimeVmId = vmRowId, vas_executionId = executionId, vas_hostId = hostId,
      vas_phase = av_phase report, vas_desiredVersion = av_desired_version report, vas_reportJson = report,
      vas_observedAt = observedAt, vas_updatedAt = observedAt\<rparr>"

text \<open>The checks before the write: \<^const>\<open>None\<close> for a report that is stale.\<close>

definition checkReport ::
  "ReportInput \<Rightarrow> LedgerDb \<Rightarrow> LedgerDb \<Rightarrow>
   RuntimeError + (RuntimeExecution \<times> string \<times> string \<times> RuntimeVmActualStateRow) option" where
  "checkReport inp db db1 =
     result_bind (requireCurrentRuntimeGeneration db (ri_executionId inp) (ri_expectedGeneration inp)) (\<lambda>(e, _).
     result_bind (requiredId (ri_vmId inp) ''vmId'') (\<lambda>vmId.
     result_bind (requiredId (ri_hostId inp) ''hostId'') (\<lambda>hostId.
     result_bind (requiredId (ri_expectedHostSessionId inp) ''expectedHostSessionId'') (\<lambda>sessionId.
       if re_hostId e \<noteq> Some hostId \<or> re_state e \<in> {ES_archived, ES_failed} then Inr None
       else
         (case findRuntimeVm db1 (re_id e) vmId of
            None \<Rightarrow> Inl RuntimeVmNotFound
          | Some vm \<Rightarrow>
              (if \<not> reportOf e vm (ri_report inp) then Inr None
               else
                 result_bind
                   (nonNegativeInteger
                     (coalesce (ri_observedAt inp) (av_updated_at_unix_ms (ri_report inp))) ''observedAt'')
                   (\<lambda>observedAt. Inr (Some (e, vmId, sessionId,
                      actualStateRow (rvm_id vm) (re_id e) hostId observedAt (ri_report inp))))))))))"

definition recordRuntimeVmActualState ::
  "(nat \<Rightarrow> LedgerDb \<Rightarrow> LedgerDb) \<Rightarrow> (nat \<Rightarrow> LedgerDb \<Rightarrow> LedgerDb) \<Rightarrow> cipher \<Rightarrow> decipher \<Rightarrow>
   string option \<Rightarrow> ReportInput \<Rightarrow> LedgerDb \<Rightarrow> (RuntimeError + RecordOutcome) \<times> LedgerDb" where
  "recordRuntimeVmActualState env targetEnv encrypt decrypt secret inp db =
     (let db1 = env 0 db in
      case checkReport inp db db1 of
        Inl e \<Rightarrow> (Inl e, db1)
      | Inr None \<Rightarrow> (Inr RecordStale, db1)
      | Inr (Some (e, vmId, sessionId, row)) \<Rightarrow>
          (let (changes, db2) = upsertActualState (ri_expectedGeneration inp) sessionId
                 (ri_expectedHostCredentialGeneration inp) row (env 1 db1)
           in if changes \<noteq> 1 then (Inr RecordStale, db2)
              else
                (case (ts_state (av_terminal (ri_report inp)), ts_target (av_terminal (ri_report inp)),
                       av_ssh_host_keys_openssh (ri_report inp)) of
                   (TK_ready, Some target, hostKey # _) \<Rightarrow>
                     (if hostKey = [] then (Inr RecordUpdated, db2)
                      else
                        (let db3 = env 2 db2 in
                         case loadRuntimeVmAccessKey decrypt secret (re_id e) (ri_expectedGeneration inp) vmId db3 of
                           Inl er \<Rightarrow> (Inl er, db3)
                         | Inr key \<Rightarrow>
                             (case recordRuntimeVmTerminalTarget targetEnv encrypt secret (re_id e)
                                     (ri_expectedGeneration inp) (vas_hostId row) sessionId
                                     (ri_expectedHostCredentialGeneration inp) vmId
                                     \<lparr>ti_host = tg_host target, ti_port = tg_port target,
                                      ti_username = tg_username target, ti_hostKeyOpenssh = hostKey,
                                      ti_privateKeyOpenssh = ky_privateKeyOpenssh key\<rparr>
                                     (vas_observedAt row) (env 3 db3) of
                                (Inl er, db4) \<Rightarrow> (Inl er, db4)
                              | (Inr _, db4) \<Rightarrow> (Inr RecordUpdated, db4))))
                 | _ \<Rightarrow> (Inr RecordUpdated, db2))))"

subsection \<open>Specification vocabulary\<close>

text \<open>What may never change of a row, and in which direction the rest may move.\<close>

definition keptRows :: "('r \<Rightarrow> 'r \<Rightarrow> bool) \<Rightarrow> 'r list \<Rightarrow> 'r list \<Rightarrow> bool" where
  "keptRows keeps rows rows' \<longleftrightarrow> (\<forall>r \<in> set rows. \<exists>r' \<in> set rows'. keeps r r')"

definition keptExecution :: "RuntimeExecution \<Rightarrow> RuntimeExecution \<Rightarrow> bool" where
  "keptExecution e e' \<longleftrightarrow>
     re_id e' = re_id e \<and> re_userId e' = re_userId e \<and> re_organizationId e' = re_organizationId e \<and>
     re_domainKind e' = re_domainKind e \<and> re_domainId e' = re_domainId e \<and>
     re_generation e' = re_generation e \<and> re_createdAt e' = re_createdAt e \<and>
     (re_archiveRequestedAt e \<noteq> None \<longrightarrow> re_archiveRequestedAt e' = re_archiveRequestedAt e) \<and>
     (re_state e = ES_archived \<longrightarrow>
        re_state e' = ES_archived \<and> re_hostId e' = re_hostId e \<and>
        (re_endedAt e \<noteq> None \<longrightarrow> re_endedAt e' = re_endedAt e))"

definition keptReservation :: "ResourceReservation \<Rightarrow> ResourceReservation \<Rightarrow> bool" where
  "keptReservation r r' \<longleftrightarrow>
     rr_executionId r' = rr_executionId r \<and> rr_hostId r' = rr_hostId r \<and>
     rr_cpuMillis r' = rr_cpuMillis r \<and> rr_memoryMib r' = rr_memoryMib r \<and>
     (rr_state r = RR_released \<longrightarrow> r' = r)"

definition keptVm :: "RuntimeVm \<Rightarrow> RuntimeVm \<Rightarrow> bool" where
  "keptVm v v' \<longleftrightarrow>
     v'\<lparr>rvm_terminal := None, rvm_updatedAt := 0\<rparr> = v\<lparr>rvm_terminal := None, rvm_updatedAt := 0\<rparr> \<and>
     (\<forall>t. rvm_terminal v = Some t \<longrightarrow>
        (\<exists>t'. rvm_terminal v' = Some t' \<and> st_observedAt t \<le> st_observedAt t'))"

definition keptActual :: "RuntimeVmActualStateRow \<Rightarrow> RuntimeVmActualStateRow \<Rightarrow> bool" where
  "keptActual a a' \<longleftrightarrow>
     vas_runtimeVmId a' = vas_runtimeVmId a \<and> vas_executionId a' = vas_executionId a \<and>
     vas_hostId a' = vas_hostId a \<and> vas_observedAt a \<le> vas_observedAt a'"

text \<open>The keys of the ledger: one execution per id and per generation of a domain, one slot per user.\<close>

definition keysOk :: "LedgerDb \<Rightarrow> bool" where
  "keysOk db \<longleftrightarrow>
     distinct (map re_id (xd_executions db)) \<and>
     distinct (map (\<lambda>e. (re_domainKind e, re_domainId e, re_generation e)) (xd_executions db)) \<and>
     list_all (\<lambda>e. 0 < re_generation e) (xd_executions db) \<and>
     distinct (map sl_userId (xd_slots db)) \<and> distinct (map sl_executionId (xd_slots db)) \<and>
     distinct (map rr_executionId (xd_reservations db)) \<and> distinct (map vas_runtimeVmId (xd_actual db))"

definition ledgerLater :: "LedgerDb \<Rightarrow> LedgerDb \<Rightarrow> bool" where
  "ledgerLater db db' \<longleftrightarrow>
     keptRows keptExecution (xd_executions db) (xd_executions db') \<and>
     keptRows keptReservation (xd_reservations db) (xd_reservations db') \<and>
     keptRows keptVm (xd_vms db) (xd_vms db') \<and> keptRows keptActual (xd_actual db) (xd_actual db') \<and>
     (keysOk db \<longrightarrow> keysOk db')"

definition laterEnv :: "(nat \<Rightarrow> LedgerDb \<Rightarrow> LedgerDb) \<Rightarrow> bool" where
  "laterEnv env \<longleftrightarrow> (\<forall>k db. ledgerLater db (env k db))"

text \<open>A statement of a caller that keeps the history of the ledger, as the updates of a run row do.\<close>

definition politeStatement :: "ledger_stmt \<Rightarrow> bool" where
  "politeStatement s \<longleftrightarrow> (\<forall>db n db'. s db = Inr (n, db') \<longrightarrow> ledgerLater db db')"

text \<open>Every operation but the deletion of a run, with any arguments and any polite interference.\<close>

inductive ledgerStep :: "LedgerDb \<Rightarrow> LedgerDb \<Rightarrow> bool" where
  project: "list_all politeStatement statements \<Longrightarrow>
    ledgerStep db (snd (executeScenarioRunRuntimeProjection runId statements mode db))"
| create: "ledgerStep db (snd (createRuntimeExecution newId inp db))"
| releaseSlot: "laterEnv env \<Longrightarrow> ledgerStep db (snd (releaseActiveRuntimeSlot env executionId generation now db))"
| archive: "laterEnv env \<Longrightarrow> ledgerStep db (snd (archiveRuntimeExecution env executionId generation endedAt db))"
| setState: "laterEnv env \<Longrightarrow> state \<noteq> ES_archived \<Longrightarrow>
    ledgerStep db (snd (updateRuntimeExecutionState env executionId generation state observedAt lease db))"
| recordTarget: "laterEnv env \<Longrightarrow>
    ledgerStep db (snd (recordRuntimeVmTerminalTarget env encrypt secret executionId generation hostId sessionId
      credentialGeneration vmId target observedAt db))"
| recordReport: "laterEnv env \<Longrightarrow> laterEnv targetEnv \<Longrightarrow>
    ledgerStep db (snd (recordRuntimeVmActualState env targetEnv encrypt decrypt secret report db))"

subsection \<open>Lemmas: what the statements keep\<close>

lemma keptRows_refl: "(\<And>r. keeps r r) \<Longrightarrow> keptRows keeps rows rows"
  by (auto simp: keptRows_def)

lemma keptRows_trans:
  assumes "keptRows keeps a b" "keptRows keeps b c" and "\<And>x y z. keeps x y \<Longrightarrow> keeps y z \<Longrightarrow> keeps x z"
  shows "keptRows keeps a c"
  using assms unfolding keptRows_def by meson

lemma keptRows_append: "(\<And>r. keeps r r) \<Longrightarrow> keptRows keeps rows (rows @ added)"
  by (auto simp: keptRows_def)

lemma keptRows_update:
  assumes "\<And>r. keeps r r" and "\<And>r. r \<in> set rows \<Longrightarrow> cond r \<Longrightarrow> keeps r (f r)"
  shows "keptRows keeps rows (sql_update cond f rows)"
  unfolding keptRows_def
proof
  fix r assume "r \<in> set rows"
  then show "\<exists>r' \<in> set (sql_update cond f rows). keeps r r'"
    using assms sql_update_mem [of r rows cond f] by (metis (full_types))
qed

lemma keptRow_refl: "keptExecution e e" "keptReservation r r" "keptVm v v" "keptActual a a"
  by (simp_all add: keptExecution_def keptReservation_def keptVm_def keptActual_def)

lemma kept_trans:
  "keptExecution e e' \<Longrightarrow> keptExecution e' e'' \<Longrightarrow> keptExecution e e''"
  "keptReservation r r' \<Longrightarrow> keptReservation r' r'' \<Longrightarrow> keptReservation r r''"
  "keptActual a a' \<Longrightarrow> keptActual a' a'' \<Longrightarrow> keptActual a a''"
  by (auto simp: keptExecution_def keptReservation_def keptActual_def)

lemma keptVm_trans: "keptVm v v' \<Longrightarrow> keptVm v' v'' \<Longrightarrow> keptVm v v''"
  unfolding keptVm_def by (metis order_trans)

lemma ledgerLater_refl: "ledgerLater db db"
  by (simp add: ledgerLater_def keptRows_refl keptRow_refl)

lemma ledgerLater_trans:
  assumes "ledgerLater a b" and "ledgerLater b c"
  shows "ledgerLater a c"
proof -
  note ab = assms(1) [unfolded ledgerLater_def] and bc = assms(2) [unfolded ledgerLater_def]
  have "keptRows keptExecution (xd_executions a) (xd_executions c)"
    by (rule keptRows_trans [where b = "xd_executions b"]) (use ab bc kept_trans(1) in blast)+
  moreover have "keptRows keptReservation (xd_reservations a) (xd_reservations c)"
    by (rule keptRows_trans [where b = "xd_reservations b"]) (use ab bc kept_trans(2) in blast)+
  moreover have "keptRows keptVm (xd_vms a) (xd_vms c)"
    by (rule keptRows_trans [where b = "xd_vms b"]) (use ab bc keptVm_trans in blast)+
  moreover have "keptRows keptActual (xd_actual a) (xd_actual c)"
    by (rule keptRows_trans [where b = "xd_actual b"]) (use ab bc kept_trans(3) in blast)+
  ultimately show ?thesis using ab bc by (simp add: ledgerLater_def)
qed

interpretation ledger: batch_relation ledgerLater
  by unfold_locales (fact ledgerLater_refl, erule (1) ledgerLater_trans)

text \<open>One lemma per way a statement changes one table.\<close>

lemma later_runs: "ledgerLater db (db\<lparr>xd_runs := runs\<rparr>)"
  by (simp add: ledgerLater_def keptRows_refl keptRow_refl keysOk_def)

lemma later_slots:
  "(distinct (map sl_userId (xd_slots db)) \<and> distinct (map sl_executionId (xd_slots db)) \<Longrightarrow>
    distinct (map sl_userId slots) \<and> distinct (map sl_executionId slots)) \<Longrightarrow>
   ledgerLater db (db\<lparr>xd_slots := slots\<rparr>)"
  by (simp add: ledgerLater_def keptRows_refl keptRow_refl keysOk_def)

lemma later_vms_append: "ledgerLater db (db\<lparr>xd_vms := xd_vms db @ vms\<rparr>)"
  by (simp add: ledgerLater_def keptRows_refl keptRows_append keptRow_refl keysOk_def)

lemma later_vms_update:
  "(\<And>v. cond v \<Longrightarrow> keptVm v (f v)) \<Longrightarrow> ledgerLater db (db\<lparr>xd_vms := sql_update cond f (xd_vms db)\<rparr>)"
  by (simp add: ledgerLater_def keptRows_refl keptRows_update keptRow_refl keysOk_def)

lemma later_reservations_append:
  "rr_executionId row \<notin> set (map rr_executionId (xd_reservations db)) \<Longrightarrow>
   ledgerLater db (db\<lparr>xd_reservations := xd_reservations db @ [row]\<rparr>)"
  by (simp add: ledgerLater_def keptRows_refl keptRows_append keptRow_refl keysOk_def)

lemma later_reservations_update:
  assumes "\<And>r. cond r \<Longrightarrow> keptReservation r (f r)" and "\<And>r. rr_executionId (f r) = rr_executionId r"
  shows "ledgerLater db (db\<lparr>xd_reservations := sql_update cond f (xd_reservations db)\<rparr>)"
  using assms by (simp add: ledgerLater_def keptRows_refl keptRows_update keptRow_refl keysOk_def map_sql_update)

lemma later_executions_append:
  assumes "0 < re_generation row" and "re_id row \<notin> set (map re_id (xd_executions db))"
    and "(re_domainKind row, re_domainId row, re_generation row) \<notin>
      set (map (\<lambda>e. (re_domainKind e, re_domainId e, re_generation e)) (xd_executions db))"
  shows "ledgerLater db (db\<lparr>xd_executions := xd_executions db @ [row]\<rparr>)"
  using assms by (simp add: ledgerLater_def keptRows_refl keptRows_append keptRow_refl keysOk_def)

lemma later_executions_update:
  assumes "\<And>e. cond e \<Longrightarrow> keptExecution e (f e)"
    and "\<And>e. re_id (f e) = re_id e" "\<And>e. re_domainKind (f e) = re_domainKind e"
      "\<And>e. re_domainId (f e) = re_domainId e" "\<And>e. re_generation (f e) = re_generation e"
  shows "ledgerLater db (db\<lparr>xd_executions := sql_update cond f (xd_executions db)\<rparr>)"
proof -
  have "list_all (\<lambda>e. 0 < re_generation e) (sql_update cond f (xd_executions db)) =
      list_all (\<lambda>e. 0 < re_generation e) (xd_executions db)"
    using map_sql_update [of re_generation f cond "xd_executions db"] assms(5)
      list.pred_map [of "\<lambda>g. 0 < g" re_generation] by (metis (no_types, lifting) comp_apply list.pred_cong)
  then show ?thesis
    using assms by (simp add: ledgerLater_def keptRows_refl keptRows_update keptRow_refl keysOk_def map_sql_update)
qed

lemma insertExecution_later: "insertExecution row db = Inr (n, db') \<Longrightarrow> ledgerLater db db'"
  by (fastforce simp: insertExecution_def list_ex_iff split: if_splits intro!: later_executions_append)

lemma insertVm_later: "insertVm row db = Inr (n, db') \<Longrightarrow> ledgerLater db db'"
  by (auto simp: insertVm_def later_vms_append split: if_splits)

lemma reservationInsert_later: "resourceReservationInsert row db = Inr (n, db') \<Longrightarrow> ledgerLater db db'"
  by (fastforce simp: resourceReservationInsert_def list_ex_iff split: if_splits intro!: later_reservations_append)

lemma insertSlots_later: "insertSlots rows db = Inr (n, db') \<Longrightarrow> ledgerLater db db'"
  by (auto simp: insertSlots_def Let_def split: if_splits intro!: later_slots)

lemma mirrorRun_kept: "mirrored run e \<Longrightarrow> keptExecution e (mirrorRun run e)"
  by (auto simp: mirrored_def mirrorRun_def keptExecution_def coalesce_def split: option.splits)

lemma mirrorRun_ident [simp]:
  "re_id (mirrorRun run e) = re_id e" "re_domainKind (mirrorRun run e) = re_domainKind e"
  "re_domainId (mirrorRun run e) = re_domainId e" "re_generation (mirrorRun run e) = re_generation e"
  by (simp_all add: mirrorRun_def)

lemma projectInsert_obeys: "ledger.obeys (projectInsertExecution runId)"
  unfolding ledger.obeys_def
proof (intro allI impI)
  fix db n db'
  assume a: "projectInsertExecution runId db = Inr (n, db')"
  then show "ledgerLater db db'"
    using insertExecution_later ledgerLater_refl
    by (simp add: projectInsertExecution_def split: option.splits if_splits)
qed

lemma projectSentinel_same: "projectIdentitySentinel runId db = Inr (n, db') \<Longrightarrow> db' = db"
  by (auto simp: projectIdentitySentinel_def insertExecution_def split: option.splits if_splits)

lemma projectReference_obeys: "ledger.obeys (projectReferenceExecution runId)"
  by (auto simp: ledger.obeys_def projectReferenceExecution_def Let_def later_runs split: if_splits)

lemma projectMirror_obeys: "ledger.obeys (projectMirror runId)"
  by (auto simp: ledger.obeys_def projectMirror_def ledgerLater_refl mirrorRun_kept split: option.splits
      intro!: later_executions_update)

lemma later_delete_slots: "ledgerLater db (db\<lparr>xd_slots := sql_delete cond (xd_slots db)\<rparr>)"
  by (rule later_slots) (simp add: distinct_map_sql_delete)

lemma projectDrop_obeys: "ledger.obeys (projectDropSlot runId)"
  by (auto simp: ledger.obeys_def projectDropSlot_def Let_def ledgerLater_refl later_delete_slots split: option.splits)

lemma projectTake_obeys: "ledger.obeys (projectTakeSlot runId mode)"
  unfolding ledger.obeys_def
proof (intro allI impI)
  fix db n db'
  assume "projectTakeSlot runId mode db = Inr (n, db')"
  then show "ledgerLater db db'"
    using insertSlots_later ledgerLater_refl
    by (simp add: projectTakeSlot_def split: option.splits if_splits)
qed

lemma projection_obeys: "list_all ledger.obeys (scenarioRunRuntimeProjectionStatements runId mode)"
  using projectInsert_obeys projectReference_obeys projectMirror_obeys projectDrop_obeys projectTake_obeys
  by (auto simp: scenarioRunRuntimeProjectionStatements_def ledger.obeys_def ledgerLater_refl
      dest: projectSentinel_same)

lemma clearActiveKey_obeys: "ledger.obeys (clearActiveKey executionId generation now)"
  by (auto simp: ledger.obeys_def clearActiveKey_def Let_def later_runs)

lemma deleteSlot_obeys: "ledger.obeys (deleteSlot executionId generation)"
  by (auto simp: ledger.obeys_def deleteSlot_def Let_def later_delete_slots)

lemma releaseReservation_obeys: "ledger.obeys (releaseReservation executionId generation endedAt)"
  by (auto simp: ledger.obeys_def releaseReservation_def Let_def keptReservation_def
      intro!: later_reservations_update)

lemma archiveExecution_obeys: "ledger.obeys (archiveExecution executionId generation endedAt)"
  by (auto simp: ledger.obeys_def archiveExecution_def Let_def keptExecution_def coalesce_def
      intro!: later_executions_update split: option.splits)

lemma create_obeys: "list_all ledger.obeys (createStatements prepared)"
  using insertExecution_later insertVm_later reservationInsert_later insertSlots_later
  by (auto simp: createStatements_def ledger.obeys_def list_all_iff)

lemma later_archiveStatements: "list_all ledger.obeys (archiveStatements executionId generation endedAt)"
  by (simp add: archiveStatements_def clearActiveKey_obeys releaseReservation_obeys deleteSlot_obeys
      archiveExecution_obeys)

lemma polite_obeys: "politeStatement = ledger.obeys"
  by (simp add: fun_eq_iff politeStatement_def ledger.obeys_def)

lemma project_later:
  assumes "list_all politeStatement statements"
  shows "ledgerLater db (snd (executeScenarioRunRuntimeProjection runId statements mode db))"
proof -
  have "list_all ledger.obeys (statements @ scenarioRunRuntimeProjectionStatements r mode)" for r
    using assms projection_obeys by (simp add: polite_obeys)
  then have "runBatch (statements @ scenarioRunRuntimeProjectionStatements r mode) db = Inr (ns, d) \<Longrightarrow>
      ledgerLater db d" for r ns d
    using ledger.batch_obeys by blast
  then show ?thesis
    using ledgerLater_refl by (auto simp: executeScenarioRunRuntimeProjection_def split: sum.splits)
qed

lemma create_later: "ledgerLater db (snd (createRuntimeExecution newId inp db))"
  using ledger.batch_obeys [OF create_obeys] ledgerLater_refl
  by (auto simp: createRuntimeExecution_def split: sum.splits)

lemma release_later:
  assumes "laterEnv env"
  shows "ledgerLater db (snd (releaseActiveRuntimeSlot env executionId generation now db))"
proof -
  have e: "ledgerLater d (env k d)" for k d using assms by (simp add: laterEnv_def)
  have b: "runBatch [clearActiveKey i generation now, deleteSlot i generation] (env 0 db) = Inr (ns, d) \<Longrightarrow>
      ledgerLater db (env 1 d)" for i ns d
  proof -
    assume r: "runBatch [clearActiveKey i generation now, deleteSlot i generation] (env 0 db) = Inr (ns, d)"
    have "ledgerLater (env 0 db) d"
      by (rule ledger.batch_obeys [OF _ r]) (simp add: clearActiveKey_obeys deleteSlot_obeys)
    then show ?thesis using e ledgerLater_trans by blast
  qed
  show ?thesis
    using b e [of db 0] ledgerLater_refl
    by (auto simp: releaseActiveRuntimeSlot_def Let_def split: sum.splits simp del: runBatch.simps)
qed

lemma archive_later:
  assumes "laterEnv env"
  shows "ledgerLater db (snd (archiveRuntimeExecution env executionId generation endedAt db))"
proof -
  have e: "ledgerLater d (env k d)" for k d using assms by (simp add: laterEnv_def)
  have "runBatch (archiveStatements i generation endedAt) (env 0 db) = Inr (ns, d) \<Longrightarrow> ledgerLater db d" for i ns d
    using ledger.batch_obeys [OF later_archiveStatements] e ledgerLater_trans by blast
  then show ?thesis
    using e [of db 0] ledgerLater_refl
    by (auto simp: archiveRuntimeExecution_def Let_def split: sum.splits simp del: runBatch.simps)
qed

lemma setState_later:
  assumes "laterEnv env" and "state \<noteq> ES_archived"
  shows "ledgerLater db (snd (updateRuntimeExecutionState env executionId generation state observedAt lease db))"
proof -
  have e: "ledgerLater d (env k d)" for k d using assms by (simp add: laterEnv_def)
  have "ledgerLater d (d\<lparr>xd_executions := sql_update (\<lambda>e. re_id e = i \<and> re_generation e = generation \<and>
      re_state e \<notin> {ES_archived, ES_failed} \<and> isNewest d e) (setExecutionState state l observedAt) (xd_executions d)\<rparr>)"
    for d i l
    by (rule later_executions_update)
      (auto simp: keptExecution_def setExecutionState_def coalesce_def split: option.splits)
  then have "ledgerLater db ((env 0 db)\<lparr>xd_executions := sql_update (\<lambda>e. re_id e = i \<and> re_generation e = generation \<and>
      re_state e \<notin> {ES_archived, ES_failed} \<and> isNewest (env 0 db) e) (setExecutionState state l observedAt)
      (xd_executions (env 0 db))\<rparr>)" for i l
    using e ledgerLater_trans by blast
  then show ?thesis
    using ledgerLater_refl
    by (auto simp: updateRuntimeExecutionState_def Let_def split: sum.splits)
qed

lemma target_later:
  assumes "laterEnv env"
  shows "ledgerLater db (snd (recordRuntimeVmTerminalTarget env encrypt secret executionId generation hostId sessionId
      credentialGeneration vmId target observedAt db))"
proof -
  have e: "ledgerLater d (env k d)" for k d using assms by (simp add: laterEnv_def)
  have u: "ledgerLater d (d\<lparr>xd_vms := sql_update (targetCond d' a b generation hostId sessionId credentialGeneration observedAt)
      (\<lambda>v. v\<lparr>rvm_terminal := Some (\<lparr>st_host = h, st_port = p, st_username = n, st_hostKeyOpenssh = k,
        st_privateKeyCiphertextB64 = c, st_privateKeyIvB64 = iv, st_observedAt = observedAt\<rparr>),
        rvm_updatedAt := observedAt\<rparr>) (xd_vms d)\<rparr>)" for d d' a b h p n k c iv
    by (rule later_vms_update) (auto simp: keptVm_def targetCond_def)
  note t = ledgerLater_trans
  have 1: "ledgerLater db (env 0 db)" by (rule e)
  have 2: "ledgerLater db (env 1 (env 0 db))" by (rule t [OF 1 e])
  note 3 = t [OF 2 u]
  note 4 = t [OF 3 e] and 5 = t [OF t [OF 3 e] e]
  show ?thesis
    unfolding recordRuntimeVmTerminalTarget_def
    using 1 3 4 5 by (auto simp: Let_def result_bind_def split: sum.splits option.splits)
qed

lemma later_actual_append:
  "vas_runtimeVmId row \<notin> set (map vas_runtimeVmId (xd_actual db)) \<Longrightarrow>
   ledgerLater db (db\<lparr>xd_actual := xd_actual db @ [row]\<rparr>)"
  by (simp add: ledgerLater_def keptRows_refl keptRows_append keptRow_refl keysOk_def)

lemma later_actual_update:
  assumes "\<And>a. cond a \<Longrightarrow> keptActual a row"
  shows "ledgerLater db (db\<lparr>xd_actual := sql_update cond (\<lambda>_. row) (xd_actual db)\<rparr>)"
proof -
  have "map vas_runtimeVmId (sql_update cond (\<lambda>_. row) (xd_actual db)) = map vas_runtimeVmId (xd_actual db)"
    using assms by (auto simp: sql_update_def keptActual_def)
  moreover have "keptRows keptActual (xd_actual db) (sql_update cond (\<lambda>_. row) (xd_actual db))"
    by (rule keptRows_update) (use keptRow_refl(4) assms in auto)
  ultimately show ?thesis by (simp add: ledgerLater_def keptRows_refl keptRow_refl keysOk_def)
qed

lemma upsert_later: "ledgerLater db (snd (upsertActualState generation sessionId credentialGeneration row db))"
proof -
  have "ledgerLater db (db\<lparr>xd_actual := xd_actual db @ [row]\<rparr>)"
    if "\<not> list_ex (\<lambda>a. vas_runtimeVmId a = vas_runtimeVmId row) (xd_actual db)"
    using that by (intro later_actual_append) (fastforce simp: list_ex_iff)
  moreover have "ledgerLater db (db\<lparr>xd_actual := sql_update (\<lambda>a. vas_runtimeVmId a = vas_runtimeVmId row \<and>
      vas_executionId a = vas_executionId row \<and> vas_hostId a = vas_hostId row \<and> vas_observedAt a \<le> vas_observedAt row)
      (\<lambda>_. row) (xd_actual db)\<rparr>)"
    by (rule later_actual_update) (simp add: keptActual_def)
  ultimately show ?thesis using ledgerLater_refl by (simp add: upsertActualState_def Let_def)
qed

lemma report_later:
  assumes "laterEnv env" and "laterEnv targetEnv"
  shows "ledgerLater db (snd (recordRuntimeVmActualState env targetEnv encrypt decrypt secret inp db))"
proof -
  have e: "ledgerLater d (env k d)" for k d using assms by (simp add: laterEnv_def)
  note t = ledgerLater_trans
  have 1: "ledgerLater db (env 0 db)" by (rule e)
  have 2: "upsertActualState g s c row (env 1 (env 0 db)) = (n, d) \<Longrightarrow> ledgerLater db d" for g s c row n d
    using t [OF t [OF 1 e] upsert_later] by (metis snd_conv)
  have 3: "upsertActualState g s c row (env 1 (env 0 db)) = (n, d) \<Longrightarrow> ledgerLater db (env 2 d)" for g s c row n d
    using t [OF 2 e] .
  have 4: "upsertActualState g s c row (env 1 (env 0 db)) = (n, d) \<Longrightarrow>
      recordRuntimeVmTerminalTarget targetEnv encrypt secret x1 x2 x3 x4 x5 x6 x7 x8 (env 3 (env 2 d)) = (r, d') \<Longrightarrow>
      ledgerLater db d'" for g s c row n d x1 x2 x3 x4 x5 x6 x7 x8 r d'
    using t [OF t [OF 3 e] target_later [OF assms(2)]] by (metis snd_conv)
  show ?thesis
    unfolding recordRuntimeVmActualState_def Let_def
    using 1 2 3 4 by (auto split: sum.split option.split prod.split list.split VmTerminalStateKindV1.split)
qed

lemma step_later: "ledgerStep db db' \<Longrightarrow> ledgerLater db db'"
  by (induction rule: ledgerStep.induct)
    (simp_all add: project_later create_later release_later archive_later setState_later target_later report_later)

lemma steps_later: "ledgerStep\<^sup>*\<^sup>* db db' \<Longrightarrow> ledgerLater db db'"
  by (induction rule: rtranclp_induct) (auto intro: ledgerLater_refl ledgerLater_trans dest: step_later)

end
