(* ===== verification/Runtime_Ledger.thy ===== *)
theory Runtime_Ledger
  imports Runtime_Executions
begin

section \<open>What the operations of the ledger do\<close>

text \<open>
  The functional properties of the operations of \<^verbatim>\<open>lib/runtime-executions.ts\<close> and
  \<^verbatim>\<open>lib/runtime-vm-state.ts\<close> and the history of the ledger they share: each operation is all or
  nothing, writes only for the newest generation of its domain, and keeps what the others recorded.
\<close>

subsection \<open>Specification vocabulary\<close>

text \<open>What the three statements of either mode establish for the run.\<close>

definition projected :: "RunRow \<Rightarrow> LedgerDb \<Rightarrow> bool" where
  "projected run db \<longleftrightarrow>
     (\<forall>x. rn_runtimeExecutionId run = Some x \<longrightarrow>
        (\<forall>e \<in> set (xd_executions db). re_id e = x \<and> re_domainKind e = ''scenario'' \<and> re_domainId e = rn_runId run \<longrightarrow>
           re_state e \<in> {ES_archived, executionStateOf (rn_state run)}) \<and>
        (rn_activeKey run = None \<longrightarrow> (\<forall>slot \<in> set (xd_slots db). sl_executionId slot \<noteq> x)) \<and>
        (rn_activeKey run \<noteq> None \<and> (\<exists>e \<in> set (xd_executions db). re_id e = x \<and> re_state e \<noteq> ES_archived) \<longrightarrow>
           (\<exists>slot \<in> set (xd_slots db). sl_userId slot = rn_userId run \<and> sl_executionId slot = x)))"

text \<open>The rows the checks let through.\<close>

definition vmOfExecution :: "string \<Rightarrow> RuntimeVm \<Rightarrow> bool" where
  "vmOfExecution executionId v \<longleftrightarrow>
     rvm_executionId v = executionId \<and> rvm_vmId v \<noteq> [] \<and> rvm_runtimeVmName v \<noteq> [] \<and> 0 \<le> rvm_ordinal v \<and>
     0 < rvm_cpuMillis v \<and> 0 < rvm_memoryMib v \<and> 0 < rvm_diskMib v \<and> rvm_terminal v = None"

definition vmRowsOk :: "string \<Rightarrow> RuntimeVm list \<Rightarrow> bool" where
  "vmRowsOk executionId vms \<longleftrightarrow>
     list_all (vmOfExecution executionId) vms \<and> distinct (map rvm_vmId vms) \<and> distinct (map rvm_ordinal vms) \<and>
     distinct (map rvm_runtimeVmName vms)"

definition sampleCreate :: CreateRuntimeExecutionInput where
  "sampleCreate =
     \<lparr>ci_executionId = Some '' run-1 '', ci_userId = ''u1'', ci_organizationId = None, ci_hostId = Some ''h1'',
      ci_providerConnectionId = None, ci_domainKind = ''scenario'', ci_domainId = ''run-1'', ci_checkpointId = None,
      ci_leaseExpiresAt = None,
      ci_vms = [\<lparr>vs_vmId = ''web'', vs_ordinal = 0, vs_runtimeVmName = ''run-1-web'', vs_imageKey = JObj [],
                 vs_imageSha256 = ''ab'', vs_cpuMillis = 1000, vs_memoryMib = 512, vs_diskMib = 1024\<rparr>],
      ci_claimActiveSlot = True, ci_reservationState = None, ci_reservationExpiresAt = None,
      ci_reservationResources = None, ci_now = 20\<rparr>"

definition emptyLedger :: LedgerDb where
  "emptyLedger =
     \<lparr>xd_executions = [], xd_vms = [], xd_reservations = [], xd_slots = [], xd_runs = [sampleRun],
      xd_hosts = rdb_hosts sampleDb, xd_accessKeys = [], xd_actual = []\<rparr>"

definition sampleLedger :: LedgerDb where
  "sampleLedger = snd (createRuntimeExecution (\<lambda>_. ''vm-row'') sampleCreate emptyLedger)"

definition sampleReportInput :: ReportInput where
  "sampleReportInput =
     \<lparr>ri_executionId = ''run-1'', ri_expectedGeneration = 1, ri_vmId = ''web'', ri_hostId = ''h1'',
      ri_report =
        \<lparr>av_owner_user_id = ''u1'', av_runtime_execution_id = ''run-1'', av_generation = 1, av_run_id = ''run-1'',
         av_vm_name = ''run-1-web'', av_desired_version = Some 1, av_phase = BV_ready, av_image_key = None,
         av_image_id = None, av_guest_tools = None, av_network = None,
         av_terminal = \<lparr>ts_state = TK_pending, ts_target = None, ts_reason = None, ts_observed_at_unix_ms = 30\<rparr>,
         av_runtime_constraints = None, av_resource_state = None, av_sandbox = None, av_ssh_host_keys_openssh = [],
         av_probes = [], av_archive = None, av_error = None, av_updated_at_unix_ms = 40\<rparr>,
      ri_observedAt = None, ri_expectedHostSessionId = ''s1'', ri_expectedHostCredentialGeneration = 3\<rparr>"

subsection \<open>Lemmas\<close>

lemma executionOfRun_mirror [simp]: "executionOfRun run (mirrorRun run' e) = executionOfRun run e"
  by (simp add: executionOfRun_def mirrorRun_def)

lemma insertExecution_mem: "insertExecution row db = Inr (n, db') \<Longrightarrow> row \<in> set (xd_executions db')"
  by (auto simp: insertExecution_def split: if_splits)

lemma projectInsert_present:
  assumes "projectInsertExecution runId db = Inr (n, db')" and "findLedgerRun runId db = Some run"
  shows "executionIdOf run \<in> re_id ` set (xd_executions db')"
proof (cases "list_ex (\<lambda>e. re_id e = executionIdOf run) (xd_executions db)")
  case True
  then have "db' = db" using assms by (simp add: projectInsertExecution_def)
  moreover obtain e where "e \<in> set (xd_executions db)" "re_id e = executionIdOf run"
    using True by (auto simp: list_ex_iff)
  ultimately show ?thesis by (metis image_eqI)
next
  case False
  then obtain row where "insertExecution row db = Inr (n, db')" "re_id row = executionIdOf run"
    using assms by (simp add: projectInsertExecution_def)
  then show ?thesis using insertExecution_mem by (metis imageI)
qed

lemma projection_head:
  assumes "runBatch [projectInsertExecution runId, projectIdentitySentinel runId, projectReferenceExecution runId] db =
      Inr (ns, db')"
    and "findLedgerRun runId db' = Some run'"
  shows "\<exists>e \<in> set (xd_executions db'). rn_runtimeExecutionId run' = Some (re_id e) \<and> executionOfRun run' e"
proof -
  from assms(1) obtain n1 n2 n3 db1 db2 where
    s: "projectInsertExecution runId db = Inr (n1, db1)" "projectIdentitySentinel runId db1 = Inr (n2, db2)"
      "projectReferenceExecution runId db2 = Inr (n3, db')"
    by (auto split: sum.splits)
  have d2: "db2 = db1" using s(2) by (rule projectSentinel_same)
  let ?ref = "\<lambda>run. if rn_runId run = runId \<and> rn_runtimeExecutionId run = None
    then run\<lparr>rn_runtimeExecutionId := Some (rn_runId run)\<rparr> else run"
  have runs1: "xd_runs db1 = xd_runs db"
    using s(1) by (auto simp: projectInsertExecution_def insertExecution_def split: option.splits if_splits)
  have runs': "xd_runs db' = sql_update (\<lambda>run. rn_runId run = runId \<and> rn_runtimeExecutionId run = None)
      (\<lambda>run. run\<lparr>rn_runtimeExecutionId := Some (rn_runId run)\<rparr>) (xd_runs db1)"
    and same: "xd_executions db' = xd_executions db1"
    using s(3) d2 by (auto simp: projectReferenceExecution_def Let_def split: if_splits)
  have "findLedgerRun runId db' = map_option ?ref (findLedgerRun runId db1)"
    unfolding findLedgerRun_def runs' by (rule find_sql_update) simp
  then obtain run where run: "findLedgerRun runId db1 = Some run" and run': "run' = ?ref run"
    using assms(2) by (cases "findLedgerRun runId db1") auto
  have run0: "findLedgerRun runId db = Some run" using run runs1 by (simp add: findLedgerRun_def)
  have id: "rn_runId run = runId" using run by (auto simp: findLedgerRun_def find_Some_iff)
  obtain e where e: "e \<in> set (xd_executions db1)" "re_id e = executionIdOf run"
    using projectInsert_present [OF s(1) run0] by auto
  then have "executionOfRun run e"
    using s(2) run by (auto simp: projectIdentitySentinel_def insertExecution_def list_ex_iff split: if_splits)
  then have "rn_runtimeExecutionId run' = Some (re_id e) \<and> executionOfRun run' e"
    using e(2) run' id by (cases "rn_runtimeExecutionId run") (simp_all add: executionIdOf_def coalesce_def executionOfRun_def)
  then show ?thesis using e(1) same by auto
qed

lemma projection_tail:
  assumes "runBatch [projectMirror runId, projectDropSlot runId, projectTakeSlot runId mode] db = Inr (ns, db')"
    and "findLedgerRun runId db' = Some run"
  shows "projected run db'" and "findLedgerRun runId db = Some run"
    and "\<exists>e \<in> set (xd_executions db). P e \<and> executionOfRun run e \<Longrightarrow> (\<And>e. P (mirrorRun run e) = P e) \<Longrightarrow>
      \<exists>e \<in> set (xd_executions db'). P e \<and> executionOfRun run e"
proof -
  from assms(1) obtain n1 n2 n3 db1 db2 where
    s: "projectMirror runId db = Inr (n1, db1)" "projectDropSlot runId db1 = Inr (n2, db2)"
      "projectTakeSlot runId mode db2 = Inr (n3, db')"
    by (auto split: sum.splits)
  have r1: "xd_runs db1 = xd_runs db" using s(1) by (auto simp: projectMirror_def split: option.splits)
  have r2: "xd_runs db2 = xd_runs db1" "xd_executions db2 = xd_executions db1"
    using s(2) by (auto simp: projectDropSlot_def Let_def split: option.splits)
  have r3: "xd_runs db' = xd_runs db2" "xd_executions db' = xd_executions db2"
    using s(3) by (auto simp: projectTakeSlot_def insertSlots_def Let_def split: option.splits if_splits)
  have f: "findLedgerRun runId db = Some run" "findLedgerRun runId db1 = Some run" "findLedgerRun runId db2 = Some run"
    using assms(2) r1 r2 r3 by (simp_all add: findLedgerRun_def)
  then show "findLedgerRun runId db = Some run" by simp
  have ex: "xd_executions db' = sql_update (mirrored run) (mirrorRun run) (xd_executions db)"
    using s(1) f(1) r2 r3 by (auto simp: projectMirror_def)
  show "projected run db'"
    unfolding projected_def
  proof (intro allI impI conjI)
    fix x assume x: "rn_runtimeExecutionId run = Some x"
    show "\<forall>e \<in> set (xd_executions db'). re_id e = x \<and> re_domainKind e = ''scenario'' \<and> re_domainId e = rn_runId run \<longrightarrow>
        re_state e \<in> {ES_archived, executionStateOf (rn_state run)}"
    proof (intro ballI impI)
      fix e assume e: "e \<in> set (xd_executions db')"
        and i: "re_id e = x \<and> re_domainKind e = ''scenario'' \<and> re_domainId e = rn_runId run"
      obtain r where "e = (if mirrored run r then mirrorRun run r else r)"
        using e unfolding ex set_sql_update by blast
      then show "re_state e \<in> {ES_archived, executionStateOf (rn_state run)}"
        using i x by (cases "mirrored run r") (auto simp: mirrored_def mirrorRun_def)
    qed
    show "\<forall>slot \<in> set (xd_slots db'). sl_executionId slot \<noteq> x" if "rn_activeKey run = None"
      using s(2,3) f x that by (auto simp: projectDropSlot_def projectTakeSlot_def Let_def)
    show "\<exists>slot \<in> set (xd_slots db'). sl_userId slot = rn_userId run \<and> sl_executionId slot = x"
      if "rn_activeKey run \<noteq> None \<and> (\<exists>e \<in> set (xd_executions db'). re_id e = x \<and> re_state e \<noteq> ES_archived)"
      using s(3) f(3) x that r3(2)
      by (auto simp: projectTakeSlot_def insertSlots_def Let_def list_ex_iff split: if_splits)
  qed
  show "\<exists>e \<in> set (xd_executions db'). P e \<and> executionOfRun run e"
    if some: "\<exists>e \<in> set (xd_executions db). P e \<and> executionOfRun run e" and P: "\<And>e. P (mirrorRun run e) = P e"
  proof -
    obtain e where e: "e \<in> set (xd_executions db)" "P e" "executionOfRun run e" using some by blast
    have "(if mirrored run e then mirrorRun run e else e) \<in> set (xd_executions db')"
      unfolding ex using e(1) by (rule sql_update_mem)
    moreover have "P (if mirrored run e then mirrorRun run e else e)"
      "executionOfRun run (if mirrored run e then mirrorRun run e else e)"
      using e(2,3) P by simp_all
    ultimately show ?thesis by (intro bexI conjI)
  qed
qed

lemma result_bind_Inr: "result_bind r f = Inr y \<longleftrightarrow> (\<exists>x. r = Inr x \<and> f x = Inr y)"
  by (cases r) (simp_all add: result_bind_def)

lemma requiredId_Inr: "requiredId value name = Inr x \<longleftrightarrow> x = js_trim value \<and> x \<noteq> []"
  by (auto simp: requiredId_def Let_def)

lemma requireCurrent_Inr:
  assumes "requireCurrentRuntimeGeneration db executionId generation = Inr row"
  shows "re_id (fst row) = js_trim executionId" "re_generation (fst row) = generation"
    "fst row \<in> set (xd_executions db)"
proof -
  obtain e where "find (\<lambda>e. re_id e = js_trim executionId) (xd_executions db) = Some e" "fst row = e"
    "re_generation e = generation"
    using assms
    by (auto simp: requireCurrentRuntimeGeneration_def result_bind_Inr requiredId_Inr positiveInteger_def
        loadRuntimeExecutionIdentity_def simp del: find_Some_iff split: option.splits if_splits)
  then show "re_id (fst row) = js_trim executionId" "re_generation (fst row) = generation"
    "fst row \<in> set (xd_executions db)"
    using find_Some_mem by fastforce+
qed

lemma stale_statements:
  assumes "\<not> currentGuard db executionId generation"
  shows "clearActiveKey executionId generation now db = Inr (0, db)"
    and "deleteSlot executionId generation db = Inr (0, db)"
    and "releaseReservation executionId generation now db = Inr (0, db)"
    and "archiveExecution executionId generation now db = Inr (0, db)"
proof -
  have "sql_update (\<lambda>e. re_id e = executionId \<and> re_generation e = generation \<and> isNewest db e) f (xd_executions db) =
      xd_executions db" "sql_count (\<lambda>e. re_id e = executionId \<and> re_generation e = generation \<and> isNewest db e)
      (xd_executions db) = 0" for f
    using assms by (auto simp: currentGuard_def list_ex_iff sql_count_0 intro: sql_update_none)
  then show "archiveExecution executionId generation now db = Inr (0, db)"
    by (simp add: archiveExecution_def)
qed (use assms in \<open>simp_all add: clearActiveKey_def deleteSlot_def releaseReservation_def sql_count_def sql_update_def
    sql_delete_def\<close>)

text \<open>The updated row of an upsert that changed one row.\<close>

lemma upsert_changed:
  assumes "upsertActualState generation sessionId credentialGeneration row db = (Suc 0, db')"
  shows "row \<in> set (xd_actual db')"
    and "list_ex (liveExecution db (vas_executionId row) generation (vas_hostId row)) (xd_executions db)"
    and "list_ex (hostSession (vas_hostId row) sessionId credentialGeneration) (xd_hosts db)"
proof -
  have "row \<in> set (sql_update cond (\<lambda>_. row) rows)" if "sql_count cond rows = Suc 0" for cond rows
    using that sql_count_0 [of cond rows] sql_update_mem [of _ rows cond "\<lambda>_. row"] by (metis nat.distinct(1))
  then show "row \<in> set (xd_actual db')"
    using assms by (auto simp: upsertActualState_def Let_def split: if_splits)
qed (use assms in \<open>auto simp: upsertActualState_def Let_def split: if_splits\<close>)

lemma checkReport_Some:
  assumes "checkReport inp db db1 = Inr (Some (e, vmId, sessionId, row))"
  shows "re_id e = js_trim (ri_executionId inp)" "re_generation e = ri_expectedGeneration inp"
    "sessionId = js_trim (ri_expectedHostSessionId inp)" "vas_executionId row = re_id e"
    "vas_hostId row = js_trim (ri_hostId inp)" "vas_reportJson row = ri_report inp"
    "vas_observedAt row = coalesce (ri_observedAt inp) (av_updated_at_unix_ms (ri_report inp))"
    "e \<in> set (xd_executions db)" "av_owner_user_id (ri_report inp) = re_userId e"
    "av_generation (ri_report inp) = re_generation e" "av_run_id (ri_report inp) = re_domainId e"
proof -
  obtain g hostId vm observedAt where
    c: "requireCurrentRuntimeGeneration db (ri_executionId inp) (ri_expectedGeneration inp) = Inr (e, g)"
    and h: "hostId = js_trim (ri_hostId inp)" and s: "sessionId = js_trim (ri_expectedHostSessionId inp)"
    and r: "reportOf e vm (ri_report inp)"
    and o: "observedAt = coalesce (ri_observedAt inp) (av_updated_at_unix_ms (ri_report inp))"
    and row: "row = actualStateRow (rvm_id vm) (re_id e) hostId observedAt (ri_report inp)"
    using assms
    by (auto simp: checkReport_def result_bind_Inr requiredId_Inr nonNegativeInteger_def
        split: option.splits if_splits prod.splits)
  show "re_id e = js_trim (ri_executionId inp)" "re_generation e = ri_expectedGeneration inp"
    "e \<in> set (xd_executions db)"
    using requireCurrent_Inr [OF c] by simp_all
  show "sessionId = js_trim (ri_expectedHostSessionId inp)" by (rule s)
  show "vas_executionId row = re_id e" "vas_hostId row = js_trim (ri_hostId inp)" "vas_reportJson row = ri_report inp"
    "vas_observedAt row = coalesce (ri_observedAt inp) (av_updated_at_unix_ms (ri_report inp))"
    using row h o by (simp_all add: actualStateRow_def)
  show "av_owner_user_id (ri_report inp) = re_userId e" "av_generation (ri_report inp) = re_generation e"
    "av_run_id (ri_report inp) = re_domainId e"
    using r by (simp_all add: reportOf_def)
qed

lemma recorded_moment:
  assumes "laterEnv env" "laterEnv targetEnv"
    and "recordRuntimeVmActualState env targetEnv encrypt decrypt secret inp db = (Inr RecordUpdated, db')"
  obtains e vmId sessionId row db2 where
    "checkReport inp db (env 0 db) = Inr (Some (e, vmId, sessionId, row))"
    "upsertActualState (ri_expectedGeneration inp) sessionId (ri_expectedHostCredentialGeneration inp) row
       (env 1 (env 0 db)) = (Suc 0, db2)"
    "ledgerLater db2 db'"
proof -
  have e: "ledgerLater d (env k d)" for k d using assms by (simp add: laterEnv_def)
  obtain e vmId sessionId row db2 n where
    c: "checkReport inp db (env 0 db) = Inr (Some (e, vmId, sessionId, row))"
    and u: "upsertActualState (ri_expectedGeneration inp) sessionId (ri_expectedHostCredentialGeneration inp) row
       (env 1 (env 0 db)) = (n, db2)"
    using assms(3) unfolding recordRuntimeVmActualState_def Let_def
    by (auto split: sum.splits option.splits prod.splits)
  note r = assms(3) [unfolded recordRuntimeVmActualState_def Let_def c, simplified, unfolded u [simplified], simplified]
  have n: "n = Suc 0" using r by (auto split: if_splits)
  have t: "recordRuntimeVmTerminalTarget targetEnv encrypt secret x1 x2 x3 x4 x5 x6 x7 x8 (env 3 (env 2 db2)) = (y, d) \<Longrightarrow>
      ledgerLater db2 d" for x1 x2 x3 x4 x5 x6 x7 x8 y d
    using ledgerLater_trans [OF ledgerLater_trans [OF e e] target_later [OF assms(2)]] by (metis snd_conv)
  have "ledgerLater db2 db'"
    using r n t ledgerLater_refl [of db2]
    by (auto split: sum.splits option.splits prod.splits list.splits VmTerminalStateKindV1.splits if_splits)
  then show thesis using that c u n by blast
qed

subsection \<open>What each operation does\<close>

lemma runBatch_insertVms:
  "runBatch (map insertVm rows) db = Inr (ns, db') \<Longrightarrow> db' = db\<lparr>xd_vms := xd_vms db @ rows\<rparr>"
proof (induction rows arbitrary: db ns)
  case (Cons row rows)
  then obtain n ms db1 where s: "insertVm row db = Inr (n, db1)" "runBatch (map insertVm rows) db1 = Inr (ms, db')"
    by (auto elim: runBatch_ConsE simp del: runBatch.simps)
  then show ?case using Cons.IH [OF s(2)] by (auto simp: insertVm_def split: if_splits)
qed simp

lemma runBatch_insertReservation:
  "runBatch (map resourceReservationInsert (option_list r)) db = Inr (ns, db') \<Longrightarrow>
   db' = db\<lparr>xd_reservations := xd_reservations db @ option_list r\<rparr>"
  by (cases r) (auto simp: option_list_def resourceReservationInsert_def split: if_splits)

lemma runBatch_insertSlot:
  assumes "runBatch (map (\<lambda>slot. insertSlots [slot]) (option_list s)) db = Inr (ns, db')"
  shows "db' = db\<lparr>xd_slots := xd_slots db @ option_list s\<rparr>"
    and "s = Some slot \<Longrightarrow> \<forall>other \<in> set (xd_slots db). sl_userId other \<noteq> sl_userId slot"
proof -
  show "db' = db\<lparr>xd_slots := xd_slots db @ option_list s\<rparr>"
    using assms by (cases s) (auto simp: option_list_def insertSlots_def Let_def split: if_splits)
  show "\<forall>other \<in> set (xd_slots db). sl_userId other \<noteq> sl_userId slot" if "s = Some slot"
    using assms that by (auto simp: option_list_def insertSlots_def Let_def image_iff split: if_splits)
qed

lemma createStatements_Inr:
  assumes "runBatch (createStatements p) db = Inr (changes, db')"
  shows "db' = db\<lparr>xd_executions := xd_executions db @ [pe_execution p], xd_vms := xd_vms db @ pe_vms p,
      xd_reservations := xd_reservations db @ option_list (pe_reservation p),
      xd_slots := xd_slots db @ option_list (pe_slot p)\<rparr>" (is ?db)
    and "hd changes = 1"
    and "\<forall>e \<in> set (xd_executions db). re_id e \<noteq> re_id (pe_execution p)" (is ?fresh)
    and "pe_slot p = Some slot \<Longrightarrow> \<forall>other \<in> set (xd_slots db). sl_userId other \<noteq> sl_userId slot"
proof -
  obtain n ms d1 where e: "insertExecution (pe_execution p) db = Inr (n, d1)" "changes = n # ms"
    and r: "runBatch (map insertVm (pe_vms p) @ map resourceReservationInsert (option_list (pe_reservation p)) @
      map (\<lambda>slot. insertSlots [slot]) (option_list (pe_slot p))) d1 = Inr (ms, db')"
    using assms unfolding createStatements_def by (rule runBatch_ConsE)
  obtain n2 n3 n4 d2 d3 where
    b: "runBatch (map insertVm (pe_vms p)) d1 = Inr (n2, d2)"
      "runBatch (map resourceReservationInsert (option_list (pe_reservation p))) d2 = Inr (n3, d3)"
      "runBatch (map (\<lambda>slot. insertSlots [slot]) (option_list (pe_slot p))) d3 = Inr (n4, db')"
    using r by (auto simp: runBatch_append split: sum.splits)
  have d1: "d1 = db\<lparr>xd_executions := xd_executions db @ [pe_execution p]\<rparr>" "n = 1" ?fresh
    using e(1) by (auto simp: insertExecution_def list_ex_iff split: if_splits)
  then show "hd changes = 1" ?fresh using e(2) by simp_all
  have d2: "d2 = d1\<lparr>xd_vms := xd_vms d1 @ pe_vms p\<rparr>" by (rule runBatch_insertVms [OF b(1)])
  have d3: "d3 = d2\<lparr>xd_reservations := xd_reservations d2 @ option_list (pe_reservation p)\<rparr>"
    by (rule runBatch_insertReservation [OF b(2)])
  show ?db using runBatch_insertSlot(1) [OF b(3)] d1 d2 d3 by simp
  show "\<forall>other \<in> set (xd_slots db). sl_userId other \<noteq> sl_userId slot" if "pe_slot p = Some slot"
    using runBatch_insertSlot(2) [OF b(3) that] d1 d2 d3 by simp
qed

lemma positiveInteger_Inr: "positiveInteger v n = Inr x \<longleftrightarrow> x = v \<and> isSafeInteger v \<and> 0 < v"
  by (auto simp: positiveInteger_def)

lemma prepareVms_Cons:
  assumes "prepareVms newId executionId now k before (candidate # rest) = Inr vms"
  obtains vm vms' where "vms = vm # vms'" "vmOfExecution executionId vm"
    "\<forall>v \<in> set before. rvm_vmId v \<noteq> rvm_vmId vm \<and> rvm_ordinal v \<noteq> rvm_ordinal vm \<and>
       rvm_runtimeVmName v \<noteq> rvm_runtimeVmName vm"
    "prepareVms newId executionId now (Suc k) (vm # before) rest = Inr vms'"
  using assms
  by (auto simp: result_bind_Inr requiredId_Inr positiveInteger_Inr nonNegativeInteger_def vmOfExecution_def
      list_ex_iff Let_def split: if_splits)

lemma prepareVms_ok:
  assumes "prepareVms newId executionId now k before specs = Inr vms" and "vmRowsOk executionId before"
  shows "vmRowsOk executionId (before @ vms) \<and> length vms = length specs"
  using assms
proof (induction specs arbitrary: k before vms)
  case (Cons candidate rest)
  from Cons.prems(1) obtain vm vms' where v: "vms = vm # vms'" "vmOfExecution executionId vm"
    and new: "\<forall>v \<in> set before. rvm_vmId v \<noteq> rvm_vmId vm \<and> rvm_ordinal v \<noteq> rvm_ordinal vm \<and>
       rvm_runtimeVmName v \<noteq> rvm_runtimeVmName vm"
    and r: "prepareVms newId executionId now (Suc k) (vm # before) rest = Inr vms'"
    by (rule prepareVms_Cons)
  have "vmRowsOk executionId (vm # before)" using Cons.prems(2) v(2) new by (auto simp: vmRowsOk_def)
  from Cons.IH [OF r this] show ?case using v(1) by (auto simp: vmRowsOk_def)
qed simp

text \<open>The totals of the VMs are exact: a total the double additions rounded is not a safe integer.\<close>

lemma supportedTotal_exact:
  assumes "supportedTotal (js_sum xs) name = Inr amount" and "\<And>x. x \<in> set xs \<Longrightarrow> 0 < x"
  shows "amount = sum_list xs"
proof -
  have "isSafeInteger (js_sum xs)" "amount = js_sum xs" using assms(1) by (auto simp: supportedTotal_def split: if_splits)
  moreover have "\<And>x. x \<in> set xs \<Longrightarrow> 0 \<le> x" using assms(2) by force
  ultimately show ?thesis using js_sum_exact [of xs] by (auto simp: isSafeInteger_iff)
qed

lemma sumResources_exact:
  assumes "sumResources vms = Inr r" and "list_all (vmOfExecution executionId) vms"
  shows "rd_cpuMillis r = sum_list (map rvm_cpuMillis vms)" "rd_memoryMib r = sum_list (map rvm_memoryMib vms)"
    "rd_worstCaseDiskMib r = sum_list (map rvm_diskMib vms)"
proof -
  obtain c m d where "supportedTotal (js_sum (map rvm_cpuMillis vms)) ''cpuMillis'' = Inr c"
    "supportedTotal (js_sum (map rvm_memoryMib vms)) ''memoryMib'' = Inr m"
    "supportedTotal (js_sum (map rvm_diskMib vms)) ''worstCaseDiskMib'' = Inr d"
    "r = \<lparr>rd_cpuMillis = c, rd_memoryMib = m, rd_worstCaseDiskMib = d\<rparr>"
    using assms(1) by (auto simp: sumResources_def result_bind_Inr)
  moreover have "\<And>x. x \<in> set (map rvm_cpuMillis vms) \<Longrightarrow> 0 < x" "\<And>x. x \<in> set (map rvm_memoryMib vms) \<Longrightarrow> 0 < x"
    "\<And>x. x \<in> set (map rvm_diskMib vms) \<Longrightarrow> 0 < x"
    using assms(2) by (auto simp: list_all_iff vmOfExecution_def)
  ultimately show "rd_cpuMillis r = sum_list (map rvm_cpuMillis vms)"
    "rd_memoryMib r = sum_list (map rvm_memoryMib vms)" "rd_worstCaseDiskMib r = sum_list (map rvm_diskMib vms)"
    using supportedTotal_exact [of "map rvm_cpuMillis vms"] supportedTotal_exact [of "map rvm_memoryMib vms"]
      supportedTotal_exact [of "map rvm_diskMib vms"] by auto
qed

lemma prepareReservation_covers:
  assumes "prepareReservationResources given needed = Inr r"
  shows "rd_cpuMillis needed \<le> rd_cpuMillis r" "rd_memoryMib needed \<le> rd_memoryMib r"
    "rd_worstCaseDiskMib needed \<le> rd_worstCaseDiskMib r"
  using assms
  by (auto simp: prepareReservationResources_def result_bind_Inr split: option.splits if_splits)

lemma prepared_execution:
  assumes "prepareExecution newId inp = Inr p"
  shows "re_generation (pe_execution p) = 1" "re_state (pe_execution p) = ES_queued"
    "pe_vms p \<noteq> []" "vmRowsOk (re_id (pe_execution p)) (pe_vms p)"
    "pe_reservation p = Some r \<Longrightarrow> rr_executionId r = re_id (pe_execution p) \<and>
       sum_list (map rvm_cpuMillis (pe_vms p)) \<le> rr_cpuMillis r \<and>
       sum_list (map rvm_memoryMib (pe_vms p)) \<le> rr_memoryMib r \<and>
       sum_list (map rvm_diskMib (pe_vms p)) \<le> rr_worstCaseDiskMib r"
proof -
  obtain reserved now where
    v: "prepareVmRows newId (re_id (pe_execution p)) now (ci_vms inp) = Inr (pe_vms p)"
    and s: "sumResources (pe_vms p) = Inr (pe_resources p)"
    and c: "prepareReservationResources (ci_reservationResources inp) (pe_resources p) = Inr reserved"
    and g: "re_generation (pe_execution p) = 1 \<and> re_state (pe_execution p) = ES_queued"
    and r: "pe_reservation p = Some r \<longrightarrow> rr_executionId r = re_id (pe_execution p) \<and>
      rr_cpuMillis r = rd_cpuMillis reserved \<and> rr_memoryMib r = rd_memoryMib reserved \<and>
      rr_worstCaseDiskMib r = rd_worstCaseDiskMib reserved"
    using assms unfolding prepareExecution_def result_bind_Inr Let_def
    by (elim exE conjE) (rule that, auto)
  show "re_generation (pe_execution p) = 1" "re_state (pe_execution p) = ES_queued" using g by simp_all
  have vms: "ci_vms inp \<noteq> []" "prepareVms newId (re_id (pe_execution p)) now 1 [] (ci_vms inp) = Inr (pe_vms p)"
    using v by (simp_all add: prepareVmRows_def split: if_splits)
  have ok: "vmRowsOk (re_id (pe_execution p)) (pe_vms p) \<and> length (pe_vms p) = length (ci_vms inp)"
    using prepareVms_ok [OF vms(2)] by (simp add: vmRowsOk_def)
  then show "pe_vms p \<noteq> []" "vmRowsOk (re_id (pe_execution p)) (pe_vms p)" using vms(1) by auto
  show "rr_executionId r = re_id (pe_execution p) \<and>
       sum_list (map rvm_cpuMillis (pe_vms p)) \<le> rr_cpuMillis r \<and>
       sum_list (map rvm_memoryMib (pe_vms p)) \<le> rr_memoryMib r \<and>
       sum_list (map rvm_diskMib (pe_vms p)) \<le> rr_worstCaseDiskMib r" if "pe_reservation p = Some r"
    using r that sumResources_exact [OF s, of "re_id (pe_execution p)"] prepareReservation_covers [OF c] ok
    by (simp add: vmRowsOk_def)
qed

lemma liveGuard: "list_ex (liveExecution db executionId generation hostId) (xd_executions db) \<Longrightarrow>
    currentGuard db executionId generation"
  by (auto simp: list_ex_iff currentGuard_def liveExecution_def)

lemma archiveStatements_run:
  "runBatch (archiveStatements executionId generation endedAt) db = Inr (changes, db') \<Longrightarrow>
   \<exists>a b c. changes = [a, b, c, sql_count (\<lambda>e. re_id e = executionId \<and> re_generation e = generation \<and> isNewest db e)
     (xd_executions db)]"
  by (auto simp: archiveStatements_def clearActiveKey_def releaseReservation_def deleteSlot_def archiveExecution_def
      Let_def isNewest_def)

lemma archiveStatements_total:
  obtains changes db' where "runBatch (archiveStatements executionId generation endedAt) db = Inr (changes, db')"
  by (simp add: archiveStatements_def clearActiveKey_def releaseReservation_def deleteSlot_def archiveExecution_def Let_def)

lemma archiveStatements_stale:
  "\<not> currentGuard db executionId generation \<Longrightarrow>
   runBatch (archiveStatements executionId generation endedAt) db = Inr ([0, 0, 0, 0], db)"
  by (simp add: archiveStatements_def stale_statements)

lemma releaseStatements_stale:
  "\<not> currentGuard db executionId generation \<Longrightarrow>
   runBatch [clearActiveKey executionId generation now, deleteSlot executionId generation] db = Inr ([0, 0], db)"
  by (simp add: stale_statements)

lemma archived_effect:
  assumes "currentGuard db executionId generation"
    and "runBatch (archiveStatements executionId generation endedAt) db = Inr (changes, db')"
  shows "\<exists>e \<in> set (xd_executions db'). re_id e = executionId \<and> re_generation e = generation \<and> re_state e = ES_archived"
    and "\<forall>slot \<in> set (xd_slots db'). sl_executionId slot \<noteq> executionId"
    and "\<forall>r \<in> set (xd_reservations db'). rr_executionId r = executionId \<longrightarrow> rr_state r = RR_released"
    and "\<forall>run \<in> set (xd_runs db'). rn_runtimeExecutionId run = Some executionId \<longrightarrow> rn_activeKey run = None"
proof -
  let ?run = "\<lambda>run. rn_runtimeExecutionId run = Some executionId \<and> rn_activeKey run \<noteq> None"
  let ?res = "\<lambda>r. rr_executionId r = executionId \<and> rr_state r \<noteq> RR_released"
  let ?exec = "\<lambda>e. re_id e = executionId \<and> re_generation e = generation \<and> isNewest db e"
  let ?runs = "sql_update ?run (\<lambda>run. run\<lparr>rn_activeKey := None,
      rn_updatedAt := max (rn_updatedAt run + 1) endedAt\<rparr>) (xd_runs db)"
  let ?reservations = "sql_update ?res (\<lambda>r. r\<lparr>rr_state := RR_released,
      rr_releasedAt := Some (coalesce (rr_releasedAt r) endedAt), rr_updatedAt := endedAt\<rparr>) (xd_reservations db)"
  let ?archive = "\<lambda>e. e\<lparr>re_state := ES_archived,
      re_archiveRequestedAt := Some (coalesce (re_archiveRequestedAt e) endedAt),
      re_endedAt := Some (coalesce (re_endedAt e) endedAt), re_updatedAt := endedAt\<rparr>"
  let ?slots = "sql_delete (\<lambda>slot. sl_executionId slot = executionId) (xd_slots db)"
  obtain n1 n2 n3 n4 d1 d2 d3 where
    s: "clearActiveKey executionId generation endedAt db = Inr (n1, d1)"
      "releaseReservation executionId generation endedAt d1 = Inr (n2, d2)"
      "deleteSlot executionId generation d2 = Inr (n3, d3)"
      "archiveExecution executionId generation endedAt d3 = Inr (n4, db')"
    using assms(2) unfolding archiveStatements_def by (auto elim!: runBatch_ConsE simp del: runBatch.simps(2))
  have d1: "d1 = db\<lparr>xd_runs := ?runs\<rparr>" using s(1) assms(1) by (simp add: clearActiveKey_def Let_def)
  then have "currentGuard d1 executionId generation" using assms(1) by (simp add: currentGuard_def isNewest_def)
  then have d2: "d2 = d1\<lparr>xd_reservations := ?reservations\<rparr>"
    using s(2) d1 by (simp add: releaseReservation_def Let_def)
  then have "currentGuard d2 executionId generation" using assms(1) d1 by (simp add: currentGuard_def isNewest_def)
  then have d3: "d3 = d2\<lparr>xd_slots := ?slots\<rparr>" using s(3) d1 d2 by (simp add: deleteSlot_def Let_def)
  have same: "xd_executions d3 = xd_executions db" "isNewest d3 = isNewest db"
    using d1 d2 d3 by (simp_all add: isNewest_def fun_eq_iff)
  have a: "db' = d3\<lparr>xd_executions := sql_update
      (\<lambda>e. re_id e = executionId \<and> re_generation e = generation \<and> isNewest d3 e) ?archive (xd_executions d3)\<rparr>"
    using s(4) by (simp add: archiveExecution_def Let_def)
  have db': "xd_executions db' = sql_update ?exec ?archive (xd_executions db)"
    "xd_slots db' = ?slots" "xd_reservations db' = ?reservations" "xd_runs db' = ?runs"
    unfolding a same by (simp_all add: d3 d2 d1)
  obtain e where "e \<in> set (xd_executions db)" "?exec e" using assms(1) by (auto simp: currentGuard_def list_ex_iff)
  then show "\<exists>e \<in> set (xd_executions db'). re_id e = executionId \<and> re_generation e = generation \<and> re_state e = ES_archived"
    unfolding db'(1) by (intro bexI [OF _ sql_update_mem]) auto
  show "\<forall>slot \<in> set (xd_slots db'). sl_executionId slot \<noteq> executionId"
    unfolding db'(2) by simp
  show "\<forall>r \<in> set (xd_reservations db'). rr_executionId r = executionId \<longrightarrow> rr_state r = RR_released"
    unfolding db'(3) by (rule sql_update_all) auto
  show "\<forall>run \<in> set (xd_runs db'). rn_runtimeExecutionId run = Some executionId \<longrightarrow> rn_activeKey run = None"
    unfolding db'(4) by (rule sql_update_all) auto
qed

subsection \<open>Properties\<close>



text \<open>
  C16. Archiving an execution is all or nothing. On success the generation was the newest of its domain when
  the batch ran, and afterwards the execution is archived, no slot is held by it, every reservation of it is
  released and no run that references it is active. On an error nothing is written.
\<close>

lemma archive_all_or_nothing:
  assumes "keysOk (env 0 db)"
  shows "case archiveRuntimeExecution env executionId generation endedAt db of
     (Inl _, db') \<Rightarrow> db' \<in> {db, env 0 db}
   | (Inr _, db') \<Rightarrow>
       currentGuard (env 0 db) (js_trim executionId) generation \<and>
       (\<exists>e \<in> set (xd_executions db'). re_id e = js_trim executionId \<and> re_generation e = generation \<and>
          re_state e = ES_archived) \<and>
       (\<forall>slot \<in> set (xd_slots db'). sl_executionId slot \<noteq> js_trim executionId) \<and>
       (\<forall>r \<in> set (xd_reservations db'). rr_executionId r = js_trim executionId \<longrightarrow> rr_state r = RR_released) \<and>
       (\<forall>run \<in> set (xd_runs db'). rn_runtimeExecutionId run = Some (js_trim executionId) \<longrightarrow>
          rn_activeKey run = None)"
proof (cases "result_bind (requireCurrentRuntimeGeneration db executionId generation) (\<lambda>execution.
    result_bind (validTimestamp endedAt ''endedAt'') (\<lambda>_. Inr execution))")
  case (Inr execution)
  then have id: "re_id (fst execution) = js_trim executionId"
    by (auto simp: result_bind_Inr dest: requireCurrent_Inr(1))
  let ?cond = "\<lambda>e. re_id e = js_trim executionId \<and> re_generation e = generation \<and> isNewest (env 0 db) e"
  obtain changes db' where b: "runBatch (archiveStatements (js_trim executionId) generation endedAt) (env 0 db) =
      Inr (changes, db')"
    by (rule archiveStatements_total)
  show ?thesis
  proof (cases "currentGuard (env 0 db) (js_trim executionId) generation")
    case True
    then obtain e where "e \<in> set (xd_executions (env 0 db))" "?cond e" by (auto simp: currentGuard_def list_ex_iff)
    then have "sql_count ?cond (xd_executions (env 0 db)) = 1"
      using assms sql_count_unique [of re_id _ e ?cond] by (simp add: keysOk_def)
    then have "archiveRuntimeExecution env executionId generation endedAt db = (Inr (), db')"
      using Inr id b archiveStatements_run [OF b] by (auto simp: archiveRuntimeExecution_def)
    then show ?thesis using archived_effect [OF True b] True by simp
  next
    case False
    then show ?thesis using Inr id archiveStatements_stale [OF False] by (simp add: archiveRuntimeExecution_def)
  qed
qed (simp add: archiveRuntimeExecution_def)

theorem archive_all_or_nothing_witness:
  "keysOk sampleLedger \<and> xd_slots sampleLedger \<noteq> [] \<and>
   list_all (\<lambda>slot. sl_executionId slot \<noteq> ''run-1'')
     (xd_slots (snd (archiveRuntimeExecution (\<lambda>_ db. db) ''run-1'' 1 50 sampleLedger)))"
proof -
  have k: "keysOk sampleLedger" "xd_slots sampleLedger \<noteq> []" "js_trim ''run-1'' = ''run-1''" by code_simp+
  moreover have "case fst (archiveRuntimeExecution (\<lambda>_ db. db) ''run-1'' 1 50 sampleLedger) of
      Inl _ \<Rightarrow> False | Inr _ \<Rightarrow> True" by code_simp
  ultimately show ?thesis
    using archive_all_or_nothing [of "\<lambda>_ db. db" sampleLedger "''run-1''" 1 50]
    by (auto simp: list_all_iff split: prod.splits sum.splits)
qed





text \<open>
  C10. Only the current host session records reports of a VM. When a report is recorded, the execution was the
  newest of its domain, neither archived nor failed, and placed on the reporting host at the moment of the
  write, the host was enabled with the expected session and credentials at that same moment, the report named
  the execution's owner, run and generation, and the ledger holds a report of that execution and host that is
  at least as new.
\<close>

lemma report_recorded_fenced:
  assumes "laterEnv env" and "laterEnv targetEnv"
    and "recordRuntimeVmActualState env targetEnv encrypt decrypt secret inp db = (Inr RecordUpdated, db')"
  shows "list_ex (liveExecution (env 1 (env 0 db)) (js_trim (ri_executionId inp)) (ri_expectedGeneration inp)
        (js_trim (ri_hostId inp))) (xd_executions (env 1 (env 0 db))) \<and>
    list_ex (hostSession (js_trim (ri_hostId inp)) (js_trim (ri_expectedHostSessionId inp))
        (ri_expectedHostCredentialGeneration inp)) (xd_hosts (env 1 (env 0 db))) \<and>
    (\<exists>e \<in> set (xd_executions db). re_id e = js_trim (ri_executionId inp) \<and>
        av_owner_user_id (ri_report inp) = re_userId e \<and> av_run_id (ri_report inp) = re_domainId e \<and>
        av_generation (ri_report inp) = re_generation e \<and> re_generation e = ri_expectedGeneration inp) \<and>
    (\<exists>a \<in> set (xd_actual db'). vas_executionId a = js_trim (ri_executionId inp) \<and>
        vas_hostId a = js_trim (ri_hostId inp) \<and>
        coalesce (ri_observedAt inp) (av_updated_at_unix_ms (ri_report inp)) \<le> vas_observedAt a)"
proof -
  obtain e vmId sessionId row db2 where
    c: "checkReport inp db (env 0 db) = Inr (Some (e, vmId, sessionId, row))"
    and u: "upsertActualState (ri_expectedGeneration inp) sessionId (ri_expectedHostCredentialGeneration inp) row
       (env 1 (env 0 db)) = (Suc 0, db2)"
    and l: "ledgerLater db2 db'"
    using assms by (rule recorded_moment)
  note f = checkReport_Some [OF c]
  have 1: "list_ex (liveExecution (env 1 (env 0 db)) (js_trim (ri_executionId inp)) (ri_expectedGeneration inp)
        (js_trim (ri_hostId inp))) (xd_executions (env 1 (env 0 db)))"
    using upsert_changed(2) [OF u] f by simp
  have 2: "list_ex (hostSession (js_trim (ri_hostId inp)) (js_trim (ri_expectedHostSessionId inp))
        (ri_expectedHostCredentialGeneration inp)) (xd_hosts (env 1 (env 0 db)))"
    using upsert_changed(3) [OF u] f by simp
  have 3: "\<exists>e \<in> set (xd_executions db). re_id e = js_trim (ri_executionId inp) \<and>
        av_owner_user_id (ri_report inp) = re_userId e \<and> av_run_id (ri_report inp) = re_domainId e \<and>
        av_generation (ri_report inp) = re_generation e \<and> re_generation e = ri_expectedGeneration inp"
    using f by (intro bexI [of _ e]) simp_all
  obtain a where "a \<in> set (xd_actual db')" "keptActual row a"
    using l upsert_changed(1) [OF u] by (auto simp: ledgerLater_def keptRows_def)
  then have 4: "\<exists>a \<in> set (xd_actual db'). vas_executionId a = js_trim (ri_executionId inp) \<and>
        vas_hostId a = js_trim (ri_hostId inp) \<and>
        coalesce (ri_observedAt inp) (av_updated_at_unix_ms (ri_report inp)) \<le> vas_observedAt a"
    using f by (intro bexI [of _ a]) (simp_all add: keptActual_def)
  show ?thesis using 1 2 3 4 by blast
qed

theorem report_recorded_fenced_witness:
  "fst (recordRuntimeVmActualState (\<lambda>_ db. db) (\<lambda>_ db. db) (\<lambda>_ _ t. (t, [])) (\<lambda>_ _ t _. Some t) None
     sampleReportInput sampleLedger) = Inr RecordUpdated \<and>
   list_ex (hostSession ''h1'' ''s1'' 3) (xd_hosts sampleLedger)"
proof -
  have l: "laterEnv (\<lambda>_ db. db)" by (simp add: laterEnv_def ledgerLater_refl)
  have r: "fst (recordRuntimeVmActualState (\<lambda>_ db. db) (\<lambda>_ db. db) (\<lambda>_ _ t. (t, [])) (\<lambda>_ _ t _. Some t) None
     sampleReportInput sampleLedger) = Inr RecordUpdated" by code_simp
  have i: "js_trim (ri_hostId sampleReportInput) = ''h1''" "js_trim (ri_expectedHostSessionId sampleReportInput) = ''s1''"
    "ri_expectedHostCredentialGeneration sampleReportInput = 3" by code_simp+
  show ?thesis
    using report_recorded_fenced [OF l l, of "\<lambda>_ _ t. (t, [])" "\<lambda>_ _ t _. Some t" None sampleReportInput sampleLedger
        "snd (recordRuntimeVmActualState (\<lambda>_ db. db) (\<lambda>_ db. db) (\<lambda>_ _ t. (t, [])) (\<lambda>_ _ t _. Some t) None
           sampleReportInput sampleLedger)"] r
    unfolding i by (simp add: prod_eq_iff)
qed

text \<open>
  C28. A stale generation changes nothing. If the given execution and generation are not the newest of their
  domain when the operation writes, archiving and changing the state fail, releasing the slot never reports
  success, and all three leave the ledger as the other writers left it.
\<close>

lemma stale_generation_inert:
  assumes "\<not> currentGuard (env 0 db) (js_trim executionId) generation"
  shows "(\<exists>e d. archiveRuntimeExecution env executionId generation now db = (Inl e, d) \<and> d \<in> {db, env 0 db}) \<and>
    (\<exists>e d. updateRuntimeExecutionState env executionId generation state now lease db = (Inl e, d) \<and>
       d \<in> {db, env 0 db}) \<and>
    (\<exists>r d. releaseActiveRuntimeSlot env executionId generation now db = (r, d) \<and> r \<noteq> Inr True \<and>
       d \<in> {db, env 0 db, env 1 (env 0 db)})"
proof (intro conjI)
  show "\<exists>e d. archiveRuntimeExecution env executionId generation now db = (Inl e, d) \<and> d \<in> {db, env 0 db}"
    using archiveStatements_stale [OF assms]
    by (auto simp: archiveRuntimeExecution_def result_bind_Inr dest!: requireCurrent_Inr(1) split: sum.splits)
  let ?cond = "\<lambda>e. re_id e = js_trim executionId \<and> re_generation e = generation \<and>
    re_state e \<notin> {ES_archived, ES_failed} \<and> isNewest (env 0 db) e"
  have none: "\<And>e. e \<in> set (xd_executions (env 0 db)) \<Longrightarrow> \<not> ?cond e"
    using assms by (auto simp: currentGuard_def list_ex_iff)
  have "sql_count ?cond (xd_executions (env 0 db)) = 0" using none by (simp only: sql_count_0) blast
  moreover have "sql_update ?cond f (xd_executions (env 0 db)) = xd_executions (env 0 db)" for f
    by (rule sql_update_none) (rule none)
  ultimately show "\<exists>e d. updateRuntimeExecutionState env executionId generation state now lease db = (Inl e, d) \<and>
       d \<in> {db, env 0 db}"
    by (auto simp: updateRuntimeExecutionState_def result_bind_Inr Let_def dest!: requireCurrent_Inr(1) split: sum.splits prod.splits)
  show "\<exists>r d. releaseActiveRuntimeSlot env executionId generation now db = (r, d) \<and> r \<noteq> Inr True \<and>
       d \<in> {db, env 0 db, env 1 (env 0 db)}"
    using releaseStatements_stale [OF assms]
    by (auto simp: releaseActiveRuntimeSlot_def result_bind_Inr Let_def simp del: runBatch.simps(2)
        dest!: requireCurrent_Inr(1) split: sum.splits prod.splits)
qed

theorem stale_generation_inert_witness:
  "\<not> currentGuard sampleLedger ''run-1'' 2 \<and>
   (\<exists>e d. archiveRuntimeExecution (\<lambda>_ db. db) ''run-1'' 2 50 sampleLedger = (Inl e, d) \<and> d = sampleLedger)"
proof -
  have s: "\<not> currentGuard sampleLedger ''run-1'' 2" and t: "js_trim ''run-1'' = ''run-1''" by code_simp+
  from s show ?thesis using stale_generation_inert [of "\<lambda>_ db. db" sampleLedger "''run-1''" 2 50] unfolding t by simp
qed

end
