(* ===== verification/Build_Lock.thy ===== *)
theory Build_Lock
  imports Desired_State
begin

section \<open>The image-build coordination lock\<close>

text \<open>
  The lease locks of \<^verbatim>\<open>src/apps/web/src/lib/image-build-lock.ts\<close>: one database row per key with an owner
  token and an expiry, taken over only when expired, renewed in the background, checked by the callback
  and released when it ends. The statements are functions on the table; a call of
  \<^verbatim>\<open>withImageBuildCoordinationLocks\<close> is a session that takes its keys one by one in sorted order, and
  the system runs any number of sessions interleaved at every database statement. The clock never goes
  back; a statement uses a reading of it taken at any earlier moment. A statement may also fail, with or
  without its effect on the table. \<^verbatim>\<open>crypto.randomUUID\<close> gives tokens that were never used before.
\<close>

subsection \<open>Statements\<close>

definition IMAGE_BUILD_LOCK_LEASE_MS :: int where
  "IMAGE_BUILD_LOCK_LEASE_MS = 120000"

definition IMAGE_BUILD_LOCK_ACQUIRE_TIMEOUT_MS :: int where
  "IMAGE_BUILD_LOCK_ACQUIRE_TIMEOUT_MS = 30000"

record LockRow =
  lk_ownerToken :: string
  lk_expiresAt :: int
  lk_createdAt :: int
  lk_updatedAt :: int

type_synonym lock_table = "(string \<times> LockRow) list"

definition tryAcquireImageBuildLock :: "string \<Rightarrow> string \<Rightarrow> int \<Rightarrow> lock_table \<Rightarrow> bool \<times> lock_table" where
  "tryAcquireImageBuildLock key ownerToken now table =
     (case map_of table key of
        None \<Rightarrow>
          (True, AList.update key
             \<lparr>lk_ownerToken = ownerToken, lk_expiresAt = now + IMAGE_BUILD_LOCK_LEASE_MS,
              lk_createdAt = now, lk_updatedAt = now\<rparr> table)
      | Some row \<Rightarrow>
          (if lk_expiresAt row \<le> now
           then (True, AList.update key
                   (row\<lparr>lk_ownerToken := ownerToken, lk_expiresAt := now + IMAGE_BUILD_LOCK_LEASE_MS,
                        lk_updatedAt := now\<rparr>) table)
           else (False, table)))"

text \<open>The update that both the renewal and \<^verbatim>\<open>assertImageBuildLockHeld\<close> run.\<close>

definition extendLease :: "string \<Rightarrow> string \<Rightarrow> int \<Rightarrow> lock_table \<Rightarrow> bool \<times> lock_table" where
  "extendLease key ownerToken now table =
     (case map_of table key of
        None \<Rightarrow> (False, table)
      | Some row \<Rightarrow>
          (if lk_ownerToken row = ownerToken \<and> now < lk_expiresAt row
           then (True, AList.update key
                   (row\<lparr>lk_expiresAt := now + IMAGE_BUILD_LOCK_LEASE_MS, lk_updatedAt := now\<rparr>) table)
           else (False, table)))"

definition releaseLock :: "string \<Rightarrow> string \<Rightarrow> lock_table \<Rightarrow> lock_table" where
  "releaseLock key ownerToken table =
     (if map_option lk_ownerToken (map_of table key) = Some ownerToken then AList.delete key table
      else table)"

subsection \<open>Keys\<close>

record ImageBuildCoordinationKey =
  bk_scenarioId :: string
  bk_arch :: ImageArchitecture

definition coordinationKey :: "ImageBuildCoordinationKey \<Rightarrow> string" where
  "coordinationKey input =
     ''['' @ jsonQuote (bk_scenarioId input) @ '','' @ jsonQuote (archName (bk_arch input)) @ '']''"

definition coordinationKeys ::
  "(string \<Rightarrow> string \<Rightarrow> int) \<Rightarrow> ImageBuildCoordinationKey list \<Rightarrow>
   (string \<times> ImageBuildCoordinationKey) list" where
  "coordinationKeys lc inputs =
     js_sort (by_key lc fst) (js_map (map (\<lambda>input. (coordinationKey input, input)) inputs))"

subsection \<open>Sessions\<close>

text \<open>
  A session takes the locks of its keys in order, one owner token per key. It then works, and unwinds
  from the last lock to the first: without an error every level checks its lease before it releases,
  after an error it only releases. The leases record until when the last statement that took effect for
  a key promised it.
\<close>

datatype SessionPhase = Acquiring | Working | Unwinding | Finished

record LockSession =
  ss_keys :: "(string \<times> string) list"
  ss_acquired :: nat
  ss_deadline :: int
  ss_phase :: SessionPhase
  ss_failed :: bool
  ss_checked :: bool
  ss_renewalLost :: "string list"
  ss_leases :: "(string \<times> int) list"

definition startSession :: "(string \<times> string) list \<Rightarrow> int \<Rightarrow> LockSession" where
  "startSession keys now =
     \<lparr>ss_keys = keys, ss_acquired = 0, ss_deadline = now + IMAGE_BUILD_LOCK_ACQUIRE_TIMEOUT_MS,
      ss_phase = (if keys = [] then Working else Acquiring), ss_failed = False, ss_checked = False,
      ss_renewalLost = [], ss_leases = []\<rparr>"

text \<open>
  One turn of the acquisition loop: the statement with its reading of the clock, and the later reading
  that the deadline is compared with or the next deadline is set from.
\<close>

definition acquireStep ::
  "int \<Rightarrow> int \<Rightarrow> LockSession \<Rightarrow> lock_table \<Rightarrow> LockSession \<times> lock_table" where
  "acquireStep now later s table =
     (let (key, ownerToken) = ss_keys s ! ss_acquired s;
          (acquired, table') = tryAcquireImageBuildLock key ownerToken now table
      in if acquired
         then (s\<lparr>ss_acquired := ss_acquired s + 1,
                 ss_deadline := later + IMAGE_BUILD_LOCK_ACQUIRE_TIMEOUT_MS,
                 ss_leases := AList.update key (now + IMAGE_BUILD_LOCK_LEASE_MS) (ss_leases s),
                 ss_phase := (if ss_acquired s + 1 = length (ss_keys s) then Working else Acquiring)\<rparr>,
               table')
         else if ss_deadline s \<le> later then (s\<lparr>ss_phase := Unwinding, ss_failed := True\<rparr>, table')
         else (s, table'))"

text \<open>Extending the lease of the key at an index; what a failure means is up to the caller.\<close>

definition extendStep ::
  "nat \<Rightarrow> int \<Rightarrow> (LockSession \<Rightarrow> LockSession) \<Rightarrow> LockSession \<Rightarrow> lock_table \<Rightarrow>
   LockSession \<times> lock_table" where
  "extendStep index now onLost s table =
     (let (key, ownerToken) = ss_keys s ! index;
          (held, table') = extendLease key ownerToken now table
      in if held
         then (s\<lparr>ss_leases := AList.update key (now + IMAGE_BUILD_LOCK_LEASE_MS) (ss_leases s)\<rparr>, table')
         else (onLost s, table'))"

text \<open>The background renewal of a lock remembers that it lost the lease, and stops.\<close>

definition renewStep :: "nat \<Rightarrow> int \<Rightarrow> LockSession \<Rightarrow> lock_table \<Rightarrow> LockSession \<times> lock_table" where
  "renewStep index now s table =
     extendStep index now (\<lambda>s. s\<lparr>ss_renewalLost := fst (ss_keys s ! index) # ss_renewalLost s\<rparr>) s table"

text \<open>\<^verbatim>\<open>assertHeld\<close> throws out of the callback.\<close>

definition assertHeldStep :: "nat \<Rightarrow> int \<Rightarrow> LockSession \<Rightarrow> lock_table \<Rightarrow> LockSession \<times> lock_table" where
  "assertHeldStep index now s table =
     extendStep index now (\<lambda>s. s\<lparr>ss_phase := Unwinding, ss_failed := True\<rparr>) s table"

definition finishStep :: "bool \<Rightarrow> LockSession \<Rightarrow> LockSession" where
  "finishStep callbackThrew s = s\<lparr>ss_phase := Unwinding, ss_failed := callbackThrew\<rparr>"

text \<open>The checks after the callback of a level: the renewal is healthy and the lock still held.\<close>

definition closingCheckStep :: "int \<Rightarrow> LockSession \<Rightarrow> lock_table \<Rightarrow> LockSession \<times> lock_table" where
  "closingCheckStep now s table =
     (let index = ss_acquired s - 1 in
      if fst (ss_keys s ! index) \<in> set (ss_renewalLost s) then (s\<lparr>ss_failed := True\<rparr>, table)
      else extendStep index now (\<lambda>s. s\<lparr>ss_failed := True\<rparr>) (s\<lparr>ss_checked := True\<rparr>) table)"

definition releaseStep :: "LockSession \<Rightarrow> lock_table \<Rightarrow> LockSession \<times> lock_table" where
  "releaseStep s table =
     (let index = ss_acquired s - 1;
          (key, ownerToken) = ss_keys s ! index
      in (s\<lparr>ss_acquired := index, ss_checked := False, ss_leases := AList.delete key (ss_leases s)\<rparr>,
          releaseLock key ownerToken table))"

text \<open>An error thrown out of a statement or of the callback.\<close>

definition failStep :: "LockSession \<Rightarrow> LockSession" where
  "failStep s = s\<lparr>ss_phase := Unwinding, ss_failed := True\<rparr>"

definition endStep :: "LockSession \<Rightarrow> LockSession" where
  "endStep s = s\<lparr>ss_phase := Finished\<rparr>"

subsection \<open>The system\<close>

record LockSystem =
  sy_now :: int
  sy_table :: lock_table
  sy_sessions :: "LockSession list"

definition sessionTokens :: "LockSession \<Rightarrow> string set" where
  "sessionTokens s = snd ` set (ss_keys s)"

definition putSession :: "nat \<Rightarrow> LockSystem \<Rightarrow> LockSession \<times> lock_table \<Rightarrow> LockSystem" where
  "putSession i y st = y\<lparr>sy_table := snd st, sy_sessions := (sy_sessions y)[i := fst st]\<rparr>"

text \<open>
  The rules from \<open>fault\<close> to \<open>lostRelease\<close> are statements that throw: nothing happened, the statement took effect but its
  answer was lost, or the row outlives its release.
\<close>

inductive lockStep :: "(string \<Rightarrow> string \<Rightarrow> int) \<Rightarrow> LockSystem \<Rightarrow> LockSystem \<Rightarrow> bool" for lc where
  tick: "sy_now y \<le> t \<Longrightarrow> lockStep lc y (y\<lparr>sy_now := t\<rparr>)"
| start: "length tokens = length (coordinationKeys lc inputs) \<Longrightarrow> distinct tokens \<Longrightarrow>
    set tokens \<inter> (\<Union>s \<in> set (sy_sessions y). sessionTokens s) = {} \<Longrightarrow>
    lockStep lc y (y\<lparr>sy_sessions := sy_sessions y @
      [startSession (zip (map fst (coordinationKeys lc inputs)) tokens) (sy_now y)]\<rparr>)"
| acquire: "i < length (sy_sessions y) \<Longrightarrow> t \<le> sy_now y \<Longrightarrow> sy_now y \<le> u \<Longrightarrow>
    ss_phase (sy_sessions y ! i) = Acquiring \<Longrightarrow>
    lockStep lc y (putSession i y (acquireStep t u (sy_sessions y ! i) (sy_table y)))"
| renew: "i < length (sy_sessions y) \<Longrightarrow> t \<le> sy_now y \<Longrightarrow> j < ss_acquired (sy_sessions y ! i) \<Longrightarrow>
    fst (ss_keys (sy_sessions y ! i) ! j) \<notin> set (ss_renewalLost (sy_sessions y ! i)) \<Longrightarrow>
    lockStep lc y (putSession i y (renewStep j t (sy_sessions y ! i) (sy_table y)))"
| assertHeld: "i < length (sy_sessions y) \<Longrightarrow> t \<le> sy_now y \<Longrightarrow> j < ss_acquired (sy_sessions y ! i) \<Longrightarrow>
    ss_phase (sy_sessions y ! i) = Working \<Longrightarrow>
    lockStep lc y (putSession i y (assertHeldStep j t (sy_sessions y ! i) (sy_table y)))"
| finish: "i < length (sy_sessions y) \<Longrightarrow> ss_phase (sy_sessions y ! i) = Working \<Longrightarrow>
    lockStep lc y (putSession i y (finishStep threw (sy_sessions y ! i), sy_table y))"
| closingCheck: "i < length (sy_sessions y) \<Longrightarrow> t \<le> sy_now y \<Longrightarrow>
    ss_phase (sy_sessions y ! i) = Unwinding \<Longrightarrow>
    0 < ss_acquired (sy_sessions y ! i) \<Longrightarrow> \<not> ss_failed (sy_sessions y ! i) \<Longrightarrow>
    \<not> ss_checked (sy_sessions y ! i) \<Longrightarrow>
    lockStep lc y (putSession i y (closingCheckStep t (sy_sessions y ! i) (sy_table y)))"
| release: "i < length (sy_sessions y) \<Longrightarrow> ss_phase (sy_sessions y ! i) = Unwinding \<Longrightarrow>
    0 < ss_acquired (sy_sessions y ! i) \<Longrightarrow>
    ss_failed (sy_sessions y ! i) \<or> ss_checked (sy_sessions y ! i) \<Longrightarrow>
    lockStep lc y (putSession i y (releaseStep (sy_sessions y ! i) (sy_table y)))"
| fault: "i < length (sy_sessions y) \<Longrightarrow> ss_phase (sy_sessions y ! i) \<noteq> Finished \<Longrightarrow>
    lockStep lc y (putSession i y (failStep (sy_sessions y ! i), sy_table y))"
| lostAcquire: "i < length (sy_sessions y) \<Longrightarrow> t \<le> sy_now y \<Longrightarrow>
    ss_phase (sy_sessions y ! i) = Acquiring \<Longrightarrow>
    lockStep lc y (putSession i y
      (failStep (sy_sessions y ! i), snd (acquireStep t u (sy_sessions y ! i) (sy_table y))))"
| lostExtend: "i < length (sy_sessions y) \<Longrightarrow> t \<le> sy_now y \<Longrightarrow> j < ss_acquired (sy_sessions y ! i) \<Longrightarrow>
    st = extendStep j t (\<lambda>s. s) (sy_sessions y ! i) (sy_table y) \<Longrightarrow>
    s' = failStep (fst st) \<or>
    s' = (fst st)\<lparr>ss_renewalLost := fst (ss_keys (fst st) ! j) # ss_renewalLost (fst st)\<rparr> \<Longrightarrow>
    lockStep lc y (putSession i y (s', snd st))"
| lostRelease: "i < length (sy_sessions y) \<Longrightarrow> ss_phase (sy_sessions y ! i) = Unwinding \<Longrightarrow>
    0 < ss_acquired (sy_sessions y ! i) \<Longrightarrow>
    st = releaseStep (sy_sessions y ! i) (sy_table y) \<Longrightarrow> table' = snd st \<or> table' = sy_table y \<Longrightarrow>
    lockStep lc y (putSession i y (failStep (fst st), table'))"
| over: "i < length (sy_sessions y) \<Longrightarrow> ss_phase (sy_sessions y ! i) = Unwinding \<Longrightarrow>
    ss_acquired (sy_sessions y ! i) = 0 \<Longrightarrow>
    lockStep lc y (putSession i y (endStep (sy_sessions y ! i), sy_table y))"

subsection \<open>Specification vocabulary\<close>

definition idleSystem :: LockSystem where
  "idleSystem = \<lparr>sy_now = 0, sy_table = [], sy_sessions = []\<rparr>"

definition lockReachable :: "(string \<Rightarrow> string \<Rightarrow> int) \<Rightarrow> LockSystem \<Rightarrow> bool" where
  "lockReachable lc y \<longleftrightarrow> (lockStep lc)\<^sup>*\<^sup>* idleSystem y"

text \<open>A session may rely on a key: the last statement that took effect promised it beyond now.\<close>

definition believes :: "LockSystem \<Rightarrow> LockSession \<Rightarrow> string \<Rightarrow> bool" where
  "believes y s key \<longleftrightarrow> (\<exists>e. map_of (ss_leases s) key = Some e \<and> sy_now y < e)"

definition heldKeys :: "LockSession \<Rightarrow> string set" where
  "heldKeys s = fst ` set (take (ss_acquired s) (ss_keys s))"

text \<open>Session \<open>i\<close> is blocked by session \<open>j\<close>: the key it tries to take is one of those \<open>j\<close> has not released.\<close>

definition waitsFor :: "LockSystem \<Rightarrow> (nat \<times> nat) set" where
  "waitsFor y =
     {(i, j). i < length (sy_sessions y) \<and> j < length (sy_sessions y) \<and>
        ss_phase (sy_sessions y ! i) = Acquiring \<and>
        fst (ss_keys (sy_sessions y ! i) ! ss_acquired (sy_sessions y ! i)) \<in> heldKeys (sy_sessions y ! j)}"

text \<open>Every unexpired belief of a session is the truth of the table.\<close>

definition leasesOk :: "int \<Rightarrow> lock_table \<Rightarrow> LockSession \<Rightarrow> bool" where
  "leasesOk now table s \<longleftrightarrow>
     (\<forall>key token e. (key, token) \<in> set (ss_keys s) \<longrightarrow> map_of (ss_leases s) key = Some e \<longrightarrow> now < e \<longrightarrow>
        (\<exists>row. map_of table key = Some row \<and> lk_ownerToken row = token \<and> lk_expiresAt row = e))"

text \<open>Keys and tokens are not repeated, and the leases are those of the acquired keys.\<close>

definition sessionOk :: "LockSession \<Rightarrow> bool" where
  "sessionOk s \<longleftrightarrow>
     distinct (map fst (ss_keys s)) \<and>
     distinct (map snd (ss_keys s)) \<and> ss_acquired s \<le> length (ss_keys s) \<and>
     (ss_phase s = Acquiring \<longrightarrow> ss_acquired s < length (ss_keys s)) \<and>
     fst ` set (ss_leases s) = heldKeys s"

text \<open>No token is used by two sessions.\<close>

definition tokensApart :: "LockSession list \<Rightarrow> bool" where
  "tokensApart sessions \<longleftrightarrow>
     (\<forall>i < length sessions. \<forall>j < length sessions. i \<noteq> j \<longrightarrow>
        sessionTokens (sessions ! i) \<inter> sessionTokens (sessions ! j) = {})"

definition systemOk :: "LockSystem \<Rightarrow> bool" where
  "systemOk y \<longleftrightarrow>
     tokensApart (sy_sessions y) \<and>
     (\<forall>s \<in> set (sy_sessions y). sessionOk s \<and> leasesOk (sy_now y) (sy_table y) s)"

text \<open>Every session takes its keys in the order of the comparison.\<close>

definition keysOrdered :: "(string \<Rightarrow> string \<Rightarrow> int) \<Rightarrow> LockSystem \<Rightarrow> bool" where
  "keysOrdered lc y \<longleftrightarrow>
     (\<forall>s \<in> set (sy_sessions y). sorted_wrt (\<lambda>a b. lc a b \<le> 0) (map fst (ss_keys s)))"

text \<open>No row outlives the lease time from now.\<close>

definition rowsBounded :: "LockSystem \<Rightarrow> bool" where
  "rowsBounded y \<longleftrightarrow>
     (\<forall>key row. map_of (sy_table y) key = Some row \<longrightarrow> lk_expiresAt row \<le> sy_now y + IMAGE_BUILD_LOCK_LEASE_MS)"

text \<open>A statement of one owner leaves the unexpired rows of the others alone.\<close>

definition sparesOthers :: "int \<Rightarrow> string \<Rightarrow> lock_table \<Rightarrow> lock_table \<Rightarrow> bool" where
  "sparesOthers now token table table' \<longleftrightarrow>
     (\<forall>key row. map_of table key = Some row \<longrightarrow> lk_ownerToken row \<noteq> token \<longrightarrow> now < lk_expiresAt row \<longrightarrow>
        map_of table' key = Some row)"

text \<open>What a step of one session keeps.\<close>

definition sessionMove ::
  "int \<Rightarrow> LockSession \<Rightarrow> lock_table \<Rightarrow> LockSession \<times> lock_table \<Rightarrow> bool" where
  "sessionMove now s table st \<longleftrightarrow>
     sessionOk (fst st) \<and> ss_keys (fst st) = ss_keys s \<and> leasesOk now (snd st) (fst st) \<and>
     (snd st = table \<or> (\<exists>token \<in> sessionTokens s. sparesOthers now token table (snd st))) \<and>
     (\<forall>key row. map_of (snd st) key = Some row \<longrightarrow>
        map_of table key = Some row \<or> lk_expiresAt row \<le> now + IMAGE_BUILD_LOCK_LEASE_MS)"

text \<open>Two sessions on the same two scenarios, named in opposite order; the first has its first lock.\<close>

definition sampleInputs :: "ImageBuildCoordinationKey list" where
  "sampleInputs = [\<lparr>bk_scenarioId = ''a'', bk_arch = X86_64\<rparr>, \<lparr>bk_scenarioId = ''b'', bk_arch = X86_64\<rparr>]"

definition sampleStarted :: LockSystem where
  "sampleStarted =
     (let y = idleSystem\<lparr>sy_sessions := [startSession
            (zip (map fst (coordinationKeys code_unit_compare sampleInputs)) [''t1'', ''t2'']) 0]\<rparr>
      in y\<lparr>sy_sessions := sy_sessions y @ [startSession
            (zip (map fst (coordinationKeys code_unit_compare (rev sampleInputs))) [''t3'', ''t4'']) 0]\<rparr>)"

definition sampleSystem :: LockSystem where
  "sampleSystem = putSession 0 sampleStarted (acquireStep 0 0 (sy_sessions sampleStarted ! 0) (sy_table sampleStarted))"

subsection \<open>Lemmas\<close>

text \<open>Statements with a reading of the clock that is not later than now.\<close>

lemma tryAcquire_grant:
  assumes "tryAcquireImageBuildLock key token t table = (True, table')" and "t \<le> now"
  shows "\<exists>row. map_of table' key = Some row \<and> lk_ownerToken row = token \<and>
      lk_expiresAt row = t + IMAGE_BUILD_LOCK_LEASE_MS"
    and "sparesOthers now token table table'"
    and "map_of table' k = Some row \<Longrightarrow>
      map_of table k = Some row \<or> lk_expiresAt row \<le> now + IMAGE_BUILD_LOCK_LEASE_MS"
  using assms
  by (auto simp: tryAcquireImageBuildLock_def sparesOthers_def update_conv' split: option.splits if_splits)

lemma tryAcquire_refused: "tryAcquireImageBuildLock key token t table = (False, table') \<Longrightarrow> table' = table"
  by (auto simp: tryAcquireImageBuildLock_def split: option.splits if_splits)

lemma extendLease_grant:
  assumes "extendLease key token t table = (True, table')" and "t \<le> now"
  shows "\<exists>row. map_of table' key = Some row \<and> lk_ownerToken row = token \<and>
      lk_expiresAt row = t + IMAGE_BUILD_LOCK_LEASE_MS"
    and "sparesOthers now token table table'"
    and "map_of table' k = Some row \<Longrightarrow>
      map_of table k = Some row \<or> lk_expiresAt row \<le> now + IMAGE_BUILD_LOCK_LEASE_MS"
  using assms by (auto simp: extendLease_def sparesOthers_def update_conv' split: option.splits if_splits)

lemma extendLease_refused: "extendLease key token t table = (False, table') \<Longrightarrow> table' = table"
  by (auto simp: extendLease_def split: option.splits if_splits)

lemma releaseLock_spares: "sparesOthers now token table (releaseLock key token table)"
  by (auto simp: sparesOthers_def releaseLock_def delete_conv' split: if_splits)

lemma releaseLock_rows: "map_of (releaseLock key token table) k = Some row \<Longrightarrow> map_of table k = Some row"
  by (auto simp: releaseLock_def delete_conv' split: if_splits)

lemma leases_other:
  assumes "leasesOk now table s" and "sparesOthers now token table table'" and "token \<notin> sessionTokens s"
  shows "leasesOk now table' s"
  unfolding leasesOk_def
proof (intro allI impI)
  fix key tok e
  assume k: "(key, tok) \<in> set (ss_keys s)" and l: "map_of (ss_leases s) key = Some e" "now < e"
  then obtain row where row: "map_of table key = Some row" "lk_ownerToken row = tok" "lk_expiresAt row = e"
    using assms(1) unfolding leasesOk_def by blast
  have "tok \<noteq> token" using k assms(3) by (auto simp: sessionTokens_def image_iff)
  then show "\<exists>row. map_of table' key = Some row \<and> lk_ownerToken row = tok \<and> lk_expiresAt row = e"
    using assms(2) row l unfolding sparesOthers_def by blast
qed

lemma leases_grant:
  assumes "leasesOk now table s" and "sparesOthers now token table table'"
    and "(key, token) \<in> set (ss_keys s)" and "distinct (map fst (ss_keys s))" and "distinct (map snd (ss_keys s))"
    and "map_of table' key = Some row" "lk_ownerToken row = token" "lk_expiresAt row = e"
    and "ss_keys s' = ss_keys s" and "ss_leases s' = AList.update key e (ss_leases s)"
  shows "leasesOk now table' s'"
  unfolding leasesOk_def
proof (intro allI impI)
  fix k tok f
  assume k: "(k, tok) \<in> set (ss_keys s')" and l: "map_of (ss_leases s') k = Some f" "now < f"
  show "\<exists>row. map_of table' k = Some row \<and> lk_ownerToken row = tok \<and> lk_expiresAt row = f"
  proof (cases "k = key")
    case True
    then have "tok = token" using k assms(3,4,9) by (metis eq_key_imp_eq_value)
    then show ?thesis using True l assms(6-8,10) by (simp add: update_conv')
  next
    case False
    have "tok \<noteq> token"
      using k assms(3,5,9) False by (metis distinct_map fst_conv inj_onD snd_conv)
    moreover have "(k, tok) \<in> set (ss_keys s)" "map_of (ss_leases s) k = Some f"
      using assms(9,10) k l False by (simp_all add: update_conv')
    then obtain r where "map_of table k = Some r" "lk_ownerToken r = tok" "lk_expiresAt r = f"
      using assms(1) l(2) unfolding leasesOk_def by blast
    ultimately show ?thesis using assms(2) l unfolding sparesOthers_def by blast
  qed
qed

lemma leases_release:
  assumes "leasesOk now table s"
    and "(key, token) \<in> set (ss_keys s)" and "distinct (map snd (ss_keys s))"
    and "ss_keys s' = ss_keys s" and "ss_leases s' = AList.delete key (ss_leases s)"
  shows "leasesOk now (releaseLock key token table) s'"
  unfolding leasesOk_def
proof (intro allI impI)
  fix k tok f
  assume k: "(k, tok) \<in> set (ss_keys s')" and l: "map_of (ss_leases s') k = Some f" "now < f"
  then have ne: "k \<noteq> key" using assms(5) by (auto simp: delete_conv' split: if_splits)
  have "tok \<noteq> token"
    using k assms(2,3,4) ne by (metis distinct_map fst_conv inj_onD snd_conv)
  moreover have "(k, tok) \<in> set (ss_keys s)" "map_of (ss_leases s) k = Some f"
    using assms(4,5) k l ne by (simp_all add: delete_conv')
  then obtain r where "map_of table k = Some r" "lk_ownerToken r = tok" "lk_expiresAt r = f"
    using assms(1) l(2) unfolding leasesOk_def by blast
  ultimately show "\<exists>row. map_of (releaseLock key token table) k = Some row \<and> lk_ownerToken row = tok \<and>
      lk_expiresAt row = f"
    using releaseLock_spares [of now token table key] l unfolding sparesOthers_def by blast
qed

lemma leases_cong:
  "ss_keys s' = ss_keys s \<Longrightarrow> ss_leases s' = ss_leases s \<Longrightarrow> leasesOk now table s' = leasesOk now table s"
  by (simp add: leasesOk_def)

lemma leases_tick: "leasesOk now table s \<Longrightarrow> now \<le> t \<Longrightarrow> leasesOk t table s"
  by (fastforce simp: leasesOk_def)

lemma held_Suc:
  assumes "ss_acquired s < length (ss_keys s)" and "ss_keys s' = ss_keys s"
    and "ss_acquired s' = Suc (ss_acquired s)"
  shows "heldKeys s' = insert (fst (ss_keys s ! ss_acquired s)) (heldKeys s)"
  using assms by (simp add: heldKeys_def take_Suc_conv_app_nth)

lemma held_pred:
  assumes "0 < ss_acquired s" and "ss_acquired s \<le> length (ss_keys s)" and "distinct (map fst (ss_keys s))"
    and "ss_keys s' = ss_keys s" and "ss_acquired s' = ss_acquired s - 1"
  shows "heldKeys s' = heldKeys s - {fst (ss_keys s ! (ss_acquired s - 1))}"
proof -
  let ?n = "ss_acquired s - 1"
  have n: "ss_acquired s = Suc ?n" "?n < length (ss_keys s)" using assms(1,2) by simp_all
  have "take (ss_acquired s) (ss_keys s) = take ?n (ss_keys s) @ [ss_keys s ! ?n]"
    using n take_Suc_conv_app_nth [of ?n "ss_keys s"] by simp
  then have h: "heldKeys s = insert (fst (ss_keys s ! ?n)) (fst ` set (take ?n (ss_keys s)))"
    by (simp add: heldKeys_def)
  have "fst (ss_keys s ! ?n) \<notin> fst ` set (take ?n (ss_keys s))"
  proof
    assume "fst (ss_keys s ! ?n) \<in> fst ` set (take ?n (ss_keys s))"
    then obtain m where m: "m < ?n" "fst (ss_keys s ! m) = fst (ss_keys s ! ?n)"
      by (auto simp: in_set_conv_nth)
    then show False using assms(3) n(2) nth_eq_iff_index_eq [of "map fst (ss_keys s)" m ?n] by simp
  qed
  then show ?thesis using assms(4,5) h by (simp add: heldKeys_def)
qed

lemma held_nth: "j < ss_acquired s \<Longrightarrow> ss_acquired s \<le> length (ss_keys s) \<Longrightarrow> fst (ss_keys s ! j) \<in> heldKeys s"
  unfolding heldKeys_def by (rule imageI) (auto simp: in_set_conv_nth intro!: exI [of _ j])

lemma held_fresh:
  assumes "distinct (map fst (ss_keys s))" and "ss_acquired s < length (ss_keys s)"
  shows "fst (ss_keys s ! ss_acquired s) \<notin> heldKeys s"
proof
  assume "fst (ss_keys s ! ss_acquired s) \<in> heldKeys s"
  then obtain m where m: "m < ss_acquired s" "fst (ss_keys s ! m) = fst (ss_keys s ! ss_acquired s)"
    by (auto simp: heldKeys_def in_set_conv_nth)
  then show False using assms nth_eq_iff_index_eq [of "map fst (ss_keys s)" m "ss_acquired s"] by simp
qed

lemma leases_fresh:
  assumes "leasesOk now table s" and "ss_keys s' = ss_keys s" and "ss_leases s = AList.update key e (ss_leases s')"
    and "key \<notin> fst ` set (ss_leases s')"
  shows "leasesOk now table s'"
  unfolding leasesOk_def
proof (intro allI impI)
  fix k tok f
  assume k: "(k, tok) \<in> set (ss_keys s')" and l: "map_of (ss_leases s') k = Some f" "now < f"
  then have "k \<noteq> key" using assms(4) by (metis image_eqI fst_conv map_of_SomeD)
  then have "map_of (ss_leases s) k = Some f" using l assms(3) by (simp add: update_conv')
  then show "\<exists>row. map_of table k = Some row \<and> lk_ownerToken row = tok \<and> lk_expiresAt row = f"
    using assms(1,2) k l(2) unfolding leasesOk_def by simp
qed

lemma tokens_cong: "ss_keys s' = ss_keys s \<Longrightarrow> sessionTokens s' = sessionTokens s"
  by (simp add: sessionTokens_def)

lemma put_ok:
  assumes ok: "systemOk y" and i: "i < length (sy_sessions y)"
    and m: "sessionMove (sy_now y) (sy_sessions y ! i) (sy_table y) st"
  shows "systemOk (putSession i y st)"
proof -
  let ?s = "sy_sessions y ! i" and ?xs = "sy_sessions y" and ?ys = "(sy_sessions y)[i := fst st]"
  have apart: "tokensApart ?xs"
    and each: "\<And>s. s \<in> set ?xs \<Longrightarrow> sessionOk s \<and> leasesOk (sy_now y) (sy_table y) s"
    using ok by (simp_all add: systemOk_def)
  have keys: "ss_keys (fst st) = ss_keys ?s" using m by (simp add: sessionMove_def)
  have tk: "sessionTokens (?ys ! j) = sessionTokens (?xs ! j)" if "j < length ?xs" for j
    using that tokens_cong [OF keys] by (cases "j = i") (simp_all add: i)
  have "tokensApart ?ys" using apart tk by (simp add: tokensApart_def)
  moreover have "sessionOk (?ys ! j) \<and> leasesOk (sy_now y) (snd st) (?ys ! j)" if j: "j < length ?xs" for j
  proof (cases "j = i")
    case True
    then show ?thesis using m i by (simp add: sessionMove_def)
  next
    case False
    then have "\<forall>token \<in> sessionTokens ?s. token \<notin> sessionTokens (?xs ! j)"
      using apart i j unfolding tokensApart_def by blast
    then have "leasesOk (sy_now y) (snd st) (?xs ! j)"
      using m each [of "?xs ! j"] j leases_other unfolding sessionMove_def by (metis nth_mem)
    then show ?thesis using False each [of "?xs ! j"] j by simp
  qed
  ultimately show ?thesis
    by (auto simp: systemOk_def putSession_def in_set_conv_nth)
qed

lemma sessionOk_cong:
  "sessionOk s \<Longrightarrow> ss_keys s' = ss_keys s \<Longrightarrow> ss_acquired s' = ss_acquired s \<Longrightarrow>
   ss_leases s' = ss_leases s \<Longrightarrow> (ss_phase s' = Acquiring \<longrightarrow> ss_phase s = Acquiring) \<Longrightarrow> sessionOk s'"
  by (simp add: sessionOk_def heldKeys_def)

lemma granted_move:
  assumes s: "sessionOk s" "leasesOk now table s" and mem: "(key, token) \<in> set (ss_keys s)"
    and g: "\<exists>row. map_of table' key = Some row \<and> lk_ownerToken row = token \<and> lk_expiresAt row = e"
      "sparesOthers now token table table'"
      "\<And>k row. map_of table' k = Some row \<Longrightarrow>
        map_of table k = Some row \<or> lk_expiresAt row \<le> now + IMAGE_BUILD_LOCK_LEASE_MS"
    and s': "sessionOk s'" "ss_keys s' = ss_keys s" "ss_leases s' = AList.update key e (ss_leases s)"
  shows "sessionMove now s table (s', table')"
proof -
  have "leasesOk now table' s'"
    using g(1) s(1) s' by (auto intro!: leases_grant [OF s(2) g(2) mem] simp: sessionOk_def)
  moreover have "token \<in> sessionTokens s" using mem by (force simp: sessionTokens_def)
  ultimately show ?thesis using g(2,3) s' by (auto simp: sessionMove_def)
qed

lemma extend_move:
  assumes s: "sessionOk s" "leasesOk now table s" and j: "j < ss_acquired s" and t: "t \<le> now"
    and f: "sessionOk (f s)" "ss_keys (f s) = ss_keys s" "ss_leases (f s) = ss_leases s"
  shows "sessionMove now s table (extendStep j t f s table)"
proof -
  obtain key token where kt: "ss_keys s ! j = (key, token)" by fastforce
  have len: "j < length (ss_keys s)" using s(1) j by (simp add: sessionOk_def)
  then have mem: "(key, token) \<in> set (ss_keys s)" using kt nth_mem by metis
  have held: "key \<in> heldKeys s" using held_nth [of j s] j s(1) kt by (simp add: sessionOk_def)
  obtain ok table' where e: "extendLease key token t table = (ok, table')" by fastforce
  show ?thesis
  proof (cases ok)
    case True
    let ?s' = "s\<lparr>ss_leases := AList.update key (t + IMAGE_BUILD_LOCK_LEASE_MS) (ss_leases s)\<rparr>"
    note g = extendLease_grant [OF e [unfolded eqTrueI [OF True]] t]
    have "sessionOk ?s'"
      using s(1) held by (simp add: sessionOk_def heldKeys_def dom_update insert_absorb)
    then have "sessionMove now s table (?s', table')" by (intro granted_move [OF s mem g]) simp_all
    then show ?thesis using True by (simp add: extendStep_def kt e)
  next
    case False
    then have "table' = table" using extendLease_refused e by simp
    then show ?thesis
      using False f s(2) leases_cong [OF f(2,3)] by (simp add: sessionMove_def extendStep_def kt e)
  qed
qed

lemma acquire_move:
  assumes s: "sessionOk s" "leasesOk now table s" "ss_phase s = Acquiring" and t: "t \<le> now"
  shows "sessionMove now s table (acquireStep t u s table)"
    and "sessionMove now s table (failStep s, snd (acquireStep t u s table))"
proof -
  let ?n = "ss_acquired s"
  obtain key token where kt: "ss_keys s ! ?n = (key, token)" by fastforce
  have len: "?n < length (ss_keys s)" using s(1,3) by (simp add: sessionOk_def)
  then have mem: "(key, token) \<in> set (ss_keys s)" using kt nth_mem by metis
  obtain ok table' where e: "tryAcquireImageBuildLock key token t table = (ok, table')" by fastforce
  let ?s' = "s\<lparr>ss_acquired := ?n + 1, ss_deadline := u + IMAGE_BUILD_LOCK_ACQUIRE_TIMEOUT_MS,
      ss_leases := AList.update key (t + IMAGE_BUILD_LOCK_LEASE_MS) (ss_leases s),
      ss_phase := (if ?n + 1 = length (ss_keys s) then Working else Acquiring)\<rparr>"
  have fail: "sessionOk (failStep s)" "ss_keys (failStep s) = ss_keys s" "ss_leases (failStep s) = ss_leases s"
    using s(1) by (simp_all add: sessionOk_def heldKeys_def failStep_def)
  have grant: "sessionMove now s table (?s', table') \<and> sessionMove now s table (failStep s, table')" if ok
  proof -
    note g = tryAcquire_grant [OF e [unfolded eqTrueI [OF that]] t]
    have "heldKeys ?s' = insert key (heldKeys s)" using held_Suc [OF len, of ?s'] kt by simp
    then have "sessionOk ?s'" using s(1) len by (auto simp: sessionOk_def dom_update)
    then have m: "sessionMove now s table (?s', table')" by (intro granted_move [OF s(1,2) mem g]) simp_all
    have "key \<notin> heldKeys s" using held_fresh [OF _ len] s(1) kt by (simp add: sessionOk_def)
    then have "leasesOk now table' (failStep s)"
      using m s(1) fail by (intro leases_fresh [of now table' ?s' "failStep s" key])
        (simp_all add: sessionMove_def sessionOk_def failStep_def)
    then show ?thesis using m fail by (simp add: sessionMove_def)
  qed
  have refuse: "table' = table" if "\<not> ok" using tryAcquire_refused e that by simp
  have "sessionMove now s table (failStep s, table)" and "sessionMove now s table (s, table)"
    using s fail leases_cong [OF fail(2,3)] by (simp_all add: sessionMove_def)
  then show "sessionMove now s table (acquireStep t u s table)"
    and "sessionMove now s table (failStep s, snd (acquireStep t u s table))"
    using grant refuse by (auto simp: acquireStep_def kt e failStep_def)
qed

lemma release_move:
  assumes s: "sessionOk s" "leasesOk now table s" and p: "0 < ss_acquired s" "ss_phase s = Unwinding"
  shows "sessionMove now s table (releaseStep s table)"
    and "sessionMove now s table (failStep (fst (releaseStep s table)), snd (releaseStep s table))"
    and "sessionMove now s table (failStep (fst (releaseStep s table)), table)"
proof -
  let ?n = "ss_acquired s - Suc 0"
  obtain key token where kt: "ss_keys s ! ?n = (key, token)" by fastforce
  have len: "?n < length (ss_keys s)" using s(1) p(1) unfolding sessionOk_def by linarith
  then have mem: "(key, token) \<in> set (ss_keys s)" using kt nth_mem by metis
  let ?s' = "s\<lparr>ss_acquired := ?n, ss_checked := False, ss_leases := AList.delete key (ss_leases s)\<rparr>"
  have "heldKeys ?s' = heldKeys s - {key}"
    using held_pred [of s ?s'] s(1) p(1) kt by (simp add: sessionOk_def)
  moreover have "fst ` set (AList.delete key (ss_leases s)) = fst ` set (ss_leases s) - {key}"
    by (metis delete_keys set_map set_removeAll)
  ultimately have ok: "sessionOk ?s'"
    using s(1) p by (auto simp: sessionOk_def)
  then have fail: "sessionOk (failStep ?s')" by (simp add: sessionOk_def heldKeys_def failStep_def)
  have l: "leasesOk now (releaseLock key token table) ?s'"
    by (rule leases_release [OF s(2) mem]) (use s(1) in \<open>simp_all add: sessionOk_def\<close>)
  have tok: "token \<in> sessionTokens s" using mem by (force simp: sessionTokens_def)
  have m: "\<exists>own \<in> sessionTokens s. sparesOthers now own table (releaseLock key token table)"
    "\<forall>k row. map_of (releaseLock key token table) k = Some row \<longrightarrow> map_of table k = Some row"
    using tok releaseLock_spares releaseLock_rows by blast+
  have l': "leasesOk now table ?s'" using s(2) by (auto simp: leasesOk_def delete_conv' split: if_splits)
  have st: "releaseStep s table = (?s', releaseLock key token table)" by (simp add: releaseStep_def kt)
  show "sessionMove now s table (releaseStep s table)"
    using ok l m by (simp add: sessionMove_def st)
  show "sessionMove now s table (failStep (fst (releaseStep s table)), snd (releaseStep s table))"
    using fail l m leases_cong [of "failStep ?s'" ?s'] by (simp add: sessionMove_def st failStep_def)
  show "sessionMove now s table (failStep (fst (releaseStep s table)), table)"
    using fail l' leases_cong [of "failStep ?s'" ?s'] by (simp add: sessionMove_def st failStep_def)
qed

lemma plain_move:
  assumes "sessionOk s" "leasesOk now table s" and "sessionOk s'" "ss_keys s' = ss_keys s" "ss_leases s' = ss_leases s"
  shows "sessionMove now s table (s', table)"
  using assms leases_cong [of s' s] by (simp add: sessionMove_def)

lemma move_after:
  assumes "sessionMove now s table st" and "sessionOk s'" and "ss_keys s' = ss_keys (fst st)"
    and "ss_leases s' = ss_leases (fst st)"
  shows "sessionMove now s table (s', snd st)"
  using assms leases_cong [of s' "fst st"] by (simp add: sessionMove_def)

lemma step_move:
  assumes s: "sessionOk s" "leasesOk now table s"
  shows "j < ss_acquired s \<Longrightarrow> t \<le> now \<Longrightarrow> sessionMove now s table (renewStep j t s table)"
    and "j < ss_acquired s \<Longrightarrow> t \<le> now \<Longrightarrow> sessionMove now s table (assertHeldStep j t s table)"
    and "sessionMove now s table (finishStep threw s, table)"
    and "sessionMove now s table (endStep s, table)"
    and "sessionMove now s table (failStep s, table)"
proof -
  have c: "sessionOk (s\<lparr>ss_renewalLost := r\<rparr>)" "sessionOk (failStep s)" "sessionOk (finishStep threw s)" "sessionOk (endStep s)" for r
    by (rule sessionOk_cong [OF s(1)]; simp add: failStep_def finishStep_def endStep_def)+
  show "sessionMove now s table (renewStep j t s table)" if "j < ss_acquired s" "t \<le> now"
    unfolding renewStep_def by (rule extend_move [OF s that]) (simp_all add: c)
  show "sessionMove now s table (assertHeldStep j t s table)" if "j < ss_acquired s" "t \<le> now"
    unfolding assertHeldStep_def using c(2) by (intro extend_move [OF s that]) (simp_all add: failStep_def)
  show "sessionMove now s table (finishStep threw s, table)"
    by (rule plain_move [OF s c(3)]) (simp_all add: finishStep_def)
  show "sessionMove now s table (endStep s, table)"
    by (rule plain_move [OF s c(4)]) (simp_all add: endStep_def)
  show "sessionMove now s table (failStep s, table)"
    by (rule plain_move [OF s c(2)]) (simp_all add: failStep_def)
qed

lemma closing_move:
  assumes s: "sessionOk s" "leasesOk now table s" and p: "ss_phase s = Unwinding" "0 < ss_acquired s" and t: "t \<le> now"
  shows "sessionMove now s table (closingCheckStep t s table)"
proof -
  let ?s = "s\<lparr>ss_checked := True\<rparr>" and ?j = "ss_acquired s - 1"
  have c: "sessionOk ?s" "leasesOk now table ?s"
    using s leases_cong [of ?s s] by (simp_all add: sessionOk_def heldKeys_def)
  have "sessionMove now ?s table (extendStep ?j t (\<lambda>s. s\<lparr>ss_failed := True\<rparr>) ?s table)"
    using p by (intro extend_move [OF c _ t]) (simp_all add: sessionOk_cong [OF s(1)])
  then have "sessionMove now s table (extendStep ?j t (\<lambda>s. s\<lparr>ss_failed := True\<rparr>) ?s table)"
    by (simp add: sessionMove_def sessionTokens_def)
  moreover have "sessionMove now s table (s\<lparr>ss_failed := True\<rparr>, table)"
    by (rule plain_move [OF s]) (simp_all add: sessionOk_cong [OF s(1)])
  ultimately show ?thesis by (simp add: closingCheckStep_def Let_def)
qed

lemma lostExtend_move:
  assumes s: "sessionOk s" "leasesOk now table s" "j < ss_acquired s" "t \<le> now"
    and st: "st = extendStep j t (\<lambda>s. s) s table"
    and s': "s' = failStep (fst st) \<or> s' = (fst st)\<lparr>ss_renewalLost := r\<rparr>"
  shows "sessionMove now s table (s', snd st)"
proof (rule move_after)
  show m: "sessionMove now s table st" unfolding st by (rule extend_move) (use s in simp_all)
  have "sessionOk (fst st)" using m by (simp add: sessionMove_def)
  then show "sessionOk s'" by (rule sessionOk_cong) (use s' in \<open>auto simp: failStep_def\<close>)
  show "ss_keys s' = ss_keys (fst st)" "ss_leases s' = ss_leases (fst st)"
    using s' by (auto simp: failStep_def)
qed

lemma fst_coordinationKeys:
  "set (map fst (coordinationKeys lc inputs)) = coordinationKey ` set inputs"
  "distinct (map fst (coordinationKeys lc inputs))"
  using dom_js_map [of "map (\<lambda>input. (coordinationKey input, input)) inputs"]
  by (simp_all add: coordinationKeys_def dom_map_of_conv_image_fst image_image)

lemma sorted_coordinationKeys:
  assumes "consistent_comparator lc"
  shows "sorted_wrt (\<lambda>a b. lc a b \<le> 0) (map fst (coordinationKeys lc inputs))"
  using consistent_comparator.sorted_js_sort [OF consistent_by_key [OF assms], of fst]
  by (simp add: coordinationKeys_def sorted_wrt_map by_key_def)

lemma start_ok:
  assumes ok: "systemOk y" and t: "length tokens = length (coordinationKeys lc inputs)" "distinct tokens"
    and fresh: "set tokens \<inter> (\<Union>s \<in> set (sy_sessions y). sessionTokens s) = {}"
  shows "systemOk (y\<lparr>sy_sessions := sy_sessions y @
      [startSession (zip (map fst (coordinationKeys lc inputs)) tokens) (sy_now y)]\<rparr>)"
proof -
  let ?n = "startSession (zip (map fst (coordinationKeys lc inputs)) tokens) (sy_now y)"
  let ?xs = "sy_sessions y"
  have "sessionOk ?n"
    using t fst_coordinationKeys(2) [of lc inputs] by (simp add: sessionOk_def startSession_def heldKeys_def)
  moreover have "leasesOk (sy_now y) (sy_table y) ?n" by (simp add: leasesOk_def startSession_def)
  moreover have tk: "sessionTokens ?n = set tokens"
    using t(1) by (simp add: sessionTokens_def startSession_def flip: set_map)
  have "tokensApart (?xs @ [?n])"
    unfolding tokensApart_def
  proof (intro allI impI)
    fix i j
    assume ij: "i < length (?xs @ [?n])" "j < length (?xs @ [?n])" "i \<noteq> j"
    have new: "sessionTokens (?xs ! k) \<inter> sessionTokens ?n = {}" if "k < length ?xs" for k
      using fresh nth_mem [OF that] unfolding tk by blast
    have old: "sessionTokens (?xs ! i) \<inter> sessionTokens (?xs ! j) = {}" if "i < length ?xs" "j < length ?xs"
      using ok ij(3) that by (simp add: systemOk_def tokensApart_def)
    show "sessionTokens ((?xs @ [?n]) ! i) \<inter> sessionTokens ((?xs @ [?n]) ! j) = {}"
      using ij old new [of i] new [of j] by (auto simp add: nth_append less_Suc_eq)
  qed
  ultimately show ?thesis using ok by (simp add: systemOk_def)
qed

text \<open>Every step other than the clock and a new session is a move of one session.\<close>

lemma lockStep_cases:
  assumes "lockStep lc y y'" and ok: "systemOk y"
  obtains (time) t where "sy_now y \<le> t" "y' = y\<lparr>sy_now := t\<rparr>"
  | (new) tokens inputs where "length tokens = length (coordinationKeys lc inputs)" "distinct tokens"
      "set tokens \<inter> (\<Union>s \<in> set (sy_sessions y). sessionTokens s) = {}"
      "y' = y\<lparr>sy_sessions := sy_sessions y @
        [startSession (zip (map fst (coordinationKeys lc inputs)) tokens) (sy_now y)]\<rparr>"
  | (move) i st where "i < length (sy_sessions y)"
      "sessionMove (sy_now y) (sy_sessions y ! i) (sy_table y) st" "y' = putSession i y st"
proof -
  have each: "sessionOk (sy_sessions y ! i)" "leasesOk (sy_now y) (sy_table y) (sy_sessions y ! i)"
    if "i < length (sy_sessions y)" for i
    using ok that by (simp_all add: systemOk_def)
  show thesis
    using assms(1)
  proof cases
    case (tick t) then show thesis using time by blast
  next
    case (start tokens inputs) then show thesis using new by blast
  next
    case (acquire i t u) show thesis by (rule move [OF acquire(2) acquire_move(1) acquire(1)]) (use acquire each in auto)
  next
    case (renew i t j) show thesis by (rule move [OF renew(2) step_move(1) renew(1)]) (use renew each in auto)
  next
    case (assertHeld i t j) show thesis by (rule move [OF assertHeld(2) step_move(2) assertHeld(1)]) (use assertHeld each in auto)
  next
    case (finish i threw) show thesis by (rule move [OF finish(2) step_move(3) finish(1)]) (use finish each in auto)
  next
    case (closingCheck i t) show thesis by (rule move [OF closingCheck(2) closing_move closingCheck(1)]) (use closingCheck each in auto)
  next
    case (release i) show thesis by (rule move [OF release(2) release_move(1) release(1)]) (use release each in auto)
  next
    case (fault i) show thesis by (rule move [OF fault(2) step_move(5) fault(1)]) (use fault each in auto)
  next
    case (lostAcquire i t u)
    show thesis by (rule move [OF lostAcquire(2) acquire_move(2) lostAcquire(1)]) (use lostAcquire each in auto)
  next
    case (lostExtend i t j st s')
    show thesis by (rule move [OF lostExtend(2) lostExtend_move lostExtend(1)]) (use lostExtend each in auto)
  next
    case (lostRelease i st table')
    have "sessionMove (sy_now y) (sy_sessions y ! i) (sy_table y) (failStep (fst st), table')"
      using lostRelease(6) release_move(2,3) [OF each, of i] lostRelease(2-5) by auto
    then show thesis using lostRelease move by blast
  next
    case (over i) show thesis by (rule move [OF over(2) step_move(4) over(1)]) (use over each in auto)
  qed
qed

lemma systemOk_step:
  assumes "lockStep lc y y'" and ok: "systemOk y"
  shows "systemOk y'"
  using assms
proof (cases rule: lockStep_cases)
  case (time t)
  then show ?thesis using ok leases_tick [OF _ time(1)] by (simp add: systemOk_def)
next
  case (new tokens inputs)
  then show ?thesis using start_ok [OF ok new(1-3)] by simp
next
  case (move i st)
  then show ?thesis using put_ok [OF ok move(1,2)] by simp
qed

lemma systemOk_reachable:
  assumes "lockReachable lc y"
  shows "systemOk y"
  using assms unfolding lockReachable_def
proof (induction rule: rtranclp_induct)
  case base
  show ?case by (simp add: systemOk_def tokensApart_def idleSystem_def)
qed (rule systemOk_step)

lemma keysOrdered_reachable:
  assumes "lockReachable lc y" and "consistent_comparator lc"
  shows "keysOrdered lc y"
  using assms(1) unfolding lockReachable_def
proof (induction rule: rtranclp_induct)
  case (step y y')
  have ok: "systemOk y" using step.hyps(1) systemOk_reachable by (simp add: lockReachable_def)
  from step.hyps(2) ok show ?case
  proof (cases rule: lockStep_cases)
    case (new tokens inputs)
    then show ?thesis
      using step.IH sorted_coordinationKeys [OF assms(2), of inputs]
      by (simp add: keysOrdered_def startSession_def)
  next
    case (move i st)
    then have "ss_keys (fst st) = ss_keys (sy_sessions y ! i)" by (simp add: sessionMove_def)
    then show ?thesis using step.IH move(1,3) set_update_subset_insert [of "sy_sessions y" i "fst st"]
      by (fastforce simp: keysOrdered_def putSession_def)
  qed (use step.IH in \<open>simp add: keysOrdered_def\<close>)
qed (simp add: keysOrdered_def idleSystem_def)

lemma rowsBounded_reachable:
  assumes "lockReachable lc y"
  shows "rowsBounded y"
  using assms unfolding lockReachable_def
proof (induction rule: rtranclp_induct)
  case (step y y')
  have ok: "systemOk y" using step.hyps(1) systemOk_reachable by (simp add: lockReachable_def)
  from step.hyps(2) ok show ?case
  proof (cases rule: lockStep_cases)
    case (time t)
    then show ?thesis using step.IH by (fastforce simp: rowsBounded_def)
  next
    case (move i st)
    then show ?thesis using step.IH unfolding rowsBounded_def sessionMove_def putSession_def by auto
  qed (use step.IH in \<open>simp add: rowsBounded_def\<close>)
qed (simp add: rowsBounded_def idleSystem_def)

lemma believes_row:
  assumes ok: "systemOk y" and s: "s \<in> set (sy_sessions y)" and b: "believes y s key"
  shows "\<exists>row. map_of (sy_table y) key = Some row \<and> lk_ownerToken row \<in> sessionTokens s"
proof -
  obtain e where e: "map_of (ss_leases s) key = Some e" "sy_now y < e" using b by (auto simp: believes_def)
  have so: "sessionOk s" and l: "leasesOk (sy_now y) (sy_table y) s" using ok s by (simp_all add: systemOk_def)
  have "key \<in> heldKeys s"
    using e(1) so unfolding sessionOk_def by (metis fst_conv image_eqI map_of_SomeD)
  then obtain token where "(key, token) \<in> set (ss_keys s)"
    unfolding heldKeys_def using in_set_takeD by fastforce
  then show ?thesis using l e unfolding leasesOk_def sessionTokens_def by (metis image_eqI snd_conv)
qed

lemma wanted_after_held:
  assumes "sorted_wrt (\<lambda>a b. lc a b \<le> 0) (map fst (ss_keys s))" and "distinct (map fst (ss_keys s))"
    and "ss_acquired s < length (ss_keys s)" and "key \<in> heldKeys s"
  shows "lc key (fst (ss_keys s ! ss_acquired s)) \<le> 0 \<and> key \<noteq> fst (ss_keys s ! ss_acquired s)
    \<and> key \<in> fst ` set (ss_keys s)"
proof -
  obtain m where m: "m < ss_acquired s" "key = fst (ss_keys s ! m)"
    using assms(4) by (auto simp: heldKeys_def in_set_conv_nth)
  then show ?thesis
    using assms(1,3) held_fresh [OF assms(2,3)] assms(4) sorted_wrt_nth_less [OF assms(1) m(1)] by auto
qed

lemma waits_ordered:
  assumes y: "systemOk y" "keysOrdered lc y" and lc: "consistent_comparator lc"
    and ties: "\<And>s s' a b. s \<in> set (sy_sessions y) \<Longrightarrow> s' \<in> set (sy_sessions y) \<Longrightarrow>
      a \<in> fst ` set (ss_keys s) \<Longrightarrow> b \<in> fst ` set (ss_keys s') \<Longrightarrow> lc a b = 0 \<Longrightarrow> a = b"
    and p: "(i, j) \<in> (waitsFor y)\<^sup>+" and j: "ss_phase (sy_sessions y ! j) = Acquiring"
  shows "lc (fst (ss_keys (sy_sessions y ! i) ! ss_acquired (sy_sessions y ! i)))
    (fst (ss_keys (sy_sessions y ! j) ! ss_acquired (sy_sessions y ! j))) < 0"
proof -
  let ?want = "\<lambda>i. fst (ss_keys (sy_sessions y ! i) ! ss_acquired (sy_sessions y ! i))"
  have one: "lc (?want i) (?want j) < 0" if w: "(i, j) \<in> waitsFor y" and a: "ss_phase (sy_sessions y ! j) = Acquiring" for i j
  proof -
    let ?s = "sy_sessions y ! j"
    have s: "?s \<in> set (sy_sessions y)" and k: "?want i \<in> heldKeys ?s" using w by (simp_all add: waitsFor_def)
    have so: "sessionOk ?s" using y(1) s by (simp add: systemOk_def)
    then have n: "ss_acquired ?s < length (ss_keys ?s)" using a by (simp add: sessionOk_def)
    have h: "lc (?want i) (?want j) \<le> 0 \<and> ?want i \<noteq> ?want j \<and> ?want i \<in> fst ` set (ss_keys ?s)"
      by (rule wanted_after_held) (use y(2) s so n k in \<open>simp_all add: keysOrdered_def sessionOk_def\<close>)
    have "?want j \<in> fst ` set (ss_keys ?s)" using nth_mem [OF n] by (rule imageI)
    then have "lc (?want i) (?want j) \<noteq> 0" using ties [OF s s, of "?want i" "?want j"] h by blast
    then show ?thesis using h by linarith
  qed
  from p j show ?thesis
  proof (induction rule: trancl_induct)
    case (step j k)
    then have "ss_phase (sy_sessions y ! j) = Acquiring" by (simp add: waitsFor_def)
    then show ?case
      using step.IH one [OF step.hyps(2) step.prems] consistent_comparator.cmp_less_trans [OF lc] by blast
  qed (rule one)
qed

lemma coordinationKey_inj: "coordinationKey a = coordinationKey b \<longleftrightarrow> a = b"
proof -
  have "jsonQuote x = jsonQuote x' \<longleftrightarrow> x = x'" for x x' using jsonQuote_cancel [of x "[]" x' "[]"] by simp
  moreover have "archName x = archName x' \<longleftrightarrow> x = x'" for x x' by (cases x; cases x') simp_all
  ultimately show ?thesis by (cases a; cases b) (simp add: coordinationKey_def jsonQuote_cancel)
qed

lemma set_coordinationKeys: "set (coordinationKeys lc inputs) = (\<lambda>input. (coordinationKey input, input)) ` set inputs"
proof -
  let ?kvs = "map (\<lambda>input. (coordinationKey input, input)) inputs"
  have "(k, v) \<in> set (js_map ?kvs) \<longleftrightarrow> (k, v) \<in> set ?kvs" for k v
  proof -
    have "(k, v) \<in> set (js_map ?kvs) \<longleftrightarrow> map_of (js_map ?kvs) k = Some v"
      by (simp add: map_of_eq_Some_iff)
    moreover have "(k, v) \<in> set ?kvs" if "map_of (js_map ?kvs) k = Some v"
      using that map_of_SomeD by (fastforce simp: map_of_js_map)
    moreover have "map_of (js_map ?kvs) k = Some v" if kv: "(k, v) \<in> set ?kvs"
    proof -
      have "k \<in> dom (map_of (js_map ?kvs))" unfolding dom_js_map using kv by (rule image_eqI [rotated]) simp
      then obtain w where w: "map_of (js_map ?kvs) k = Some w" by blast
      then have "(k, w) \<in> set ?kvs" using map_of_SomeD by (fastforce simp: map_of_js_map)
      then show ?thesis using w kv coordinationKey_inj by auto
    qed
    ultimately show ?thesis by blast
  qed
  then have "set (js_map ?kvs) = set ?kvs" by auto
  then show ?thesis by (simp add: coordinationKeys_def)
qed

subsection \<open>Properties\<close>

text \<open>
  C9. No two sessions hold the same coordination lock at the same time, in any interleaving of any
  number of sessions with slow, failing and unanswered statements: in every reachable system at most one
  session has a lease on a key that has not run out.
\<close>

theorem lock_exclusive:
  assumes "lockReachable lc y" and "i < length (sy_sessions y)" and "j < length (sy_sessions y)"
    and "believes y (sy_sessions y ! i) key" and "believes y (sy_sessions y ! j) key"
  shows "i = j"
proof (rule ccontr)
  assume "i \<noteq> j"
  have ok: "systemOk y" using assms(1) by (rule systemOk_reachable)
  obtain row where "map_of (sy_table y) key = Some row" "lk_ownerToken row \<in> sessionTokens (sy_sessions y ! i)"
    using believes_row [OF ok nth_mem [OF assms(2)] assms(4)] by blast
  moreover have "lk_ownerToken row \<in> sessionTokens (sy_sessions y ! j)" if "map_of (sy_table y) key = Some row"
    using believes_row [OF ok nth_mem [OF assms(3)] assms(5)] that by auto
  ultimately show False
    using ok assms(2,3) \<open>i \<noteq> j\<close> unfolding systemOk_def tokensApart_def by blast
qed

lemma sampleKeys:
  "map fst (coordinationKeys code_unit_compare sampleInputs) = [''[\"a\",\"x86_64\"]'', ''[\"b\",\"x86_64\"]'']"
  "map fst (coordinationKeys code_unit_compare (rev sampleInputs)) = [''[\"a\",\"x86_64\"]'', ''[\"b\",\"x86_64\"]'']"
  by code_simp+

lemma sampleSystem_eq:
  "sampleSystem =
     \<lparr>sy_now = 0,
      sy_table = [(''[\"a\",\"x86_64\"]'',
        \<lparr>lk_ownerToken = ''t1'', lk_expiresAt = 120000, lk_createdAt = 0, lk_updatedAt = 0\<rparr>)],
      sy_sessions =
        [\<lparr>ss_keys = [(''[\"a\",\"x86_64\"]'', ''t1''), (''[\"b\",\"x86_64\"]'', ''t2'')], ss_acquired = 1,
          ss_deadline = 30000, ss_phase = Acquiring, ss_failed = False, ss_checked = False,
          ss_renewalLost = [], ss_leases = [(''[\"a\",\"x86_64\"]'', 120000)]\<rparr>,
         \<lparr>ss_keys = [(''[\"a\",\"x86_64\"]'', ''t3''), (''[\"b\",\"x86_64\"]'', ''t4'')], ss_acquired = 0,
          ss_deadline = 30000, ss_phase = Acquiring, ss_failed = False, ss_checked = False,
          ss_renewalLost = [], ss_leases = []\<rparr>]\<rparr>"
  by (simp add: sampleSystem_def sampleStarted_def sampleKeys startSession_def acquireStep_def putSession_def
      idleSystem_def tryAcquireImageBuildLock_def IMAGE_BUILD_LOCK_LEASE_MS_def
      IMAGE_BUILD_LOCK_ACQUIRE_TIMEOUT_MS_def)

lemma sample_reachable: "lockReachable code_unit_compare sampleSystem"
proof -
  let ?y = "idleSystem\<lparr>sy_sessions := sy_sessions idleSystem @ [startSession
    (zip (map fst (coordinationKeys code_unit_compare sampleInputs)) [''t1'', ''t2'']) (sy_now idleSystem)]\<rparr>"
  have n: "length (coordinationKeys code_unit_compare sampleInputs) = 2"
    "length (coordinationKeys code_unit_compare (rev sampleInputs)) = 2"
    using sampleKeys by (metis length_map length_Cons list.size(3) numeral_2_eq_2)+
  have "lockStep code_unit_compare idleSystem ?y"
    by (rule lockStep.start) (simp_all add: n idleSystem_def)
  moreover have y: "?y = idleSystem\<lparr>sy_sessions := [startSession
      (zip (map fst (coordinationKeys code_unit_compare sampleInputs)) [''t1'', ''t2'']) 0]\<rparr>"
    by (simp add: idleSystem_def)
  moreover have "lockStep code_unit_compare ?y (?y\<lparr>sy_sessions := sy_sessions ?y @ [startSession
      (zip (map fst (coordinationKeys code_unit_compare (rev sampleInputs))) [''t3'', ''t4'']) (sy_now ?y)]\<rparr>)"
    by (rule lockStep.start) (simp_all add: n sampleKeys idleSystem_def sessionTokens_def startSession_def)
  moreover have "?y\<lparr>sy_sessions := sy_sessions ?y @ [startSession
      (zip (map fst (coordinationKeys code_unit_compare (rev sampleInputs))) [''t3'', ''t4'']) (sy_now ?y)]\<rparr>
      = sampleStarted"
    by (simp add: sampleStarted_def idleSystem_def)
  moreover have "lockStep code_unit_compare sampleStarted sampleSystem"
    unfolding sampleSystem_def
    by (rule lockStep.acquire) (simp_all add: sampleStarted_def sampleKeys startSession_def idleSystem_def)
  ultimately show ?thesis
    unfolding lockReachable_def by (metis converse_rtranclp_into_rtranclp r_into_rtranclp)
qed

theorem lock_exclusive_witness:
  "lockReachable code_unit_compare sampleSystem \<and>
   believes sampleSystem (sy_sessions sampleSystem ! 0) ''[\"a\",\"x86_64\"]'' \<and>
   \<not> believes sampleSystem (sy_sessions sampleSystem ! 1) ''[\"a\",\"x86_64\"]''"
proof -
  have b: "believes sampleSystem (sy_sessions sampleSystem ! 0) ''[\"a\",\"x86_64\"]''"
    by (simp add: believes_def sampleSystem_eq)
  have "length (sy_sessions sampleSystem) = 2" by (simp add: sampleSystem_eq)
  then show ?thesis
    using lock_exclusive [OF sample_reachable, of 0 1] b sample_reachable by auto
qed

text \<open>
  C25. The locks cannot deadlock: every session takes its keys in one order, so no cycle of sessions
  waits each for a lock of the next, provided the comparison that sorts the keys separates the keys in use.
\<close>

theorem lock_no_deadlock:
  assumes "lockReachable lc y" and "consistent_comparator lc"
    and "\<And>s s' a b. s \<in> set (sy_sessions y) \<Longrightarrow> s' \<in> set (sy_sessions y) \<Longrightarrow>
      a \<in> fst ` set (ss_keys s) \<Longrightarrow> b \<in> fst ` set (ss_keys s') \<Longrightarrow> lc a b = 0 \<Longrightarrow> a = b"
  shows "acyclic (waitsFor y)"
proof (rule acyclicI, intro allI notI)
  fix i
  assume p: "(i, i) \<in> (waitsFor y)\<^sup>+"
  then obtain j where "(i, j) \<in> waitsFor y" by (meson tranclD)
  then have "ss_phase (sy_sessions y ! i) = Acquiring" by (simp add: waitsFor_def)
  then show False
    using waits_ordered [OF systemOk_reachable [OF assms(1)] keysOrdered_reachable [OF assms(1,2)] assms(2) assms(3) p]
      consistent_comparator.cmp_refl [OF assms(2)] by fastforce
qed

theorem lock_no_deadlock_witness:
  "(1, 0) \<in> waitsFor sampleSystem \<and> acyclic (waitsFor sampleSystem)"
proof
  show "(1, 0) \<in> waitsFor sampleSystem" by (simp add: waitsFor_def heldKeys_def sampleSystem_eq)
  show "acyclic (waitsFor sampleSystem)"
    by (rule lock_no_deadlock [OF sample_reachable code_unit.consistent_comparator_axioms])
      (auto simp: sampleSystem_eq)
qed

text \<open>
  C35. A lost lock is never lost for good and nobody waits for ever: a session that tries its next lock one
  lease time after the last statement of the others gets it, whatever became of the holder, and a try
  that ends past the deadline leaves the loop, with the lock or with an error.
\<close>

theorem lock_recovers:
  assumes "lockReachable lc y" and "i < length (sy_sessions y)" and "s = sy_sessions y ! i"
    and "ss_phase s = Acquiring" and "st = acquireStep t u s (sy_table y)"
  shows "(sy_now y + IMAGE_BUILD_LOCK_LEASE_MS \<le> t \<longrightarrow> ss_acquired (fst st) = Suc (ss_acquired s)) \<and>
    (ss_deadline s \<le> u \<longrightarrow>
      ss_acquired (fst st) = Suc (ss_acquired s) \<or> ss_phase (fst st) = Unwinding \<and> ss_failed (fst st))"
proof -
  obtain k token where kt: "ss_keys s ! ss_acquired s = (k, token)" by fastforce
  obtain ok table' where e: "tryAcquireImageBuildLock k token t (sy_table y) = (ok, table')" by fastforce
  have free: ok if "sy_now y + IMAGE_BUILD_LOCK_LEASE_MS \<le> t"
    using rowsBounded_reachable [OF assms(1)] that e
    by (fastforce simp: rowsBounded_def tryAcquireImageBuildLock_def split: option.splits if_splits)
  show ?thesis
    using free by (auto simp: assms(5) acquireStep_def kt e update_conv')
qed

theorem lock_recovers_witness:
  "lockReachable code_unit_compare sampleSystem \<and>
   ss_acquired (fst (acquireStep 120000 120000 (sy_sessions sampleSystem ! 1) (sy_table sampleSystem))) = 1 \<and>
   ss_phase (fst (acquireStep 30000 30000 (sy_sessions sampleSystem ! 1) (sy_table sampleSystem))) = Unwinding"
proof -
  let ?s = "sy_sessions sampleSystem ! 1"
  have h: "1 < length (sy_sessions sampleSystem)" "ss_phase ?s = Acquiring" "sy_now sampleSystem = 0"
    "ss_acquired ?s = 0" "ss_deadline ?s = 30000"
    by (simp_all add: sampleSystem_eq)
  have "ss_acquired (fst (acquireStep 30000 30000 ?s (sy_table sampleSystem))) = 0"
    by (simp add: sampleSystem_eq acquireStep_def tryAcquireImageBuildLock_def)
  then show ?thesis
    using lock_recovers [OF sample_reachable h(1) refl h(2) refl, of 120000 120000]
      lock_recovers [OF sample_reachable h(1) refl h(2) refl, of 30000 30000] h sample_reachable
    by (simp add: IMAGE_BUILD_LOCK_LEASE_MS_def)
qed

text \<open>
  The keys a call locks are exactly those of its inputs: different scenario and architecture pairs
  have different keys, whatever characters the scenario id has, every pair is locked once however often
  it is named, and the locks are taken in the order of the comparison.
\<close>

theorem coordination_keys_exact:
  assumes "consistent_comparator lc"
  shows "(coordinationKey a = coordinationKey b \<longleftrightarrow> a = b) \<and>
    set (coordinationKeys lc inputs) = (\<lambda>input. (coordinationKey input, input)) ` set inputs \<and>
    distinct (map fst (coordinationKeys lc inputs)) \<and>
    sorted_wrt (\<lambda>a b. lc a b \<le> 0) (map fst (coordinationKeys lc inputs))"
  by (intro conjI coordinationKey_inj set_coordinationKeys fst_coordinationKeys(2) sorted_coordinationKeys [OF assms])

end
