(* ===== verification/Build_Scheduler.thy ===== *)
theory Build_Scheduler
  imports Desired_Store Sql_Tables
begin

section \<open>The build scheduler\<close>

text \<open>
  Queueing, assigning and tracking image builds: the decisions of
  \<^verbatim>\<open>src/apps/web/src/lib/build-scheduler-core.ts\<close> and the statements around them in
  \<^verbatim>\<open>src/apps/web/src/lib/build-scheduler.ts\<close>. The tables are lists of rows; a host's desired state is the
  row of the desired-state store. An operation runs among others: \<open>se_step\<close> is what they write before
  its n-th statement, \<open>se_lock\<close> whether its n-th use of the build lock (taking it or asserting that it is
  still held) succeeds, and \<open>se_store\<close> how its n-th change of a desired state is interleaved. Waking a
  host only hastens its next report and is left out. The digest of the platform's compile inputs is an
  argument, and so are fresh identifiers.
\<close>

subsection \<open>Decisions\<close>

datatype ImageBuildStatus = IB_queued | IB_assigned | IB_building | IB_succeeded | IB_failed | IB_stale

definition BUILDER_REASSIGN_AFTER_MS :: int where
  "BUILDER_REASSIGN_AFTER_MS = 10 * 60 * 1000"

definition BUILD_REPORT_STALE_AFTER_MS :: int where
  "BUILD_REPORT_STALE_AFTER_MS = 30 * 60 * 1000"

definition SUPERSEDED_BUILD_ERROR_PREFIX :: string where
  "SUPERSEDED_BUILD_ERROR_PREFIX = ''superseded by bundle ''"

definition BUILDER_BUILD_SLOTS :: nat where
  "BUILDER_BUILD_SLOTS = 2"

definition PRE_PUBLICATION_BUILD_PHASES :: "BuildPhase list" where
  "PRE_PUBLICATION_BUILD_PHASES = [BP_queued, BP_fetching_sources, BP_building_base, BP_building]"

record BuilderCandidate =
  bc_hostId :: string
  bc_role :: HostRoleV1
  bc_arch :: "ImageArchitecture option"
  bc_connected :: bool
  bc_disabled :: bool
  bc_activeBuildCount :: nat
  bc_prePublicationBuildCount :: nat
  bc_sourceCompilePlatform :: "string option"
  bc_capacity :: "HostCapacityV2 option"

record DesiredBuildSource =
  bs_buildId :: string
  bs_scenarioId :: string
  bs_arch :: ImageArchitecture
  bs_rev :: string
  bs_contentHash :: string
  bs_bundleRef :: string

record ImageBuildTimings =
  tm_queuedAt :: "int option"
  tm_startedAt :: "int option"
  tm_finishedAt :: "int option"
  tm_lastReportAt :: "int option"

fun buildStatusFromPhase :: "BuildPhase \<Rightarrow> ImageBuildStatus" where
  "buildStatusFromPhase BP_queued = IB_assigned"
| "buildStatusFromPhase BP_fetching_sources = IB_building"
| "buildStatusFromPhase BP_building_base = IB_building"
| "buildStatusFromPhase BP_building = IB_building"
| "buildStatusFromPhase BP_publishing = IB_building"
| "buildStatusFromPhase BP_uploading_logs = IB_building"
| "buildStatusFromPhase BP_succeeded = IB_succeeded"
| "buildStatusFromPhase BP_failed = IB_failed"

definition isTerminalBuildPhase :: "BuildPhase \<Rightarrow> bool" where
  "isTerminalBuildPhase phase \<longleftrightarrow> phase = BP_succeeded \<or> phase = BP_failed"

definition isActiveImageBuild :: "ImageBuildStatus \<Rightarrow> bool" where
  "isActiveImageBuild status \<longleftrightarrow> status = IB_queued \<or> status = IB_assigned \<or> status = IB_building"

text \<open>Who a report claims to be about, and who the row says it is.\<close>

record BuildReportIdentity =
  bi_assignedHostId :: "string option"
  bi_assignedStatus :: ImageBuildStatus
  bi_reportingHostId :: string
  bi_reportHostId :: string
  bi_assignedScenarioId :: string
  bi_reportScenarioId :: string
  bi_assignedContentHash :: string
  bi_reportContentHash :: string

definition buildReportIdentityMatches :: "BuildReportIdentity \<Rightarrow> bool" where
  "buildReportIdentityMatches inp \<longleftrightarrow>
     bi_assignedHostId inp = Some (bi_reportingHostId inp) \<and>
     bi_reportHostId inp = bi_reportingHostId inp \<and>
     bi_assignedScenarioId inp = bi_reportScenarioId inp \<and>
     bi_assignedContentHash inp = bi_reportContentHash inp"

definition isBuildReportAcceptingStatus :: "ImageBuildStatus \<Rightarrow> bool" where
  "isBuildReportAcceptingStatus status \<longleftrightarrow> status = IB_assigned \<or> status = IB_building"

definition shouldAcceptBuildReport :: "BuildReportIdentity \<Rightarrow> bool" where
  "shouldAcceptBuildReport inp \<longleftrightarrow>
     isBuildReportAcceptingStatus (bi_assignedStatus inp) \<and> buildReportIdentityMatches inp"

definition shouldAcknowledgeTerminalBuildReport :: "BuildReportIdentity \<Rightarrow> BuildPhase \<Rightarrow> bool" where
  "shouldAcknowledgeTerminalBuildReport inp reportPhase \<longleftrightarrow>
     buildReportIdentityMatches inp \<and>
     (bi_assignedStatus inp = IB_succeeded \<and> reportPhase = BP_succeeded \<or>
      bi_assignedStatus inp = IB_failed \<and> reportPhase = BP_failed)"

definition shouldSkipExistingBuildForBundle :: "ImageBuildStatus \<Rightarrow> bool" where
  "shouldSkipExistingBuildForBundle status \<longleftrightarrow>
     status = IB_queued \<or> status = IB_assigned \<or> status = IB_building \<or> status = IB_succeeded"

definition startsWith :: "string \<Rightarrow> string \<Rightarrow> bool" where
  "startsWith s start \<longleftrightarrow> take (length start) s = start"

definition canRetryImageBuild :: "ImageBuildStatus \<Rightarrow> string option \<Rightarrow> bool" where
  "canRetryImageBuild status error \<longleftrightarrow>
     status = IB_failed \<or>
     status = IB_stale \<and>
       \<not> (case error of None \<Rightarrow> False | Some e \<Rightarrow> startsWith e SUPERSEDED_BUILD_ERROR_PREFIX)"

definition eligibleBuilder ::
  "ImageArchitecture \<Rightarrow> string \<Rightarrow> string option \<Rightarrow> BuilderCandidate \<Rightarrow> bool" where
  "eligibleBuilder arch buildRev compileDigest candidate \<longleftrightarrow>
     bc_role candidate = HR_builder \<and> bc_connected candidate \<and> \<not> bc_disabled candidate \<and>
     bc_arch candidate = Some arch \<and> bc_prePublicationBuildCount candidate < BUILDER_BUILD_SLOTS \<and>
     (\<not> startsWith buildRev ''git-'' \<or>
      compileDigest \<noteq> None \<and> bc_sourceCompilePlatform candidate = compileDigest)"

definition capacityMetric :: "(HostCapacityV2 \<Rightarrow> int) \<Rightarrow> BuilderCandidate \<Rightarrow> int" where
  "capacityMetric metric candidate = (case bc_capacity candidate of None \<Rightarrow> 0 | Some c \<Rightarrow> metric c)"

definition compareBuilderCapacity :: "BuilderCandidate \<Rightarrow> BuilderCandidate \<Rightarrow> int" where
  "compareBuilderCapacity left right =
     (let metrics =
            [capacityMetric hc_schedulable_cpu_millis right - capacityMetric hc_schedulable_cpu_millis left,
             capacityMetric hc_memory_available_mib right - capacityMetric hc_memory_available_mib left,
             capacityMetric hc_disk_available_mib right - capacityMetric hc_disk_available_mib left]
      in coalesce (find (\<lambda>v. v \<noteq> 0) metrics) 0)"

definition compareBuilders ::
  "(string \<Rightarrow> string \<Rightarrow> int) \<Rightarrow> BuilderCandidate \<Rightarrow> BuilderCandidate \<Rightarrow> int" where
  "compareBuilders lc left right =
     (let load = int (bc_activeBuildCount left) - int (bc_activeBuildCount right) in
      if load \<noteq> 0 then load
      else
        (let capacity = compareBuilderCapacity left right in
         if capacity \<noteq> 0 then capacity else lc (bc_hostId left) (bc_hostId right)))"

definition chooseLeastLoadedBuilder ::
  "(string \<Rightarrow> string \<Rightarrow> int) \<Rightarrow> BuilderCandidate list \<Rightarrow> ImageArchitecture \<Rightarrow> string \<Rightarrow> string option \<Rightarrow>
   BuilderCandidate option" where
  "chooseLeastLoadedBuilder lc candidates arch buildRev compileDigest =
     (case js_sort (compareBuilders lc) (filter (eligibleBuilder arch buildRev compileDigest) candidates) of
        [] \<Rightarrow> None
      | c # _ \<Rightarrow> Some c)"

definition desiredBuildFromSource :: "DesiredBuildSource \<Rightarrow> DesiredBuildV1" where
  "desiredBuildFromSource source =
     \<lparr>db_build_id = bs_buildId source, db_scenario_id = bs_scenarioId source, db_arch = bs_arch source,
      db_rev = bs_rev source, db_content_hash = bs_contentHash source, db_bundle_ref = bs_bundleRef source\<rparr>"

definition isDisconnectedPastDeadline :: "bool \<Rightarrow> int option \<Rightarrow> int \<Rightarrow> bool" where
  "isDisconnectedPastDeadline isConnected disconnectedAt nowUnixMs \<longleftrightarrow>
     \<not> isConnected \<and>
     (case disconnectedAt of None \<Rightarrow> False | Some t \<Rightarrow> t \<le> nowUnixMs - BUILDER_REASSIGN_AFTER_MS)"

definition isSilentBuildingBuild :: "ImageBuildStatus \<Rightarrow> int \<Rightarrow> ImageBuildTimings \<Rightarrow> int \<Rightarrow> bool" where
  "isSilentBuildingBuild status updatedAt timings nowUnixMs \<longleftrightarrow>
     status = IB_building \<and>
     coalesce (tm_lastReportAt timings) updatedAt \<le> nowUnixMs - BUILD_REPORT_STALE_AFTER_MS"

definition HOST_DEGRADED_AFTER_MS :: int where
  "HOST_DEGRADED_AFTER_MS = 60000"

datatype HostHealth = HH_healthy | HH_degraded | HH_unknown

definition hostHealth :: "int option \<Rightarrow> int \<Rightarrow> HostHealth" where
  "hostHealth observedAtUnixMs nowUnixMs =
     (case observedAtUnixMs of
        None \<Rightarrow> HH_unknown
      | Some t \<Rightarrow> (if nowUnixMs - t > HOST_DEGRADED_AFTER_MS then HH_degraded else HH_healthy))"

subsection \<open>Tables\<close>

record ImageBuild =
  ib_id :: string
  ib_organizationId :: "string option"
  ib_scenarioId :: string
  ib_arch :: ImageArchitecture
  ib_rev :: string
  ib_contentHash :: string
  ib_catalogChannel :: string
  ib_hostId :: "string option"
  ib_status :: ImageBuildStatus
  ib_phase :: BuildPhase
  ib_attempt :: int
  ib_error :: "string option"
  ib_logR2Key :: "string option"
  ib_artifactsRetiredAt :: "int option"
  ib_timings :: ImageBuildTimings
  ib_createdAt :: int
  ib_updatedAt :: int

record BundleScenario =
  bm_scenarioId :: string
  bm_arch :: ImageArchitecture
  bm_contentHash :: string

record ImageBuildBundle =
  bb_rev :: string
  bb_organizationId :: "string option"
  bb_r2Key :: string
  bb_scenarios :: "BundleScenario list"
  bb_catalogChannel :: "string option"
  bb_createdAt :: int
  bb_updatedAt :: int

record SchedulerHost =
  sh_id :: string
  sh_userId :: string
  sh_scope :: "HostScope option"
  sh_organizationId :: "string option"
  sh_role :: HostRoleV1
  sh_disabled :: bool
  sh_connected :: bool
  sh_disconnectedAt :: "int option"
  sh_activeSessionId :: "string option"
  sh_credentialGeneration :: int
  sh_lastClientHelloAt :: "int option"

record HostReportRow =
  ho_updatedAt :: int
  ho_reportJson :: HostStateReportV2

record SourceCommit =
  so_id :: string
  so_attempt :: int
  so_rev :: string
  so_validate :: bool
  so_compileHostId :: "string option"
  so_compiling :: bool

record ScenarioSource =
  sx_scopeKey :: string
  sx_pokedAt :: "int option"

record SchedulerDb =
  sd_builds :: "ImageBuild list"
  sd_bundles :: "ImageBuildBundle list"
  sd_hosts :: "SchedulerHost list"
  sd_reports :: "(string \<times> HostReportRow) list"
  sd_desired :: "(string \<times> DesiredRow) list"
  sd_commits :: "SourceCommit list"
  sd_sources :: "ScenarioSource list"

datatype SchedulerError = RevScopeConflict | BuildIdTaken | LockLost | DesiredFailed DesiredStateError

record SchedEnv =
  se_step :: "nat \<Rightarrow> SchedulerDb \<Rightarrow> SchedulerDb"
  se_lock :: "nat \<Rightarrow> bool"
  se_store :: "nat \<Rightarrow> StoreEnv"

type_synonym 'a sched = "(SchedulerError + 'a) \<times> SchedulerDb"

text \<open>A mutation of a host's desired state, through the store of its row.\<close>

definition enrolledHost :: "SchedulerDb \<Rightarrow> string \<Rightarrow> EnrolledHost option" where
  "enrolledHost db hostId =
     map_option (\<lambda>h. \<lparr>eh_scope = sh_scope h, eh_ownerUserId = Some (sh_userId h),
         eh_organizationId = sh_organizationId h, eh_role = sh_role h\<rparr>)
       (find (\<lambda>h. sh_id h = hostId) (sd_hosts db))"

definition putDesired :: "string \<Rightarrow> DesiredRow option \<Rightarrow> SchedulerDb \<Rightarrow> SchedulerDb" where
  "putDesired hostId row db =
     (case row of
        None \<Rightarrow> db\<lparr>sd_desired := AList.delete hostId (sd_desired db)\<rparr>
      | Some r \<Rightarrow> db\<lparr>sd_desired := AList.update hostId r (sd_desired db)\<rparr>)"

definition storeDesired ::
  "(string \<Rightarrow> string \<Rightarrow> int) \<Rightarrow> StoreEnv \<Rightarrow> string \<Rightarrow> int \<Rightarrow> (HostDesiredStateV2 \<Rightarrow> HostDesiredStateV2) \<Rightarrow>
   SchedulerDb \<Rightarrow> HostDesiredStateV2 sched" where
  "storeDesired lc storeEnv hostId now mutator db =
     (case mutateStoredHostDesiredState lc storeEnv (enrolledHost db hostId) hostId now mutator None
             (map_of (sd_desired db) hostId) of
        (Inl e, row) \<Rightarrow> (Inl (DesiredFailed e), putDesired hostId row db)
      | (Inr d, row) \<Rightarrow> (Inr d, putDesired hostId row db))"

text \<open>
  A section under the build lock: taking the lock may fail after others wrote, and the lock may turn out
  lost when the section is over.
\<close>

definition withImageBuildCoordinationLock :: "SchedEnv \<Rightarrow> (SchedulerDb \<Rightarrow> 'a sched) \<Rightarrow> SchedulerDb \<Rightarrow> 'a sched" where
  "withImageBuildCoordinationLock env body db =
     (let db1 = se_step env 0 db in
      if \<not> se_lock env 0 then (Inl LockLost, db1)
      else
        (case body db1 of
           (Inl e, db2) \<Rightarrow> (Inl e, db2)
         | (Inr x, db2) \<Rightarrow> (if se_lock env 1 then (Inr x, db2) else (Inl LockLost, db2))))"

subsection \<open>Queueing a bundle\<close>

definition assertBundleRevScope :: "SchedulerDb \<Rightarrow> string \<Rightarrow> string option \<Rightarrow> SchedulerError + unit" where
  "assertBundleRevScope db bundleRev organizationId =
     (case find (\<lambda>b. bb_rev b = bundleRev) (sd_bundles db) of
        None \<Rightarrow> Inr ()
      | Some owner \<Rightarrow> (if bb_organizationId owner \<noteq> organizationId then Inl RevScopeConflict else Inr ()))"

record QueueInput =
  qi_scenarioId :: string
  qi_arch :: ImageArchitecture
  qi_contentHash :: string
  qi_rev :: string
  qi_organizationId :: "string option"
  qi_catalogChannel :: string
  qi_nowUnixMs :: int

definition inScope :: "QueueInput \<Rightarrow> ImageBuild \<Rightarrow> bool" where
  "inScope inp b \<longleftrightarrow>
     ib_scenarioId b = qi_scenarioId inp \<and>
     ib_organizationId b = (if truthy (qi_organizationId inp) then qi_organizationId inp else None) \<and>
     ib_arch b = qi_arch inp"

definition supersessionCleanupBuildIds :: "QueueInput \<Rightarrow> SchedulerDb \<Rightarrow> string list" where
  "supersessionCleanupBuildIds inp db =
     map ib_id (filter (\<lambda>b. inScope inp b \<and>
       (ib_contentHash b \<noteq> qi_contentHash inp \<and>
          ib_status b \<in> {IB_queued, IB_assigned, IB_building, IB_stale} \<or>
        ib_contentHash b = qi_contentHash inp \<and> ib_status b \<in> {IB_queued, IB_failed, IB_stale})) (sd_builds db))"

definition cleanedRow :: "string list \<Rightarrow> int \<Rightarrow> DesiredRow \<Rightarrow> DesiredRow" where
  "cleanedRow cleanup now row =
     \<lparr>row_version = row_version row + 1,
      row_doc = (row_doc row)\<lparr>ds_version := row_version row + 1, ds_generated_at_unix_ms := now,
        ds_builds := filter (\<lambda>b. db_build_id b \<notin> set cleanup) (ds_builds (row_doc row))\<rparr>\<rparr>"

definition mentionsBuild :: "string list \<Rightarrow> DesiredRow \<Rightarrow> bool" where
  "mentionsBuild ids row \<longleftrightarrow> list_ex (\<lambda>b. db_build_id b \<in> set ids) (ds_builds (row_doc row))"

definition cleanDesired :: "string list \<Rightarrow> int \<Rightarrow> SchedulerDb \<Rightarrow> string list \<times> SchedulerDb" where
  "cleanDesired cleanup now db =
     (map fst (filter (\<lambda>(_, row). mentionsBuild cleanup row) (sd_desired db)),
      db\<lparr>sd_desired := map (\<lambda>(h, row). (h, if mentionsBuild cleanup row then cleanedRow cleanup now row else row))
           (sd_desired db)\<rparr>)"

definition superseded :: "QueueInput \<Rightarrow> ImageBuild \<Rightarrow> bool" where
  "superseded inp b \<longleftrightarrow>
     inScope inp b \<and> ib_contentHash b \<noteq> qi_contentHash inp \<and>
     ib_status b \<in> {IB_queued, IB_assigned, IB_building, IB_failed, IB_stale}"

definition supersededBuild :: "QueueInput \<Rightarrow> ImageBuild \<Rightarrow> ImageBuild" where
  "supersededBuild inp b =
     b\<lparr>ib_status := IB_stale, ib_error := Some (SUPERSEDED_BUILD_ERROR_PREFIX @ qi_rev inp),
       ib_updatedAt := qi_nowUnixMs inp\<rparr>"

definition supersedeBuilds :: "QueueInput \<Rightarrow> SchedulerDb \<Rightarrow> SchedulerDb" where
  "supersedeBuilds inp db =
     db\<lparr>sd_builds := sql_update (superseded inp)
          (supersededBuild inp) (sd_builds db)\<rparr>"

definition queuedTimings :: "int \<Rightarrow> ImageBuildTimings" where
  "queuedTimings now = \<lparr>tm_queuedAt = Some now, tm_startedAt = None, tm_finishedAt = None, tm_lastReportAt = None\<rparr>"

definition newBuild :: "string \<Rightarrow> QueueInput \<Rightarrow> ImageBuild" where
  "newBuild buildId inp =
     \<lparr>ib_id = buildId, ib_organizationId = qi_organizationId inp, ib_scenarioId = qi_scenarioId inp,
      ib_arch = qi_arch inp, ib_rev = qi_rev inp, ib_contentHash = qi_contentHash inp,
      ib_catalogChannel = qi_catalogChannel inp, ib_hostId = None, ib_status = IB_queued, ib_phase = BP_queued,
      ib_attempt = 0, ib_error = None, ib_logR2Key = None, ib_artifactsRetiredAt = None,
      ib_timings = queuedTimings (qi_nowUnixMs inp), ib_createdAt = qi_nowUnixMs inp,
      ib_updatedAt = qi_nowUnixMs inp\<rparr>"

definition revivedBuild :: "QueueInput \<Rightarrow> ImageBuild \<Rightarrow> ImageBuild" where
  "revivedBuild inp b =
     b\<lparr>ib_rev := qi_rev inp, ib_organizationId := qi_organizationId inp,
       ib_catalogChannel := qi_catalogChannel inp, ib_hostId := None, ib_status := IB_queued,
       ib_phase := BP_queued, ib_attempt := 0, ib_error := None, ib_logR2Key := None,
       ib_timings := queuedTimings (qi_nowUnixMs inp), ib_updatedAt := qi_nowUnixMs inp\<rparr>"

definition sameKey :: "QueueInput \<Rightarrow> ImageBuild \<Rightarrow> bool" where
  "sameKey inp b \<longleftrightarrow>
     ib_scenarioId b = qi_scenarioId inp \<and> ib_arch b = qi_arch inp \<and> ib_contentHash b = qi_contentHash inp"

definition upsertBuild :: "string \<Rightarrow> QueueInput \<Rightarrow> SchedulerDb \<Rightarrow> SchedulerError + string list \<times> SchedulerDb" where
  "upsertBuild buildId inp db =
     (case find (sameKey inp) (sd_builds db) of
        None \<Rightarrow>
          (if list_ex (\<lambda>b. ib_id b = buildId) (sd_builds db) then Inl BuildIdTaken
           else Inr ([buildId], db\<lparr>sd_builds := sd_builds db @ [newBuild buildId inp]\<rparr>))
      | Some b \<Rightarrow>
          (if ib_status b \<in> {IB_failed, IB_stale} \<or> ib_artifactsRetiredAt b \<noteq> None
           then Inr ([ib_id b], db\<lparr>sd_builds := sql_update (sameKey inp) (revivedBuild inp) (sd_builds db)\<rparr>)
           else Inr ([], db)))"

definition unretiredBuild :: "int \<Rightarrow> ImageBuild \<Rightarrow> ImageBuild" where
  "unretiredBuild now b = b\<lparr>ib_artifactsRetiredAt := None, ib_updatedAt := now\<rparr>"

text \<open>The three statements of the batch, then the one that makes a revived row an active pointer again.\<close>

definition queueImageBuildScenario ::
  "SchedEnv \<Rightarrow> string \<Rightarrow> QueueInput \<Rightarrow> SchedulerDb \<Rightarrow> (nat \<times> string list) sched" where
  "queueImageBuildScenario env buildId inp db =
     (let (cleaned, db1) = cleanDesired (supersessionCleanupBuildIds inp db) (qi_nowUnixMs inp) db in
      case upsertBuild buildId inp (supersedeBuilds inp db1) of
        Inl e \<Rightarrow> (Inl e, db)
      | Inr (queuedIds, db2) \<Rightarrow>
          (let db3 =
             (if queuedIds = [] then db2
              else
                (let db2' = se_step env 1 db2 in
                 db2'\<lparr>sd_builds := sql_update
                   (\<lambda>b. ib_id b \<in> set queuedIds \<and> ib_artifactsRetiredAt b \<noteq> None)
                   (unretiredBuild (qi_nowUnixMs inp)) (sd_builds db2')\<rparr>))
           in (Inr (length queuedIds, cleaned), db3)))"

definition upsertBundle :: "ImageBuildBundle \<Rightarrow> SchedulerDb \<Rightarrow> SchedulerError + SchedulerDb" where
  "upsertBundle bundle db =
     (case find (\<lambda>b. bb_rev b = bb_rev bundle) (sd_bundles db) of
        None \<Rightarrow> Inr (db\<lparr>sd_bundles := sd_bundles db @ [bundle]\<rparr>)
      | Some stored \<Rightarrow>
          (if bb_organizationId stored \<noteq> bb_organizationId bundle then Inl RevScopeConflict
           else Inr (db\<lparr>sd_bundles := sql_update (\<lambda>b. bb_rev b = bb_rev bundle)
                  (\<lambda>b. bundle\<lparr>bb_createdAt := bb_createdAt b\<rparr>) (sd_bundles db)\<rparr>)))"

fun queueScenarios ::
  "(nat \<Rightarrow> SchedEnv) \<Rightarrow> (nat \<Rightarrow> string) \<Rightarrow> ImageBuildBundle \<Rightarrow> int \<Rightarrow> nat \<Rightarrow> BundleScenario list \<Rightarrow> nat \<Rightarrow>
   SchedulerDb \<Rightarrow> nat sched" where
  "queueScenarios env newId bundle now k [] queued db = (Inr queued, db)"
| "queueScenarios env newId bundle now k (scenario # rest) queued db =
     (case withImageBuildCoordinationLock (env k)
             (queueImageBuildScenario (env k) (newId k)
                \<lparr>qi_scenarioId = bm_scenarioId scenario, qi_arch = bm_arch scenario,
                 qi_contentHash = bm_contentHash scenario, qi_rev = bb_rev bundle,
                 qi_organizationId = bb_organizationId bundle,
                 qi_catalogChannel = coalesce (bb_catalogChannel bundle) ''live'', qi_nowUnixMs = now\<rparr>) db of
        (Inl e, db1) \<Rightarrow> (Inl e, db1)
      | (Inr (n, _), db1) \<Rightarrow> queueScenarios env newId bundle now (Suc k) rest (queued + n) db1)"

definition queueImageBuildsFromBundle ::
  "(nat \<Rightarrow> SchedEnv) \<Rightarrow> (nat \<Rightarrow> string) \<Rightarrow> ImageBuildBundle \<Rightarrow> int \<Rightarrow> SchedulerDb \<Rightarrow> nat sched" where
  "queueImageBuildsFromBundle env newId bundle now db =
     (case upsertBundle (bundle\<lparr>bb_createdAt := now, bb_updatedAt := now\<rparr>) db of
        Inl e \<Rightarrow> (Inl e, db)
      | Inr db1 \<Rightarrow> queueScenarios env newId bundle now 0 (bb_scenarios bundle) 0 db1)"

subsection \<open>Builders\<close>

definition holdsSlot :: "string \<Rightarrow> ImageBuild \<Rightarrow> bool" where
  "holdsSlot hostId b \<longleftrightarrow>
     ib_hostId b = Some hostId \<and> ib_status b \<in> {IB_assigned, IB_building} \<and>
     ib_phase b \<in> set PRE_PUBLICATION_BUILD_PHASES"

definition slotCount :: "SchedulerDb \<Rightarrow> string \<Rightarrow> nat" where
  "slotCount db hostId = length (filter (holdsSlot hostId) (sd_builds db))"

definition activeBuildsOf :: "SchedulerDb \<Rightarrow> string \<Rightarrow> nat" where
  "activeBuildsOf db hostId =
     length (filter (\<lambda>b. ib_hostId b = Some hostId \<and> ib_status b \<in> {IB_assigned, IB_building}) (sd_builds db))"

definition builderConnected :: "SchedulerHost \<Rightarrow> HostReportRow option \<Rightarrow> int \<Rightarrow> bool" where
  "builderConnected h report now \<longleftrightarrow>
     sh_connected h \<and> truthy (sh_activeSessionId h) \<and>
     (case (report, sh_lastClientHelloAt h) of
        (Some r, Some hello) \<Rightarrow> hello \<le> ho_updatedAt r \<and> hostHealth (Some (ho_updatedAt r)) now = HH_healthy
      | _ \<Rightarrow> False)"

definition loadBuilderCandidates :: "SchedulerDb \<Rightarrow> int \<Rightarrow> BuilderCandidate list" where
  "loadBuilderCandidates db now =
     map (\<lambda>h.
       let report = map_of (sd_reports db) (sh_id h) in
       \<lparr>bc_hostId = sh_id h, bc_role = sh_role h,
        bc_arch = map_option (\<lambda>r. cap_arch (hsr_capabilities (ho_reportJson r))) report,
        bc_connected = builderConnected h report now, bc_disabled = sh_disabled h,
        bc_activeBuildCount = activeBuildsOf db (sh_id h), bc_prePublicationBuildCount = slotCount db (sh_id h),
        bc_sourceCompilePlatform =
          (case report of None \<Rightarrow> None | Some r \<Rightarrow> cap_source_compile_platform (hsr_capabilities (ho_reportJson r))),
        bc_capacity = map_option (\<lambda>r. hsr_capacity (ho_reportJson r)) report\<rparr>)
     (filter (\<lambda>h. sh_role h = HR_builder \<and> sh_scope h = Some HS_platform) (sd_hosts db))"

definition freeSourceCompileBuilders ::
  "(string \<Rightarrow> string \<Rightarrow> int) \<Rightarrow> SchedulerDb \<Rightarrow> SchedulerDb \<Rightarrow> int \<Rightarrow> string \<Rightarrow> BuilderCandidate list" where
  "freeSourceCompileBuilders lc db db1 now compileDigest =
     (let busy = List.map_filter so_compileHostId (filter so_compiling (sd_commits db1)) in
      js_sort (then_compare (by_key numeric_compare (\<lambda>b. int (bc_activeBuildCount b))) (by_key lc bc_hostId))
        (filter (\<lambda>b. bc_role b = HR_builder \<and> bc_connected b \<and> \<not> bc_disabled b \<and>
            bc_sourceCompilePlatform b = Some compileDigest \<and> bc_hostId b \<notin> set busy)
          (loadBuilderCandidates db now)))"

subsection \<open>The queue\<close>

definition queuedBuild :: "SchedulerDb \<Rightarrow> ImageBuild \<Rightarrow> bool" where
  "queuedBuild db b \<longleftrightarrow>
     ib_status b = IB_queued \<and> ib_hostId b = None \<and> list_ex (\<lambda>u. bb_rev u = ib_rev b) (sd_bundles db)"

definition sameQueue :: "ImageBuild \<Rightarrow> ImageBuild \<Rightarrow> bool" where
  "sameQueue a b \<longleftrightarrow> ib_organizationId a = ib_organizationId b \<and> ib_arch a = ib_arch b"

definition inFlight :: "SchedulerDb \<Rightarrow> ImageBuild \<Rightarrow> nat" where
  "inFlight db b =
     length (filter (\<lambda>o'. sameQueue o' b \<and> ib_status o' \<in> {IB_assigned, IB_building}) (sd_builds db))"

definition olderThan :: "ImageBuild \<Rightarrow> ImageBuild \<Rightarrow> bool" where
  "olderThan a b \<longleftrightarrow>
     ib_createdAt a < ib_createdAt b \<or>
     ib_createdAt a = ib_createdAt b \<and> code_unit_compare (ib_id a) (ib_id b) < 0"

definition rowNumber :: "ImageBuild list \<Rightarrow> ImageBuild \<Rightarrow> nat" where
  "rowNumber rows b = 1 + length (filter (\<lambda>a. sameQueue a b \<and> olderThan a b) rows)"

definition queueRank :: "SchedulerDb \<Rightarrow> ImageBuild list \<Rightarrow> ImageBuild \<Rightarrow> nat" where
  "queueRank db rows b = inFlight db b + rowNumber rows b"

definition queueOrder :: "SchedulerDb \<Rightarrow> ImageBuild list \<Rightarrow> ImageBuild \<Rightarrow> ImageBuild \<Rightarrow> int" where
  "queueOrder db rows =
     then_compare (by_key numeric_compare (\<lambda>b. int (queueRank db rows b)))
       (then_compare (by_key numeric_compare ib_createdAt) (by_key code_unit_compare ib_id))"

definition queuedRows :: "SchedulerDb \<Rightarrow> ImageBuild list" where
  "queuedRows db = (let rows = filter (queuedBuild db) (sd_builds db) in js_sort (queueOrder db rows) rows)"

definition sourceOf :: "SchedulerDb \<Rightarrow> ImageBuild \<Rightarrow> DesiredBuildSource" where
  "sourceOf db b =
     \<lparr>bs_buildId = ib_id b, bs_scenarioId = ib_scenarioId b, bs_arch = ib_arch b, bs_rev = ib_rev b,
      bs_contentHash = ib_contentHash b,
      bs_bundleRef =
        (case find (\<lambda>u. bb_rev u = ib_rev b) (sd_bundles db) of None \<Rightarrow> [] | Some u \<Rightarrow> bb_r2Key u)\<rparr>"

definition loadQueuedBuildRows :: "SchedulerDb \<Rightarrow> DesiredBuildSource list" where
  "loadQueuedBuildRows db = map (sourceOf db) (queuedRows db)"

subsection \<open>Assigning\<close>

definition claimedBuild :: "string \<Rightarrow> int \<Rightarrow> ImageBuild \<Rightarrow> ImageBuild" where
  "claimedBuild hostId now b =
     b\<lparr>ib_hostId := Some hostId, ib_status := IB_assigned, ib_phase := BP_queued, ib_updatedAt := now\<rparr>"

definition claimBuild :: "string \<Rightarrow> string \<Rightarrow> int \<Rightarrow> SchedulerDb \<Rightarrow> bool \<times> SchedulerDb" where
  "claimBuild hostId buildId now db =
     (let cond = (\<lambda>b. ib_id b = buildId \<and> ib_status b = IB_queued \<and> ib_hostId b = None \<and>
                   slotCount db hostId < BUILDER_BUILD_SLOTS)
      in (0 < sql_count cond (sd_builds db),
          db\<lparr>sd_builds := sql_update cond (claimedBuild hostId now) (sd_builds db)\<rparr>))"

definition removeDesiredBuildsFromHost ::
  "(string \<Rightarrow> string \<Rightarrow> int) \<Rightarrow> StoreEnv \<Rightarrow> string \<Rightarrow> string list \<Rightarrow> int \<Rightarrow> SchedulerDb \<Rightarrow> unit sched" where
  "removeDesiredBuildsFromHost lc storeEnv hostId buildIds now db =
     (if buildIds = [] then (Inr (), db)
      else
        (case storeDesired lc storeEnv hostId now
                (\<lambda>draft. fold (\<lambda>id d. snd (removeDesiredBuild d id)) buildIds draft) db of
           (Inl e, db1) \<Rightarrow> (Inl e, db1)
         | (Inr _, db1) \<Rightarrow> (Inr (), db1)))"

definition bumpBuilder :: "string \<Rightarrow> (BuilderCandidate \<Rightarrow> BuilderCandidate) \<Rightarrow> BuilderCandidate list \<Rightarrow> BuilderCandidate list" where
  "bumpBuilder hostId f builders = map (\<lambda>b. if bc_hostId b = hostId then f b else b) builders"

definition activeAssignment :: "string \<Rightarrow> string \<Rightarrow> ImageBuild \<Rightarrow> bool" where
  "activeAssignment hostId buildId b \<longleftrightarrow>
     ib_id b = buildId \<and> ib_hostId b = Some hostId \<and> ib_status b \<in> {IB_assigned, IB_building}"

text \<open>
  One pass over the queue. A failed delivery to the host's desired state is left to the host's next
  reconciliation; an assignment that was superseded meanwhile is withdrawn again.
\<close>

fun assignLoop ::
  "(string \<Rightarrow> string \<Rightarrow> int) \<Rightarrow> (nat \<Rightarrow> SchedEnv) \<Rightarrow> string option \<Rightarrow> int \<Rightarrow> nat \<Rightarrow> BuilderCandidate list \<Rightarrow>
   DesiredBuildSource list \<Rightarrow> (string \<times> string) list \<Rightarrow> SchedulerDb \<Rightarrow> (string \<times> string) list sched" where
  "assignLoop lc env digest now k builders [] assigned db = (Inr assigned, db)"
| "assignLoop lc env digest now k builders (build # rest) assigned db =
     (case chooseLeastLoadedBuilder lc builders (bs_arch build) (bs_rev build) digest of
        None \<Rightarrow> assignLoop lc env digest now (Suc k) builders rest assigned db
      | Some builder \<Rightarrow>
          (let hostId = bc_hostId builder;
               (claimed, db1) = claimBuild hostId (bs_buildId build) now (se_step (env k) 0 db)
           in if \<not> claimed
              then assignLoop lc env digest now (Suc k)
                     (bumpBuilder hostId (\<lambda>b. b\<lparr>bc_prePublicationBuildCount := bc_prePublicationBuildCount b + 1\<rparr>)
                       builders) rest assigned db1
              else
                (let db2 = snd (storeDesired lc (se_store (env k) 0) hostId now
                       (\<lambda>draft. upsertDesiredBuild draft (desiredBuildFromSource build)) (se_step (env k) 1 db1));
                     db3 = se_step (env k) 2 db2
                 in if \<not> list_ex (activeAssignment hostId (bs_buildId build)) (sd_builds db3)
                    then
                      (case removeDesiredBuildsFromHost lc (se_store (env k) 1) hostId [bs_buildId build] now
                              (se_step (env k) 3 db3) of
                         (Inl e, db4) \<Rightarrow> (Inl e, db4)
                       | (Inr _, db4) \<Rightarrow> assignLoop lc env digest now (Suc k) builders rest assigned db4)
                    else
                      assignLoop lc env digest now (Suc k)
                        (bumpBuilder hostId (\<lambda>b. b\<lparr>bc_activeBuildCount := bc_activeBuildCount b + 1,
                           bc_prePublicationBuildCount := bc_prePublicationBuildCount b + 1\<rparr>) builders)
                        rest (assigned @ [(bs_buildId build, hostId)]) db3)))"

definition assignQueuedImageBuilds ::
  "(string \<Rightarrow> string \<Rightarrow> int) \<Rightarrow> (nat \<Rightarrow> SchedEnv) \<Rightarrow> string option \<Rightarrow> int \<Rightarrow> SchedulerDb \<Rightarrow>
   (string \<times> string) list sched" where
  "assignQueuedImageBuilds lc env digest now db =
     (let db1 = se_step (env 0) 0 db in
      assignLoop lc env digest now 1 (loadBuilderCandidates db1 now) (loadQueuedBuildRows db) [] db1)"

subsection \<open>Retrying\<close>

datatype RetryOutcome = RO_not_found | RO_not_retryable ImageBuildStatus | RO_retried

definition retriedBuild :: "int \<Rightarrow> ImageBuild \<Rightarrow> ImageBuild" where
  "retriedBuild now b =
     b\<lparr>ib_hostId := None, ib_status := IB_queued, ib_phase := BP_queued, ib_attempt := 0, ib_error := None,
       ib_logR2Key := None, ib_timings := queuedTimings now, ib_updatedAt := now\<rparr>"

definition retrySection ::
  "(string \<Rightarrow> string \<Rightarrow> int) \<Rightarrow> SchedEnv \<Rightarrow> string \<Rightarrow> int \<Rightarrow> SchedulerDb \<Rightarrow> RetryOutcome sched" where
  "retrySection lc env buildId now db =
     (case find (\<lambda>b. ib_id b = buildId) (sd_builds db) of
        None \<Rightarrow> (Inr RO_not_found, db)
      | Some build \<Rightarrow>
          (if \<not> canRetryImageBuild (ib_status build) (ib_error build)
           then (Inr (RO_not_retryable (ib_status build)), db)
           else
             (case (if truthy (ib_hostId build)
                    then removeDesiredBuildsFromHost lc (se_store env 0) (the (ib_hostId build)) [buildId] now
                           (se_step env 1 db)
                    else (Inr (), db)) of
                (Inl e, db1) \<Rightarrow> (Inl e, db1)
              | (Inr _, db1) \<Rightarrow>
                  (if \<not> se_lock env 2 then (Inl LockLost, db1)
                   else
                     (let db2 = se_step env 2 db1;
                          cond = (\<lambda>b. ib_id b = buildId \<and> ib_status b = ib_status build \<and>
                                   ib_updatedAt b = ib_updatedAt build);
                          db3 = db2\<lparr>sd_builds := sql_update cond (retriedBuild now) (sd_builds db2)\<rparr>
                      in (Inr (if 0 < sql_count cond (sd_builds db2) then RO_retried
                               else RO_not_retryable (ib_status build)), db3))))))"

definition retryImageBuild ::
  "(string \<Rightarrow> string \<Rightarrow> int) \<Rightarrow> SchedEnv \<Rightarrow> (nat \<Rightarrow> SchedEnv) \<Rightarrow> string option \<Rightarrow> string \<Rightarrow> int \<Rightarrow> SchedulerDb \<Rightarrow>
   (RetryOutcome \<times> (string \<times> string) list) sched" where
  "retryImageBuild lc env assignEnv digest buildId now db =
     (if find (\<lambda>b. ib_id b = buildId) (sd_builds db) = None then (Inr (RO_not_found, []), db)
      else
        (case withImageBuildCoordinationLock env (retrySection lc env buildId now) db of
           (Inl e, db1) \<Rightarrow> (Inl e, db1)
         | (Inr outcome, db1) \<Rightarrow>
             (if outcome \<noteq> RO_retried then (Inr (outcome, []), db1)
              else
                (case assignQueuedImageBuilds lc assignEnv digest now db1 of
                   (Inl e, db2) \<Rightarrow> (Inl e, db2)
                 | (Inr assigned, db2) \<Rightarrow> (Inr (RO_retried, assigned), db2)))))"

subsection \<open>Reports of a builder\<close>

definition currentBuilder :: "SchedulerDb \<Rightarrow> string \<Rightarrow> string \<Rightarrow> int \<Rightarrow> bool" where
  "currentBuilder db hostId sessionId credentialGeneration \<longleftrightarrow>
     list_ex (\<lambda>h. sh_id h = hostId \<and> sh_scope h = Some HS_platform \<and> sh_role h = HR_builder \<and>
       \<not> sh_disabled h \<and> sh_activeSessionId h = Some sessionId \<and>
       sh_credentialGeneration h = credentialGeneration) (sd_hosts db)"

definition mergeBuildTimings :: "ImageBuildTimings \<Rightarrow> BuildReportV1 \<Rightarrow> ImageBuildTimings" where
  "mergeBuildTimings current report =
     current\<lparr>tm_startedAt := coalesce_opt (br_started_at_unix_ms report) (tm_startedAt current),
             tm_finishedAt := coalesce_opt (br_finished_at_unix_ms report) (tm_finishedAt current),
             tm_lastReportAt := Some (br_observed_at_unix_ms report)\<rparr>"

definition findReportedBuild :: "SchedulerDb \<Rightarrow> string \<Rightarrow> string \<Rightarrow> int \<Rightarrow> string \<Rightarrow> ImageBuild option" where
  "findReportedBuild db hostId sessionId credentialGeneration buildId =
     (if currentBuilder db hostId sessionId credentialGeneration
      then find (\<lambda>b. ib_id b = buildId) (sd_builds db) else None)"

definition reportIdentity :: "string \<Rightarrow> BuildReportV1 \<Rightarrow> ImageBuild \<Rightarrow> BuildReportIdentity" where
  "reportIdentity hostId report existing =
     \<lparr>bi_assignedHostId = ib_hostId existing, bi_assignedStatus = ib_status existing,
      bi_reportingHostId = hostId, bi_reportHostId = br_host_id report,
      bi_assignedScenarioId = ib_scenarioId existing, bi_reportScenarioId = br_scenario_id report,
      bi_assignedContentHash = ib_contentHash existing, bi_reportContentHash = br_content_hash report\<rparr>"

definition reportedBuild :: "string \<Rightarrow> BuildReportV1 \<Rightarrow> ImageBuildTimings \<Rightarrow> int \<Rightarrow> ImageBuild \<Rightarrow> ImageBuild" where
  "reportedBuild hostId report timings now b =
     b\<lparr>ib_hostId := Some hostId, ib_phase := br_phase report, ib_status := buildStatusFromPhase (br_phase report),
       ib_attempt := br_attempt report, ib_error := br_error report, ib_timings := timings, ib_updatedAt := now\<rparr>"

record ReportResult =
  rq_updated :: bool
  rq_terminal :: bool

definition reportTarget ::
  "SchedulerDb \<Rightarrow> string \<Rightarrow> string \<Rightarrow> int \<Rightarrow> BuildReportV1 \<Rightarrow> ImageBuild \<Rightarrow> ImageBuild \<Rightarrow> bool" where
  "reportTarget db hostId sessionId credentialGeneration report existing b \<longleftrightarrow>
     ib_id b = br_build_id report \<and> currentBuilder db hostId sessionId credentialGeneration \<and>
     ib_hostId b = Some hostId \<and> ib_scenarioId b = ib_scenarioId existing \<and>
     ib_contentHash b = ib_contentHash existing \<and> ib_status b \<in> {IB_assigned, IB_building}"

definition reportSection ::
  "SchedEnv \<Rightarrow> string \<Rightarrow> BuildReportV1 \<Rightarrow> int \<Rightarrow> string \<Rightarrow> int \<Rightarrow> SchedulerDb \<Rightarrow> ReportResult sched" where
  "reportSection env hostId report now sessionId credentialGeneration db =
     (case findReportedBuild db hostId sessionId credentialGeneration (br_build_id report) of
        None \<Rightarrow> (Inr \<lparr>rq_updated = False, rq_terminal = False\<rparr>, db)
      | Some existing \<Rightarrow>
          (if shouldAcknowledgeTerminalBuildReport (reportIdentity hostId report existing) (br_phase report)
           then (Inr \<lparr>rq_updated = False, rq_terminal = True\<rparr>, db)
           else if \<not> shouldAcceptBuildReport (reportIdentity hostId report existing)
           then (Inr \<lparr>rq_updated = False, rq_terminal = False\<rparr>, db)
           else if \<not> se_lock env 2 then (Inl LockLost, db)
           else
             (let db1 = se_step env 1 db;
                  cond = reportTarget db1 hostId sessionId credentialGeneration report existing;
                  db2 = db1\<lparr>sd_builds := sql_update cond
                    (reportedBuild hostId report (mergeBuildTimings (ib_timings existing) report) now) (sd_builds db1)\<rparr>;
                  updated = 0 < sql_count cond (sd_builds db1)
              in (Inr \<lparr>rq_updated = updated, rq_terminal = updated \<and> isTerminalBuildPhase (br_phase report)\<rparr>, db2))))"

definition recordImageBuildReport ::
  "SchedEnv \<Rightarrow> string \<Rightarrow> BuildReportV1 \<Rightarrow> int \<Rightarrow> string \<Rightarrow> int \<Rightarrow> SchedulerDb \<Rightarrow> ReportResult sched" where
  "recordImageBuildReport env hostId report now sessionId credentialGeneration db =
     (if findReportedBuild db hostId sessionId credentialGeneration (br_build_id report) = None
      then (Inr \<lparr>rq_updated = False, rq_terminal = False\<rparr>, db)
      else withImageBuildCoordinationLock env
             (reportSection env hostId report now sessionId credentialGeneration) db)"

fun recordReports ::
  "(nat \<Rightarrow> SchedEnv) \<Rightarrow> string \<Rightarrow> int \<Rightarrow> string \<Rightarrow> int \<Rightarrow> nat \<Rightarrow> BuildReportV1 list \<Rightarrow> string list \<Rightarrow> SchedulerDb \<Rightarrow>
   string list sched" where
  "recordReports env hostId now sessionId credentialGeneration k [] terminal db = (Inr terminal, db)"
| "recordReports env hostId now sessionId credentialGeneration k (report # rest) terminal db =
     (case recordImageBuildReport (env k) hostId report now sessionId credentialGeneration db of
        (Inl e, db1) \<Rightarrow> (Inl e, db1)
      | (Inr result, db1) \<Rightarrow>
          recordReports env hostId now sessionId credentialGeneration (Suc k) rest
            (if rq_terminal result then terminal @ [br_build_id report] else terminal) db1)"

definition scopeKey :: "string option \<Rightarrow> string" where
  "scopeKey organizationId =
     (case organizationId of None \<Rightarrow> ''public'' | Some org \<Rightarrow> ''organization:'' @ org)"

definition gitBuild :: "ImageBuild \<Rightarrow> bool" where
  "gitBuild b \<longleftrightarrow> startsWith (js_lower (ib_rev b)) ''git-''"

definition recordHostBuildReports ::
  "(nat \<Rightarrow> SchedEnv) \<Rightarrow> string \<Rightarrow> BuildReportV1 list \<Rightarrow> int \<Rightarrow> string \<Rightarrow> int \<Rightarrow> SchedulerDb \<Rightarrow> string list sched" where
  "recordHostBuildReports env hostId reports now sessionId credentialGeneration db =
     (case recordReports env hostId now sessionId credentialGeneration 0 reports [] db of
        (Inl e, db1) \<Rightarrow> (Inl e, db1)
      | (Inr terminal, db1) \<Rightarrow>
          (if terminal = [] then (Inr [], db1)
           else
             (let keys = map (\<lambda>b. scopeKey (ib_organizationId b))
                    (filter (\<lambda>b. gitBuild b \<and> ib_id b \<in> set terminal) (sd_builds db1))
              in (Inr terminal,
                  db1\<lparr>sd_sources := sql_update (\<lambda>s. sx_scopeKey s \<in> set keys)
                    (\<lambda>s. s\<lparr>sx_pokedAt := Some now\<rparr>) (sd_sources db1)\<rparr>))))"

subsection \<open>Keeping the assignments of a host in order\<close>

definition disconnectedHost :: "SchedulerDb \<Rightarrow> string \<Rightarrow> int \<Rightarrow> bool" where
  "disconnectedHost db hostId now =
     (case find (\<lambda>h. sh_id h = hostId) (sd_hosts db) of
        None \<Rightarrow> False
      | Some h \<Rightarrow> isDisconnectedPastDeadline (sh_connected h) (sh_disconnectedAt h) now)"

definition assignedTo :: "string \<Rightarrow> ImageBuild \<Rightarrow> bool" where
  "assignedTo hostId b \<longleftrightarrow> ib_hostId b = Some hostId \<and> ib_status b = IB_assigned"

definition requeuedBuild :: "int \<Rightarrow> ImageBuild \<Rightarrow> ImageBuild" where
  "requeuedBuild now b =
     b\<lparr>ib_hostId := None, ib_status := IB_queued, ib_phase := BP_queued,
       ib_error := Some ''builder disconnected before starting build'', ib_updatedAt := now\<rparr>"

definition requeueSection ::
  "(string \<Rightarrow> string \<Rightarrow> int) \<Rightarrow> SchedEnv \<Rightarrow> string \<Rightarrow> string list \<Rightarrow> int \<Rightarrow> SchedulerDb \<Rightarrow> string list sched" where
  "requeueSection lc env hostId candidates now db =
     (if \<not> disconnectedHost db hostId now then (Inr [], db)
      else
        (let db1 = se_step env 1 db;
             locked = map ib_id (filter (\<lambda>b. assignedTo hostId b \<and> ib_id b \<in> set candidates) (sd_builds db1))
         in if locked = [] then (Inr [], db1)
            else if \<not> se_lock env 2 then (Inl LockLost, db1)
            else
              (let db2 = se_step env 2 db1;
                   cond = (\<lambda>b. assignedTo hostId b \<and> ib_id b \<in> set locked);
                   updated = map ib_id (filter cond (sd_builds db2));
                   db3 = db2\<lparr>sd_builds := sql_update cond (requeuedBuild now) (sd_builds db2)\<rparr>
               in case removeDesiredBuildsFromHost lc (se_store env 0) hostId updated now db3 of
                    (Inl e, db4) \<Rightarrow> (Inl e, db4)
                  | (Inr _, db4) \<Rightarrow> (Inr updated, db4))))"

definition requeueAssignedBuildsForDisconnectedHost ::
  "(string \<Rightarrow> string \<Rightarrow> int) \<Rightarrow> SchedEnv \<Rightarrow> string \<Rightarrow> int \<Rightarrow> SchedulerDb \<Rightarrow> string list sched" where
  "requeueAssignedBuildsForDisconnectedHost lc env hostId now db =
     (if \<not> disconnectedHost db hostId now then (Inr [], db)
      else
        (let db1 = se_step env 3 db;
             candidates = map ib_id (filter (assignedTo hostId) (sd_builds db1))
         in if candidates = [] then (Inr [], db1)
            else withImageBuildCoordinationLock env (requeueSection lc env hostId candidates now) db1))"

definition silentBuild :: "string \<Rightarrow> int \<Rightarrow> ImageBuild \<Rightarrow> bool" where
  "silentBuild hostId now b \<longleftrightarrow>
     ib_hostId b = Some hostId \<and> isSilentBuildingBuild (ib_status b) (ib_updatedAt b) (ib_timings b) now"

definition staleBuild :: "int \<Rightarrow> ImageBuild \<Rightarrow> ImageBuild" where
  "staleBuild now b =
     b\<lparr>ib_status := IB_stale, ib_error := Some ''builder stopped reporting build progress'', ib_updatedAt := now\<rparr>"

definition staleSection ::
  "(string \<Rightarrow> string \<Rightarrow> int) \<Rightarrow> SchedEnv \<Rightarrow> string \<Rightarrow> string list \<Rightarrow> int \<Rightarrow> SchedulerDb \<Rightarrow> string list sched" where
  "staleSection lc env hostId candidates now db =
     (let locked = map ib_id (filter (\<lambda>b. silentBuild hostId now b \<and> ib_id b \<in> set candidates) (sd_builds db)) in
      if locked = [] then (Inr [], db)
      else if \<not> se_lock env 2 then (Inl LockLost, db)
      else
        (let db1 = se_step env 1 db;
             cond = (\<lambda>b. ib_hostId b = Some hostId \<and> ib_status b = IB_building \<and> ib_id b \<in> set locked);
             updated = map ib_id (filter cond (sd_builds db1));
             db2 = db1\<lparr>sd_builds := sql_update cond (staleBuild now) (sd_builds db1)\<rparr>
         in case removeDesiredBuildsFromHost lc (se_store env 0) hostId updated now db2 of
              (Inl e, db3) \<Rightarrow> (Inl e, db3)
            | (Inr _, db3) \<Rightarrow> (Inr updated, db3)))"

definition markSilentBuildingBuildsStale ::
  "(string \<Rightarrow> string \<Rightarrow> int) \<Rightarrow> SchedEnv \<Rightarrow> string \<Rightarrow> int \<Rightarrow> SchedulerDb \<Rightarrow> string list sched" where
  "markSilentBuildingBuildsStale lc env hostId now db =
     (let candidates = map ib_id (filter (silentBuild hostId now) (sd_builds db)) in
      if candidates = [] then (Inr [], db)
      else withImageBuildCoordinationLock env (staleSection lc env hostId candidates now) db)"

definition hostAssignments :: "SchedulerDb \<Rightarrow> string \<Rightarrow> ImageBuild list" where
  "hostAssignments db hostId =
     filter (\<lambda>b. ib_hostId b = Some hostId \<and> ib_status b \<in> {IB_assigned, IB_building} \<and>
       list_ex (\<lambda>u. bb_rev u = ib_rev b) (sd_bundles db)) (sd_builds db)"

definition reconcileAssignedBuildsForHost ::
  "(string \<Rightarrow> string \<Rightarrow> int) \<Rightarrow> SchedEnv \<Rightarrow> string \<Rightarrow> int \<Rightarrow> SchedulerDb \<Rightarrow> string list sched" where
  "reconcileAssignedBuildsForHost lc env hostId now db =
     (let assignments = map (sourceOf db) (hostAssignments db hostId) in
      if assignments = [] then (Inr [], db)
      else
        (let db1 = se_step env 0 db in
         case loadOrCreateHostDesiredState (env_load (se_store env 0) 0) (enrolledHost db1 hostId) hostId now
                (map_of (sd_desired db1) hostId) of
           (Inl e, row) \<Rightarrow> (Inl (DesiredFailed e), putDesired hostId row db1)
         | (Inr before, row) \<Rightarrow>
             (let db2 = putDesired hostId row db1;
                  desiredIds = map db_build_id (ds_builds before);
                  missingIds = map bs_buildId (filter (\<lambda>a. bs_buildId a \<notin> set desiredIds) assignments)
              in if missingIds = [] then (Inr [], db2)
                 else
                   (case storeDesired lc (se_store env 1) hostId now
                           (\<lambda>draft. fold (\<lambda>a d. upsertDesiredBuild d (desiredBuildFromSource a)) assignments draft)
                           (se_step env 1 db2) of
                      (Inl e, db3) \<Rightarrow> (Inl e, db3)
                    | (Inr _, db3) \<Rightarrow>
                        (let db4 = se_step env 2 db3;
                             activeIds = map ib_id (filter (\<lambda>b. ib_hostId b = Some hostId \<and>
                               ib_status b \<in> {IB_assigned, IB_building} \<and>
                               ib_id b \<in> set (map bs_buildId assignments)) (sd_builds db4));
                             supersededIds = filter (\<lambda>id. id \<notin> set activeIds) (map bs_buildId assignments)
                         in case removeDesiredBuildsFromHost lc (se_store env 2) hostId supersededIds now
                                   (se_step env 3 db4) of
                              (Inl e, db5) \<Rightarrow> (Inl e, db5)
                            | (Inr _, db5) \<Rightarrow> (Inr (filter (\<lambda>id. id \<in> set activeIds) missingIds), db5))))))"

definition wantedCompiles ::
  "(string \<Rightarrow> string \<Rightarrow> int) \<Rightarrow> SchedulerDb \<Rightarrow> string \<Rightarrow> DesiredSourceCompileV1 list" where
  "wantedCompiles lc db hostId =
     js_sort (by_key lc sc_compile_id)
       (map (\<lambda>c. \<lparr>sc_compile_id = so_id c, sc_attempt = so_attempt c, sc_rev = so_rev c,
                  sc_validate_only = so_validate c,
                  sc_arch =
                    (if map_option (\<lambda>r. cap_arch (hsr_capabilities (ho_reportJson r))) (map_of (sd_reports db) hostId) =
                        Some Aarch64 then Aarch64 else X86_64)\<rparr>)
          (filter (\<lambda>c. so_compileHostId c = Some hostId \<and> so_compiling c) (sd_commits db)))"

definition reconcileHostSourceCompiles ::
  "(string \<Rightarrow> string \<Rightarrow> int) \<Rightarrow> SchedEnv \<Rightarrow> string \<Rightarrow> int \<Rightarrow> SchedulerDb \<Rightarrow> bool sched" where
  "reconcileHostSourceCompiles lc env hostId now db =
     (let wanted = wantedCompiles lc db hostId;
          stored = (case map_of (sd_desired db) hostId of
                      None \<Rightarrow> [] | Some row \<Rightarrow> coalesce (ds_source_compiles (row_doc row)) [])
      in if wanted = stored then (Inr False, db)
         else
           (case storeDesired lc (se_store env 0) hostId now (\<lambda>draft. draft\<lparr>ds_source_compiles := Some wanted\<rparr>)
                   (se_step env 0 db) of
              (Inl e, db1) \<Rightarrow> (Inl e, db1)
            | (Inr _, db1) \<Rightarrow> (Inr True, db1)))"

record MaintenanceResult =
  ma_requeuedAssignedBuildIds :: "string list"
  ma_staleBuildIds :: "string list"
  ma_reassigned :: "(string \<times> string) list"
  ma_reconciledDesiredBuildIds :: "string list"

definition sched_bind :: "'a sched \<Rightarrow> ('a \<Rightarrow> SchedulerDb \<Rightarrow> 'b sched) \<Rightarrow> 'b sched" where
  "sched_bind r f = (case r of (Inl e, db) \<Rightarrow> (Inl e, db) | (Inr x, db) \<Rightarrow> f x db)"

text \<open>
  Both are started and both run to their end; the first error is raised. What one writes between the
  statements of the other is among the steps of the others.
\<close>

definition sched_both :: "(SchedulerDb \<Rightarrow> 'a sched) \<Rightarrow> (SchedulerDb \<Rightarrow> 'b sched) \<Rightarrow> SchedulerDb \<Rightarrow> ('a \<times> 'b) sched" where
  "sched_both f g db =
     (let (left, db1) = f db; (right, db2) = g db1
      in (case (left, right) of
            (Inl e, _) \<Rightarrow> Inl e
          | (Inr _, Inl e) \<Rightarrow> Inl e
          | (Inr x, Inr y) \<Rightarrow> Inr (x, y), db2))"

definition maintainHostBuildAssignments ::
  "(string \<Rightarrow> string \<Rightarrow> int) \<Rightarrow> (nat \<Rightarrow> SchedEnv) \<Rightarrow> (nat \<Rightarrow> SchedEnv) \<Rightarrow> string option \<Rightarrow> string \<Rightarrow> int \<Rightarrow>
   SchedulerDb \<Rightarrow> MaintenanceResult sched" where
  "maintainHostBuildAssignments lc env assignEnv digest hostId now db =
     sched_bind (sched_both (requeueAssignedBuildsForDisconnectedHost lc (env 0) hostId now)
       (markSilentBuildingBuildsStale lc (env 1) hostId now) db) (\<lambda>(requeued, stale) db2.
     sched_bind (assignQueuedImageBuilds lc assignEnv digest now db2) (\<lambda>reassigned db3.
     sched_bind (reconcileAssignedBuildsForHost lc (env 2) hostId now db3) (\<lambda>reconciled db4.
     sched_bind (reconcileHostSourceCompiles lc (env 3) hostId now db4) (\<lambda>_ db5.
       (Inr \<lparr>ma_requeuedAssignedBuildIds = requeued, ma_staleBuildIds = stale, ma_reassigned = reassigned,
             ma_reconciledDesiredBuildIds = reconciled\<rparr>, db5)))))"

subsection \<open>Specification vocabulary\<close>

text \<open>A build that runs, waits or may be retried. Of a scenario and architecture of one owner only one content is live.\<close>

definition liveBuild :: "ImageBuild \<Rightarrow> bool" where
  "liveBuild b \<longleftrightarrow> isActiveImageBuild (ib_status b) \<or> canRetryImageBuild (ib_status b) (ib_error b)"

definition sameOwner :: "ImageBuild \<Rightarrow> ImageBuild \<Rightarrow> bool" where
  "sameOwner a b \<longleftrightarrow>
     ib_organizationId a = ib_organizationId b \<and> ib_scenarioId a = ib_scenarioId b \<and> ib_arch a = ib_arch b"

definition buildKey :: "ImageBuild \<Rightarrow> string \<times> ImageArchitecture \<times> string" where
  "buildKey b = (ib_scenarioId b, ib_arch b, ib_contentHash b)"

definition oneLiveHash :: "ImageBuild list \<Rightarrow> bool" where
  "oneLiveHash bs \<longleftrightarrow>
     distinct (map ib_id bs) \<and> distinct (map buildKey bs) \<and>
     (\<forall>a \<in> set bs. \<forall>b \<in> set bs. sameOwner a b \<and> liveBuild a \<and> liveBuild b \<longrightarrow> a = b)"

definition slotsKept :: "ImageBuild list \<Rightarrow> bool" where
  "slotsKept bs \<longleftrightarrow>
     distinct (map ib_id bs) \<and>
     (\<forall>hostId. length (filter (holdsSlot hostId) bs) \<le> BUILDER_BUILD_SLOTS)"

text \<open>During a section under the lock nobody else changes the ended rows of the build.\<close>

definition lockKept :: "SchedEnv \<Rightarrow> string \<Rightarrow> bool" where
  "lockKept env buildId \<longleftrightarrow>
     (\<forall>k \<in> {1, 2}. \<forall>db. \<forall>b \<in> set (sd_builds (se_step env k db)).
        ib_id b = buildId \<and> ib_status b \<in> {IB_failed, IB_stale} \<longrightarrow> b \<in> set (sd_builds db))"

end
