(* ===== verification/Build_Scheduling.thy ===== *)
theory Build_Scheduling
  imports Build_Scheduler
begin

section \<open>Correctness of the build scheduler\<close>

text \<open>
  What the operations of the build scheduler guarantee. The locale \<open>build_invariant\<close> is the contract of the
  build table: a property of the rows that survives claiming, requeueing, retiring and queueing survives every
  operation, whatever other writers do that keep it. It is interpreted for the two invariants of the table: one
  live content per scenario, and two slots per builder. The other lemmas follow a report, a choice, a pass over
  the queue and a delivery to the desired state.
\<close>

subsection \<open>Vocabulary\<close>

text \<open>Other writers keep the invariants between the statements of an operation.\<close>

definition keepsLive :: "SchedEnv \<Rightarrow> bool" where
  "keepsLive env \<longleftrightarrow> (\<forall>k db. oneLiveHash (sd_builds db) \<longrightarrow> oneLiveHash (sd_builds (se_step env k db)))"

definition keepsSlots :: "SchedEnv \<Rightarrow> bool" where
  "keepsSlots env \<longleftrightarrow> (\<forall>k db. slotsKept (sd_builds db) \<longrightarrow> slotsKept (sd_builds (se_step env k db)))"

text \<open>Nobody else writes and the lock is never lost.\<close>

definition quietSched :: SchedEnv where
  "quietSched = \<lparr>se_step = (\<lambda>_ db. db), se_lock = (\<lambda>_. True), se_store = (\<lambda>_. quietEnv)\<rparr>"

text \<open>The operations of the scheduler, each interleaved with writers that keep the invariant.\<close>

inductive schedStep :: "SchedulerDb \<Rightarrow> SchedulerDb \<Rightarrow> bool" where
  queue: "\<forall>k. keepsLive (env k) \<Longrightarrow> bb_organizationId bundle \<noteq> Some [] \<Longrightarrow>
    schedStep db (snd (queueImageBuildsFromBundle env newId bundle now db))"
| retry: "keepsLive env \<Longrightarrow> \<forall>k. keepsLive (assignEnv k) \<Longrightarrow> lockKept env buildId \<Longrightarrow>
    schedStep db (snd (retryImageBuild lc env assignEnv digest buildId now db))"
| assign: "\<forall>k. keepsLive (env k) \<Longrightarrow> schedStep db (snd (assignQueuedImageBuilds lc env digest now db))"
| maintain: "\<forall>k. keepsLive (env k) \<Longrightarrow> \<forall>k. keepsLive (assignEnv k) \<Longrightarrow>
    schedStep db (snd (maintainHostBuildAssignments lc env assignEnv digest hostId now db))"
| reports: "\<forall>k. keepsLive (env k) \<Longrightarrow>
    schedStep db (snd (recordHostBuildReports env hostId rs now sessionId credentialGeneration db))"

text \<open>The candidates of a pass are those it started with, with more builds counted.\<close>

definition busier :: "BuilderCandidate \<Rightarrow> BuilderCandidate \<Rightarrow> bool" where
  "busier c c' \<longleftrightarrow>
     (\<exists>m n. m \<ge> bc_activeBuildCount c \<and> n \<ge> bc_prePublicationBuildCount c \<and>
        c' = c\<lparr>bc_activeBuildCount := m, bc_prePublicationBuildCount := n\<rparr>)"

text \<open>The assignments a pass makes are of builds in the queue, to builders that may take them.\<close>

definition allowed :: "BuilderCandidate set \<Rightarrow> DesiredBuildSource set \<Rightarrow> string option \<Rightarrow> string \<times> string \<Rightarrow> bool" where
  "allowed C S digest a \<longleftrightarrow>
     (\<exists>s \<in> S. \<exists>c \<in> C. a = (bs_buildId s, bc_hostId c) \<and> eligibleBuilder (bs_arch s) (bs_rev s) digest c)"

text \<open>A builder, bundles and reports for the concrete instances.\<close>

definition builderReport :: HostStateReportV2 where
  "builderReport =
     \<lparr>hsr_relay_connected = True, hsr_schema_version = 2, hsr_host_id = ''h1'', hsr_observed_at_unix_ms = 5,
      hsr_applied_desired_version = 0,
      hsr_capacity =
        \<lparr>hc_total_cpu_millis = 8000, hc_reserved_cpu_millis = 0, hc_schedulable_cpu_millis = 8000,
         hc_committed_cpu_millis = 0, hc_memory_total_mib = 4096, hc_memory_available_mib = 4096,
         hc_disk_probe_path = ''/'', hc_disk_total_mib = 100, hc_disk_available_mib = 50, hc_load_avg_1m = None,
         hc_load_avg_5m = None, hc_load_avg_15m = None, hc_primary_ipv4 = None, hc_primary_ipv6 = None\<rparr>,
      hsr_capabilities =
        \<lparr>cap_arch = X86_64, cap_cloud_hypervisor_sha256 = None, cap_supports_kvm = True, cap_supports_vsock = True,
         cap_supports_reflink = True, cap_supports_nftables = True, cap_supports_jailer_v2 = True,
         cap_supports_template_backed_launch = True, cap_fast_template_store = True,
         cap_supports_hard_cpu_quota = True, cap_supports_landlock = True, cap_supports_cgroup_v2 = True,
         cap_supports_raw_chunks_v1 = None, cap_supports_scenario_guest_tools_v1 = None,
         cap_supports_jailer_v3 = None, cap_supports_run_cli_v1 = None,
         cap_supports_run_cli_completion_v1 = None, cap_source_compile_platform = None\<rparr>,
      hsr_cached_images = [], hsr_cached_guest_tools = None, hsr_vms = [], hsr_builds = []\<rparr>"

definition schedSample :: SchedulerDb where
  "schedSample =
     \<lparr>sd_builds = [], sd_bundles = [],
      sd_hosts = [\<lparr>sh_id = ''h1'', sh_userId = ''u1'', sh_scope = Some HS_platform, sh_organizationId = None,
        sh_role = HR_builder, sh_disabled = False, sh_connected = True, sh_disconnectedAt = None,
        sh_activeSessionId = Some ''s1'', sh_credentialGeneration = 1, sh_lastClientHelloAt = Some 4\<rparr>],
      sd_reports = [(''h1'', \<lparr>ho_updatedAt = 5, ho_reportJson = builderReport\<rparr>)],
      sd_desired = [], sd_commits = [], sd_sources = []\<rparr>"

definition bundleSample :: "string \<Rightarrow> string list \<Rightarrow> char \<Rightarrow> ImageBuildBundle" where
  "bundleSample r names hash =
     \<lparr>bb_rev = r, bb_organizationId = None, bb_r2Key = ''bundles/x'',
      bb_scenarios = map (\<lambda>n. \<lparr>bm_scenarioId = n, bm_arch = X86_64, bm_contentHash = replicate 64 hash\<rparr>) names,
      bb_catalogChannel = None, bb_createdAt = 0, bb_updatedAt = 0\<rparr>"

definition sampleId :: "string \<Rightarrow> nat \<Rightarrow> string" where
  "sampleId r k = r @ replicate k CHR ''x''"

definition queuedSample :: SchedulerDb where
  "queuedSample = snd (queueImageBuildsFromBundle (\<lambda>_. quietSched) (sampleId ''q'')
     (bundleSample ''r1'' [''a'', ''b'', ''c''] CHR ''1'') 10 schedSample)"

definition assignedSample :: SchedulerDb where
  "assignedSample = snd (assignQueuedImageBuilds code_unit_compare (\<lambda>_. quietSched) None 20 queuedSample)"

definition fairSample :: SchedulerDb where
  "fairSample = snd (queueImageBuildsFromBundle (\<lambda>_. quietSched) (sampleId ''p'')
     ((bundleSample ''r2'' [''z''] CHR ''1'')\<lparr>bb_organizationId := Some ''o1''\<rparr>) 11 queuedSample)"

definition supersededSample :: SchedulerDb where
  "supersededSample = snd (queueImageBuildsFromBundle (\<lambda>_. quietSched) (sampleId ''n'')
     (bundleSample ''r3'' [''a''] CHR ''2'') 15 queuedSample)"

definition buildReportSample :: BuildReportV1 where
  "buildReportSample =
     \<lparr>br_schema_version = 1, br_host_id = ''h1'', br_build_id = ''q'', br_scenario_id = ''a'',
      br_content_hash = replicate 64 CHR ''1'', br_observed_at_unix_ms = 25, br_phase = BP_succeeded, br_current_vm = None,
      br_started_at_unix_ms = Some 21, br_finished_at_unix_ms = Some 24, br_attempt = 1, br_error = None\<rparr>"

definition claimedSample :: SchedulerDb where
  "claimedSample = snd (claimBuild ''h1'' ''qx'' 20 (snd (claimBuild ''h1'' ''q'' 20 queuedSample)))"

definition reportedSample :: "ReportResult sched" where
  "reportedSample = recordImageBuildReport quietSched ''h1'' buildReportSample 30 ''s1'' 1 claimedSample"

definition deliveredSample :: "string list sched" where
  "deliveredSample = reconcileAssignedBuildsForHost code_unit_compare quietSched ''h1'' 40 claimedSample"

subsection \<open>Lemmas\<close>

lemma builds_putDesired [simp]: "sd_builds (putDesired hostId row db) = sd_builds db"
  by (simp add: putDesired_def split: option.splits)

lemma builds_storeDesired [simp]: "sd_builds (snd (storeDesired lc env hostId now mutator db)) = sd_builds db"
  by (simp add: storeDesired_def split: prod.splits sum.splits)

lemma snd_case_result [simp]:
  "snd (case r of (Inl e, db) \<Rightarrow> (Inl e, db) | (Inr x, db) \<Rightarrow> (Inr (f x), db)) = snd r"
  by (simp split: prod.splits sum.splits)

lemma builds_removeDesired [simp]:
  "sd_builds (snd (removeDesiredBuildsFromHost lc env hostId ids now db)) = sd_builds db"
  by (simp add: removeDesiredBuildsFromHost_def)

lemma length_filter_update_le:
  "(\<And>b. cond b \<Longrightarrow> P (f b) \<Longrightarrow> P b) \<Longrightarrow> length (filter P (sql_update cond f bs)) \<le> length (filter P bs)"
  by (induction bs) (auto simp: sql_update_def)

lemma length_filter_update_count:
  "length (filter P (sql_update cond f bs)) \<le> length (filter P bs) + sql_count cond bs"
  by (induction bs) (auto simp: sql_update_def sql_count_def)

lemma sql_count_le_1:
  assumes "distinct (map key rows)" and "\<And>x. cond x \<Longrightarrow> key x = k"
  shows "sql_count cond rows \<le> 1"
proof (cases "\<exists>r \<in> set rows. cond r")
  case True
  then obtain r where "r \<in> set rows" "cond r" by blast
  then show ?thesis using sql_count_unique [OF assms(1), of r cond] assms(2) by simp
next
  case False
  then have "sql_count cond rows = 0" by (simp add: sql_count_0)
  then show ?thesis by simp
qed

text \<open>
  The contract of the build table: what a property of its rows must survive to survive every operation
  that assigns, requeues, retires or queues builds, whatever other writers do that keep it too.
\<close>

locale build_invariant =
  fixes I :: "ImageBuild list \<Rightarrow> bool"
  assumes I_claim: "I (sd_builds db) \<Longrightarrow> I (sd_builds (snd (claimBuild hostId buildId now db)))"
    and I_requeue: "I bs \<Longrightarrow> I (sql_update (\<lambda>b. assignedTo hostId b \<and> ib_id b \<in> ids) (requeuedBuild now) bs)"
    and I_stale: "I bs \<Longrightarrow>
      I (sql_update (\<lambda>b. ib_hostId b = Some hostId \<and> ib_status b = IB_building \<and> ib_id b \<in> ids) (staleBuild now) bs)"
    and I_unretire: "I bs \<Longrightarrow>
      I (sql_update (\<lambda>b. ib_id b \<in> ids \<and> ib_artifactsRetiredAt b \<noteq> None) (unretiredBuild now) bs)"
    and I_queue: "I (sd_builds db) \<Longrightarrow> upsertBuild buildId inp (supersedeBuilds inp db) = Inr (queued, db') \<Longrightarrow>
      qi_organizationId inp \<noteq> Some [] \<Longrightarrow> I (sd_builds db')"
begin

definition keepsEnv :: "SchedEnv \<Rightarrow> bool" where
  "keepsEnv env \<longleftrightarrow> (\<forall>k db. I (sd_builds db) \<longrightarrow> I (sd_builds (se_step env k db)))"

lemma step_keeps: "keepsEnv env \<Longrightarrow> I (sd_builds db) \<Longrightarrow> I (sd_builds (se_step env k db))"
  by (simp add: keepsEnv_def)

lemma lock_keeps:
  assumes "keepsEnv env" and "\<And>db. I (sd_builds db) \<Longrightarrow> I (sd_builds (snd (body db)))" and "I (sd_builds db)"
  shows "I (sd_builds (snd (withImageBuildCoordinationLock env body db)))"
  using assms(2) [OF step_keeps [OF assms(1,3), of 0]] step_keeps [OF assms(1,3), of 0]
  by (auto simp: withImageBuildCoordinationLock_def Let_def split: prod.splits sum.splits)

lemma assignLoop_keeps:
  assumes "\<And>k. keepsEnv (env k)" and "I (sd_builds db)"
  shows "I (sd_builds (snd (assignLoop lc env digest now k builders sources assigned db)))"
  using assms(2)
proof (induction sources arbitrary: k builders assigned db)
  case (Cons build rest)
  show ?case
  proof (cases "chooseLeastLoadedBuilder lc builders (bs_arch build) (bs_rev build) digest")
    case None
    then show ?thesis using Cons by simp
  next
    case (Some builder)
    let ?h = "bc_hostId builder"
    obtain claimed db1 where c: "claimBuild ?h (bs_buildId build) now (se_step (env k) 0 db) = (claimed, db1)"
      by (cases "claimBuild ?h (bs_buildId build) now (se_step (env k) 0 db)")
    have i1: "I (sd_builds db1)"
      using I_claim [OF step_keeps [OF assms(1) Cons.prems, of k 0], of ?h "bs_buildId build" now] c by simp
    let ?db2 = "snd (storeDesired lc (se_store (env k) 0) ?h now
        (\<lambda>draft. upsertDesiredBuild draft (desiredBuildFromSource build)) (se_step (env k) 1 db1))"
    let ?db3 = "se_step (env k) 2 ?db2"
    have i3: "I (sd_builds ?db3)" by (intro step_keeps assms(1)) (simp add: step_keeps [OF assms(1) i1])
    obtain r db4 where r: "removeDesiredBuildsFromHost lc (se_store (env k) 1) ?h [bs_buildId build] now
        (se_step (env k) 3 ?db3) = (r, db4)"
      by (cases "removeDesiredBuildsFromHost lc (se_store (env k) 1) ?h [bs_buildId build] now (se_step (env k) 3 ?db3)")
    have i4: "I (sd_builds db4)"
      using step_keeps [OF assms(1) i3, of k 3] arg_cong [OF r, of "\<lambda>x. sd_builds (snd x)"] by simp
    show ?thesis
      using Cons.IH [OF i1] Cons.IH [OF i3] Cons.IH [OF i4] i4 Some c r
      by (auto simp: Let_def split: sum.splits)
  qed
qed simp

lemma assign_keeps:
  assumes "\<And>k. keepsEnv (env k)" and "I (sd_builds db)"
  shows "I (sd_builds (snd (assignQueuedImageBuilds lc env digest now db)))"
  using assignLoop_keeps [OF assms(1) step_keeps [OF assms(1,2)]]
  by (simp add: assignQueuedImageBuilds_def Let_def)

lemma requeue_keeps:
  assumes "keepsEnv env" and "I (sd_builds db)"
  shows "I (sd_builds (snd (requeueAssignedBuildsForDisconnectedHost lc env hostId now db)))"
proof -
  have body: "I (sd_builds (snd (requeueSection lc env hostId candidates now d)))" if "I (sd_builds d)" for candidates d
  proof -
    have 1: "I (sd_builds (se_step env 1 d))" by (rule step_keeps [OF assms(1) that])
    have 2: "I (sql_update (\<lambda>b. assignedTo hostId b \<and> ib_id b \<in> ids) (requeuedBuild now)
        (sd_builds (se_step env 2 (se_step env 1 d))))" for ids
      by (intro I_requeue step_keeps assms(1) 1)
    show ?thesis
      using that 1 2 by (simp add: requeueSection_def Let_def)
  qed
  show ?thesis
    using lock_keeps [OF assms(1) body step_keeps [OF assms, of 3]] assms(2) step_keeps [OF assms, of 3]
    by (simp add: requeueAssignedBuildsForDisconnectedHost_def Let_def)
qed

end

context build_invariant
begin

lemma stale_keeps:
  assumes "keepsEnv env" and "I (sd_builds db)"
  shows "I (sd_builds (snd (markSilentBuildingBuildsStale lc env hostId now db)))"
proof -
  have body: "I (sd_builds (snd (staleSection lc env hostId candidates now d)))" if "I (sd_builds d)" for candidates d
    using that I_stale [OF step_keeps [OF assms(1) that, of 1], of hostId _ now] by (simp add: staleSection_def Let_def)
  show ?thesis
    using lock_keeps [OF assms(1) body assms(2)] assms(2) by (simp add: markSilentBuildingBuildsStale_def Let_def)
qed

lemma reconcile_keeps:
  assumes "keepsEnv env" and "I (sd_builds db)"
  shows "I (sd_builds (snd (reconcileAssignedBuildsForHost lc env hostId now db)))"
proof -
  let ?db1 = "se_step env 0 db"
  let ?assignments = "map (sourceOf db) (hostAssignments db hostId)"
  obtain l row where l: "loadOrCreateHostDesiredState (env_load (se_store env 0) 0) (enrolledHost ?db1 hostId) hostId now
      (map_of (sd_desired ?db1) hostId) = (l, row)"
    by (cases "loadOrCreateHostDesiredState (env_load (se_store env 0) 0) (enrolledHost ?db1 hostId) hostId now
      (map_of (sd_desired ?db1) hostId)")
  obtain r db3 where r: "storeDesired lc (se_store env 1) hostId now
      (\<lambda>draft. fold (\<lambda>a d. upsertDesiredBuild d (desiredBuildFromSource a)) ?assignments draft)
      (se_step env 1 (putDesired hostId row ?db1)) = (r, db3)"
    by (cases "storeDesired lc (se_store env 1) hostId now
      (\<lambda>draft. fold (\<lambda>a d. upsertDesiredBuild d (desiredBuildFromSource a)) ?assignments draft)
      (se_step env 1 (putDesired hostId row ?db1))")
  have 1: "I (sd_builds ?db1)" by (rule step_keeps [OF assms])
  have "I (sd_builds (se_step env 1 (putDesired hostId row ?db1)))"
    by (rule step_keeps [OF assms(1)]) (simp only: builds_putDesired 1)
  then have 3: "I (sd_builds db3)" using arg_cong [OF r, of "\<lambda>x. sd_builds (snd x)"] by simp
  have 5: "I (sd_builds (se_step env 3 (se_step env 2 db3)))" by (intro step_keeps assms(1) 3)
  show ?thesis
    using assms(2) 1 3 5 unfolding reconcileAssignedBuildsForHost_def Let_def l r
    by (cases l; cases r) (simp_all add: r [unfolded One_nat_def])
qed

lemma compiles_keeps:
  assumes "keepsEnv env" and "I (sd_builds db)"
  shows "I (sd_builds (snd (reconcileHostSourceCompiles lc env hostId now db)))"
  using step_keeps [OF assms] assms(2) by (simp add: reconcileHostSourceCompiles_def Let_def)

lemma bind_keeps:
  assumes "I (sd_builds (snd r))" and "\<And>x db. I (sd_builds db) \<Longrightarrow> I (sd_builds (snd (f x db)))"
  shows "I (sd_builds (snd (sched_bind r f)))"
  using assms by (auto simp: sched_bind_def split: prod.splits sum.splits)

lemma both_keeps:
  assumes "\<And>db. I (sd_builds db) \<Longrightarrow> I (sd_builds (snd (f db)))"
    and "\<And>db. I (sd_builds db) \<Longrightarrow> I (sd_builds (snd (g db)))" and "I (sd_builds db)"
  shows "I (sd_builds (snd (sched_both f g db)))"
  using assms(2) [OF assms(1) [OF assms(3)]] by (auto simp: sched_both_def split: prod.splits)

lemma maintain_keeps:
  assumes "\<And>k. keepsEnv (env k)" and "\<And>k. keepsEnv (assignEnv k)" and "I (sd_builds db)"
  shows "I (sd_builds (snd (maintainHostBuildAssignments lc env assignEnv digest hostId now db)))"
  unfolding maintainHostBuildAssignments_def
  by (intro bind_keeps both_keeps requeue_keeps stale_keeps assign_keeps reconcile_keeps compiles_keeps assms)
     (auto intro!: bind_keeps assign_keeps reconcile_keeps compiles_keeps assms)

lemma queueScenario_keeps:
  assumes "keepsEnv env" and "qi_organizationId inp \<noteq> Some []" and "I (sd_builds db)"
  shows "I (sd_builds (snd (queueImageBuildScenario env buildId inp db)))"
proof -
  obtain cleaned db1 where c: "cleanDesired (supersessionCleanupBuildIds inp db) (qi_nowUnixMs inp) db = (cleaned, db1)"
    by (cases "cleanDesired (supersessionCleanupBuildIds inp db) (qi_nowUnixMs inp) db")
  then have b1: "sd_builds db1 = sd_builds db" by (auto simp: cleanDesired_def)
  show ?thesis
  proof (cases "upsertBuild buildId inp (supersedeBuilds inp db1)")
    case (Inl e)
    then show ?thesis using c assms(3) by (simp add: queueImageBuildScenario_def)
  next
    case (Inr res)
    obtain queued db2 where res: "res = (queued, db2)" by (cases res)
    have i2: "I (sd_builds db2)" using I_queue [of db1 buildId inp queued db2] assms Inr res b1 by simp
    show ?thesis
      using c Inr res i2 I_unretire [OF step_keeps [OF assms(1) i2, of 1], of "set queued"]
      by (simp add: queueImageBuildScenario_def Let_def)
  qed
qed

lemma queueScenarios_keeps:
  assumes "\<And>k. keepsEnv (env k)" and "bb_organizationId bundle \<noteq> Some []" and "I (sd_builds db)"
  shows "I (sd_builds (snd (queueScenarios env newId bundle now k scenarios queued db)))"
  using assms(3)
proof (induction scenarios arbitrary: k queued db)
  case (Cons scenario rest)
  let ?inp = "\<lparr>qi_scenarioId = bm_scenarioId scenario, qi_arch = bm_arch scenario,
      qi_contentHash = bm_contentHash scenario, qi_rev = bb_rev bundle, qi_organizationId = bb_organizationId bundle,
      qi_catalogChannel = coalesce (bb_catalogChannel bundle) ''live'', qi_nowUnixMs = now\<rparr>"
  have "I (sd_builds (snd (withImageBuildCoordinationLock (env k) (queueImageBuildScenario (env k) (newId k) ?inp) db)))"
    by (rule lock_keeps [OF assms(1) _ Cons.prems]) (rule queueScenario_keeps [OF assms(1)], simp_all add: assms(2))
  then show ?case using Cons.IH by (auto split: prod.splits sum.splits)
qed simp

lemma queue_keeps:
  assumes "\<And>k. keepsEnv (env k)" and "bb_organizationId bundle \<noteq> Some []" and "I (sd_builds db)"
  shows "I (sd_builds (snd (queueImageBuildsFromBundle env newId bundle now db)))"
proof -
  have "sd_builds db1 = sd_builds db" if "upsertBundle b db = Inr db1" for b db1
    using that by (auto simp: upsertBundle_def split: option.splits if_splits)
  then show ?thesis
    using queueScenarios_keeps [OF assms(1,2)] assms(3)
    by (auto simp: queueImageBuildsFromBundle_def split: sum.splits)
qed

end

subsection \<open>One live content\<close>

lemmas build_updates = claimedBuild_def requeuedBuild_def staleBuild_def unretiredBuild_def supersededBuild_def
  revivedBuild_def retriedBuild_def reportedBuild_def

lemma update_row:
  assumes "a \<in> set (sql_update cond f bs)"
  obtains a0 where "a0 \<in> set bs" "a = (if cond a0 then f a0 else a0)"
  using assms unfolding set_sql_update by blast

text \<open>An update that keeps ids, keys and owners and makes no further row live keeps the invariant.\<close>

lemma oneLive_update:
  assumes "oneLiveHash bs" and "\<And>b. ib_id (f b) = ib_id b" "\<And>b. buildKey (f b) = buildKey b"
    and "\<And>b. ib_organizationId (f b) = ib_organizationId b" and "\<And>b. b \<in> set bs \<Longrightarrow> cond b \<Longrightarrow> liveBuild (f b) \<Longrightarrow> liveBuild b"
  shows "oneLiveHash (sql_update cond f bs)"
  unfolding oneLiveHash_def
proof (intro conjI ballI impI)
  show "distinct (map ib_id (sql_update cond f bs))" "distinct (map buildKey (sql_update cond f bs))"
    using assms(1) by (simp_all add: oneLiveHash_def map_sql_update assms(2,3))
  fix a b assume a: "a \<in> set (sql_update cond f bs)" and b: "b \<in> set (sql_update cond f bs)"
    and l: "sameOwner a b \<and> liveBuild a \<and> liveBuild b"
  obtain a0 where a0: "a0 \<in> set bs" "a = (if cond a0 then f a0 else a0)" using a by (rule update_row)
  obtain b0 where b0: "b0 \<in> set bs" "b = (if cond b0 then f b0 else b0)" using b by (rule update_row)
  have k: "ib_scenarioId (f x) = ib_scenarioId x" "ib_arch (f x) = ib_arch x" for x
    using assms(3) [of x] by (simp_all add: buildKey_def)
  have "sameOwner a0 b0" using l a0(2) b0(2) by (auto simp: sameOwner_def k assms(4) split: if_splits)
  moreover have "liveBuild a0" "liveBuild b0" using l a0 b0 assms(5) by (auto split: if_splits)
  ultimately have "a0 = b0" using assms(1) a0(1) b0(1) by (simp add: oneLiveHash_def)
  then show "a = b" using a0(2) b0(2) by simp
qed

lemma inScope_iff:
  "qi_organizationId inp \<noteq> Some [] \<Longrightarrow> inScope inp b \<longleftrightarrow>
     ib_scenarioId b = qi_scenarioId inp \<and> ib_organizationId b = qi_organizationId inp \<and> ib_arch b = qi_arch inp"
  by (cases "qi_organizationId inp") (auto simp: inScope_def)

lemma superseded_dead: "\<not> liveBuild (supersededBuild inp b)"
  by (simp add: liveBuild_def isActiveImageBuild_def canRetryImageBuild_def supersededBuild_def startsWith_def)

lemma live_status: "liveBuild b \<Longrightarrow> ib_status b \<noteq> IB_succeeded"
  by (auto simp: liveBuild_def isActiveImageBuild_def canRetryImageBuild_def)

lemma supersede_others:
  assumes "b \<in> set (sd_builds (supersedeBuilds inp db))" and "inScope inp b" and "liveBuild b"
  shows "ib_contentHash b = qi_contentHash inp"
proof -
  obtain b0 where b0: "b = (if superseded inp b0 then supersededBuild inp b0 else b0)"
    using assms(1) by (auto simp: supersedeBuilds_def elim: update_row)
  then have "\<not> superseded inp b0" "b = b0" using assms(3) superseded_dead by (auto split: if_splits)
  then show ?thesis
    using assms(2,3) live_status [OF assms(3)] by (cases "ib_status b") (auto simp: superseded_def)
qed

lemma oneLive_revive:
  assumes "oneLiveHash bs" and "\<And>b. b \<in> set bs \<Longrightarrow> inScope inp b \<Longrightarrow> liveBuild b \<Longrightarrow> ib_contentHash b = qi_contentHash inp"
    and "qi_organizationId inp \<noteq> Some []"
  shows "oneLiveHash (sql_update (sameKey inp) (revivedBuild inp) bs)"
  unfolding oneLiveHash_def
proof (intro conjI ballI impI)
  have key: "buildKey (revivedBuild inp b) = buildKey b" "ib_id (revivedBuild inp b) = ib_id b" for b
    by (simp_all add: revivedBuild_def buildKey_def)
  show "distinct (map ib_id (sql_update (sameKey inp) (revivedBuild inp) bs))"
    "distinct (map buildKey (sql_update (sameKey inp) (revivedBuild inp) bs))"
    using assms(1) by (simp_all add: oneLiveHash_def map_sql_update key)
  fix a b assume a: "a \<in> set (sql_update (sameKey inp) (revivedBuild inp) bs)"
    and b: "b \<in> set (sql_update (sameKey inp) (revivedBuild inp) bs)"
    and l: "sameOwner a b \<and> liveBuild a \<and> liveBuild b"
  obtain a0 where a0: "a0 \<in> set bs" "a = (if sameKey inp a0 then revivedBuild inp a0 else a0)" using a by (rule update_row)
  obtain b0 where b0: "b0 \<in> set bs" "b = (if sameKey inp b0 then revivedBuild inp b0 else b0)" using b by (rule update_row)
  have scope: "inScope inp x" if "sameOwner (revivedBuild inp y) x" "sameKey inp y" for x y
    using that by (simp add: sameOwner_def inScope_iff [OF assms(3)] revivedBuild_def sameKey_def)
  have sym: "sameOwner x y = sameOwner y x" for x y by (auto simp: sameOwner_def)
  have same: "x = y" if "sameKey inp x" "sameKey inp y" "x \<in> set bs" "y \<in> set bs" for x y
  proof -
    have "buildKey x = buildKey y" using that(1,2) by (simp add: sameKey_def buildKey_def)
    then show ?thesis using assms(1) that(3,4) by (auto simp: oneLiveHash_def distinct_map dest: inj_onD)
  qed
  have hash: "sameKey inp x" if "sameOwner (revivedBuild inp y) x" "sameKey inp y" "x \<in> set bs" "liveBuild x" for x y
    using assms(2) [OF that(3) scope [OF that(1,2)] that(4)] scope [OF that(1,2)]
    by (simp add: sameKey_def inScope_def)
  show "a = b"
  proof (cases "sameKey inp a0")
    case True
    then have "sameKey inp b0" using hash [of a0 b0] l a0(2) b0 by (auto split: if_splits)
    then show ?thesis using same [OF True _ a0(1) b0(1)] a0(2) b0(2) by simp
  next
    case False
    then have "\<not> sameKey inp b0" using hash [of b0 a0] l a0 b0(2) sym by (auto split: if_splits)
    then show ?thesis using False assms(1) l a0 b0 by (simp add: oneLiveHash_def)
  qed
qed

lemma oneLive_insert:
  assumes "oneLiveHash bs" and "\<And>b. b \<in> set bs \<Longrightarrow> inScope inp b \<Longrightarrow> liveBuild b \<Longrightarrow> ib_contentHash b = qi_contentHash inp"
    and "qi_organizationId inp \<noteq> Some []" and "\<And>b. b \<in> set bs \<Longrightarrow> \<not> sameKey inp b" and "buildId \<notin> ib_id ` set bs"
  shows "oneLiveHash (bs @ [newBuild buildId inp])"
proof -
  have dead: "\<not> liveBuild b" if "b \<in> set bs" "sameOwner (newBuild buildId inp) b" for b
  proof
    assume live: "liveBuild b"
    have "inScope inp b"
      using that(2) by (simp add: sameOwner_def inScope_iff [OF assms(3)] newBuild_def)
    then have "sameKey inp b" using assms(2) [OF that(1) _ live] by (simp add: sameKey_def inScope_def)
    then show False using assms(4) that(1) by blast
  qed
  have "buildKey (newBuild buildId inp) = buildKey b \<longleftrightarrow> sameKey inp b" for b
    by (auto simp: buildKey_def newBuild_def sameKey_def)
  then have "buildKey (newBuild buildId inp) \<notin> buildKey ` set bs" using assms(4) by blast
  moreover have "ib_id (newBuild buildId inp) = buildId" by (simp add: newBuild_def)
  moreover have "sameOwner x y = sameOwner y x" for x y by (auto simp: sameOwner_def)
  ultimately show ?thesis using assms(1,5) dead by (auto simp: oneLiveHash_def)
qed

lemma find_None_all: "find P xs = None \<Longrightarrow> x \<in> set xs \<Longrightarrow> \<not> P x"
  by (auto simp: find_None_iff)

lemma oneLive_queue:
  assumes "oneLiveHash (sd_builds db)" and "upsertBuild buildId inp (supersedeBuilds inp db) = Inr (queued, db')"
    and "qi_organizationId inp \<noteq> Some []"
  shows "oneLiveHash (sd_builds db')"
proof -
  let ?db = "supersedeBuilds inp db"
  have o: "oneLiveHash (sd_builds ?db)"
    unfolding supersedeBuilds_def
    using oneLive_update [OF assms(1), of "supersededBuild inp" "superseded inp"] superseded_dead
    by (simp add: supersededBuild_def buildKey_def)
  note others = supersede_others [of _ inp db]
  show ?thesis
  proof (cases "find (sameKey inp) (sd_builds ?db)")
    case None
    then have "db' = ?db\<lparr>sd_builds := sd_builds ?db @ [newBuild buildId inp]\<rparr>" "buildId \<notin> ib_id ` set (sd_builds ?db)"
      using assms(2) by (auto simp: upsertBuild_def list_ex_iff split: if_splits)
    then show ?thesis using oneLive_insert [OF o others assms(3) find_None_all [OF None]] by simp
  next
    case (Some b)
    then show ?thesis
      using assms(2) o oneLive_revive [OF o others assms(3)] by (auto simp: upsertBuild_def split: if_splits)
  qed
qed

interpretation one_live: build_invariant oneLiveHash
proof
  note live = liveBuild_def isActiveImageBuild_def canRetryImageBuild_def
  show "oneLiveHash (sd_builds (snd (claimBuild hostId buildId now db)))" if "oneLiveHash (sd_builds db)"
    for db hostId buildId now
    using that by (auto simp: claimBuild_def Let_def live buildKey_def claimedBuild_def intro!: oneLive_update)
  show "oneLiveHash (sql_update (\<lambda>b. assignedTo hostId b \<and> ib_id b \<in> ids) (requeuedBuild now) bs)" if "oneLiveHash bs"
    for bs hostId ids now
    using that by (auto simp: assignedTo_def live buildKey_def requeuedBuild_def intro!: oneLive_update)
  show "oneLiveHash (sql_update (\<lambda>b. ib_hostId b = Some hostId \<and> ib_status b = IB_building \<and> ib_id b \<in> ids)
      (staleBuild now) bs)" if "oneLiveHash bs" for bs hostId ids now
    using that by (auto simp: live buildKey_def staleBuild_def intro!: oneLive_update)
  show "oneLiveHash (sql_update (\<lambda>b. ib_id b \<in> ids \<and> ib_artifactsRetiredAt b \<noteq> None) (unretiredBuild now) bs)"
    if "oneLiveHash bs" for bs ids now
    using that by (auto simp: live buildKey_def unretiredBuild_def intro!: oneLive_update)
  show "oneLiveHash (sd_builds db')"
    if "oneLiveHash (sd_builds db)" "upsertBuild buildId inp (supersedeBuilds inp db) = Inr (queued, db')"
      "qi_organizationId inp \<noteq> Some []" for db buildId inp queued db'
    using that by (rule oneLive_queue)
qed

subsection \<open>Slots\<close>

lemma slots_update:
  assumes "slotsKept bs" and "\<And>b. ib_id (f b) = ib_id b" and "\<And>b hostId. cond b \<Longrightarrow> holdsSlot hostId (f b) \<Longrightarrow> holdsSlot hostId b"
  shows "slotsKept (sql_update cond f bs)"
  using assms(1) length_filter_update_le [of cond "holdsSlot _" f bs, OF assms(3)] le_trans
  unfolding slotsKept_def by (auto simp: map_sql_update assms(2)) (meson le_trans)

lemma slots_claim:
  assumes "slotsKept (sd_builds db)"
  shows "slotsKept (sd_builds (snd (claimBuild hostId buildId now db)))"
proof -
  let ?cond = "\<lambda>b. ib_id b = buildId \<and> ib_status b = IB_queued \<and> ib_hostId b = None \<and>
      slotCount db hostId < BUILDER_BUILD_SLOTS"
  let ?bs = "sql_update ?cond (claimedBuild hostId now) (sd_builds db)"
  have d: "distinct (map ib_id (sd_builds db))" using assms by (simp add: slotsKept_def)
  have "length (filter (holdsSlot h) ?bs) \<le> BUILDER_BUILD_SLOTS" for h
  proof (cases "h = hostId \<and> slotCount db hostId < BUILDER_BUILD_SLOTS")
    case True
    have "sql_count ?cond (sd_builds db) \<le> 1" by (rule sql_count_le_1 [OF d]) simp
    then have "length (filter (holdsSlot h) ?bs) \<le> slotCount db hostId + 1"
      using length_filter_update_count [of "holdsSlot h" ?cond "claimedBuild hostId now" "sd_builds db"] True
      by (simp add: slotCount_def)
    then show ?thesis using True by simp
  next
    case False
    have "length (filter (holdsSlot h) ?bs) \<le> length (filter (holdsSlot h) (sd_builds db))"
      by (rule length_filter_update_le) (use False in \<open>auto simp: holdsSlot_def claimedBuild_def\<close>)
    then show ?thesis using assms by (auto simp: slotsKept_def intro: le_trans)
  qed
  moreover have "distinct (map ib_id ?bs)" using d by (simp add: map_sql_update claimedBuild_def)
  ultimately show ?thesis by (simp add: slotsKept_def claimBuild_def Let_def)
qed

lemma slots_append:
  assumes "slotsKept bs" and "ib_id b \<notin> ib_id ` set bs" and "ib_hostId b = None"
  shows "slotsKept (bs @ [b])"
  using assms by (auto simp: slotsKept_def holdsSlot_def)

lemma slots_queue:
  assumes "slotsKept (sd_builds db)" and "upsertBuild buildId inp (supersedeBuilds inp db) = Inr (queued, db')"
  shows "slotsKept (sd_builds db')"
proof -
  have s: "slotsKept (sd_builds (supersedeBuilds inp db))"
    unfolding supersedeBuilds_def
    using slots_update [OF assms(1), of "supersededBuild inp" "superseded inp"]
    by (simp add: holdsSlot_def supersededBuild_def)
  have "slotsKept (sql_update (sameKey inp) (revivedBuild inp) (sd_builds (supersedeBuilds inp db)))"
    by (rule slots_update [OF s]) (simp_all add: holdsSlot_def revivedBuild_def)
  moreover have "slotsKept (sd_builds (supersedeBuilds inp db) @ [newBuild buildId inp])"
    if "\<not> list_ex (\<lambda>b. ib_id b = buildId) (sd_builds (supersedeBuilds inp db))"
    by (rule slots_append [OF s]) (use that in \<open>auto simp: newBuild_def list_ex_iff\<close>)
  ultimately show ?thesis using assms(2) s by (auto simp: upsertBuild_def split: option.splits if_splits)
qed

interpretation slots: build_invariant slotsKept
proof
  show "slotsKept (sd_builds (snd (claimBuild hostId buildId now db)))" if "slotsKept (sd_builds db)"
    for db hostId buildId now
    using that by (rule slots_claim)
  show "slotsKept (sql_update (\<lambda>b. assignedTo hostId b \<and> ib_id b \<in> ids) (requeuedBuild now) bs)" if "slotsKept bs"
    for bs hostId ids now
    by (rule slots_update [OF that]) (simp_all add: holdsSlot_def requeuedBuild_def)
  show "slotsKept (sql_update (\<lambda>b. ib_hostId b = Some hostId \<and> ib_status b = IB_building \<and> ib_id b \<in> ids)
      (staleBuild now) bs)" if "slotsKept bs" for bs hostId ids now
    by (rule slots_update [OF that]) (simp_all add: holdsSlot_def staleBuild_def)
  show "slotsKept (sql_update (\<lambda>b. ib_id b \<in> ids \<and> ib_artifactsRetiredAt b \<noteq> None) (unretiredBuild now) bs)"
    if "slotsKept bs" for bs ids now
    by (rule slots_update [OF that]) (simp_all add: holdsSlot_def unretiredBuild_def)
  show "slotsKept (sd_builds db')"
    if "slotsKept (sd_builds db)" "upsertBuild buildId inp (supersedeBuilds inp db) = Inr (queued, db')"
      "qi_organizationId inp \<noteq> Some []" for db buildId inp queued db'
    using that(1,2) by (rule slots_queue)
qed

subsection \<open>Retries\<close>

lemma retry_write:
  obtains (unchanged) "sd_builds (snd (retrySection lc env buildId now db)) \<in>
      {sd_builds db, sd_builds (se_step env 1 db)}"
  | (retried) build db2 where "build \<in> set (sd_builds db)" "ib_id build = buildId"
      "canRetryImageBuild (ib_status build) (ib_error build)"
      "db2 = se_step env 2 db \<or> (\<exists>db1. db2 = se_step env 2 db1 \<and> sd_builds db1 = sd_builds (se_step env 1 db))"
      "sd_builds (snd (retrySection lc env buildId now db)) =
         sql_update (\<lambda>b. ib_id b = buildId \<and> ib_status b = ib_status build \<and> ib_updatedAt b = ib_updatedAt build)
           (retriedBuild now) (sd_builds db2)"
proof (cases "find (\<lambda>b. ib_id b = buildId) (sd_builds db)")
  case None
  then show thesis by (intro unchanged) (simp add: retrySection_def)
next
  case (Some build)
  then have build: "build \<in> set (sd_builds db)" "ib_id build = buildId" using find_Some_mem [OF Some] by simp_all
  show thesis
  proof (cases "canRetryImageBuild (ib_status build) (ib_error build)")
    case False
    then show thesis using Some by (intro unchanged) (simp add: retrySection_def)
  next
    case True
    obtain r db1 where r: "(if truthy (ib_hostId build)
        then removeDesiredBuildsFromHost lc (se_store env 0) (the (ib_hostId build)) [buildId] now (se_step env 1 db)
        else (Inr (), db)) = (r, db1)"
      by (cases "if truthy (ib_hostId build)
        then removeDesiredBuildsFromHost lc (se_store env 0) (the (ib_hostId build)) [buildId] now (se_step env 1 db)
        else (Inr (), db)")
    have b1: "sd_builds db1 = sd_builds (se_step env 1 db) \<or> db1 = db \<and> r = Inr ()"
    proof (cases "truthy (ib_hostId build)")
      case True
      then show ?thesis
        using r builds_removeDesired [of lc "se_store env 0" "the (ib_hostId build)" "[buildId]" now "se_step env 1 db"]
        by simp
    qed (use r in simp)
    show thesis
    proof (cases "r = Inr () \<and> se_lock env 2")
      case lock: True
      show thesis
      proof (rule retried [OF build True])
        show "se_step env 2 db1 = se_step env 2 db \<or>
            (\<exists>d. se_step env 2 db1 = se_step env 2 d \<and> sd_builds d = sd_builds (se_step env 1 db))"
          using b1 by auto
        show "sd_builds (snd (retrySection lc env buildId now db)) =
           sql_update (\<lambda>b. ib_id b = buildId \<and> ib_status b = ib_status build \<and> ib_updatedAt b = ib_updatedAt build)
             (retriedBuild now) (sd_builds (se_step env 2 db1))"
          unfolding retrySection_def Some option.case r using True lock by (simp add: Let_def)
      qed
    next
      case False
      have "sd_builds (snd (retrySection lc env buildId now db)) = sd_builds db1"
        unfolding retrySection_def Some option.case r using True False by (cases r) auto
      then show thesis using b1 by (intro unchanged) auto
    qed
  qed
qed

lemma lockKeptD:
  assumes "lockKept env buildId" and "b \<in> set (sd_builds (se_step env k db))" and "k = 1 \<or> k = 2"
    and "ib_id b = buildId" and "ib_status b \<in> {IB_failed, IB_stale}"
  shows "b \<in> set (sd_builds db)"
proof -
  have "\<forall>b \<in> set (sd_builds (se_step env k db)). ib_id b = buildId \<and> ib_status b \<in> {IB_failed, IB_stale} \<longrightarrow>
      b \<in> set (sd_builds db)"
    using assms(1,3) unfolding lockKept_def by blast
  then show ?thesis using assms(2,4,5) by blast
qed

lemma retry_keeps:
  assumes "one_live.keepsEnv env" and "lockKept env buildId" and "oneLiveHash (sd_builds db)"
  shows "oneLiveHash (sd_builds (snd (retrySection lc env buildId now db)))"
proof (cases rule: retry_write [of lc env buildId now db])
  case unchanged
  then show ?thesis using one_live.step_keeps [OF assms(1,3)] assms(3) by auto
next
  case (retried build db2)
  let ?cond = "\<lambda>b. ib_id b = buildId \<and> ib_status b = ib_status build \<and> ib_updatedAt b = ib_updatedAt build"
  have o2: "oneLiveHash (sd_builds db2)"
    using retried(4) one_live.step_keeps [OF assms(1,3)] one_live.step_keeps [OF assms(1)] assms(3) by auto
  have ended: "ib_status build \<in> {IB_failed, IB_stale}" using retried(3) by (auto simp: canRetryImageBuild_def)
  have "b = build" if "b \<in> set (sd_builds db2)" "?cond b" for b
  proof -
    have st: "ib_id b = buildId" "ib_status b \<in> {IB_failed, IB_stale}" using that(2) ended by simp_all
    have "b \<in> set (sd_builds db)"
      using retried(4)
    proof
      assume "db2 = se_step env 2 db"
      then show ?thesis using lockKeptD [OF assms(2), of b 2 db] that(1) st by simp
    next
      assume "\<exists>db1. db2 = se_step env 2 db1 \<and> sd_builds db1 = sd_builds (se_step env 1 db)"
      then obtain db1 where d: "db2 = se_step env 2 db1" "sd_builds db1 = sd_builds (se_step env 1 db)" by blast
      then have "b \<in> set (sd_builds (se_step env 1 db))" using lockKeptD [OF assms(2), of b 2 db1] that(1) st by simp
      then show ?thesis using lockKeptD [OF assms(2), of b 1 db] st by simp
    qed
    then show ?thesis
      using retried(1,2) st assms(3) by (auto simp: oneLiveHash_def distinct_map dest: inj_onD)
  qed
  then have "oneLiveHash (sql_update ?cond (retriedBuild now) (sd_builds db2))"
    using retried(3) by (intro oneLive_update [OF o2]) (auto simp: retriedBuild_def buildKey_def liveBuild_def)
  then show ?thesis using retried(5) by simp
qed

lemma retry_slots:
  assumes "slots.keepsEnv env" and "slotsKept (sd_builds db)"
  shows "slotsKept (sd_builds (snd (retrySection lc env buildId now db)))"
proof (cases rule: retry_write [of lc env buildId now db])
  case unchanged
  then show ?thesis using slots.step_keeps [OF assms] assms(2) by auto
next
  case (retried build db2)
  have "slotsKept (sd_builds db2)"
    using retried(4) slots.step_keeps [OF assms] slots.step_keeps [OF assms(1)] assms(2) by auto
  then show ?thesis
    unfolding retried(5) by (rule slots_update) (simp_all add: retriedBuild_def holdsSlot_def)
qed

text \<open>What holds for both invariants once the section under the lock keeps them.\<close>

context build_invariant
begin

lemma retry_build_keeps:
  assumes "keepsEnv env" and "\<And>k. keepsEnv (assignEnv k)"
    and "\<And>db. I (sd_builds db) \<Longrightarrow> I (sd_builds (snd (retrySection lc env buildId now db)))" and "I (sd_builds db)"
  shows "I (sd_builds (snd (retryImageBuild lc env assignEnv digest buildId now db)))"
proof -
  obtain r db1 where r: "withImageBuildCoordinationLock env (retrySection lc env buildId now) db = (r, db1)"
    by (cases "withImageBuildCoordinationLock env (retrySection lc env buildId now) db")
  have "I (sd_builds (snd (withImageBuildCoordinationLock env (retrySection lc env buildId now) db)))"
    by (rule lock_keeps [OF assms(1) _ assms(4)]) (rule assms(3))
  then have "I (sd_builds db1)" using r by simp
  moreover from this have "I (sd_builds (snd (assignQueuedImageBuilds lc assignEnv digest now db1)))"
    by (rule assign_keeps [OF assms(2)])
  ultimately show ?thesis
    using assms(4) r by (auto simp: retryImageBuild_def split: prod.splits sum.splits)
qed

lemma report_keeps:
  assumes "keepsEnv env" and "I (sd_builds db)"
    and "\<And>d existing. I (sd_builds d) \<Longrightarrow>
      I (sql_update (reportTarget d hostId sessionId credentialGeneration report existing)
        (reportedBuild hostId report (mergeBuildTimings (ib_timings existing) report) now) (sd_builds d))"
  shows "I (sd_builds (snd (recordImageBuildReport env hostId report now sessionId credentialGeneration db)))"
proof -
  have "I (sd_builds (snd (reportSection env hostId report now sessionId credentialGeneration d)))" if "I (sd_builds d)" for d
    using that assms(3) [OF step_keeps [OF assms(1) that, of 1]]
    by (simp add: reportSection_def Let_def split: option.splits)
  then have "I (sd_builds (snd (withImageBuildCoordinationLock env
      (reportSection env hostId report now sessionId credentialGeneration) db)))"
    by (rule lock_keeps [OF assms(1) _ assms(2)])
  then show ?thesis using assms(2) by (simp add: recordImageBuildReport_def)
qed

end

lemma report_oneLive:
  assumes "oneLiveHash (sd_builds d)"
  shows "oneLiveHash (sql_update (reportTarget d hostId sessionId credentialGeneration report existing)
    (reportedBuild hostId report timings now) (sd_builds d))"
  by (rule oneLive_update [OF assms])
     (auto simp: reportedBuild_def buildKey_def reportTarget_def liveBuild_def isActiveImageBuild_def)

lemma reports_oneLive:
  assumes "\<And>k. one_live.keepsEnv (env k)" and "oneLiveHash (sd_builds db)"
  shows "oneLiveHash (sd_builds (snd (recordReports env hostId now sessionId credentialGeneration k reports terminal db)))"
  using assms(2)
proof (induction reports arbitrary: k terminal db)
  case (Cons report rest)
  have "oneLiveHash (sd_builds (snd (recordImageBuildReport (env k) hostId report now sessionId credentialGeneration db)))"
    by (rule one_live.report_keeps [OF assms(1) Cons.prems]) (rule report_oneLive)
  then show ?case using Cons.IH by (auto split: prod.splits sum.splits)
qed simp

lemma hostReports_oneLive:
  assumes "\<And>k. one_live.keepsEnv (env k)" and "oneLiveHash (sd_builds db)"
  shows "oneLiveHash (sd_builds (snd (recordHostBuildReports env hostId reports now sessionId credentialGeneration db)))"
proof -
  have "oneLiveHash (sd_builds (snd (recordReports env hostId now sessionId credentialGeneration 0 reports [] db)))"
    by (rule reports_oneLive [OF assms])
  then show ?thesis by (auto simp: recordHostBuildReports_def Let_def split: prod.splits sum.splits)
qed

subsection \<open>The choice of a builder\<close>

lemma find_sign_cases:
  "coalesce (find (\<lambda>v. v \<noteq> 0) [a, b, c]) 0 = (if a \<noteq> 0 then a else if b \<noteq> 0 then b else (c :: int))"
  by (simp add: coalesce_def)

lemma compareBuilders_alt:
  "compareBuilders lc =
     then_compare (by_key numeric_compare (\<lambda>b. int (bc_activeBuildCount b)))
       (then_compare (by_key numeric_compare (\<lambda>b. - capacityMetric hc_schedulable_cpu_millis b))
         (then_compare (by_key numeric_compare (\<lambda>b. - capacityMetric hc_memory_available_mib b))
           (then_compare (by_key numeric_compare (\<lambda>b. - capacityMetric hc_disk_available_mib b))
             (by_key lc bc_hostId))))"
  by (intro ext)
     (simp add: compareBuilders_def compareBuilderCapacity_def Let_def find_sign_cases then_compare_def by_key_def
       numeric_compare_def)

lemma compareBuilders_consistent: "consistent_comparator lc \<Longrightarrow> consistent_comparator (compareBuilders lc)"
  unfolding compareBuilders_alt
  by (intro consistent_then_compare consistent_by_key numeric.consistent_comparator_axioms)

lemma code_unit_consistent: "consistent_comparator code_unit_compare"
  by (rule code_unit.consistent_comparator_axioms)

lemma queueOrder_consistent: "consistent_comparator (queueOrder db rows)"
  unfolding queueOrder_def
  by (intro consistent_then_compare consistent_by_key numeric.consistent_comparator_axioms code_unit_consistent)

lemma keepsLive_iff [simp]: "one_live.keepsEnv env \<longleftrightarrow> keepsLive env"
  by (simp add: one_live.keepsEnv_def keepsLive_def)

lemma keepsSlots_iff [simp]: "slots.keepsEnv env \<longleftrightarrow> keepsSlots env"
  by (simp add: slots.keepsEnv_def keepsSlots_def)

lemma schedStep_live:
  assumes "schedStep db db'" and "oneLiveHash (sd_builds db)"
  shows "oneLiveHash (sd_builds db')"
  using assms
proof cases
  case (queue env bd newId now)
  then show ?thesis using one_live.queue_keeps assms(2) by simp
next
  case (retry env assignEnv buildId lc digest now)
  have "oneLiveHash (sd_builds (snd (retryImageBuild lc env assignEnv digest buildId now db)))"
    by (rule one_live.retry_build_keeps) (use retry assms(2) retry_keeps in \<open>simp_all\<close>)
  then show ?thesis using retry(1) by simp
next
  case (assign env lc digest now)
  then show ?thesis using one_live.assign_keeps assms(2) by simp
next
  case (maintain env assignEnv lc digest hostId now)
  then show ?thesis using one_live.maintain_keeps assms(2) by simp
next
  case (reports env hostId rs now sessionId credentialGeneration)
  then show ?thesis using hostReports_oneLive assms(2) by simp
qed

text \<open>A report of a build past its build phases takes no slot.\<close>

lemma report_slots:
  assumes "keepsSlots env" and "slotsKept (sd_builds db)" and "br_phase report \<notin> set PRE_PUBLICATION_BUILD_PHASES"
  shows "slotsKept (sd_builds (snd (recordImageBuildReport env hostId report now sessionId credentialGeneration db)))"
proof (rule slots.report_keeps)
  show "slotsKept (sql_update (reportTarget d hostId sessionId credentialGeneration report existing)
      (reportedBuild hostId report (mergeBuildTimings (ib_timings existing) report) now) (sd_builds d))"
    if "slotsKept (sd_builds d)" for d existing
    by (rule slots_update [OF that]) (use assms(3) in \<open>auto simp: reportedBuild_def holdsSlot_def\<close>)
qed (use assms in simp_all)

subsection \<open>Reports\<close>

lemma report_outcome:
  assumes "recordImageBuildReport env hostId report now sessionId credentialGeneration db = (Inr result, db')"
  defines "d \<equiv> se_step env 1 (se_step env 0 db)"
  obtains (ignored) "\<not> rq_updated result" "sd_builds db' \<in> {sd_builds db, sd_builds (se_step env 0 db)}"
  | (written) existing where
      "findReportedBuild (se_step env 0 db) hostId sessionId credentialGeneration (br_build_id report) = Some existing"
      "shouldAcceptBuildReport (reportIdentity hostId report existing)"
      "rq_updated result \<longleftrightarrow>
        0 < sql_count (reportTarget d hostId sessionId credentialGeneration report existing) (sd_builds d)"
      "rq_terminal result \<longleftrightarrow> rq_updated result \<and> isTerminalBuildPhase (br_phase report)"
      "db' = d\<lparr>sd_builds := sql_update (reportTarget d hostId sessionId credentialGeneration report existing)
         (reportedBuild hostId report (mergeBuildTimings (ib_timings existing) report) now) (sd_builds d)\<rparr>"
proof (cases "findReportedBuild db hostId sessionId credentialGeneration (br_build_id report)")
  case None
  then show thesis using assms(1) by (intro ignored) (auto simp: recordImageBuildReport_def)
next
  case (Some first)
  let ?d = "se_step env 0 db"
  have r: "reportSection env hostId report now sessionId credentialGeneration ?d = (Inr result, db')"
    using assms(1) Some
    by (auto simp: recordImageBuildReport_def withImageBuildCoordinationLock_def Let_def
        split: prod.splits sum.splits if_splits)
  show thesis
  proof (cases "findReportedBuild ?d hostId sessionId credentialGeneration (br_build_id report)")
    case None
    then show thesis using r by (intro ignored) (auto simp: reportSection_def)
  next
    case found: (Some existing)
    show thesis
    proof (cases "shouldAcknowledgeTerminalBuildReport (reportIdentity hostId report existing) (br_phase report) \<or>
        \<not> shouldAcceptBuildReport (reportIdentity hostId report existing)")
      case True
      then show thesis using r found by (intro ignored) (auto simp: reportSection_def split: if_splits)
    next
      case False
      then have "result = \<lparr>rq_updated = 0 < sql_count (reportTarget d hostId sessionId credentialGeneration report existing)
            (sd_builds d), rq_terminal = 0 < sql_count (reportTarget d hostId sessionId credentialGeneration report existing)
            (sd_builds d) \<and> isTerminalBuildPhase (br_phase report)\<rparr>"
        "db' = d\<lparr>sd_builds := sql_update (reportTarget d hostId sessionId credentialGeneration report existing)
         (reportedBuild hostId report (mergeBuildTimings (ib_timings existing) report) now) (sd_builds d)\<rparr>"
        using r found by (auto simp: reportSection_def Let_def d_def split: if_splits)
      then show thesis using False by (intro written [OF found]) simp_all
    qed
  qed
qed

lemma sql_count_mem: "0 < sql_count P rows \<longleftrightarrow> (\<exists>r \<in> set rows. P r)"
  using sql_count_0 [of P rows] by auto

subsection \<open>Assignments\<close>

lemma choose_eq:
  "chooseLeastLoadedBuilder lc candidates arch buildRev digest =
     (let e = filter (eligibleBuilder arch buildRev digest) candidates in
      if e = [] then None else Some (hd (js_sort (compareBuilders lc) e)))"
proof (cases "js_sort (compareBuilders lc) (filter (eligibleBuilder arch buildRev digest) candidates)")
  case Nil
  then have "filter (eligibleBuilder arch buildRev digest) candidates = []" by (simp only: js_sort_eq_Nil)
  then show ?thesis by (simp add: chooseLeastLoadedBuilder_def js_sort_def)
next
  case (Cons c cs)
  then have "filter (eligibleBuilder arch buildRev digest) candidates \<noteq> []" by (metis js_sort_eq_Nil list.distinct(1))
  then show ?thesis using Cons by (simp add: chooseLeastLoadedBuilder_def Let_def)
qed

lemma choose_Some:
  assumes "chooseLeastLoadedBuilder lc candidates arch buildRev digest = Some b"
  shows "b \<in> set candidates" "eligibleBuilder arch buildRev digest b"
proof -
  let ?e = "filter (eligibleBuilder arch buildRev digest) candidates"
  have e: "?e \<noteq> []" "b = hd (js_sort (compareBuilders lc) ?e)"
    using assms unfolding choose_eq Let_def by (simp_all split: if_splits)
  have "hd (js_sort (compareBuilders lc) ?e) \<in> set (js_sort (compareBuilders lc) ?e)"
    by (rule hd_in_set) (simp only: js_sort_eq_Nil e(1) not_False_eq_True)
  then show "b \<in> set candidates" "eligibleBuilder arch buildRev digest b" using e(2) by simp_all
qed

lemma choose_least:
  assumes "consistent_comparator lc" "chooseLeastLoadedBuilder lc candidates arch buildRev digest = Some b"
    and "c \<in> set candidates" "eligibleBuilder arch buildRev digest c"
  shows "compareBuilders lc b c \<le> 0"
proof -
  let ?e = "filter (eligibleBuilder arch buildRev digest) candidates"
  have e: "?e \<noteq> []" "b = hd (js_sort (compareBuilders lc) ?e)"
    using assms(2) unfolding choose_eq Let_def by (simp_all split: if_splits)
  have "c \<in> set ?e" using assms(3,4) by simp
  then show ?thesis
    unfolding e(2) by (rule consistent_comparator.hd_js_sort_le [OF compareBuilders_consistent [OF assms(1)] e(1)])
qed

lemma choose_None:
  "chooseLeastLoadedBuilder lc candidates arch buildRev digest = None \<longleftrightarrow>
     (\<forall>c \<in> set candidates. \<not> eligibleBuilder arch buildRev digest c)"
  by (simp add: choose_eq Let_def filter_empty_conv)

lemma busier_refl: "busier c c"
  unfolding busier_def by (intro exI conjI; (rule order_refl)?) simp

lemma busier_bump:
  assumes "busier c c'"
  shows "busier c (c'\<lparr>bc_prePublicationBuildCount := bc_prePublicationBuildCount c' + 1\<rparr>)"
    "busier c (c'\<lparr>bc_activeBuildCount := bc_activeBuildCount c' + 1,
       bc_prePublicationBuildCount := bc_prePublicationBuildCount c' + 1\<rparr>)"
proof -
  obtain m n where "m \<ge> bc_activeBuildCount c" "n \<ge> bc_prePublicationBuildCount c"
    "c' = c\<lparr>bc_activeBuildCount := m, bc_prePublicationBuildCount := n\<rparr>"
    using assms by (auto simp: busier_def)
  then show "busier c (c'\<lparr>bc_prePublicationBuildCount := bc_prePublicationBuildCount c' + 1\<rparr>)"
    "busier c (c'\<lparr>bc_activeBuildCount := bc_activeBuildCount c' + 1,
       bc_prePublicationBuildCount := bc_prePublicationBuildCount c' + 1\<rparr>)"
    unfolding busier_def
    by - (rule exI [of _ m], rule exI [of _ "n + 1"], simp, rule exI [of _ "m + 1"], rule exI [of _ "n + 1"], simp)
qed

lemma busier_eligible:
  "busier c c' \<Longrightarrow> eligibleBuilder arch buildRev digest c' \<Longrightarrow>
     eligibleBuilder arch buildRev digest c \<and> bc_hostId c = bc_hostId c'"
  by (auto simp: busier_def eligibleBuilder_def)

lemma bump_busier:
  assumes "\<forall>b \<in> set builders. \<exists>c \<in> C. busier c b" and "\<And>c b. busier c b \<Longrightarrow> busier c (f b)"
  shows "\<forall>b \<in> set (bumpBuilder hostId f builders). \<exists>c \<in> C. busier c b"
  using assms unfolding bumpBuilder_def by fastforce

lemma assignLoop_allowed:
  assumes "\<forall>b \<in> set builders. \<exists>c \<in> C. busier c b" and "set sources \<subseteq> S"
    and "\<forall>a \<in> set assigned. allowed C S digest a"
    and "assignLoop lc env digest now k builders sources assigned db = (Inr result, db')"
  shows "\<forall>a \<in> set result. allowed C S digest a"
  using assms
proof (induction sources arbitrary: k builders assigned db)
  case (Cons build rest)
  show ?case
  proof (cases "chooseLeastLoadedBuilder lc builders (bs_arch build) (bs_rev build) digest")
    case None
    then show ?thesis using Cons by simp
  next
    case (Some builder)
    let ?h = "bc_hostId builder"
    obtain c where c: "c \<in> C" "busier c builder" using Cons.prems(1) choose_Some(1) [OF Some] by blast
    have new: "allowed C S digest (bs_buildId build, ?h)"
      using busier_eligible [OF c(2) choose_Some(2) [OF Some]] c(1) Cons.prems(2)
      unfolding allowed_def by (auto intro!: bexI [of _ build] bexI [of _ c])
    have rest: "set rest \<subseteq> S" using Cons.prems(2) by simp
    note b1 = bump_busier [OF Cons.prems(1) busier_bump(1), where hostId = ?h]
    note b2 = bump_busier [OF Cons.prems(1) busier_bump(2), where hostId = ?h]
    have more: "\<forall>a \<in> set (assigned @ [(bs_buildId build, ?h)]). allowed C S digest a"
      using Cons.prems(3) new by simp
    show ?thesis
      using Cons.prems(4) Some Cons.IH [OF Cons.prems(1) rest Cons.prems(3)] Cons.IH [OF b1 rest Cons.prems(3)]
        Cons.IH [OF b2 rest more]
      by (auto simp: Let_def split: prod.splits sum.splits if_splits)
  qed
qed simp

subsection \<open>Delivery\<close>

lemma ids_normalizeBy: "identity ` set (normalizeBy lc identity xs) = identity ` set xs"
proof -
  have "(k \<in> identity ` set ys) = (entry identity ys k \<noteq> None)" for k ys
    by (auto simp: entry_def find_None_iff)
  moreover have "(k \<in> identity ` set xs) = (k \<in> identity ` set (rev xs))" for k by simp
  ultimately show ?thesis using entry_normalizeBy [of identity lc xs] by (metis subsetI subset_antisym)
qed

lemma mutate_build_ids:
  assumes "consistent_comparator lc" "mutateDesiredState lc current mutator now = Inr d"
  shows "db_build_id ` set (ds_builds d) = db_build_id ` set (ds_builds (mutator (cloneDesiredState current)))"
proof -
  have "ds_builds (comparableDesiredStatePayload lc d) =
      ds_builds (comparableDesiredStatePayload lc (mutator (cloneDesiredState current)))"
    by (simp add: mutate_payload [OF assms])
  then have "desiredBuildIdentity ` set (ds_builds d) =
      desiredBuildIdentity ` set (ds_builds (mutator (cloneDesiredState current)))"
    using ids_normalizeBy [of desiredBuildIdentity lc] by (simp add: comparableDesiredStatePayload_def) metis
  then show ?thesis by (simp add: desiredBuildIdentity_def [abs_def])
qed

lemma fold_upsert_ids:
  "db_build_id ` set (ds_builds (fold (\<lambda>a d. upsertDesiredBuild d (desiredBuildFromSource a)) sources d)) =
     db_build_id ` set (ds_builds d) \<union> bs_buildId ` set sources"
proof (induction sources arbitrary: d)
  case (Cons a sources)
  have "set (map db_build_id (ds_builds (upsertDesiredBuild d (desiredBuildFromSource a)))) =
      insert (bs_buildId a) (set (map db_build_id (ds_builds d)))"
    using desired_builds.identities_upsert [of d "desiredBuildFromSource a"]
    by (auto simp: desiredBuildIdentity_def [abs_def] desiredBuildFromSource_def split: if_splits)
  then show ?case using Cons [of "upsertDesiredBuild d (desiredBuildFromSource a)"] by auto
qed simp

lemma putDesired_lookup:
  "map_of (sd_desired (putDesired hostId row db)) h = (if h = hostId then row else map_of (sd_desired db) h)"
  by (cases row) (auto simp: putDesired_def update_conv' delete_conv')

lemma putDesired_tables [simp]:
  "sd_hosts (putDesired hostId row db) = sd_hosts db" "sd_bundles (putDesired hostId row db) = sd_bundles db"
  by (simp_all add: putDesired_def split: option.splits)

lemma quiet_store:
  assumes "storeDesired lc quietEnv hostId now mutator db = (Inr d, db')"
  shows "\<exists>cur. mutateDesiredState lc cur mutator now = Inr d" "db' = putDesired hostId (Some (asRow d)) db"
proof -
  let ?m = "mutateStoredHostDesiredState lc quietEnv (enrolledHost db hostId) hostId now mutator None
      (map_of (sd_desired db) hostId)"
  let ?l = "loadOrCreateHostDesiredState (\<lambda>_ t. t) (enrolledHost db hostId) hostId now (map_of (sd_desired db) hostId)"
  obtain row where m: "?m = (Inr d, row)" "db' = putDesired hostId row db"
    using assms by (auto simp: storeDesired_def split: prod.splits sum.splits)
  obtain cur t0 where l: "?l = (Inr cur, t0)"
  proof (cases ?l)
    case (Pair r t0)
    show thesis
    proof (cases r)
      case (Inl e)
      then show thesis
        using m(1) Pair by (simp add: mutateStoredHostDesiredState_def MUTATE_DESIRED_STATE_MAX_ATTEMPTS_def
            numeral_eq_Suc quietEnv_def Let_def)
    next
      case (Inr cur)
      then show thesis using Pair by (intro that) simp
    qed
  qed
  have t0: "t0 = Some (asRow cur)" by (rule load_correct(1) [OF _ l]) simp
  obtain nxt where nxt: "mutateDesiredState lc cur mutator now = Inr nxt"
  proof (cases "mutateDesiredState lc cur mutator now")
    case (Inl e)
    then show thesis
      using m(1) l by (simp add: mutateStoredHostDesiredState_def MUTATE_DESIRED_STATE_MAX_ATTEMPTS_def
            numeral_eq_Suc quietEnv_def Let_def)
  qed (rule that)
  have "?m = (Inr nxt, if nxt = cur then t0 else Some (asRow nxt))" by (rule quiet_first_attempt [OF l nxt])
  then show "\<exists>cur. mutateDesiredState lc cur mutator now = Inr d" "db' = putDesired hostId (Some (asRow d)) db"
    using m nxt t0 by (auto split: if_splits)
qed

lemma quietEnv_load: "env_load quietEnv k = (\<lambda>_ t. t)"
  by (simp add: quietEnv_def)

lemma quiet_keeps [simp]: "keepsLive quietSched" "keepsSlots quietSched"
  by (simp_all add: keepsLive_def keepsSlots_def quietSched_def)

lemma quiet_step [simp]: "se_step quietSched k db = db"
  by (simp add: quietSched_def)

lemma reported_sample:
  "recordImageBuildReport quietSched ''h1'' buildReportSample 30 ''s1'' 1 claimedSample =
     (Inr \<lparr>rq_updated = True, rq_terminal = True\<rparr>, snd reportedSample)"
  "map ib_status (sd_builds (snd reportedSample)) = [IB_succeeded, IB_assigned, IB_queued]"
proof -
  have "fst reportedSample = Inr \<lparr>rq_updated = True, rq_terminal = True\<rparr>" by code_simp
  then show "recordImageBuildReport quietSched ''h1'' buildReportSample 30 ''s1'' 1 claimedSample =
      (Inr \<lparr>rq_updated = True, rq_terminal = True\<rparr>, snd reportedSample)"
    by (metis prod.collapse reportedSample_def)
  show "map ib_status (sd_builds (snd reportedSample)) = [IB_succeeded, IB_assigned, IB_queued]" by code_simp
qed

subsection \<open>Properties\<close>

text \<open>
  C11. Of a scenario and architecture of one owner at most one content is live, that is
  queued, assigned, building, or ended in a way an operator may retry. Whatever sequence of queueing,
  retrying, assigning, maintaining and reporting the scheduler performs, interleaved with writers that keep
  this, it stays so: a newer bundle always retires the older content, and no retry revives it.
\<close>

theorem one_live_hash:
  assumes "schedStep\<^sup>*\<^sup>* db db'" and "oneLiveHash (sd_builds db)"
  shows "oneLiveHash (sd_builds db')"
  using assms by (induction rule: rtranclp_induct) (auto intro: schedStep_live)

theorem one_live_hash_witness:
  "oneLiveHash (sd_builds supersededSample) \<and>
   map (\<lambda>b. (ib_id b, ib_status b)) (sd_builds supersededSample) =
     [(''q'', IB_stale), (''qx'', IB_queued), (''qxx'', IB_queued), (''n'', IB_queued)]"
proof
  have "schedStep schedSample queuedSample" "schedStep queuedSample supersededSample"
    unfolding queuedSample_def supersededSample_def by (intro schedStep.queue; simp add: bundleSample_def)+
  then have "schedStep\<^sup>*\<^sup>* schedSample supersededSample" by (meson converse_rtranclp_into_rtranclp rtranclp.rtrancl_refl)
  then show "oneLiveHash (sd_builds supersededSample)"
    by (rule one_live_hash) (simp add: schedSample_def oneLiveHash_def)
  show "map (\<lambda>b. (ib_id b, ib_status b)) (sd_builds supersededSample) =
     [(''q'', IB_stale), (''qx'', IB_queued), (''qxx'', IB_queued), (''n'', IB_queued)]" by code_simp
qed

text \<open>
  C12. No builder holds more than two builds that have not reached publication. Assigning, maintenance,
  retries, new bundles and reports of later phases keep this bound, whatever stale counts of a builder the
  pass started from: the statement that claims a build counts again.
\<close>

theorem slot_cap:
  assumes "\<forall>k. keepsSlots (env k)" and "\<forall>k. keepsSlots (assignEnv k)" and "slotsKept (sd_builds db)"
    and "bb_organizationId bundle \<noteq> Some []" and "br_phase report \<notin> set PRE_PUBLICATION_BUILD_PHASES"
  shows "slotsKept (sd_builds (snd (assignQueuedImageBuilds lc assignEnv digest now db))) \<and>
    slotsKept (sd_builds (snd (maintainHostBuildAssignments lc env assignEnv digest hostId now db))) \<and>
    slotsKept (sd_builds (snd (retryImageBuild lc (env 0) assignEnv digest buildId now db))) \<and>
    slotsKept (sd_builds (snd (queueImageBuildsFromBundle env newId bundle now db))) \<and>
    slotsKept (sd_builds (snd (recordImageBuildReport (env 0) hostId report now sessionId credentialGeneration db)))"
proof (intro conjI)
  show "slotsKept (sd_builds (snd (assignQueuedImageBuilds lc assignEnv digest now db)))"
    by (rule slots.assign_keeps) (use assms in simp_all)
  show "slotsKept (sd_builds (snd (maintainHostBuildAssignments lc env assignEnv digest hostId now db)))"
    by (rule slots.maintain_keeps) (use assms in simp_all)
  show "slotsKept (sd_builds (snd (retryImageBuild lc (env 0) assignEnv digest buildId now db)))"
    by (rule slots.retry_build_keeps) (use assms retry_slots in simp_all)
  show "slotsKept (sd_builds (snd (queueImageBuildsFromBundle env newId bundle now db)))"
    by (rule slots.queue_keeps) (use assms in simp_all)
  show "slotsKept (sd_builds (snd (recordImageBuildReport (env 0) hostId report now sessionId credentialGeneration db)))"
    by (rule report_slots) (use assms in simp_all)
qed

theorem slot_cap_witness:
  "slotsKept (sd_builds assignedSample) \<and>
   map (\<lambda>b. (ib_id b, ib_hostId b)) (sd_builds assignedSample) =
     [(''q'', Some ''h1''), (''qx'', Some ''h1''), (''qxx'', None)]"
proof
  have "slotsKept (sd_builds schedSample)" by (simp add: schedSample_def slotsKept_def)
  then have "slotsKept (sd_builds queuedSample)"
    unfolding queuedSample_def by (intro slots.queue_keeps) (simp_all add: bundleSample_def)
  then show "slotsKept (sd_builds assignedSample)"
    unfolding assignedSample_def
    using slot_cap [of "\<lambda>_. quietSched" "\<lambda>_. quietSched" queuedSample "bundleSample ''r1'' [] CHR ''1''" buildReportSample]
    by (simp add: bundleSample_def buildReportSample_def PRE_PUBLICATION_BUILD_PHASES_def)
  show "map (\<lambda>b. (ib_id b, ib_hostId b)) (sd_builds assignedSample) =
     [(''q'', Some ''h1''), (''qx'', Some ''h1''), (''qxx'', None)]" by code_simp
qed

text \<open>
  C14. A report changes a build only when, at the moment of the write, the reporter is the current enabled
  platform builder with that session and credential, the build is assigned to it and running, and the report names
  the scenario and content of the build. Then exactly that row gets the reported phase and the merged timings; any
  other report leaves the table as other writers left it.
\<close>

theorem build_report_fenced:
  assumes "recordImageBuildReport env hostId report now sessionId credentialGeneration db = (Inr result, db')"
  shows "if rq_updated result
    then (let d = se_step env 1 (se_step env 0 db) in
      currentBuilder d hostId sessionId credentialGeneration \<and> br_host_id report = hostId \<and>
      (\<exists>b. find (\<lambda>b. ib_id b = br_build_id report) (sd_builds (se_step env 0 db)) = Some b \<and>
        (\<exists>target \<in> set (sd_builds d). reportTarget d hostId sessionId credentialGeneration report b target) \<and>
        ib_scenarioId b = br_scenario_id report \<and> ib_contentHash b = br_content_hash report \<and>
        db' = d\<lparr>sd_builds := sql_update (reportTarget d hostId sessionId credentialGeneration report b)
          (reportedBuild hostId report (mergeBuildTimings (ib_timings b) report) now) (sd_builds d)\<rparr>) \<and>
      (rq_terminal result \<longleftrightarrow> isTerminalBuildPhase (br_phase report)))
    else sd_builds db' \<in> {sd_builds db, sd_builds (se_step env 0 db), sd_builds (se_step env 1 (se_step env 0 db))}"
  using assms
proof (cases rule: report_outcome)
  case ignored
  then show ?thesis by auto
next
  case (written b)
  let ?d = "se_step env 1 (se_step env 0 db)"
  let ?t = "reportTarget ?d hostId sessionId credentialGeneration report b"
  have f: "find (\<lambda>b. ib_id b = br_build_id report) (sd_builds (se_step env 0 db)) = Some b"
    using written(1) by (simp add: findReportedBuild_def split: if_splits)
  show ?thesis
  proof (cases "rq_updated result")
    case True
    then have m: "\<exists>target \<in> set (sd_builds ?d). ?t target" using written(3) by (simp add: sql_count_mem)
    then have "currentBuilder ?d hostId sessionId credentialGeneration" by (auto simp: reportTarget_def)
    then show ?thesis
      using True m f written(2,4,5)
      by (simp add: Let_def shouldAcceptBuildReport_def buildReportIdentityMatches_def reportIdentity_def)
  next
    case False
    then have "\<forall>b \<in> set (sd_builds ?d). \<not> ?t b" using written(3) by (simp add: sql_count_mem)
    then have "sd_builds db' = sd_builds ?d" using written(5) by (simp add: sql_update_none)
    then show ?thesis using False by simp
  qed
qed

theorem build_report_fenced_witness:
  "fst reportedSample = Inr \<lparr>rq_updated = True, rq_terminal = True\<rparr> \<and>
   currentBuilder claimedSample ''h1'' ''s1'' 1 \<and>
   map ib_status (sd_builds (snd reportedSample)) = [IB_succeeded, IB_assigned, IB_queued]"
proof -
  have "currentBuilder claimedSample ''h1'' ''s1'' 1"
    using build_report_fenced [OF reported_sample(1)] by (simp add: Let_def)
  moreover have "fst reportedSample = Inr \<lparr>rq_updated = True, rq_terminal = True\<rparr>"
    using arg_cong [OF reported_sample(1), of fst] by (simp only: reportedSample_def fst_conv)
  ultimately show ?thesis using reported_sample(2) by blast
qed

text \<open>
  C31. A builder that repeats the report of a finished build, because the first answer was lost, is told that
  the report is settled, and the repetition changes nothing.
\<close>

theorem terminal_report_acknowledged:
  assumes "recordImageBuildReport quietSched hostId report now sessionId credentialGeneration db = (Inr result, db')"
    and "rq_updated result" and "rq_terminal result"
  shows "recordImageBuildReport quietSched hostId report later sessionId credentialGeneration db' =
    (Inr \<lparr>rq_updated = False, rq_terminal = True\<rparr>, db')"
  using assms(1)
proof (cases rule: report_outcome)
  case ignored
  then show ?thesis using assms(2) by simp
next
  case (written b)
  let ?t = "reportTarget db hostId sessionId credentialGeneration report b"
  let ?f = "reportedBuild hostId report (mergeBuildTimings (ib_timings b) report) now"
  have q: "se_step quietSched k d = d" for k d by (simp add: quietSched_def)
  have db': "db' = db\<lparr>sd_builds := sql_update ?t ?f (sd_builds db)\<rparr>" using written(5) by (simp add: q)
  have cur: "currentBuilder db hostId sessionId credentialGeneration"
    and f: "find (\<lambda>b. ib_id b = br_build_id report) (sd_builds db) = Some b"
    using written(1) by (simp_all add: findReportedBuild_def q split: if_splits)
  have t: "?t b"
    using cur find_Some_mem [OF f] written(2)
    by (auto simp: reportTarget_def shouldAcceptBuildReport_def buildReportIdentityMatches_def reportIdentity_def
        isBuildReportAcceptingStatus_def)
  have f': "findReportedBuild db' hostId sessionId credentialGeneration (br_build_id report) = Some (?f b)"
    using cur t find_sql_update [of "\<lambda>b. ib_id b = br_build_id report" ?f ?t "sd_builds db"] f
    by (simp add: findReportedBuild_def db' currentBuilder_def reportedBuild_def)
  have ph: "br_phase report = BP_succeeded \<or> br_phase report = BP_failed"
    using written(4) assms(3) by (simp add: isTerminalBuildPhase_def)
  have "shouldAcknowledgeTerminalBuildReport (reportIdentity hostId report (?f b)) (br_phase report)"
    using ph written(2)
    by (auto simp: shouldAcknowledgeTerminalBuildReport_def shouldAcceptBuildReport_def buildReportIdentityMatches_def
        reportIdentity_def reportedBuild_def)
  then show ?thesis
    using f' by (simp add: recordImageBuildReport_def withImageBuildCoordinationLock_def reportSection_def quietSched_def)
qed

theorem terminal_report_acknowledged_witness:
  "recordImageBuildReport quietSched ''h1'' buildReportSample 35 ''s1'' 1 (snd reportedSample) =
   (Inr \<lparr>rq_updated = False, rq_terminal = True\<rparr>, snd reportedSample)"
  using terminal_report_acknowledged [OF reported_sample(1)] by simp







text \<open>
  C20. After a reconciliation that succeeds undisturbed, every active assignment of the host is in its
  desired state, so an assignment whose first delivery failed is not lost; no build row and no other host's desired
  state changes.
\<close>

theorem reconcile_delivers:
  assumes "consistent_comparator lc"
    and "reconcileAssignedBuildsForHost lc quietSched hostId now db = (Inr ids, db')"
  shows "(\<forall>b \<in> set (hostAssignments db hostId). \<exists>row. map_of (sd_desired db') hostId = Some row \<and>
      ib_id b \<in> db_build_id ` set (ds_builds (row_doc row))) \<and>
    sd_builds db' = sd_builds db \<and> (\<forall>h. h \<noteq> hostId \<longrightarrow> map_of (sd_desired db') h = map_of (sd_desired db) h)"
proof -
  let ?a = "map (sourceOf db) (hostAssignments db hostId)"
  let ?l = "loadOrCreateHostDesiredState (\<lambda>_ t. t) (enrolledHost db hostId) hostId now (map_of (sd_desired db) hostId)"
  show ?thesis
  proof (cases "hostAssignments db hostId = []")
    case True
    then show ?thesis using assms(2) by (simp add: reconcileAssignedBuildsForHost_def)
  next
    case False
    obtain cur row where l: "?l = (Inr cur, row)"
      using assms(2) False
      by (cases ?l; cases "fst ?l")
         (auto simp: reconcileAssignedBuildsForHost_def quietSched_def quietEnv_def Let_def)
    have row: "row = Some (asRow cur)" by (rule load_correct(1) [OF _ l]) simp
    let ?db2 = "putDesired hostId row db"
    show ?thesis
    proof (cases "\<forall>b \<in> set (hostAssignments db hostId). ib_id b \<in> db_build_id ` set (ds_builds cur)")
      case True
      then have "db' = ?db2"
        using assms(2) False l
        by (auto simp: reconcileAssignedBuildsForHost_def quietSched_def quietEnv_def Let_def sourceOf_def
            filter_empty_conv split: if_splits)
      then show ?thesis using True by (simp add: putDesired_lookup row asRow_def)
    next
      case missing: False
      let ?m = "\<lambda>draft. fold (\<lambda>a d. upsertDesiredBuild d (desiredBuildFromSource a)) ?a draft"
      have mi: "filter (\<lambda>a. bs_buildId a \<notin> set (map db_build_id (ds_builds cur))) ?a \<noteq> []"
        using missing by (auto simp: filter_empty_conv sourceOf_def)
      obtain d where st: "storeDesired lc quietEnv hostId now ?m ?db2 = (Inr d, db')"
      proof (cases "storeDesired lc quietEnv hostId now ?m ?db2")
        case (Pair r db3)
        have b3: "sd_builds db3 = sd_builds db"
          using builds_storeDesired [of lc quietEnv hostId now ?m ?db2] Pair by simp
        note un = assms(2) [unfolded reconcileAssignedBuildsForHost_def Let_def quietSched_def SchedEnv.simps
            quietEnv_load l prod.case sum.case]
        show thesis
        proof (cases r)
          case (Inl e)
          then show thesis using un False mi Pair by simp
        next
          case (Inr d)
          have none: "filter (\<lambda>id. id \<notin> set (map ib_id (filter (\<lambda>b. ib_hostId b = Some hostId \<and>
              ib_status b \<in> {IB_assigned, IB_building} \<and> ib_id b \<in> set (map bs_buildId ?a)) (sd_builds db3))))
              (map bs_buildId ?a) = []"
            by (auto simp: b3 filter_empty_conv hostAssignments_def sourceOf_def)
          have "db' = db3"
            using un False mi unfolding Pair Inr prod.case sum.case none by (simp add: removeDesiredBuildsFromHost_def)
          then show thesis using Pair Inr by (intro that) simp
        qed
      qed
      obtain c where c: "mutateDesiredState lc c ?m now = Inr d" using quiet_store(1) [OF st] by blast
      have "bs_buildId ` set ?a \<subseteq> db_build_id ` set (ds_builds d)"
        unfolding mutate_build_ids [OF assms(1) c] fold_upsert_ids by simp
      then show ?thesis
        unfolding quiet_store(2) [OF st] by (auto simp: putDesired_lookup asRow_def sourceOf_def image_image)
    qed
  qed
qed

theorem reconcile_delivers_witness:
  "fst deliveredSample = Inr [''q'', ''qx''] \<and>
   list_all (\<lambda>b. ib_id b \<in> db_build_id ` set (ds_builds (row_doc (the (map_of (sd_desired (snd deliveredSample)) ''h1'')))))
     (hostAssignments claimedSample ''h1'')"
proof -
  have f: "fst deliveredSample = Inr [''q'', ''qx'']" by code_simp
  then have "reconcileAssignedBuildsForHost code_unit_compare quietSched ''h1'' 40 claimedSample =
      (Inr [''q'', ''qx''], snd deliveredSample)" by (metis prod.collapse deliveredSample_def)
  from reconcile_delivers [OF code_unit_consistent this] show ?thesis using f by (auto simp: list_all_iff)
qed

end
