(* ===== verification/Spec2Isabelle.thy ===== *)
theory Spec2Isabelle
  imports Runtime_Ledger Build_Lock Build_Scheduling
begin

text \<open>
  A verification development of intar, a service that runs training scenarios in virtual machines. Paths are
  relative to \<^verbatim>\<open>src/apps/web/src\<close> unless they start with \<^verbatim>\<open>crates/\<close>.

  \<^bold>\<open>The program.\<close> The control plane is a TypeScript worker over a SQL database. A learner's request creates a
  run; its document is kept in a row of \<^verbatim>\<open>scenario_runs\<close> and its place in the runtime ledger. The run is
  admitted to a host by reserving CPU, memory and disk there. What a host should run is its desired-state
  document; an agent on the host fetches it, starts the VMs and reports back over a socket. Every message of
  an agent passes the bridge parser, and a report is applied to the run document and recorded in the ledger.
  Images are built by builder hosts: bundles queue builds, the build scheduler assigns them through the
  desired state of a builder, and publication is serialised by a lock in the database.

  \<^bold>\<open>The theories.\<close>
  \<^item> \<open>Js_Prelude\<close>, \<open>Js_Number\<close>, \<open>Js_Text\<close>, \<open>Json\<close>: what the source uses of the language. Absent values are
    options, \<^verbatim>\<open>Map\<close> an association list in insertion order, \<^verbatim>\<open>Array.sort\<close> a stable sort by a comparator
    (locale \<open>consistent_comparator\<close>), numbers are integers with \<open>isSafeInteger\<close> and \<open>js_add\<close> where rounding
    matters, JSON is a datatype.
  \<^item> \<open>Sql_Tables\<close>, \<open>Versioned_Rows\<close>: statements on tables as lists of rows, and the compare-and-set protocol of
    a row with a version (locale \<open>versioned_rows\<close>).
  \<^item> \<open>Run_State\<close> (\<^verbatim>\<open>lib/run-state.ts\<close>, \<^verbatim>\<open>lib/verification-copy.ts\<close>): the run document, its projections and
    probe snapshots; recomputing is idempotent, teardown is irreversible, no endpoint without a ready terminal.
  \<^item> \<open>Run_Lifecycle\<close> (\<^verbatim>\<open>lib/run-lifecycle.ts\<close>): the application of a VM report. Reports are idempotent, retired
    boot generations stay out, a terminal gets ready only with a verified quota, phases do not regress within a
    boot; invariants of all reachable VM states.
  \<^item> \<open>Bridge_Types\<close>, \<open>Bridge_V8\<close> (\<^verbatim>\<open>generated/bridge.ts\<close>, \<^verbatim>\<open>control-plane/bridge-v8.ts\<close>): the messages and the
    parser, on JSON values. Parsing is stable, and exactly one kind of input makes it raise.
  \<^item> \<open>Desired_State\<close>, \<open>Desired_Store\<close> (\<^verbatim>\<open>lib/desired-state.ts\<close>, \<^verbatim>\<open>lib/desired-state-store.ts\<close>): the edits of a
    document (locale \<open>keyed_collection\<close>), its versioned mutation, and the two loops that load and store it.
    What is stored is accepted by the bridge parser, and no interleaving loses an update.
  \<^item> \<open>Run_Store\<close> (\<^verbatim>\<open>control-plane/host-runtime-do/base.ts\<close>, \<^verbatim>\<open>lib/scenario-runs/storage.ts\<close>,
    \<^verbatim>\<open>lib/scenario-run-outcome.ts\<close>): both writers of a run row with their fences.
  \<^item> \<open>Cpu_Capacity\<close>, \<open>Cpu_Reservations\<close> (\<^verbatim>\<open>lib/runtime-capacity.ts\<close>, \<^verbatim>\<open>control-plane/host-cpu-reservations.ts\<close>):
    what a host has left, admission, commit, recovery and release of reservations. Nothing is offered twice, and a
    reservation is released only with proof that the host no longer runs the VMs.
  \<^item> \<open>Runtime_Executions\<close>, \<open>Runtime_Ledger\<close> (\<^verbatim>\<open>lib/runtime-executions.ts\<close>, \<^verbatim>\<open>lib/runtime-vm-state.ts\<close>): the
    ledger of executions, statement by statement (locale \<open>batch_relation\<close>), and its correctness: batches are
    all or nothing, old generations write nothing, archived executions are final, reports are fenced.
  \<^item> \<open>Build_Lock\<close> (\<^verbatim>\<open>lib/image-build-lock.ts\<close>): sessions that acquire, renew and release leases in a step
    relation with slow, failing and unanswered statements; exclusion, absence of deadlock and recovery.
  \<^item> \<open>Build_Scheduler\<close>, \<open>Build_Scheduling\<close> (\<^verbatim>\<open>lib/build-scheduler.ts\<close>, \<^verbatim>\<open>lib/build-scheduler-core.ts\<close>,
    \<^verbatim>\<open>lib/host-health.ts\<close>): the operations of the scheduler and, over the locale \<open>build_invariant\<close>, one live
    content per scenario and two slots per builder; fenced reports, the choice of a builder, the order of the
    queue and the delivery of assignments.

  \<^bold>\<open>State and steps.\<close> A table is a list of rows in a record of tables; an operation takes the tables and returns
  a result, with the exceptions of the code as the left of a sum, and the new tables. Statements that the code
  sends in one batch are one transition. Between the statements of an operation other requests may write: an
  operation has an environment, a family of functions on the tables applied before each statement, and the
  theorems hold for every environment, or for every one that satisfies the stated rule (writers that follow the
  version protocol, or that keep the invariant at hand). A quiet environment is used only where a result is
  claimed that others could prevent.

  \<^bold>\<open>Bounds.\<close> The loops of the desired-state store and of the run writers try a fixed number of times in the
  source, and so do their models: they are recursions on the attempts left and end in the error of the source.
  Everything else is structural recursion over the rows or messages at hand; no fuel is used.

  \<^bold>\<open>Parameters.\<close> \<^verbatim>\<open>localeCompare\<close>, encryption, the digest of the compile inputs, clocks and fresh identifiers
  are arguments. Where an order is needed the comparator is assumed consistent, which comparison by code units
  is. Strings are lists of characters below 256.

  \<^bold>\<open>Not modelled.\<close> Pages and route handlers (user interface over the libraries here); authentication
  (configuration of a third-party library); image storage, artifacts and recordings (streams between object
  storage, agents and browsers); scenario sources and catalogs (calls to external services between statements);
  the assembly of an admission request from its queries, whose statements and capacity test are modelled; sockets
  and alarms of the durable objects; and the Rust programs on the hosts, which drive hypervisors, file systems
  and SSH connections and which the control plane knows only through the messages of the bridge parser.
\<close>

end
